(* ===== verification/RKE_Prelude.thy ===== *)
theory RKE_Prelude
  imports Main "HOL-Library.Word" "HOL-Library.AList" "HOL-Library.Sublist" "HOL-Library.Multiset"
begin

text \<open>
  Shared vocabulary of the development: Go errors and panics as outcomes, effectful Go
  functions as state transformers, the loop and retry shapes the code uses, Go maps as
  association lists, and the part of the packages \<^verbatim>\<open>strings\<close> and \<^verbatim>\<open>strconv\<close> that
  the program calls.

  Go's \<open>error\<close> values are inspected by the program in three ways only: by kind
  (\<^verbatim>\<open>client.IsErrNotFound\<close>, \<^verbatim>\<open>apierrors.IsNotFound\<close>, \<^verbatim>\<open>apierrors.IsAlreadyExists\<close>), by the text
  of the message, and for being nil; \<open>gerror\<close> carries the first two.  A run-time panic is an outcome
  of its own, since no \<open>if err != nil\<close> of the program catches it.
\<close>

named_theorems io_simps \<open>evaluation of the effect combinators\<close>
named_theorems keeps_intros \<open>invariant preservation, one rule per combinator and operation\<close>

section \<open>Errors, outcomes and effects\<close>

datatype errkind = EPlain | EDockerNotFound | EK8sNotFound | EK8sAlreadyExists

datatype gerror = GErr (ekind: errkind) (emsg: string)

datatype 'a outcome = Ret 'a | Fail gerror | Panic string

type_synonym ('w, 'a) io = "'w \<Rightarrow> 'a outcome \<times> 'w"

text \<open>\<^verbatim>\<open>fmt.Errorf\<close> always builds an error of no particular kind: wrapping loses the kind.\<close>

definition errorf :: "string \<Rightarrow> gerror" where
  "errorf s = GErr EPlain s"

definition retIO :: "'a \<Rightarrow> ('w, 'a) io" where
  "retIO x = (\<lambda>w. (Ret x, w))"

definition failIO :: "gerror \<Rightarrow> ('w, 'a) io" where
  "failIO e = (\<lambda>w. (Fail e, w))"

definition panicIO :: "string \<Rightarrow> ('w, 'a) io" where
  "panicIO s = (\<lambda>w. (Panic s, w))"

text \<open>\<open>x, err := m; if err != nil { return err }; k x\<close>\<close>

definition bindIO :: "('w, 'a) io \<Rightarrow> ('a \<Rightarrow> ('w, 'b) io) \<Rightarrow> ('w, 'b) io" where
  "bindIO m k = (\<lambda>w. case m w of
       (Ret x, w') \<Rightarrow> k x w'
     | (Fail e, w') \<Rightarrow> (Fail e, w')
     | (Panic s, w') \<Rightarrow> (Panic s, w'))"

text \<open>\<open>if err := m; err != nil { h err }\<close> with a handler that decides what is returned.\<close>

definition catchIO :: "('w, 'a) io \<Rightarrow> (gerror \<Rightarrow> ('w, 'a) io) \<Rightarrow> ('w, 'a) io" where
  "catchIO m h = (\<lambda>w. case m w of
       (Ret x, w') \<Rightarrow> (Ret x, w')
     | (Fail e, w') \<Rightarrow> h e w'
     | (Panic s, w') \<Rightarrow> (Panic s, w'))"

text \<open>\<open>if x, err := m; err != nil { h err } else { k x }\<close>: the handler's result is final.\<close>

definition tryIO :: "('w, 'a) io \<Rightarrow> (gerror \<Rightarrow> ('w, 'b) io) \<Rightarrow> ('a \<Rightarrow> ('w, 'b) io) \<Rightarrow> ('w, 'b) io" where
  "tryIO m h k = (\<lambda>w. case m w of
       (Ret x, w') \<Rightarrow> k x w'
     | (Fail e, w') \<Rightarrow> h e w'
     | (Panic s, w') \<Rightarrow> (Panic s, w'))"

text \<open>\<open>return fmt.Errorf("...: %v", err)\<close>\<close>

definition wrapIO :: "string \<Rightarrow> ('w, 'a) io \<Rightarrow> ('w, 'a) io" where
  "wrapIO s m = catchIO m (\<lambda>e. failIO (errorf (s @ emsg e)))"

definition thenIO :: "('w, 'a) io \<Rightarrow> ('w, 'b) io \<Rightarrow> ('w, 'b) io" where
  "thenIO m k = bindIO m (\<lambda>_. k)"

text \<open>Reading and writing the state.\<close>

definition getIO :: "('w \<Rightarrow> 'a) \<Rightarrow> ('w, 'a) io" where
  "getIO f = (\<lambda>w. (Ret (f w), w))"

definition modIO :: "('w \<Rightarrow> 'w) \<Rightarrow> ('w, unit) io" where
  "modIO f = (\<lambda>w. (Ret (), f w))"

text \<open>\<open>for _, x := range xs { if err := f x; err != nil { return err } }\<close>\<close>

fun forIO :: "('a \<Rightarrow> ('w, unit) io) \<Rightarrow> 'a list \<Rightarrow> ('w, unit) io" where
  "forIO f [] = retIO ()"
| "forIO f (x # xs) = thenIO (f x) (forIO f xs)"

text \<open>The same loop with an accumulator.\<close>

fun foldIO :: "('a \<Rightarrow> 'b \<Rightarrow> ('w, 'b) io) \<Rightarrow> 'a list \<Rightarrow> 'b \<Rightarrow> ('w, 'b) io" where
  "foldIO f [] acc = retIO acc"
| "foldIO f (x # xs) acc = bindIO (f x acc) (foldIO f xs)"

text \<open>
  \<^verbatim>\<open>errgroup.Group\<close>: every task runs, whatever the others return, and \<^verbatim>\<open>Wait\<close> gives the first
  error.  The list is the order in which the tasks are scheduled; a panic of a goroutine ends
  the program.
\<close>

fun errgroupIO :: "('w, unit) io list \<Rightarrow> ('w, unit) io" where
  "errgroupIO [] = retIO ()"
| "errgroupIO (t # ts) = (\<lambda>w. case t w of
      (Ret _, w') \<Rightarrow> errgroupIO ts w'
    | (Panic s, w') \<Rightarrow> (Panic s, w')
    | (Fail e, w') \<Rightarrow> (case errgroupIO ts w' of
           (Panic s, w'') \<Rightarrow> (Panic s, w'')
         | (_, w'') \<Rightarrow> (Fail e, w'')))"

lemma bindIO_ret [simp, io_simps]: "bindIO (retIO x) k = k x"
  by (simp add: bindIO_def retIO_def)

lemma bindIO_fail [simp, io_simps]: "bindIO (failIO e) k = failIO e"
  by (simp add: bindIO_def failIO_def)

lemma bindIO_panic [simp, io_simps]: "bindIO (panicIO s) k = panicIO s"
  by (simp add: bindIO_def panicIO_def)

lemma bindIO_retIO [simp, io_simps]: "bindIO m retIO = m"
  by (rule ext) (simp add: bindIO_def retIO_def split: prod.splits outcome.splits)

lemma bindIO_assoc: "bindIO (bindIO m f) g = bindIO m (\<lambda>x. bindIO (f x) g)"
  by (rule ext) (simp add: bindIO_def split: prod.splits outcome.splits)

lemma thenIO_ret [simp, io_simps]: "thenIO (retIO x) k = k"
  by (simp add: thenIO_def)

text \<open>Inversion of a combinator that returned.\<close>

lemma bindIO_Ret_iff:
  "bindIO m k w = (Ret y, w') \<longleftrightarrow> (\<exists>x w1. m w = (Ret x, w1) \<and> k x w1 = (Ret y, w'))"
  by (auto simp: bindIO_def split: prod.splits outcome.splits)

lemma thenIO_Ret_iff:
  "thenIO m k w = (Ret y, w') \<longleftrightarrow> (\<exists>x w1. m w = (Ret x, w1) \<and> k w1 = (Ret y, w'))"
  by (simp add: thenIO_def bindIO_Ret_iff)

lemma tryIO_Ret_iff:
  "tryIO m h k w = (Ret y, w') \<longleftrightarrow>
     (\<exists>x w1. m w = (Ret x, w1) \<and> k x w1 = (Ret y, w')) \<or>
     (\<exists>e w1. m w = (Fail e, w1) \<and> h e w1 = (Ret y, w'))"
  by (auto simp: tryIO_def split: prod.splits outcome.splits)

lemma catchIO_Ret_iff:
  "catchIO m h w = (Ret y, w') \<longleftrightarrow>
     m w = (Ret y, w') \<or> (\<exists>e w1. m w = (Fail e, w1) \<and> h e w1 = (Ret y, w'))"
  by (auto simp: catchIO_def split: prod.splits outcome.splits)

lemma wrapIO_Ret_iff [simp]: "wrapIO s m w = (Ret y, w') \<longleftrightarrow> m w = (Ret y, w')"
  by (auto simp: wrapIO_def catchIO_Ret_iff failIO_def)

lemma retIO_iff [simp]: "retIO x w = (r, w') \<longleftrightarrow> r = Ret x \<and> w' = w"
  by (auto simp: retIO_def)

lemma failIO_iff [simp]: "failIO e w = (r, w') \<longleftrightarrow> r = Fail e \<and> w' = w"
  by (auto simp: failIO_def)

lemma panicIO_iff [simp]: "panicIO s w = (r, w') \<longleftrightarrow> r = Panic s \<and> w' = w"
  by (auto simp: panicIO_def)

lemma getIO_iff [simp]: "getIO f w = (r, w') \<longleftrightarrow> r = Ret (f w) \<and> w' = w"
  by (auto simp: getIO_def)

lemma modIO_iff [simp]: "modIO f w = (r, w') \<longleftrightarrow> r = Ret () \<and> w' = f w"
  by (auto simp: modIO_def)

lemmas io_Ret_iffs = bindIO_Ret_iff thenIO_Ret_iff tryIO_Ret_iff catchIO_Ret_iff

text \<open>Running a combinator whose first part is known.\<close>

lemma bindIO_run:
  "m w = (Ret x, w1) \<Longrightarrow> bindIO m k w = k x w1"
  "m w = (Fail e, w1) \<Longrightarrow> bindIO m k w = (Fail e, w1)"
  "m w = (Panic s, w1) \<Longrightarrow> bindIO m k w = (Panic s, w1)"
  by (simp_all add: bindIO_def)

lemma thenIO_run:
  "m w = (Ret x, w1) \<Longrightarrow> thenIO m k w = k w1"
  "m w = (Fail e, w1) \<Longrightarrow> thenIO m k w = (Fail e, w1)"
  "m w = (Panic s, w1) \<Longrightarrow> thenIO m k w = (Panic s, w1)"
  by (simp_all add: thenIO_def bindIO_def)

lemma tryIO_run:
  "m w = (Ret x, w1) \<Longrightarrow> tryIO m h k w = k x w1"
  "m w = (Fail e, w1) \<Longrightarrow> tryIO m h k w = h e w1"
  "m w = (Panic s, w1) \<Longrightarrow> tryIO m h k w = (Panic s, w1)"
  by (simp_all add: tryIO_def)

lemma catchIO_run:
  "m w = (Ret x, w1) \<Longrightarrow> catchIO m h w = (Ret x, w1)"
  "m w = (Fail e, w1) \<Longrightarrow> catchIO m h w = h e w1"
  "m w = (Panic s, w1) \<Longrightarrow> catchIO m h w = (Panic s, w1)"
  by (simp_all add: catchIO_def)

lemma wrapIO_run:
  "m w = (Ret x, w1) \<Longrightarrow> wrapIO s m w = (Ret x, w1)"
  "m w = (Fail e, w1) \<Longrightarrow> wrapIO s m w = (Fail (errorf (s @ emsg e)), w1)"
  "m w = (Panic p, w1) \<Longrightarrow> wrapIO s m w = (Panic p, w1)"
  by (simp_all add: wrapIO_def catchIO_run failIO_def)

lemmas io_run = bindIO_run thenIO_run tryIO_run catchIO_run wrapIO_run

lemma forIO_Ret_append:
  "forIO f (xs @ ys) w = (Ret (), w') \<longleftrightarrow>
     (\<exists>w1. forIO f xs w = (Ret (), w1) \<and> forIO f ys w1 = (Ret (), w'))"
  by (induction xs arbitrary: w) (auto simp: thenIO_Ret_iff)

lemma forIO_all_ret:
  assumes "\<And>x w. x \<in> set xs \<Longrightarrow> I w \<Longrightarrow> \<exists>w'. f x w = (Ret (), w') \<and> I w'" and "I w"
  shows "\<exists>w'. forIO f xs w = (Ret (), w') \<and> I w'"
  using assms
proof (induction xs arbitrary: w)
  case Nil
  then show ?case by simp
next
  case (Cons x xs)
  from Cons.prems(1)[of x w] Cons.prems(2) obtain w1 where x: "f x w = (Ret (), w1)" "I w1" by auto
  from Cons.IH[OF Cons.prems(1) x(2)] obtain w2 where "forIO f xs w1 = (Ret (), w2)" "I w2" by auto
  with x show ?case by (auto simp: thenIO_run)
qed

lemma errgroup_Ret_iff_forIO: "errgroupIO ts w = (Ret (), w') \<longleftrightarrow> forIO (\<lambda>t. t) ts w = (Ret (), w')"
  by (induction ts arbitrary: w)
     (auto simp: thenIO_def bindIO_def split: prod.splits outcome.splits)

subsection \<open>Invariants of effects\<close>

text \<open>\<open>keeps I m\<close>: whatever \<open>m\<close> returns, it leaves a state that satisfies \<open>I\<close>.\<close>

definition keeps :: "('w \<Rightarrow> bool) \<Rightarrow> ('w, 'a) io \<Rightarrow> bool" where
  "keeps I m \<longleftrightarrow> (\<forall>w. I w \<longrightarrow> I (snd (m w)))"

lemma keepsI: "(\<And>w. I w \<Longrightarrow> I (snd (m w))) \<Longrightarrow> keeps I m"
  by (simp add: keeps_def)

lemma keepsD: "keeps I m \<Longrightarrow> I w \<Longrightarrow> m w = (r, w') \<Longrightarrow> I w'"
  by (force simp: keeps_def)

lemma keeps_ret [keeps_intros]: "keeps I (retIO x)"
  by (simp add: keeps_def retIO_def)

lemma keeps_fail [keeps_intros]: "keeps I (failIO e)"
  by (simp add: keeps_def failIO_def)

lemma keeps_panic [keeps_intros]: "keeps I (panicIO s)"
  by (simp add: keeps_def panicIO_def)

lemma keeps_get [keeps_intros]: "keeps I (getIO f)"
  by (simp add: keeps_def getIO_def)

lemma keeps_mod: "(\<And>w. I w \<Longrightarrow> I (f w)) \<Longrightarrow> keeps I (modIO f)"
  by (simp add: keeps_def modIO_def)

lemma keeps_bind [keeps_intros]: "keeps I m \<Longrightarrow> (\<And>x. keeps I (k x)) \<Longrightarrow> keeps I (bindIO m k)"
  unfolding keeps_def bindIO_def by (auto split: prod.splits outcome.splits)

text \<open>What follows may rely on what a result satisfies.\<close>

lemma keeps_bind_res:
  assumes "keeps I m" "\<And>w x w'. m w = (Ret x, w') \<Longrightarrow> P x" "\<And>x. P x \<Longrightarrow> keeps I (k x)"
  shows "keeps I (bindIO m k)"
proof (rule keepsI)
  fix w
  assume I: "I w"
  obtain r w' where m: "m w = (r, w')" by fastforce
  with keepsD[OF assms(1) I m] assms(2)[of w _ w'] assms(3) show "I (snd (bindIO m k w))"
    by (cases r) (auto simp: bindIO_def keeps_def)
qed

lemma keeps_try [keeps_intros]:
  "keeps I m \<Longrightarrow> (\<And>e. keeps I (h e)) \<Longrightarrow> (\<And>x. keeps I (k x)) \<Longrightarrow> keeps I (tryIO m h k)"
  unfolding keeps_def tryIO_def by (auto split: prod.splits outcome.splits)

lemma keeps_catch [keeps_intros]:
  "keeps I m \<Longrightarrow> (\<And>e. keeps I (h e)) \<Longrightarrow> keeps I (catchIO m h)"
  unfolding keeps_def catchIO_def by (auto split: prod.splits outcome.splits)

lemma keeps_wrap [keeps_intros]: "keeps I m \<Longrightarrow> keeps I (wrapIO s m)"
  unfolding wrapIO_def by (intro keeps_catch keeps_fail)

lemma keeps_then [keeps_intros]: "keeps I m \<Longrightarrow> keeps I k \<Longrightarrow> keeps I (thenIO m k)"
  unfolding thenIO_def by (intro keeps_bind)

lemma keeps_if [keeps_intros]:
  "(b \<Longrightarrow> keeps I m) \<Longrightarrow> (\<not> b \<Longrightarrow> keeps I k) \<Longrightarrow> keeps I (if b then m else k)"
  by simp

lemma keeps_for: "(\<And>x. x \<in> set xs \<Longrightarrow> keeps I (f x)) \<Longrightarrow> keeps I (forIO f xs)"
  by (induction xs) (auto intro!: keeps_intros)

lemma keeps_fold: "(\<And>x a. x \<in> set xs \<Longrightarrow> keeps I (f x a)) \<Longrightarrow> keeps I (foldIO f xs acc)"
  by (induction xs arbitrary: acc) (auto intro!: keeps_intros)

lemma keeps_errgroup: "(\<And>t. t \<in> set ts \<Longrightarrow> keeps I t) \<Longrightarrow> keeps I (errgroupIO ts)"
proof (induction ts)
  case Nil
  then show ?case by (simp add: keeps_ret)
next
  case (Cons t ts)
  then have t: "keeps I t" and ts: "keeps I (errgroupIO ts)" by auto
  show ?case
  proof (rule keepsI)
    fix w
    assume I: "I w"
    obtain r w1 where r: "t w = (r, w1)" by fastforce
    with t I have w1: "I w1" by (rule keepsD)
    obtain r2 w2 where r2: "errgroupIO ts w1 = (r2, w2)" by fastforce
    with ts w1 have "I w2" by (rule keepsD)
    with r r2 w1 show "I (snd (errgroupIO (t # ts) w))"
      by (cases r; cases r2) auto
  qed
qed

subsection \<open>Triples over a view of the state\<close>

text \<open>
  \<open>vtriple view v m Q E\<close>: started in a state whose view is \<open>v\<close>, \<open>m\<close> does not panic; a result and the view it
  leaves satisfy \<open>Q\<close>, an error and the view it leaves satisfy \<open>E\<close>.  The view is what a
  specification speaks of; the state itself belongs to a service outside the program.
\<close>

definition vtriple ::
  "('w \<Rightarrow> 'v) \<Rightarrow> 'v \<Rightarrow> ('w, 'a) io \<Rightarrow> ('a \<Rightarrow> 'v \<Rightarrow> bool) \<Rightarrow> (gerror \<Rightarrow> 'v \<Rightarrow> bool) \<Rightarrow> bool" where
  "vtriple view v m Q E \<longleftrightarrow> (\<forall>w. view w = v \<longrightarrow>
     (case m w of (Ret x, w') \<Rightarrow> Q x (view w') | (Fail e, w') \<Rightarrow> E e (view w') | (Panic s, w') \<Rightarrow> False))"

lemma vtriple_Ret: "vtriple view (view w) m Q E \<Longrightarrow> m w = (Ret x, w') \<Longrightarrow> Q x (view w')"
  by (auto simp: vtriple_def dest!: spec[of _ w])

lemma vtriple_Fail: "vtriple view (view w) m Q E \<Longrightarrow> m w = (Fail e, w') \<Longrightarrow> E e (view w')"
  by (auto simp: vtriple_def dest!: spec[of _ w])

lemma vtriple_no_panic: "vtriple view (view w) m Q E \<Longrightarrow> m w = (Panic s, w') \<Longrightarrow> False"
  by (auto simp: vtriple_def dest!: spec[of _ w])

lemma vtriple_returns:
  assumes "vtriple view (view w) m Q (\<lambda>e v'. False)"
  shows "\<exists>x w'. m w = (Ret x, w') \<and> Q x (view w')"
proof -
  obtain r w' where "m w = (r, w')" by fastforce
  with assms show ?thesis by (cases r) (auto dest: vtriple_Ret vtriple_Fail vtriple_no_panic)
qed

lemma vtriple_conseq:
  assumes "vtriple view v m Q E" "\<And>x v'. Q x v' \<Longrightarrow> Q' x v'" "\<And>e v'. E e v' \<Longrightarrow> E' e v'"
  shows "vtriple view v m Q' E'"
  using assms unfolding vtriple_def by (fastforce split: prod.splits outcome.splits)

lemma vtriple_conj:
  assumes "vtriple view v m Q E" "vtriple view v m Q' E'"
  shows "vtriple view v m (\<lambda>x v'. Q x v' \<and> Q' x v') (\<lambda>e v'. E e v' \<and> E' e v')"
  using assms unfolding vtriple_def by (fastforce split: prod.splits outcome.splits)

lemma vtriple_ret: "Q x v \<Longrightarrow> vtriple view v (retIO x) Q E"
  by (simp add: vtriple_def retIO_def)

lemma vtriple_fail: "E e v \<Longrightarrow> vtriple view v (failIO e) Q E"
  by (simp add: vtriple_def failIO_def)

lemma vtriple_bind:
  assumes "vtriple view v m R E" "\<And>x v'. R x v' \<Longrightarrow> vtriple view v' (k x) Q E"
  shows "vtriple view v (bindIO m k) Q E"
  using assms unfolding vtriple_def bindIO_def by (fastforce split: prod.splits outcome.splits)

lemma vtriple_then:
  assumes "vtriple view v m R E" "\<And>x v'. R x v' \<Longrightarrow> vtriple view v' k Q E"
  shows "vtriple view v (thenIO m k) Q E"
  unfolding thenIO_def using assms by (rule vtriple_bind)

lemma vtriple_bindE:
  assumes "vtriple view v m R E0" "\<And>e v'. E0 e v' \<Longrightarrow> E e v'" "\<And>x v'. R x v' \<Longrightarrow> vtriple view v' (k x) Q E"
  shows "vtriple view v (bindIO m k) Q E"
  using assms by (intro vtriple_bind[OF vtriple_conseq[OF assms(1)]]) auto

lemma vtriple_thenE:
  assumes "vtriple view v m R E0" "\<And>e v'. E0 e v' \<Longrightarrow> E e v'" "\<And>x v'. R x v' \<Longrightarrow> vtriple view v' k Q E"
  shows "vtriple view v (thenIO m k) Q E"
  unfolding thenIO_def using assms by (rule vtriple_bindE)

lemma vtriple_try:
  assumes "vtriple view v m R H" "\<And>e v'. H e v' \<Longrightarrow> vtriple view v' (h e) Q E"
    "\<And>x v'. R x v' \<Longrightarrow> vtriple view v' (k x) Q E"
  shows "vtriple view v (tryIO m h k) Q E"
  using assms unfolding vtriple_def tryIO_def by (fastforce split: prod.splits outcome.splits)

lemma vtriple_wrap:
  "vtriple view v m Q (\<lambda>e. E (errorf (s @ emsg e))) \<Longrightarrow> vtriple view v (wrapIO s m) Q E"
  unfolding vtriple_def wrapIO_def catchIO_def failIO_def by (fastforce split: prod.splits outcome.splits)

section \<open>Go maps\<close>

text \<open>
  A Go map with string keys is an association list with distinct keys: the list order stands for
  the unspecified order in which \<open>range\<close> visits the entries, so a fact proved for every
  list holds for every iteration order.
\<close>

type_synonym 'v gomap = "(string \<times> 'v) list"

abbreviation mget :: "'v gomap \<Rightarrow> string \<rightharpoonup> 'v" where
  "mget m k \<equiv> map_of m k"

abbreviation mput :: "string \<Rightarrow> 'v \<Rightarrow> 'v gomap \<Rightarrow> 'v gomap" where
  "mput k v m \<equiv> AList.update k v m"

abbreviation mdel :: "string \<Rightarrow> 'v gomap \<Rightarrow> 'v gomap" where
  "mdel k m \<equiv> AList.delete k m"

definition gomap_wf :: "'v gomap \<Rightarrow> bool" where
  "gomap_wf m \<longleftrightarrow> distinct (map fst m)"

text \<open>Reading a missing key of a \<open>map[string]string\<close> gives the zero value.\<close>

definition mgets :: "string gomap \<Rightarrow> string \<Rightarrow> string" where
  "mgets m k = (case mget m k of None \<Rightarrow> [] | Some v \<Rightarrow> v)"

text \<open>\<^verbatim>\<open>reflect.DeepEqual\<close> on maps: the same keys with the same values.\<close>

definition map_deep_equal :: "'v gomap \<Rightarrow> 'v gomap \<Rightarrow> bool" where
  "map_deep_equal m1 m2 \<longleftrightarrow> list_all (\<lambda>k. mget m1 k = mget m2 k) (map fst m1 @ map fst m2)"

lemma map_deep_equal_iff: "map_deep_equal m1 m2 \<longleftrightarrow> map_of m1 = map_of m2"
proof
  assume eq: "map_deep_equal m1 m2"
  show "map_of m1 = map_of m2"
  proof
    fix k
    show "map_of m1 k = map_of m2 k"
    proof (cases "k \<in> fst ` set m1 \<union> fst ` set m2")
      case True
      with eq show ?thesis by (auto simp: map_deep_equal_def list_all_iff)
    next
      case False
      then have "map_of m1 k = None" "map_of m2 k = None"
        by (auto simp: map_of_eq_None_iff)
      then show ?thesis by simp
    qed
  qed
qed (simp add: map_deep_equal_def list_all_iff)

lemma mget_mput [simp]: "mget (mput k v m) = (map_of m)(k \<mapsto> v)"
  by (rule AList.update_conv')

lemma mget_mdel [simp]: "mget (mdel k m) = (map_of m)(k := None)"
  by (rule AList.delete_conv')

lemma gomap_wf_mput [simp]: "gomap_wf m \<Longrightarrow> gomap_wf (mput k v m)"
  by (simp add: gomap_wf_def AList.distinct_update)

lemma gomap_wf_mdel [simp]: "gomap_wf m \<Longrightarrow> gomap_wf (mdel k m)"
  by (simp add: gomap_wf_def AList.distinct_delete)

lemma gomap_wf_Nil [simp]: "gomap_wf []"
  by (simp add: gomap_wf_def)

section \<open>Strings\<close>

text \<open>\<^verbatim>\<open>strings.Split\<close> and \<^verbatim>\<open>strings.Join\<close> for a one-character separator.\<close>

fun split_on :: "char \<Rightarrow> string \<Rightarrow> string list" where
  "split_on c [] = [[]]"
| "split_on c (x # xs) =
     (if x = c then [] # split_on c xs
      else (case split_on c xs of [] \<Rightarrow> [[x]] | y # ys \<Rightarrow> (x # y) # ys))"

fun join_with :: "string \<Rightarrow> string list \<Rightarrow> string" where
  "join_with sep [] = []"
| "join_with sep [x] = x"
| "join_with sep (x # y # ys) = x @ sep @ join_with sep (y # ys)"

text \<open>\<^verbatim>\<open>strings.Replace(s, a, b, -1)\<close> for one-character \<open>a\<close> and \<open>b\<close>, \<^verbatim>\<open>strings.ToUpper\<close> on ASCII text.\<close>

definition replace_char :: "char \<Rightarrow> char \<Rightarrow> string \<Rightarrow> string" where
  "replace_char a b s = map (\<lambda>c. if c = a then b else c) s"

definition upper_char :: "char \<Rightarrow> char" where
  "upper_char c = (let n = (of_char c :: nat) in if 97 \<le> n \<and> n \<le> 122 then char_of (n - 32) else c)"

definition to_upper :: "string \<Rightarrow> string" where
  "to_upper s = map upper_char s"

text \<open>\<^verbatim>\<open>strings.Contains\<close>\<close>

fun contains :: "string \<Rightarrow> string \<Rightarrow> bool" where
  "contains sub [] = (sub = [])"
| "contains sub (c # s) = (prefix sub (c # s) \<or> contains sub s)"

lemma contains_iff: "contains sub s \<longleftrightarrow> (\<exists>p q. s = p @ sub @ q)"
proof (induction s)
  case Nil
  then show ?case by simp
next
  case (Cons c s)
  have "contains sub (c # s) \<longleftrightarrow> prefix sub (c # s) \<or> (\<exists>p q. s = p @ sub @ q)"
    by (simp add: Cons.IH)
  also have "\<dots> \<longleftrightarrow> (\<exists>p q. c # s = p @ sub @ q)"
  proof
    assume "prefix sub (c # s) \<or> (\<exists>p q. s = p @ sub @ q)"
    then show "\<exists>p q. c # s = p @ sub @ q"
      by (metis append_Cons append_Nil prefixE)
  next
    assume "\<exists>p q. c # s = p @ sub @ q"
    then obtain p q where pq: "c # s = p @ sub @ q" by blast
    show "prefix sub (c # s) \<or> (\<exists>p q. s = p @ sub @ q)"
      using pq by (cases p) (simp_all, blast)
  qed
  finally show ?case .
qed

text \<open>\<^verbatim>\<open>strings.TrimSpace\<close> on ASCII text.\<close>

definition is_space :: "char \<Rightarrow> bool" where
  "is_space c \<longleftrightarrow> of_char c \<in> {9, 10, 11, 12, 13, 32 :: nat}"

definition trim_space :: "string \<Rightarrow> string" where
  "trim_space s = rev (dropWhile is_space (rev (dropWhile is_space s)))"

text \<open>Decimal printing (\<open>%d\<close> on a non-negative number) and \<^verbatim>\<open>strconv.FormatBool\<close>.\<close>

definition digit_char :: "nat \<Rightarrow> char" where
  "digit_char d = char_of (48 + d)"

fun show_nat :: "nat \<Rightarrow> string" where
  "show_nat n = (if n < 10 then [digit_char n] else show_nat (n div 10) @ [digit_char (n mod 10)])"

declare show_nat.simps [simp del]

definition format_bool :: "bool \<Rightarrow> string" where
  "format_bool b = (if b then ''true'' else ''false'')"

lemma split_on_ne [simp]: "split_on c s \<noteq> []"
  by (induction s) (auto split: list.splits)

lemma split_on_no_sep: "c \<notin> set s \<Longrightarrow> split_on c s = [s]"
  by (induction s) auto

lemma split_on_append: "c \<notin> set a \<Longrightarrow> split_on c (a @ c # s) = a # split_on c s"
  by (induction a) auto

lemma join_with_Cons: "ys \<noteq> [] \<Longrightarrow> join_with sep (x # ys) = x @ sep @ join_with sep ys"
  by (cases ys) auto

lemma join_split: "join_with [c] (split_on c s) = s"
proof (induction s)
  case Nil
  then show ?case by simp
next
  case (Cons x xs)
  obtain y ys where y: "split_on c xs = y # ys" by (cases "split_on c xs") auto
  with Cons.IH show ?case by (cases ys) auto
qed

lemma split_join:
  "xs \<noteq> [] \<Longrightarrow> \<forall>x \<in> set xs. c \<notin> set x \<Longrightarrow> split_on c (join_with [c] xs) = xs"
proof (induction xs rule: induct_list012)
  case (3 x y ys)
  then show ?case by (simp add: split_on_append)
qed (auto simp: split_on_no_sep)

lemma set_replace_char: "a \<noteq> b \<Longrightarrow> a \<notin> set (replace_char a b s)"
  by (auto simp: replace_char_def)

lemma replace_char_inj:
  assumes "b \<notin> set s" "b \<notin> set t" and eq: "replace_char a b s = replace_char a b t"
  shows "s = t"
  using assms
proof (induction s arbitrary: t)
  case Nil
  then show ?case by (simp add: replace_char_def)
next
  case (Cons x s)
  from Cons.prems(3) obtain y t' where t: "t = y # t'"
    by (cases t) (auto simp: replace_char_def)
  with Cons.prems have tl: "replace_char a b s = replace_char a b t'"
    by (simp add: replace_char_def)
  have "s = t'"
    using Cons.prems(1,2) t by (intro Cons.IH[OF _ _ tl]) auto
  moreover have "x = y"
    using Cons.prems t by (auto simp: replace_char_def split: if_splits)
  ultimately show ?case using t by simp
qed

end
