(* ===== verification/Go_Net.thy ===== *)
theory Go_Net
  imports RKE_Prelude
begin

unbundle bit_operations_syntax

text \<open>
  The parts of Go's packages \<^verbatim>\<open>net\<close> and \<^verbatim>\<open>path/filepath\<close> that the program calls: \<^verbatim>\<open>net.ParseIP\<close>,
  \<^verbatim>\<open>net.ParseCIDR\<close>, \<^verbatim>\<open>IP.Mask\<close>, \<^verbatim>\<open>filepath.Dir\<close>, \<^verbatim>\<open>filepath.Base\<close>.  An address is a list of bytes kept
  at their width, four or sixteen of them, and nil is \<open>None\<close>.
\<close>

type_synonym byte = "8 word"
type_synonym ip = "byte list"

definition IPv4len :: nat where "IPv4len = 4"
definition IPv6len :: nat where "IPv6len = 16"

section \<open>Scanning numbers\<close>

text \<open>\<open>dtoi\<close> and \<open>xtoi\<close> give the number and the rest of the text; \<open>big\<close> is the overflow limit of both.\<close>

definition big :: nat where "big = 0xFFFFFF"

definition digit_val :: "char \<Rightarrow> nat option" where
  "digit_val c = (let n = of_char c in if 48 \<le> n \<and> n \<le> 57 then Some (n - 48) else None)"

definition hex_val :: "char \<Rightarrow> nat option" where
  "hex_val c = (let n = of_char c in
     if 48 \<le> n \<and> n \<le> 57 then Some (n - 48)
     else if 97 \<le> n \<and> n \<le> 102 then Some (n - 87)
     else if 65 \<le> n \<and> n \<le> 70 then Some (n - 55)
     else None)"

fun scan :: "(char \<Rightarrow> nat option) \<Rightarrow> nat \<Rightarrow> nat \<Rightarrow> string \<Rightarrow> (nat \<times> string) option" where
  "scan dig base n [] = Some (n, [])"
| "scan dig base n (c # s) =
     (case dig c of
        None \<Rightarrow> Some (n, c # s)
      | Some d \<Rightarrow> if n * base + d \<ge> big then None else scan dig base (n * base + d) s)"

definition scan1 :: "(char \<Rightarrow> nat option) \<Rightarrow> nat \<Rightarrow> string \<Rightarrow> (nat \<times> string) option" where
  "scan1 dig base s =
     (case s of [] \<Rightarrow> None | c # _ \<Rightarrow> if dig c = None then None else scan dig base 0 s)"

abbreviation dtoi :: "string \<Rightarrow> (nat \<times> string) option" where
  "dtoi \<equiv> scan1 digit_val 10"

abbreviation xtoi :: "string \<Rightarrow> (nat \<times> string) option" where
  "xtoi \<equiv> scan1 hex_val 16"

section \<open>IPv4 and IPv6 addresses\<close>

fun parseIPv4_loop :: "nat \<Rightarrow> bool \<Rightarrow> string \<Rightarrow> byte list option" where
  "parseIPv4_loop 0 first s = (if s = [] then Some [] else None)"
| "parseIPv4_loop (Suc k) first s =
     (if s = [] then None
      else if \<not> first \<and> hd s \<noteq> CHR ''.'' then None
      else (case dtoi (if first then s else tl s) of
          None \<Rightarrow> None
        | Some (n, s') \<Rightarrow>
            if n > 255 then None
            else map_option (\<lambda>bs. of_nat n # bs) (parseIPv4_loop k False s')))"

text \<open>\<^verbatim>\<open>parseIPv4\<close> gives the sixteen-byte form of the address.\<close>

definition v4InV6Prefix :: "byte list" where
  "v4InV6Prefix = [0, 0, 0, 0, 0, 0, 0, 0, 0, 0, 255, 255]"

definition parseIPv4 :: "string \<Rightarrow> ip option" where
  "parseIPv4 s = map_option (\<lambda>bs. v4InV6Prefix @ bs) (parseIPv4_loop IPv4len True s)"

text \<open>
  The loop of \<^verbatim>\<open>parseIPv6\<close>: the bytes read so far, the position of the ellipsis, and the text left.
  The result is the state after the loop, \<open>None\<close> where the code returns nil.
\<close>

function parseIPv6_loop :: "byte list \<Rightarrow> nat option \<Rightarrow> string \<Rightarrow> (byte list \<times> nat option \<times> string) option" where
  "parseIPv6_loop acc ell s =
     (if length acc \<ge> IPv6len then Some (acc, ell, s)
      else (case xtoi s of
          None \<Rightarrow> None
        | Some (n, s1) \<Rightarrow>
            if n > 0xFFFF then None
            else if s1 \<noteq> [] \<and> hd s1 = CHR ''.'' then
              (if ell = None \<and> length acc \<noteq> IPv6len - IPv4len then None
               else if length acc + IPv4len > IPv6len then None
               else (case parseIPv4 s of
                   None \<Rightarrow> None
                 | Some ip4 \<Rightarrow> Some (acc @ drop 12 ip4, ell, [])))
            else (let acc' = acc @ [of_nat (n div 256), of_nat (n mod 256)] in
              if s1 = [] then Some (acc', ell, [])
              else if hd s1 \<noteq> CHR '':'' \<or> length s1 = 1 then None
              else (let s2 = tl s1 in
                if hd s2 = CHR '':'' then
                  (if ell \<noteq> None then None
                   else if tl s2 = [] then Some (acc', Some (length acc'), [])
                   else parseIPv6_loop acc' (Some (length acc')) (tl s2))
                else parseIPv6_loop acc' ell s2))))"
  by pat_completeness auto
termination
  by (relation "measure (\<lambda>(acc, ell, s). IPv6len - length acc)") auto

declare parseIPv6_loop.simps [simp del]

definition parseIPv6 :: "string \<Rightarrow> ip option" where
  "parseIPv6 s =
     (let lead = length s \<ge> 2 \<and> hd s = CHR '':'' \<and> s ! 1 = CHR '':'';
          s' = (if lead then drop 2 s else s);
          ell0 = (if lead then Some 0 else None)
      in if lead \<and> s' = [] then Some (replicate IPv6len 0)
         else (case parseIPv6_loop [] ell0 s' of
             None \<Rightarrow> None
           | Some (bs, ell, rest) \<Rightarrow>
               if rest \<noteq> [] then None
               else if length bs < IPv6len then
                 (case ell of
                    None \<Rightarrow> None
                  | Some e \<Rightarrow> Some (take e bs @ replicate (IPv6len - length bs) 0 @ drop e bs))
               else if ell \<noteq> None then None
               else Some bs))"

text \<open>\<^verbatim>\<open>net.ParseIP\<close>: the first dot or colon decides the family.\<close>

definition ParseIP :: "string \<Rightarrow> ip option" where
  "ParseIP s =
     (case dropWhile (\<lambda>c. c \<noteq> CHR ''.'' \<and> c \<noteq> CHR '':'') s of
        [] \<Rightarrow> None
      | c # _ \<Rightarrow> if c = CHR ''.'' then parseIPv4 s else parseIPv6 s)"

section \<open>CIDR notation and masks\<close>

text \<open>\<^verbatim>\<open>net.CIDRMask\<close> for \<open>l\<close> bytes: the byte \<open>^byte(0xff >> n)\<close> on the boundary.\<close>

fun CIDRMask :: "nat \<Rightarrow> nat \<Rightarrow> byte list" where
  "CIDRMask n 0 = []"
| "CIDRMask n (Suc l) =
     (if n \<ge> 8 then 255 # CIDRMask (n - 8) l
      else NOT (drop_bit n 255) # CIDRMask 0 l)"

definition Mask :: "ip \<Rightarrow> byte list \<Rightarrow> ip option" where
  "Mask ip mk =
     (let mk1 = (if length mk = IPv6len \<and> length ip = IPv4len \<and> list_all (\<lambda>b. b = 255) (take 12 mk)
                   then drop 12 mk else mk);
          ip' = (if length mk1 = IPv4len \<and> length ip = IPv6len \<and> take 12 ip = v4InV6Prefix
                 then drop 12 ip else ip)
      in if length ip' \<noteq> length mk1 then None else Some (map2 (AND) ip' mk1))"

text \<open>\<^verbatim>\<open>net.ParseCIDR\<close>: the address, and the mask of the network; \<open>None\<close> is the error.\<close>

definition ParseCIDR :: "string \<Rightarrow> (ip \<times> byte list) option" where
  "ParseCIDR s =
     (if CHR ''/'' \<notin> set s then None
      else (let addr = takeWhile (\<lambda>c. c \<noteq> CHR ''/'') s;
                msk = tl (dropWhile (\<lambda>c. c \<noteq> CHR ''/'') s);
                ipl = (case parseIPv4 addr of
                         Some ip \<Rightarrow> Some (ip, IPv4len)
                       | None \<Rightarrow> map_option (\<lambda>ip. (ip, IPv6len)) (parseIPv6 addr))
            in (case (ipl, dtoi msk) of
                 (Some (ip, iplen), Some (n, [])) \<Rightarrow>
                    if n > 8 * iplen then None else Some (ip, CIDRMask n iplen)
               | _ \<Rightarrow> None)))"

section \<open>Values of byte strings\<close>

text \<open>The number a big-endian byte string stands for.\<close>

fun ip_val :: "byte list \<Rightarrow> nat" where
  "ip_val [] = 0"
| "ip_val (b # bs) = unat b * 256 ^ length bs + ip_val bs"

lemma unat_byte [simp]: "unat (b :: byte) < 256"
  using unsigned_less[of b, where 'a=nat] by simp

lemma ip_val_bound: "ip_val bs < 256 ^ length bs"
proof (induction bs)
  case Nil
  then show ?case by simp
next
  case (Cons b bs)
  have "unat b * 256 ^ length bs + ip_val bs < unat b * 256 ^ length bs + 256 ^ length bs"
    using Cons.IH by simp
  also have "\<dots> = (unat b + 1) * 256 ^ length bs" by simp
  also have "\<dots> \<le> 256 * 256 ^ length bs"
    using unat_byte[of b] by (intro mult_right_mono) linarith+
  finally show ?case by simp
qed

lemma length_CIDRMask [simp]: "length (CIDRMask n l) = l"
  by (induction n l rule: CIDRMask.induct) auto

lemma CIDRMask_last_even:
  "0 < l \<Longrightarrow> n < 8 * l \<Longrightarrow> even (last (CIDRMask n l))"
proof (induction n l rule: CIDRMask.induct)
  case (1 n)
  then show ?case by simp
next
  case (2 n l)
  show ?case
  proof (cases "n \<ge> 8")
    case True
    with 2 have l: "0 < l" "n - 8 < 8 * l" by auto
    then have "CIDRMask (n - 8) l \<noteq> []" by (metis length_CIDRMask length_0_conv less_numeral_extra(3))
    with 2(1)[OF True l] True show ?thesis by simp
  next
    case False
    then have n: "n < 8" by simp
    show ?thesis
    proof (cases l)
      case 0
      have "bit (drop_bit n (255 :: byte)) 0"
      proof -
        from n have "n = 0 \<or> n = 1 \<or> n = 2 \<or> n = 3 \<or> n = 4 \<or> n = 5 \<or> n = 6 \<or> n = 7" by auto
        then show ?thesis by (elim disjE) (simp_all add: bit_simps)
      qed
      with 0 False show ?thesis by (simp add: even_not_iff bit_0)
    next
      case (Suc k)
      then have "CIDRMask 0 l \<noteq> []" by (metis length_CIDRMask length_0_conv nat.distinct(1))
      with 2(2)[OF False] Suc False show ?thesis by simp
    qed
  qed
qed

text \<open>Parsing gives addresses of the right length.\<close>

lemma parseIPv4_loop_length: "parseIPv4_loop k f s = Some bs \<Longrightarrow> length bs = k"
  by (induction k f s arbitrary: bs rule: parseIPv4_loop.induct)
     (auto split: if_splits option.splits prod.splits)

lemma parseIPv4_shape: "parseIPv4 s = Some ip \<Longrightarrow> \<exists>bs. ip = v4InV6Prefix @ bs \<and> length bs = IPv4len"
  by (auto simp: parseIPv4_def dest: parseIPv4_loop_length)

lemma length_parseIPv4: "parseIPv4 s = Some ip \<Longrightarrow> length ip = IPv6len"
  by (auto dest!: parseIPv4_shape simp: v4InV6Prefix_def IPv4len_def IPv6len_def)

end
