(* ===== verification/RKE_Types.thy ===== *)
theory RKE_Types
  imports Go_Net
begin

text \<open>
  The configuration types of \<^verbatim>\<open>vendor/github.com/rancher/types/apis/management.cattle.io/v3/rke_types.go\<close>,
  the \<open>Host\<close> of \<^verbatim>\<open>hosts/hosts.go\<close>, the \<open>Cluster\<close> of \<^verbatim>\<open>cluster/cluster.go\<close> and the certificate object of
  \<^verbatim>\<open>pki/pki.go\<close>, one record per Go struct; an embedded struct is record extension.
  Field names that occur in several Go structs carry a prefix.  A pointer to a \<open>Host\<close> is an index into
  the store of hosts, so that the host lists of a cluster can share hosts as the code's slices of
  pointers do.
\<close>

section \<open>Cluster configuration (v3)\<close>

record BaseService =
  svc_Image :: string
  svc_ExtraArgs :: "string gomap"

record KubeAPIService = BaseService +
  api_ServiceClusterIPRange :: string
  api_PodSecurityPolicy :: bool

record KubeControllerService = BaseService +
  ctl_ClusterCIDR :: string
  ctl_ServiceClusterIPRange :: string

record KubeletService = BaseService +
  let_ClusterDomain :: string
  let_InfraContainerImage :: string
  let_ClusterDNSServer :: string
  let_FailSwapOn :: bool

type_synonym ETCDService = BaseService
type_synonym SchedulerService = BaseService
type_synonym KubeproxyService = BaseService

record RKEConfigServices =
  Etcd :: ETCDService
  KubeAPI :: KubeAPIService
  KubeController :: KubeControllerService
  Scheduler :: SchedulerService
  Kubelet :: KubeletService
  Kubeproxy :: KubeproxyService

record RKEConfigNode =
  MachineName :: string
  Address :: string
  InternalAddress :: string
  Role :: "string list"
  HostnameOverride :: string
  node_User :: string
  DockerSocket :: string
  SSHKey :: string
  node_SSHKeyPath :: string
  node_Labels :: "string gomap"

record PrivateRegistry =
  pr_URL :: string
  pr_User :: string
  pr_Password :: string

record RKESystemImages =
  img_Etcd :: string
  img_Alpine :: string
  img_NginxProxy :: string
  img_CertDownloader :: string
  img_KubernetesServicesSidecar :: string
  img_KubeDNS :: string
  img_DNSmasq :: string
  img_KubeDNSSidecar :: string
  img_KubeDNSAutoscaler :: string
  img_Kubernetes :: string
  img_Flannel :: string
  img_FlannelCNI :: string
  img_CalicoNode :: string
  img_CalicoCNI :: string
  img_CalicoControllers :: string
  img_CalicoCtl :: string
  img_CanalNode :: string
  img_CanalCNI :: string
  img_CanalFlannel :: string
  img_WeaveNode :: string
  img_WeaveCNI :: string
  img_PodInfraContainer :: string

text \<open>\<open>Options\<close> of the network section is compared with nil and written to, so it is optional.\<close>

record NetworkConfig =
  net_Plugin :: string
  net_Options :: "string gomap option"

record AuthnConfig =
  authn_Strategy :: string
  authn_Options :: "string gomap"

record AuthzConfig =
  authz_Mode :: string
  authz_Options :: "string gomap"

record IngressConfig =
  ing_Provider :: string
  ing_Options :: "string gomap"
  ing_NodeSelector :: "string gomap"

record RancherKubernetesEngineConfig =
  Nodes :: "RKEConfigNode list"
  Services :: RKEConfigServices
  Network :: NetworkConfig
  Authentication :: AuthnConfig
  Addons :: string
  SystemImages :: RKESystemImages
  SSHKeyPath :: string
  Authorization :: AuthzConfig
  cfg_IgnoreDockerVersion :: bool
  Version :: string
  PrivateRegistries :: "PrivateRegistry list"
  Ingress :: IngressConfig

section \<open>Certificates\<close>

text \<open>
  An RSA key is known by its identity.  A certificate keeps the fields of \<^verbatim>\<open>x509.Certificate\<close> that
  \<^verbatim>\<open>client-go/util/cert\<close> fills in, with the key that signed it.
\<close>

datatype rsa_key = RSAKey nat

datatype ExtKeyUsage = ExtKeyUsageClientAuth | ExtKeyUsageServerAuth

record AltNames =
  DNSNames :: "string list"
  alt_IPs :: "ip option list"

record x509_cert =
  SubjectCN :: string
  SubjectOrg :: "string list"
  cert_AltNames :: AltNames
  cert_Usages :: "ExtKeyUsage list"
  IsCA :: bool
  PublicKey :: rsa_key
  SignedBy :: rsa_key
  IssuerCN :: string

record CertificatePKI =
  Certificate :: "x509_cert option"
  cert_Key :: "rsa_key option"
  cert_Config :: string
  cert_Name :: string
  CommonName :: string
  OUName :: string
  EnvName :: string
  cert_Path :: string
  KeyEnvName :: string
  KeyPath :: string
  ConfigEnvName :: string
  ConfigPath :: string

definition CertificatePKI_zero :: CertificatePKI where
  "CertificatePKI_zero =
     \<lparr>Certificate = None, cert_Key = None, cert_Config = [], cert_Name = [], CommonName = [], OUName = [],
      EnvName = [], cert_Path = [], KeyEnvName = [], KeyPath = [], ConfigEnvName = [], ConfigPath = []\<rparr>"

text \<open>Reading a missing certificate of the map gives the zero value.\<close>

definition cert_get :: "CertificatePKI gomap \<Rightarrow> string \<Rightarrow> CertificatePKI" where
  "cert_get m n = (case mget m n of None \<Rightarrow> CertificatePKI_zero | Some c \<Rightarrow> c)"

section \<open>Hosts and clusters\<close>

type_synonym hostref = nat

text \<open>\<open>DClient\<close>: \<open>None\<close> is nil; a client is known by the address of the daemon it talks to.\<close>

record Host = RKEConfigNode +
  DClient :: "string option"
  LocalConnPort :: nat
  IsControl :: bool
  IsWorker :: bool
  IsEtcd :: bool
  IgnoreDockerVersion :: bool
  ToAddEtcdMember :: bool
  ExistingEtcdCluster :: bool
  SavedKeyPhrase :: string
  ToAddLabels :: "string gomap"
  ToDelLabels :: "string gomap"
  ToAddTaints :: "string list"
  ToDelTaints :: "string list"

text \<open>
  A \<^verbatim>\<open>hosts.DialerFactory\<close>: the three the repository defines, or one that an embedding program supplies.
\<close>

datatype DialerFactory = SSHFactory | LocalConnFactory | LocalHealthcheckFactory | CustomFactory nat

record Cluster = RancherKubernetesEngineConfig +
  cl_ConfigPath :: string
  LocalKubeConfigPath :: string
  EtcdHosts :: "hostref list"
  WorkerHosts :: "hostref list"
  ControlPlaneHosts :: "hostref list"
  KubernetesServiceIP :: "ip option"
  Certificates :: "CertificatePKI gomap option"
  ClusterDomain :: string
  ClusterCIDR :: string
  ClusterDNSServer :: string
  DockerDialerFactory :: "DialerFactory option"
  LocalConnDialerFactory :: "DialerFactory option"
  PrivateRegistriesMap :: "PrivateRegistry gomap"

section \<open>Containers\<close>

text \<open>
  \<^verbatim>\<open>container.Config\<close> and \<^verbatim>\<open>container.HostConfig\<close>, the fields the program sets.  \<open>Cmd\<close> and \<open>Entrypoint\<close>
  are slices whose nil value matters to \<^verbatim>\<open>reflect.DeepEqual\<close>: \<open>None\<close> is nil.
\<close>

record PortBinding =
  HostIP :: string
  HostPort :: string

record ContainerConfig =
  Image :: string
  Cmd :: "string list option"
  Entrypoint :: "string list option"
  Env :: "string list"
  Tty :: bool
  ExposedPorts :: "string list"

record HostConfig =
  Binds :: "string list"
  NetworkMode :: string
  RestartPolicyName :: string
  VolumesFrom :: "string list"
  PidMode :: string
  Privileged :: bool
  PortBindings :: "PortBinding list gomap"

definition ContainerConfig_zero :: ContainerConfig where
  "ContainerConfig_zero =
     \<lparr>Image = [], Cmd = None, Entrypoint = None, Env = [], Tty = False, ExposedPorts = []\<rparr>"

definition HostConfig_zero :: HostConfig where
  "HostConfig_zero =
     \<lparr>Binds = [], NetworkMode = [], RestartPolicyName = [], VolumesFrom = [], PidMode = [],
      Privileged = False, PortBindings = []\<rparr>"

text \<open>\<open>append(s, xs...)\<close> on a slice that may be nil.\<close>

definition slice_append :: "'a list option \<Rightarrow> 'a list \<Rightarrow> 'a list option" where
  "slice_append s xs = (case s of None \<Rightarrow> (if xs = [] then None else Some xs) | Some ys \<Rightarrow> Some (ys @ xs))"

text \<open>What \<^verbatim>\<open>ContainerInspect\<close> reports, as far as the program reads it.\<close>

record ContainerJSON =
  ID :: string
  Running :: bool
  json_Image :: string
  json_Cmd :: "string list option"

end
