(* ===== verification/Go_Encoding.thy ===== *)
theory Go_Encoding
  imports RKE_Prelude
begin

text \<open>
  The encoders of Go's standard library that the program uses: \<^verbatim>\<open>base64.StdEncoding\<close>,
  \<^verbatim>\<open>base64.URLEncoding\<close> and \<^verbatim>\<open>json.Marshal\<close> of a string, on byte strings.
\<close>

section \<open>Base64\<close>

definition b64_std :: string where
  "b64_std = ''ABCDEFGHIJKLMNOPQRSTUVWXYZabcdefghijklmnopqrstuvwxyz0123456789+/''"

definition b64_url :: string where
  "b64_url = ''ABCDEFGHIJKLMNOPQRSTUVWXYZabcdefghijklmnopqrstuvwxyz0123456789-_''"

definition b64_quad :: "string \<Rightarrow> nat \<Rightarrow> nat \<Rightarrow> nat \<Rightarrow> string" where
  "b64_quad alph a b c =
     [alph ! (a div 4), alph ! ((a mod 4) * 16 + b div 16),
      alph ! ((b mod 16) * 4 + c div 64), alph ! (c mod 64)]"

fun b64_encode :: "string \<Rightarrow> string \<Rightarrow> string" where
  "b64_encode alph [] = []"
| "b64_encode alph [a] = take 2 (b64_quad alph (of_char a) 0 0) @ ''==''"
| "b64_encode alph [a, b] = take 3 (b64_quad alph (of_char a) (of_char b) 0) @ ''=''"
| "b64_encode alph (a # b # c # s) =
     b64_quad alph (of_char a) (of_char b) (of_char c) @ b64_encode alph s"

text \<open>A decoder, to state that the encoding loses nothing.\<close>

fun index_of :: "char \<Rightarrow> string \<Rightarrow> nat" where
  "index_of c [] = 0"
| "index_of c (x # xs) = (if x = c then 0 else Suc (index_of c xs))"

fun b64_decode :: "string \<Rightarrow> string \<Rightarrow> string" where
  "b64_decode alph (p # q # r # t # s) =
     (let p' = index_of p alph; q' = index_of q alph; r' = index_of r alph; t' = index_of t alph in
      char_of (p' * 4 + q' div 16) #
      (if r = CHR ''='' then []
       else char_of ((q' mod 16) * 16 + r' div 4) #
         (if t = CHR ''='' then []
          else char_of ((r' mod 4) * 64 + t') # b64_decode alph s)))"
| "b64_decode alph s = []"

lemma index_of_nth: "distinct xs \<Longrightarrow> i < length xs \<Longrightarrow> index_of (xs ! i) xs = i"
proof (induction xs arbitrary: i)
  case Nil
  then show ?case by simp
next
  case (Cons x xs)
  then show ?case by (cases i) auto
qed

lemma of_char_bound [simp]: "(of_char c :: nat) < 256"
  by simp

lemma b64_pieces:
  assumes "a < (256 :: nat)" "b < 256" "c < 256"
  shows "a div 4 < 64" "(a mod 4) * 16 + b div 16 < 64" "(b mod 16) * 4 + c div 64 < 64" "c mod 64 < 64"
    and "(a div 4) * 4 + ((a mod 4) * 16 + b div 16) div 16 = a"
    and "(((a mod 4) * 16 + b div 16) mod 16) * 16 + ((b mod 16) * 4 + c div 64) div 4 = b"
    and "(((b mod 16) * 4 + c div 64) mod 4) * 64 + c mod 64 = c"
proof -
  have q: "b div 16 < 16" "c div 64 < 4" "a mod 4 < 4" "b mod 16 < 16" using assms by auto
  show "a div 4 < 64" "c mod 64 < 64" using assms by auto
  show "(a mod 4) * 16 + b div 16 < 64" using q by linarith
  show "(b mod 16) * 4 + c div 64 < 64" using q by linarith
  have "((a mod 4) * 16 + b div 16) div 16 = a mod 4" using q by simp
  then show "(a div 4) * 4 + ((a mod 4) * 16 + b div 16) div 16 = a" by (simp add: mult.commute)
  have "((a mod 4) * 16 + b div 16) mod 16 = b div 16" using q by simp
  moreover have "((b mod 16) * 4 + c div 64) div 4 = b mod 16" using q by simp
  ultimately show "(((a mod 4) * 16 + b div 16) mod 16) * 16 + ((b mod 16) * 4 + c div 64) div 4 = b"
    by (simp add: mult.commute)
  have "((b mod 16) * 4 + c div 64) mod 4 = c div 64" using q by simp
  then show "(((b mod 16) * 4 + c div 64) mod 4) * 64 + c mod 64 = c" by (simp add: mult.commute)
qed

definition b64_alphabet :: "string \<Rightarrow> bool" where
  "b64_alphabet alph \<longleftrightarrow> distinct alph \<and> length alph = 64 \<and> CHR ''='' \<notin> set alph"

lemma b64_std_alphabet [simp]: "b64_alphabet b64_std"
  by code_simp

lemma b64_url_alphabet [simp]: "b64_alphabet b64_url"
  by code_simp

lemma b64_alphabet_index: "b64_alphabet alph \<Longrightarrow> i < 64 \<Longrightarrow> index_of (alph ! i) alph = i"
  by (simp add: b64_alphabet_def index_of_nth)

lemma b64_alphabet_pad: "b64_alphabet alph \<Longrightarrow> i < 64 \<Longrightarrow> alph ! i \<noteq> CHR ''=''"
  by (metis b64_alphabet_def nth_mem)

lemma b64_decode_quad:
  assumes al: "b64_alphabet alph"
  shows "b64_decode alph (b64_quad alph (of_char a) (of_char b) (of_char c) @ s) = a # b # c # b64_decode alph s"
    and "b64_decode alph (take 3 (b64_quad alph (of_char a) (of_char b) 0) @ ''='') = [a, b]"
    and "b64_decode alph (take 2 (b64_quad alph (of_char a) 0 0) @ ''=='') = [a]"
proof -
  have dec: "b64_decode alph (b64_quad alph x y z @ s) =
      char_of ((x div 4) * 4 + ((x mod 4) * 16 + y div 16) div 16) #
      char_of ((((x mod 4) * 16 + y div 16) mod 16) * 16 + ((y mod 16) * 4 + z div 64) div 4) #
      char_of ((((y mod 16) * 4 + z div 64) mod 4) * 64 + z mod 64) # b64_decode alph s"
    if "x < 256" "y < 256" "z < 256" for x y z :: nat
    using b64_pieces(1-4)[OF that] al
    by (simp add: b64_quad_def b64_alphabet_index b64_alphabet_pad Let_def del: mod_mult_self1 mod_mult_self2 div_mult_self1)
  show "b64_decode alph (b64_quad alph (of_char a) (of_char b) (of_char c) @ s) = a # b # c # b64_decode alph s"
    unfolding dec[OF of_char_bound of_char_bound of_char_bound] b64_pieces(5-7)[OF of_char_bound of_char_bound of_char_bound]
    by simp
  show "b64_decode alph (take 3 (b64_quad alph (of_char a) (of_char b) 0) @ ''='') = [a, b]"
    using b64_pieces[of "of_char a" "of_char b" 0] al
    by (simp add: b64_quad_def b64_alphabet_index b64_alphabet_pad Let_def)
  show "b64_decode alph (take 2 (b64_quad alph (of_char a) 0 0) @ ''=='') = [a]"
    using b64_pieces[of "of_char a" 0 0] al
    by (simp add: b64_quad_def b64_alphabet_index Let_def)
qed

lemma b64_roundtrip: "b64_alphabet alph \<Longrightarrow> b64_decode alph (b64_encode alph s) = s"
  by (induction alph s rule: b64_encode.induct) (simp_all add: b64_decode_quad del: b64_decode.simps(1) take_Suc_Cons)

section \<open>JSON strings\<close>

text \<open>\<^verbatim>\<open>encoding/json\<close> escapes quotes, backslashes, control characters and the HTML characters.\<close>

definition hex_digit :: "nat \<Rightarrow> char" where
  "hex_digit n = (if n < 10 then char_of (48 + n) else char_of (87 + n))"

definition json_escape_char :: "char \<Rightarrow> string" where
  "json_escape_char c =
     (let n = (of_char c :: nat) in
      if n = 34 \<or> n = 92 then [CHR 0x5C, c]
      else if n = 10 then [CHR 0x5C, CHR ''n'']
      else if n = 13 then [CHR 0x5C, CHR ''r'']
      else if n = 9 then [CHR 0x5C, CHR ''t'']
      else if n < 32 \<or> n = 60 \<or> n = 62 \<or> n = 38
        then [CHR 0x5C, CHR ''u'', CHR ''0'', CHR ''0'', hex_digit (n div 16), hex_digit (n mod 16)]
      else [c])"

definition json_string :: "string \<Rightarrow> string" where
  "json_string s = [CHR 0x22] @ concat (map json_escape_char s) @ [CHR 0x22]"

text \<open>An object of string members, those with an empty string left out (\<open>omitempty\<close>).\<close>

definition json_object :: "(string \<times> string) list \<Rightarrow> string" where
  "json_object kvs =
     ''{'' @ join_with '','' (map (\<lambda>(k, v). json_string k @ '':'' @ json_string v)
                              (filter (\<lambda>(k, v). v \<noteq> []) kvs)) @ ''}''"

end
