(* ===== verification/Docker.thy ===== *)
theory Docker
  imports RKE_Types Go_Encoding
begin

text \<open>
  \<^verbatim>\<open>docker/docker.go\<close>: running, upgrading and removing containers through a Docker client, and
  \<^verbatim>\<open>vendor/github.com/docker/distribution/reference\<close> as far as image names are concerned.

  The Docker daemon is not part of the repository: it is the parameter \<open>docker_api\<close>, one field per call of
  the client that the program makes, over an unknown daemon state \<open>'d\<close>.  What the program relies on is stated by
  \<open>docker_laws\<close> (the documented effect of each call on the containers, atomic even when the call fails),
  \<open>docker_steady\<close> (nobody else starts or stops containers meanwhile) and \<open>docker_reliable\<close> (a call whose
  documented precondition holds succeeds).
\<close>

section \<open>The Docker client\<close>

text \<open>Options of \<^verbatim>\<open>ImagePull\<close>; \<open>PrivilegeFunc\<close> is the closure's result, since it is a constant function.\<close>

record ImagePullOptions =
  RegistryAuth :: string
  PrivilegeFunc :: "string option"

record 'd docker_api =
  ContainerInspect :: "string \<Rightarrow> ('d, ContainerJSON) io"
  ContainerCreate :: "ContainerConfig \<Rightarrow> HostConfig \<Rightarrow> string \<Rightarrow> ('d, string) io"
  ContainerStart :: "string \<Rightarrow> ('d, unit) io"
  ContainerStop :: "string \<Rightarrow> ('d, unit) io"
  ContainerRename :: "string \<Rightarrow> string \<Rightarrow> ('d, unit) io"
  ContainerRemove :: "string \<Rightarrow> ('d, unit) io"
  ContainerWait :: "string \<Rightarrow> ('d, unit) io"
  ContainerList :: "bool \<Rightarrow> ('d, string list list) io"
  ImageInspect :: "string \<Rightarrow> ('d, unit) io"
  ImagePull :: "string \<Rightarrow> ImagePullOptions \<Rightarrow> ('d, unit) io"
  CopyFromContainer :: "string \<Rightarrow> string \<Rightarrow> ('d, (gerror + string) list) io"
  ContainerLogs :: "string \<Rightarrow> ('d, string) io"
  Info :: "('d, string) io"
  RefParse :: "string \<Rightarrow> gerror + (string \<times> string \<times> string \<times> string)"

definition DockerRegistryURL :: string where
  "DockerRegistryURL = ''docker.io''"

definition K8sDockerVersions :: "string list gomap" where
  "K8sDockerVersions = [(''1.8'', [''1.12.6'', ''1.13.1'', ''17.03.2''])]"

section \<open>Image references\<close>

text \<open>
  A named reference with its domain, path, tag and digest.  The regular expression that
  \<^verbatim>\<open>reference.Parse\<close> matches is the parameter \<open>RefParse\<close>.
\<close>

record Named =
  ref_domain :: string
  ref_path :: string
  ref_tag :: string
  ref_digest :: string

definition ref_Name :: "Named \<Rightarrow> string" where
  "ref_Name r = (if ref_domain r = [] then ref_path r else ref_domain r @ ''/'' @ ref_path r)"

definition ref_String :: "Named \<Rightarrow> string" where
  "ref_String r = ref_Name r @ (if ref_tag r = [] then [] else '':'' @ ref_tag r)
                             @ (if ref_digest r = [] then [] else ''@'' @ ref_digest r)"

definition is_identifier :: "string \<Rightarrow> bool" where
  "is_identifier s \<longleftrightarrow> length s = 64 \<and>
     list_all (\<lambda>c. let n = (of_char c :: nat) in 48 \<le> n \<and> n \<le> 57 \<or> 97 \<le> n \<and> n \<le> 102) s"

definition splitDockerDomain :: "string \<Rightarrow> string \<times> string" where
  "splitDockerDomain name =
     (let pre = takeWhile (\<lambda>c. c \<noteq> CHR ''/'') name;
          (dom, rest) =
            (if CHR ''/'' \<notin> set name \<or> (CHR ''.'' \<notin> set pre \<and> CHR '':'' \<notin> set pre \<and> pre \<noteq> ''localhost'')
             then (''docker.io'', name) else (pre, tl (dropWhile (\<lambda>c. c \<noteq> CHR ''/'') name)));
          dom' = (if dom = ''index.docker.io'' then ''docker.io'' else dom);
          rest' = (if dom' = ''docker.io'' \<and> CHR ''/'' \<notin> set rest then ''library/'' @ rest else rest)
      in (dom', rest'))"

definition has_upper :: "string \<Rightarrow> bool" where
  "has_upper s \<longleftrightarrow> list_ex (\<lambda>c. let n = (of_char c :: nat) in 65 \<le> n \<and> n \<le> 90) s"

definition ParseNormalizedNamed :: "'d docker_api \<Rightarrow> string \<Rightarrow> gerror + Named" where
  "ParseNormalizedNamed api s =
     (if is_identifier s then Inl (errorf (''invalid repository name ('' @ s @ ''), cannot specify 64-byte hexadecimal strings''))
      else (let (dom, rest) = splitDockerDomain s;
                remoteName = takeWhile (\<lambda>c. c \<noteq> CHR '':'') rest
            in if has_upper remoteName
               then Inl (errorf ''invalid reference format: repository name must be lowercase'')
               else (case RefParse api (dom @ ''/'' @ rest) of
                   Inl e \<Rightarrow> Inl e
                 | Inr (d, p, t, g) \<Rightarrow>
                     Inr \<lparr>ref_domain = d, ref_path = p, ref_tag = t, ref_digest = g\<rparr>)))"

section \<open>Registry credentials\<close>

text \<open>\<^verbatim>\<open>json.Marshal\<close> of \<^verbatim>\<open>types.AuthConfig\<close> cannot fail on strings, so \<open>getRegistryAuth\<close> never returns an error.\<close>

definition getRegistryAuth :: "PrivateRegistry \<Rightarrow> string" where
  "getRegistryAuth pr =
     b64_encode b64_url (json_object [(''username'', pr_User pr), (''password'', pr_Password pr)])"

definition tryRegistryAuth :: "PrivateRegistry \<Rightarrow> string" where
  "tryRegistryAuth pr = getRegistryAuth pr"

section \<open>Wrappers of single calls\<close>

definition RemoveContainer :: "'d docker_api \<Rightarrow> string \<Rightarrow> string \<Rightarrow> ('d, unit) io" where
  "RemoveContainer api hostname containerName =
     wrapIO (''Can't remove Docker container ['' @ containerName @ ''] for host ['' @ hostname @ '']: '')
       (ContainerRemove api containerName)"

definition StopContainer :: "'d docker_api \<Rightarrow> string \<Rightarrow> string \<Rightarrow> ('d, unit) io" where
  "StopContainer api hostname containerName =
     wrapIO (''Can't stop Docker container ['' @ containerName @ ''] for host ['' @ hostname @ '']: '')
       (ContainerStop api containerName)"

definition RenameContainer :: "'d docker_api \<Rightarrow> string \<Rightarrow> string \<Rightarrow> string \<Rightarrow> ('d, unit) io" where
  "RenameContainer api hostname oldContainerName newContainerName =
     wrapIO (''Can't rename Docker container ['' @ oldContainerName @ ''] for host ['' @ hostname @ '']: '')
       (ContainerRename api oldContainerName newContainerName)"

definition StartContainer :: "'d docker_api \<Rightarrow> string \<Rightarrow> string \<Rightarrow> ('d, unit) io" where
  "StartContainer api hostname containerName =
     wrapIO (''Failed to start ['' @ containerName @ ''] container on host ['' @ hostname @ '']: '')
       (ContainerStart api containerName)"

definition CreateContiner ::
  "'d docker_api \<Rightarrow> string \<Rightarrow> string \<Rightarrow> ContainerConfig \<Rightarrow> HostConfig \<Rightarrow> ('d, string) io" where
  "CreateContiner api hostname containerName imageCfg hostCfg =
     wrapIO (''Failed to create ['' @ containerName @ ''] container on host ['' @ hostname @ '']: '')
       (ContainerCreate api imageCfg hostCfg containerName)"

definition InspectContainer :: "'d docker_api \<Rightarrow> string \<Rightarrow> string \<Rightarrow> ('d, ContainerJSON) io" where
  "InspectContainer api hostname containerName =
     wrapIO (''Failed to inspect ['' @ containerName @ ''] container on host ['' @ hostname @ '']: '')
       (ContainerInspect api containerName)"

definition WaitForContainer :: "'d docker_api \<Rightarrow> string \<Rightarrow> ('d, unit) io" where
  "WaitForContainer api containerName =
     wrapIO (''Error wating for container ['' @ containerName @ '']: '') (ContainerWait api containerName)"

text \<open>A failed wait ends \<open>StopRenameContainer\<close> with no error and no rename.\<close>

definition StopRenameContainer :: "'d docker_api \<Rightarrow> string \<Rightarrow> string \<Rightarrow> string \<Rightarrow> ('d, unit) io" where
  "StopRenameContainer api hostname oldContainerName newContainerName =
     thenIO (StopContainer api hostname oldContainerName)
       (tryIO (WaitForContainer api oldContainerName)
          (\<lambda>_. retIO ())
          (\<lambda>_. RenameContainer api hostname oldContainerName newContainerName))"

text \<open>\<open>container.Names[0]\<close> panics on a container without names.\<close>

fun names_match :: "string \<Rightarrow> string list list \<Rightarrow> bool outcome" where
  "names_match containerName [] = Ret False"
| "names_match containerName ([] # cs) = Panic ''index out of range''"
| "names_match containerName ((nm # _) # cs) =
     (if nm = ''/'' @ containerName then Ret True else names_match containerName cs)"

definition IsContainerRunning :: "'d docker_api \<Rightarrow> string \<Rightarrow> string \<Rightarrow> bool \<Rightarrow> ('d, bool) io" where
  "IsContainerRunning api hostname containerName all =
     bindIO (wrapIO (''Can't get Docker containers for host ['' @ hostname @ '']: '') (ContainerList api all))
       (\<lambda>containers w. (names_match containerName containers, w))"

definition localImageExists :: "'d docker_api \<Rightarrow> string \<Rightarrow> string \<Rightarrow> ('d, bool) io" where
  "localImageExists api hostname containerImage =
     tryIO (ImageInspect api containerImage)
       (\<lambda>err. if ekind err = EDockerNotFound then retIO False
              else failIO (errorf (''Error checking if image ['' @ containerImage @ ''] exists on host [''
                                   @ hostname @ '']: '' @ emsg err)))
       (\<lambda>_. retIO True)"

definition pullImage :: "'d docker_api \<Rightarrow> string \<Rightarrow> string \<Rightarrow> PrivateRegistry gomap \<Rightarrow> ('d, unit) io" where
  "pullImage api hostname containerImage prsMap =
     (case ParseNormalizedNamed api containerImage of
        Inl e \<Rightarrow> failIO e
      | Inr containerNamed \<Rightarrow>
          (let regURL = ref_domain containerNamed;
               pullOptions =
                 (case mget prsMap regURL of
                    None \<Rightarrow> \<lparr>RegistryAuth = [], PrivilegeFunc = None\<rparr>
                  | Some pr \<Rightarrow>
                      if pr_URL pr = DockerRegistryURL
                      then \<lparr>RegistryAuth = getRegistryAuth pr, PrivilegeFunc = None\<rparr>
                      else \<lparr>RegistryAuth = [], PrivilegeFunc = Some (tryRegistryAuth pr)\<rparr>)
           in wrapIO (''Can't pull Docker image ['' @ containerImage @ ''] for host ['' @ hostname @ '']: '')
                (ImagePull api containerImage pullOptions)))"

definition UseLocalOrPull :: "'d docker_api \<Rightarrow> string \<Rightarrow> string \<Rightarrow> PrivateRegistry gomap \<Rightarrow> ('d, unit) io" where
  "UseLocalOrPull api hostname containerImage prsMap =
     bindIO (localImageExists api hostname containerImage)
       (\<lambda>imageExists. if imageExists then retIO () else pullImage api hostname containerImage prsMap)"

text \<open>An upgrade is due when the image or the command differs; the entry point is not compared.\<close>

definition IsContainerUpgradable :: "'d docker_api \<Rightarrow> ContainerConfig \<Rightarrow> string \<Rightarrow> string \<Rightarrow> ('d, bool) io" where
  "IsContainerUpgradable api imageCfg containerName hostname =
     bindIO (InspectContainer api hostname containerName)
       (\<lambda>j. retIO (json_Image j \<noteq> Image imageCfg \<or> json_Cmd j \<noteq> Cmd imageCfg))"

section \<open>Running, updating, removing\<close>

definition old_name :: "string \<Rightarrow> string" where
  "old_name containerName = ''old-'' @ containerName"

definition DoRollingUpdateContainer ::
  "'d docker_api \<Rightarrow> ContainerConfig \<Rightarrow> HostConfig \<Rightarrow> string \<Rightarrow> string \<Rightarrow> PrivateRegistry gomap \<Rightarrow> ('d, unit) io" where
  "DoRollingUpdateContainer api imageCfg hostCfg containerName hostname prsMap =
     bindIO (IsContainerRunning api hostname containerName False)
       (\<lambda>isRunning. if \<not> isRunning then retIO ()
         else (let oldContainerName = old_name containerName in
           thenIO (UseLocalOrPull api hostname (Image imageCfg) prsMap)
          (thenIO (StopRenameContainer api hostname containerName oldContainerName)
          (thenIO (wrapIO (''Failed to create ['' @ containerName @ ''] container on host ['' @ hostname @ '']: '')
                     (CreateContiner api hostname containerName imageCfg hostCfg))
          (thenIO (wrapIO (''Failed to start ['' @ containerName @ ''] container on host ['' @ hostname @ '']: '')
                     (StartContainer api hostname containerName))
             (RemoveContainer api hostname oldContainerName))))))"

definition DoRunContainer ::
  "'d docker_api \<Rightarrow> ContainerConfig \<Rightarrow> HostConfig \<Rightarrow> string \<Rightarrow> string \<Rightarrow> PrivateRegistry gomap \<Rightarrow> ('d, unit) io" where
  "DoRunContainer api imageCfg hostCfg containerName hostname prsMap =
     tryIO (ContainerInspect api containerName)
       (\<lambda>err. if ekind err \<noteq> EDockerNotFound then failIO err
         else thenIO (UseLocalOrPull api hostname (Image imageCfg) prsMap)
          (bindIO (wrapIO (''Failed to create ['' @ containerName @ ''] container on host ['' @ hostname @ '']: '')
                     (ContainerCreate api imageCfg hostCfg containerName))
            (\<lambda>i. wrapIO (''Failed to start ['' @ containerName @ ''] container on host ['' @ hostname @ '']: '')
                    (ContainerStart api i))))
       (\<lambda>j. if Running j then
              bindIO (IsContainerUpgradable api imageCfg containerName hostname)
                (\<lambda>isUpgradable. if isUpgradable
                   then DoRollingUpdateContainer api imageCfg hostCfg containerName hostname prsMap
                   else retIO ())
            else wrapIO (''Failed to start ['' @ containerName @ ''] container on host ['' @ hostname @ '']: '')
                   (ContainerStart api (ID j)))"

definition DoRemoveContainer :: "'d docker_api \<Rightarrow> string \<Rightarrow> string \<Rightarrow> ('d, unit) io" where
  "DoRemoveContainer api containerName hostname =
     tryIO (ContainerInspect api containerName)
       (\<lambda>err. if ekind err = EDockerNotFound then retIO () else failIO err)
       (\<lambda>_. thenIO (StopContainer api hostname containerName)
              (RemoveContainer api hostname containerName))"

section \<open>Reading from containers, versions\<close>

text \<open>A tar stream is the list of what successive \<^verbatim>\<open>Next\<close> calls give; its end is \<^verbatim>\<open>io.EOF\<close>.\<close>

definition ReadFileFromContainer :: "'d docker_api \<Rightarrow> string \<Rightarrow> string \<Rightarrow> string \<Rightarrow> ('d, string) io" where
  "ReadFileFromContainer api hostname cont filePath =
     bindIO (wrapIO (''Failed to copy file ['' @ filePath @ ''] from container ['' @ cont @ ''] on host [''
                     @ hostname @ '']: '') (CopyFromContainer api cont filePath))
       (\<lambda>entries. case entries of
          [] \<Rightarrow> failIO (errorf ''EOF'')
        | Inl e # _ \<Rightarrow> failIO e
        | Inr file # _ \<Rightarrow> retIO file)"

definition ReadContainerLogs :: "'d docker_api \<Rightarrow> string \<Rightarrow> ('d, string) io" where
  "ReadContainerLogs api containerName = ContainerLogs api containerName"

text \<open>
  \<^verbatim>\<open>regexp.MustCompile("^" + v).MatchString(s)\<close> for a version \<open>v\<close> of digits and dots: a dot of the pattern matches
  any character but a newline.
\<close>

fun re_prefix :: "string \<Rightarrow> string \<Rightarrow> bool" where
  "re_prefix [] s = True"
| "re_prefix (p # ps) [] = False"
| "re_prefix (p # ps) (c # s) =
     ((if p = CHR ''.'' then c \<noteq> CHR 0x0A else c = p) \<and> re_prefix ps s)"

definition IsSupportedDockerVersion :: "string \<Rightarrow> string \<Rightarrow> bool" where
  "IsSupportedDockerVersion serverVersion K8sVersion =
     (case mget K8sDockerVersions K8sVersion of
        None \<Rightarrow> False
      | Some vs \<Rightarrow> list_ex (\<lambda>v. re_prefix v serverVersion) vs)"

end
