(* ===== verification/Docker_Laws.thy ===== *)
theory Docker_Laws
  imports Docker
begin

text \<open>
  What \<^verbatim>\<open>docker/docker.go\<close> achieves: the documented behaviour of the Docker daemon as hypotheses on the
  parameter \<open>docker_api\<close>, and the properties of the operations that run, update and remove containers.

  A daemon state is seen through \<open>dview\<close>: the containers by name and the images present.  \<open>c_up\<close> says that a container
  has been started and not stopped by a client since.
\<close>

section \<open>The daemon as seen by its clients\<close>

record cont =
  c_id :: string
  c_up :: bool
  c_image :: string
  c_cmd :: "string list option"

record dview =
  conts :: "string \<rightharpoonup> cont"
  images :: "string \<Rightarrow> bool"

definition is_hex :: "char \<Rightarrow> bool" where
  "is_hex c \<longleftrightarrow> (let n = (of_char c :: nat) in 48 \<le> n \<and> n \<le> 57 \<or> 97 \<le> n \<and> n \<le> 102)"

text \<open>
  A name with a character that is no hexadecimal digit is never taken for an identifier or a prefix of one.
\<close>

definition proper_name :: "string \<Rightarrow> bool" where
  "proper_name n \<longleftrightarrow> \<not> list_all is_hex n"

definition resolves :: "dview \<Rightarrow> string \<Rightarrow> string \<Rightarrow> cont \<Rightarrow> bool" where
  "resolves v r m c \<longleftrightarrow> conts v m = Some c \<and> (if proper_name r then m = r else c_id c = r)"

text \<open>A reference the program uses: a name, or the identifier of a container that exists.\<close>

definition okref :: "dview \<Rightarrow> string \<Rightarrow> bool" where
  "okref v r \<longleftrightarrow> proper_name r \<or> (\<exists>m c. conts v m = Some c \<and> c_id c = r)"

definition view_wf :: "dview \<Rightarrow> bool" where
  "view_wf v \<longleftrightarrow> (\<forall>m c. conts v m = Some c \<longrightarrow> \<not> proper_name (c_id c)) \<and>
     (\<forall>m c m' c'. conts v m = Some c \<longrightarrow> conts v m' = Some c' \<longrightarrow> c_id c = c_id c' \<longrightarrow> m = m')"

definition set_cont :: "string \<Rightarrow> cont option \<Rightarrow> dview \<Rightarrow> dview" where
  "set_cont m c v = v\<lparr>conts := (conts v)(m := c)\<rparr>"

text \<open>A call takes effect or not, whatever it returns; a call that returns has taken effect.\<close>

definition atomic_call ::
  "('d \<Rightarrow> dview) \<Rightarrow> dview \<Rightarrow> ('d, 'a) io \<Rightarrow> ('a \<Rightarrow> dview \<Rightarrow> dview \<Rightarrow> bool) \<Rightarrow> bool" where
  "atomic_call view v m R \<longleftrightarrow>
     vtriple view v m (\<lambda>x v'. R x v v') (\<lambda>e v'. v' = v \<or> (\<exists>x. R x v v'))"

definition start_rel :: "string \<Rightarrow> unit \<Rightarrow> dview \<Rightarrow> dview \<Rightarrow> bool" where
  "start_rel r x v v' \<longleftrightarrow> (\<exists>m c. resolves v r m c \<and> v' = set_cont m (Some (c\<lparr>c_up := True\<rparr>)) v)"

definition stop_rel :: "string \<Rightarrow> unit \<Rightarrow> dview \<Rightarrow> dview \<Rightarrow> bool" where
  "stop_rel r x v v' \<longleftrightarrow> (\<exists>m c. resolves v r m c \<and> v' = set_cont m (Some (c\<lparr>c_up := False\<rparr>)) v)"

definition remove_rel :: "string \<Rightarrow> unit \<Rightarrow> dview \<Rightarrow> dview \<Rightarrow> bool" where
  "remove_rel r x v v' \<longleftrightarrow> (\<exists>m c. resolves v r m c \<and> v' = set_cont m None v)"

definition rename_rel :: "string \<Rightarrow> string \<Rightarrow> unit \<Rightarrow> dview \<Rightarrow> dview \<Rightarrow> bool" where
  "rename_rel a b x v v' \<longleftrightarrow>
     (\<exists>m c. resolves v a m c \<and> conts v b = None \<and> v' = set_cont b (Some c) (set_cont m None v))"

definition create_rel :: "ContainerConfig \<Rightarrow> string \<Rightarrow> string \<Rightarrow> dview \<Rightarrow> dview \<Rightarrow> bool" where
  "create_rel cfg n i v v' \<longleftrightarrow>
     conts v n = None \<and> \<not> proper_name i \<and> (\<forall>m c. conts v m = Some c \<longrightarrow> c_id c \<noteq> i) \<and>
     (\<exists>cmd. (Cmd cfg \<noteq> None \<or> Entrypoint cfg \<noteq> None \<longrightarrow> cmd = Cmd cfg) \<and>
        v' = set_cont n (Some \<lparr>c_id = i, c_up = False, c_image = Image cfg, c_cmd = cmd\<rparr>) v)"

definition inspect_rel :: "string \<Rightarrow> ContainerJSON \<Rightarrow> dview \<Rightarrow> bool" where
  "inspect_rel r j v \<longleftrightarrow> (\<exists>m c. resolves v r m c \<and> ID j = c_id c \<and> json_Image j = c_image c \<and>
     json_Cmd j = c_cmd c \<and> (Running j \<longrightarrow> c_up c))"

definition unresolved :: "string \<Rightarrow> dview \<Rightarrow> bool" where
  "unresolved r v \<longleftrightarrow> (\<forall>m c. \<not> resolves v r m c)"

definition listed :: "string \<Rightarrow> string list list \<Rightarrow> bool" where
  "listed n ls \<longleftrightarrow> (\<exists>names \<in> set ls. hd names = ''/'' @ n)"

text \<open>
  The documented behaviour of the daemon.  Containers have unique identifiers of hexadecimal digits; a
  container is found by its name or its identifier; a name is given to one container at a time.
\<close>

definition docker_laws :: "'d docker_api \<Rightarrow> ('d \<Rightarrow> dview) \<Rightarrow> bool" where
  "docker_laws api view \<longleftrightarrow>
     (\<forall>d. view_wf (view d)) \<and>
     (\<forall>r v. proper_name r \<longrightarrow> vtriple view v (ContainerInspect api r)
        (\<lambda>j v'. v' = v \<and> inspect_rel r j v)
        (\<lambda>e v'. v' = v \<and> (ekind e = EDockerNotFound \<longrightarrow> unresolved r v))) \<and>
     (\<forall>cfg hcfg n v. proper_name n \<longrightarrow> atomic_call view v (ContainerCreate api cfg hcfg n) (create_rel cfg n)) \<and>
     (\<forall>r v. okref v r \<longrightarrow> atomic_call view v (ContainerStart api r) (start_rel r)) \<and>
     (\<forall>r v. proper_name r \<longrightarrow> atomic_call view v (ContainerStop api r) (stop_rel r)) \<and>
     (\<forall>a b v. proper_name a \<longrightarrow> proper_name b \<longrightarrow> atomic_call view v (ContainerRename api a b) (rename_rel a b)) \<and>
     (\<forall>r v. okref v r \<longrightarrow> atomic_call view v (ContainerRemove api r) (remove_rel r)) \<and>
     (\<forall>r v. vtriple view v (ContainerWait api r) (\<lambda>_ v'. v' = v) (\<lambda>_ v'. v' = v)) \<and>
     (\<forall>all v. vtriple view v (ContainerList api all)
        (\<lambda>ls v'. v' = v \<and> (\<forall>names \<in> set ls. names \<noteq> []) \<and>
           (\<forall>n. listed n ls \<longrightarrow> (\<exists>c. conts v n = Some c \<and> (all \<or> c_up c))) \<and>
           (\<forall>n c. all \<longrightarrow> conts v n = Some c \<longrightarrow> listed n ls))
        (\<lambda>_ v'. v' = v)) \<and>
     (\<forall>r v. vtriple view v (ImageInspect api r)
        (\<lambda>_ v'. v' = v \<and> images v r) (\<lambda>e v'. v' = v \<and> (ekind e = EDockerNotFound \<longrightarrow> \<not> images v r))) \<and>
     (\<forall>r opts v. vtriple view v (ImagePull api r opts)
        (\<lambda>_ v'. conts v' = conts v \<and> images v \<le> images v') (\<lambda>_ v'. conts v' = conts v \<and> images v \<le> images v')) \<and>
     (\<forall>r p v. vtriple view v (CopyFromContainer api r p) (\<lambda>_ v'. v' = v) (\<lambda>_ v'. v' = v)) \<and>
     (\<forall>r v. vtriple view v (ContainerLogs api r) (\<lambda>_ v'. v' = v) (\<lambda>_ v'. v' = v)) \<and>
     (\<forall>v. vtriple view v (Info api) (\<lambda>_ v'. v' = v) (\<lambda>_ v'. v' = v))"

text \<open>Containers run from their start to their stop: none exits or restarts by itself.\<close>

definition docker_steady :: "'d docker_api \<Rightarrow> ('d \<Rightarrow> dview) \<Rightarrow> bool" where
  "docker_steady api view \<longleftrightarrow>
     (\<forall>r v. proper_name r \<longrightarrow> vtriple view v (ContainerInspect api r)
        (\<lambda>j _. \<forall>m c. resolves v r m c \<longrightarrow> Running j = c_up c) (\<lambda>_ _. True)) \<and>
     (\<forall>v. vtriple view v (ContainerList api False)
        (\<lambda>ls _. \<forall>n c. conts v n = Some c \<longrightarrow> c_up c \<longrightarrow> listed n ls) (\<lambda>_ _. True))"

text \<open>
  A daemon in service: a call whose documented precondition holds succeeds, an absent container or image is reported as
  such, and pulling an image makes it present.
\<close>

definition docker_reliable :: "'d docker_api \<Rightarrow> ('d \<Rightarrow> dview) \<Rightarrow> bool" where
  "docker_reliable api view \<longleftrightarrow>
     (\<forall>r v. proper_name r \<longrightarrow> vtriple view v (ContainerInspect api r) (\<lambda>_ _. True)
        (\<lambda>e _. ekind e = EDockerNotFound)) \<and>
     (\<forall>cfg hcfg n v. proper_name n \<longrightarrow> conts v n = None \<longrightarrow> images v (Image cfg) \<longrightarrow>
        vtriple view v (ContainerCreate api cfg hcfg n) (\<lambda>_ _. True) (\<lambda>_ _. False)) \<and>
     (\<forall>r v m c. resolves v r m c \<longrightarrow> vtriple view v (ContainerStart api r) (\<lambda>_ _. True) (\<lambda>_ _. False)) \<and>
     (\<forall>r v m c. resolves v r m c \<longrightarrow> vtriple view v (ContainerStop api r) (\<lambda>_ _. True) (\<lambda>_ _. False)) \<and>
     (\<forall>a b v m c. resolves v a m c \<longrightarrow> conts v b = None \<longrightarrow>
        vtriple view v (ContainerRename api a b) (\<lambda>_ _. True) (\<lambda>_ _. False)) \<and>
     (\<forall>r v m c. resolves v r m c \<longrightarrow> \<not> c_up c \<longrightarrow>
        vtriple view v (ContainerRemove api r) (\<lambda>_ _. True) (\<lambda>_ _. False)) \<and>
     (\<forall>r v m c. resolves v r m c \<longrightarrow> \<not> c_up c \<longrightarrow>
        vtriple view v (ContainerWait api r) (\<lambda>_ _. True) (\<lambda>_ _. False)) \<and>
     (\<forall>all v. vtriple view v (ContainerList api all) (\<lambda>_ _. True) (\<lambda>_ _. False)) \<and>
     (\<forall>r v. vtriple view v (ImageInspect api r) (\<lambda>_ _. True) (\<lambda>e _. ekind e = EDockerNotFound)) \<and>
     (\<forall>r opts v. vtriple view v (ImagePull api r opts) (\<lambda>_ v'. images v' r) (\<lambda>_ _. False))"

lemma view_wfD: "docker_laws api view \<Longrightarrow> view_wf (view d)"
  by (simp add: docker_laws_def)

lemma proper_old [simp]: "proper_name (old_name n)"
  by (simp add: proper_name_def is_hex_def old_name_def)

lemma resolves_proper [simp]: "proper_name n \<Longrightarrow> resolves v n m c \<longleftrightarrow> m = n \<and> conts v n = Some c"
  by (auto simp: resolves_def)

lemma resolves_id:
  "view_wf v \<Longrightarrow> conts v n = Some c \<Longrightarrow> resolves v (c_id c) m c' \<longleftrightarrow> m = n \<and> c' = c"
  unfolding resolves_def view_wf_def by (metis option.inject)

lemma okref_proper [simp]: "proper_name n \<Longrightarrow> okref v n"
  by (simp add: okref_def)

lemma conts_set_cont [simp]: "conts (set_cont m c v) = (conts v)(m := c)"
  by (simp add: set_cont_def)

lemma images_set_cont [simp]: "images (set_cont m c v) = images v"
  by (simp add: set_cont_def)

text \<open>A triple may use that the view it starts from is well formed.\<close>

lemma vtriple_wf:
  assumes "docker_laws api view" "view_wf v \<Longrightarrow> vtriple view v m Q E"
  shows "vtriple view v m Q E"
  proof (cases "\<exists>w. view w = v")
  case True
  with view_wfD[OF assms(1)] have "view_wf v" by auto
  then show ?thesis by (rule assms(2))
qed (auto simp: vtriple_def)

section \<open>The calls as triples\<close>

lemma inspect_triple:
  assumes "docker_laws api view" "proper_name n"
  shows "vtriple view v (ContainerInspect api n)
     (\<lambda>j v'. v' = v \<and> (\<exists>c. conts v n = Some c \<and> ID j = c_id c \<and> json_Image j = c_image c \<and>
        json_Cmd j = c_cmd c \<and> (Running j \<longrightarrow> c_up c)))
     (\<lambda>e v'. v' = v \<and> (ekind e = EDockerNotFound \<longrightarrow> conts v n = None))"
proof -
  from assms have "vtriple view v (ContainerInspect api n) (\<lambda>j v'. v' = v \<and> inspect_rel n j v)
        (\<lambda>e v'. v' = v \<and> (ekind e = EDockerNotFound \<longrightarrow> unresolved n v))"
    by (simp add: docker_laws_def)
  then show ?thesis
    by (rule vtriple_conseq) (auto simp: inspect_rel_def unresolved_def assms(2))
qed

lemma start_triple:
  assumes "docker_laws api view" "okref v r"
  shows "vtriple view v (ContainerStart api r) (\<lambda>x v'. start_rel r x v v')
     (\<lambda>e v'. v' = v \<or> start_rel r () v v')"
  using assms by (auto simp: docker_laws_def atomic_call_def)

lemma stop_triple:
  assumes "docker_laws api view" "proper_name n"
  shows "vtriple view v (StopContainer api h n)
     (\<lambda>x v'. \<exists>c. conts v n = Some c \<and> v' = set_cont n (Some (c\<lparr>c_up := False\<rparr>)) v)
     (\<lambda>e v'. v' = v \<or> (\<exists>c. conts v n = Some c \<and> v' = set_cont n (Some (c\<lparr>c_up := False\<rparr>)) v))"
proof -
  from assms have "vtriple view v (ContainerStop api n) (\<lambda>x v'. stop_rel n x v v')
     (\<lambda>e v'. v' = v \<or> (\<exists>x. stop_rel n x v v'))"
    by (simp add: docker_laws_def atomic_call_def)
  then show ?thesis
    unfolding StopContainer_def
    by (intro vtriple_wrap, elim vtriple_conseq) (auto simp: stop_rel_def assms(2))
qed

lemma remove_id_triple:
  assumes "docker_laws api view" "conts v n = Some c"
  shows "vtriple view v (ContainerRemove api (c_id c)) (\<lambda>x v'. v' = set_cont n None v)
     (\<lambda>e v'. v' = v \<or> v' = set_cont n None v)"
proof (rule vtriple_wf[OF assms(1)])
  assume wf: "view_wf v"
  have "okref v (c_id c)" using assms(2) by (auto simp: okref_def)
  with assms(1) have "vtriple view v (ContainerRemove api (c_id c)) (\<lambda>x v'. remove_rel (c_id c) x v v')
     (\<lambda>e v'. v' = v \<or> (\<exists>x. remove_rel (c_id c) x v v'))"
    by (simp add: docker_laws_def atomic_call_def)
  then show ?thesis by (rule vtriple_conseq) (auto simp: remove_rel_def resolves_id[OF wf assms(2)])
qed

lemma remove_triple:
  assumes "docker_laws api view" "proper_name n"
  shows "vtriple view v (RemoveContainer api h n)
     (\<lambda>x v'. conts v n \<noteq> None \<and> v' = set_cont n None v) (\<lambda>e v'. v' = v \<or> v' = set_cont n None v)"
proof -
  from assms have "vtriple view v (ContainerRemove api n) (\<lambda>x v'. remove_rel n x v v')
     (\<lambda>e v'. v' = v \<or> (\<exists>x. remove_rel n x v v'))"
    by (simp add: docker_laws_def atomic_call_def)
  then show ?thesis
    unfolding RemoveContainer_def
    by (intro vtriple_wrap, elim vtriple_conseq) (auto simp: remove_rel_def assms(2))
qed

lemma rename_triple:
  assumes "docker_laws api view" "proper_name a" "proper_name b"
  shows "vtriple view v (RenameContainer api h a b)
     (\<lambda>x v'. \<exists>c. conts v a = Some c \<and> conts v b = None \<and> v' = set_cont b (Some c) (set_cont a None v))
     (\<lambda>e v'. v' = v \<or>
        (\<exists>c. conts v a = Some c \<and> conts v b = None \<and> v' = set_cont b (Some c) (set_cont a None v)))"
proof -
  from assms have "vtriple view v (ContainerRename api a b) (\<lambda>x v'. rename_rel a b x v v')
     (\<lambda>e v'. v' = v \<or> (\<exists>x. rename_rel a b x v v'))"
    by (simp add: docker_laws_def atomic_call_def)
  then show ?thesis
    unfolding RenameContainer_def
    by (intro vtriple_wrap, elim vtriple_conseq) (auto simp: rename_rel_def assms(2))
qed

lemma create_triple:
  assumes "docker_laws api view" "proper_name n"
  shows "vtriple view v (ContainerCreate api cfg hcfg n) (\<lambda>i v'. create_rel cfg n i v v')
     (\<lambda>e v'. v' = v \<or> (\<exists>i. create_rel cfg n i v v'))"
  using assms by (simp add: docker_laws_def atomic_call_def)

lemma wait_triple:
  assumes "docker_laws api view"
  shows "vtriple view v (WaitForContainer api n) (\<lambda>x v'. v' = v) (\<lambda>e v'. v' = v)"
  using assms unfolding WaitForContainer_def by (intro vtriple_wrap) (simp add: docker_laws_def)

lemma names_match_Ret:
  "\<forall>names \<in> set ls. names \<noteq> [] \<Longrightarrow> names_match n ls = Ret (listed n ls)"
  by (induction n ls rule: names_match.induct) (auto simp: listed_def)

lemma list_triple:
  assumes "docker_laws api view"
  shows "vtriple view v (ContainerList api all)
        (\<lambda>ls v'. v' = v \<and> (\<forall>names \<in> set ls. names \<noteq> []) \<and>
           (\<forall>n. listed n ls \<longrightarrow> (\<exists>c. conts v n = Some c \<and> (all \<or> c_up c))) \<and>
           (\<forall>n c. all \<longrightarrow> conts v n = Some c \<longrightarrow> listed n ls))
        (\<lambda>_ v'. v' = v)"
  using assms by (simp add: docker_laws_def)

lemma running_triple:
  assumes "docker_laws api view"
  shows "vtriple view v (IsContainerRunning api h n all)
     (\<lambda>b v'. v' = v \<and> (b \<longrightarrow> (\<exists>c. conts v n = Some c \<and> (all \<or> c_up c))) \<and>
             (all \<longrightarrow> conts v n \<noteq> None \<longrightarrow> b))
     (\<lambda>e v'. v' = v)"
  unfolding IsContainerRunning_def
  by (rule vtriple_bind[OF vtriple_wrap[OF list_triple[OF assms]]]) (auto simp: vtriple_def names_match_Ret)

text \<open>Fetching an image touches no container.\<close>

lemma pull_triple:
  assumes "docker_laws api view"
  shows "vtriple view v (pullImage api h img prs) (\<lambda>x v'. conts v' = conts v) (\<lambda>e v'. conts v' = conts v)"
proof -
  have "vtriple view v (ImagePull api img opts) (\<lambda>x v'. conts v' = conts v) (\<lambda>e v'. conts v' = conts v)" for opts
    by (rule vtriple_conseq[where Q = "\<lambda>_ v'. conts v' = conts v \<and> images v \<le> images v'" and
          E = "\<lambda>_ v'. conts v' = conts v \<and> images v \<le> images v'"])
       (use assms in \<open>auto simp: docker_laws_def\<close>)
  then show ?thesis
    unfolding pullImage_def
    by (auto split: sum.splits option.splits intro!: vtriple_fail vtriple_wrap simp: Let_def)
qed

lemma image_exists_triple:
  assumes "docker_laws api view"
  shows "vtriple view v (localImageExists api h img) (\<lambda>b v'. v' = v \<and> b = images v img) (\<lambda>e v'. v' = v)"
  unfolding localImageExists_def
proof (rule vtriple_try)
  show "vtriple view v (ImageInspect api img) (\<lambda>_ v'. v' = v \<and> images v img)
      (\<lambda>e v'. v' = v \<and> (ekind e = EDockerNotFound \<longrightarrow> \<not> images v img))"
    using assms by (simp add: docker_laws_def)
qed (auto intro!: vtriple_ret vtriple_fail)

lemma use_or_pull_triple:
  assumes "docker_laws api view"
  shows "vtriple view v (UseLocalOrPull api h img prs) (\<lambda>x v'. conts v' = conts v) (\<lambda>e v'. conts v' = conts v)"
  unfolding UseLocalOrPull_def
  by (rule vtriple_bind[OF vtriple_conseq[OF image_exists_triple[OF assms]]])
     (auto intro!: vtriple_ret pull_triple assms)

lemma upgradable_triple:
  assumes "docker_laws api view" "proper_name n"
  shows "vtriple view v (IsContainerUpgradable api cfg n h)
     (\<lambda>b v'. v' = v \<and> (\<exists>c. conts v n = Some c \<and> b = (c_image c \<noteq> Image cfg \<or> c_cmd c \<noteq> Cmd cfg)))
     (\<lambda>e v'. v' = v)"
  unfolding IsContainerUpgradable_def InspectContainer_def
  by (rule vtriple_bind[OF vtriple_wrap[OF vtriple_conseq[OF inspect_triple[OF assms]]]])
     (auto intro!: vtriple_ret)

section \<open>Running and updating\<close>

text \<open>Only the container of that name and the one it is set aside as are touched.\<close>

definition only_named :: "string \<Rightarrow> dview \<Rightarrow> dview \<Rightarrow> bool" where
  "only_named n v v' \<longleftrightarrow> (\<forall>m. m \<noteq> n \<longrightarrow> m \<noteq> old_name n \<longrightarrow> conts v' m = conts v m)"

text \<open>The container is still there under one of the two names, or its replacement is up.\<close>

definition not_lost :: "ContainerConfig \<Rightarrow> string \<Rightarrow> dview \<Rightarrow> dview \<Rightarrow> bool" where
  "not_lost cfg n v v' \<longleftrightarrow> (\<forall>c. conts v n = Some c \<longrightarrow>
     (\<exists>m \<in> {n, old_name n}. \<exists>c'. conts v' m = Some c' \<and> c_id c' = c_id c) \<or>
     (\<exists>c'. conts v' n = Some c' \<and> c_up c' \<and> c_image c' = Image cfg))"

text \<open>The container a configuration asks for.\<close>

definition matches :: "ContainerConfig \<Rightarrow> cont \<Rightarrow> bool" where
  "matches cfg c \<longleftrightarrow> c_up c \<and> c_image c = Image cfg \<and>
     (Cmd cfg \<noteq> None \<or> Entrypoint cfg \<noteq> None \<longrightarrow> c_cmd c = Cmd cfg)"

definition replaced :: "ContainerConfig \<Rightarrow> string \<Rightarrow> dview \<Rightarrow> dview \<Rightarrow> bool" where
  "replaced cfg n v v' \<longleftrightarrow> (\<exists>c. matches cfg c \<and> conts v' = (conts v)(n \<mapsto> c, old_name n := None))"

lemma old_name_neq [simp]: "old_name n \<noteq> n" "n \<noteq> old_name n"
  unfolding old_name_def by (metis append_self_conv2 list.distinct(1))+

lemma running_steady_triple:
  assumes "docker_laws api view" "S \<Longrightarrow> docker_steady api view"
  shows "vtriple view v (IsContainerRunning api h n False)
     (\<lambda>b v'. v' = v \<and> (S \<longrightarrow> (\<exists>c. conts v n = Some c \<and> c_up c) \<longrightarrow> b)) (\<lambda>e v'. v' = v)"
proof -
  have s: "vtriple view v (ContainerList api False)
        (\<lambda>ls v'. S \<longrightarrow> (\<forall>n c. conts v n = Some c \<longrightarrow> c_up c \<longrightarrow> listed n ls)) (\<lambda>_ v'. True)"
  proof (cases S)
    case True
    with assms(2) show ?thesis by (auto simp: docker_steady_def)
  next
    case False
    then show ?thesis by (intro vtriple_conseq[OF list_triple[OF assms(1)]]) auto
  qed
  show ?thesis
    unfolding IsContainerRunning_def
    by (rule vtriple_bind[OF vtriple_wrap[OF vtriple_conseq[OF vtriple_conj[OF list_triple[OF assms(1)] s]]]], assumption)
       (auto simp: vtriple_def names_match_Ret)
qed

lemma stop_rename_triple:
  assumes "docker_laws api view" "proper_name n" "conts v n = Some c"
  shows "vtriple view v (StopRenameContainer api h n (old_name n))
     (\<lambda>x v'. v' = set_cont n (Some (c\<lparr>c_up := False\<rparr>)) v \<or>
             v' = set_cont (old_name n) (Some (c\<lparr>c_up := False\<rparr>)) (set_cont n None v) \<and> conts v (old_name n) = None)
     (\<lambda>e v'. only_named n v v' \<and> not_lost cfg n v v')"
  unfolding StopRenameContainer_def
proof (rule vtriple_then[OF vtriple_conseq[OF stop_triple[OF assms(1,2)]]])
  fix x v1
  assume "\<exists>c. conts v n = Some c \<and> v1 = set_cont n (Some (c\<lparr>c_up := False\<rparr>)) v"
  then have v1: "v1 = set_cont n (Some (c\<lparr>c_up := False\<rparr>)) v" using assms(3) by auto
  show "vtriple view v1 (tryIO (WaitForContainer api n) (\<lambda>_. retIO ()) (\<lambda>_. RenameContainer api h n (old_name n)))
     (\<lambda>x v'. v' = set_cont n (Some (c\<lparr>c_up := False\<rparr>)) v \<or>
             v' = set_cont (old_name n) (Some (c\<lparr>c_up := False\<rparr>)) (set_cont n None v) \<and> conts v (old_name n) = None)
     (\<lambda>e v'. only_named n v v' \<and> not_lost cfg n v v')"
    by (rule vtriple_try[OF wait_triple[OF assms(1)]], rule vtriple_ret, simp add: v1,
        rule vtriple_conseq[OF rename_triple[OF assms(1,2) proper_old]])
       (auto simp: v1 only_named_def not_lost_def assms(3) set_cont_def)
qed (auto simp: only_named_def not_lost_def assms(3))

text \<open>Creating, starting and removing the container set aside, after \<open>StopRenameContainer\<close> returned.\<close>

definition swap_in ::
  "'d docker_api \<Rightarrow> ContainerConfig \<Rightarrow> HostConfig \<Rightarrow> string \<Rightarrow> string \<Rightarrow> ('d, unit) io" where
  "swap_in api imageCfg hostCfg containerName hostname =
     thenIO (wrapIO (''Failed to create ['' @ containerName @ ''] container on host ['' @ hostname @ '']: '')
               (CreateContiner api hostname containerName imageCfg hostCfg))
    (thenIO (wrapIO (''Failed to start ['' @ containerName @ ''] container on host ['' @ hostname @ '']: '')
               (StartContainer api hostname containerName))
       (RemoveContainer api hostname (old_name containerName)))"

lemma create_wrapped_triple:
  assumes "docker_laws api view" "proper_name n"
  shows "vtriple view v (wrapIO s (CreateContiner api h n cfg hcfg)) (\<lambda>i v'. create_rel cfg n i v v')
     (\<lambda>e v'. v' = v \<or> (\<exists>i. create_rel cfg n i v v'))"
  unfolding CreateContiner_def by (intro vtriple_wrap create_triple assms)

lemma start_wrapped_triple:
  assumes "docker_laws api view" "proper_name n"
  shows "vtriple view v (wrapIO s (StartContainer api h n))
     (\<lambda>i v'. \<exists>c. conts v n = Some c \<and> v' = set_cont n (Some (c\<lparr>c_up := True\<rparr>)) v)
     (\<lambda>e v'. v' = v \<or> (\<exists>c. conts v n = Some c \<and> v' = set_cont n (Some (c\<lparr>c_up := True\<rparr>)) v))"
  unfolding StartContainer_def
  by (intro vtriple_wrap, rule vtriple_conseq[OF start_triple]) (auto simp: assms start_rel_def)

lemma swap_in_blocked:
  assumes "docker_laws api view" "proper_name n" "conts v n \<noteq> None"
  shows "vtriple view v (swap_in api cfg hcfg n h) (\<lambda>_ _. False) (\<lambda>e v'. v' = v)"
  unfolding swap_in_def
  by (rule vtriple_then[OF vtriple_conseq[OF create_wrapped_triple[OF assms(1,2)]]])
     (auto simp: create_rel_def assms(3))

lemma swap_in_triple:
  assumes "docker_laws api view" "proper_name n" "conts v n = None" "conts v (old_name n) = Some c"
  shows "vtriple view v (swap_in api cfg hcfg n h) (\<lambda>x v'. replaced cfg n v v')
     (\<lambda>e v'. only_named n v v' \<and>
        (conts v' (old_name n) = Some c \<or> (\<exists>c'. conts v' n = Some c' \<and> matches cfg c')))"
  unfolding swap_in_def
proof (rule vtriple_then[OF vtriple_conseq[OF create_wrapped_triple[OF assms(1,2)]]])
  fix i v1
  assume v1: "create_rel cfg n i v v1"
  show "vtriple view v1
     (thenIO (wrapIO (''Failed to start ['' @ n @ ''] container on host ['' @ h @ '']: '') (StartContainer api h n))
       (RemoveContainer api h (old_name n)))
     (\<lambda>x v'. replaced cfg n v v')
     (\<lambda>e v'. only_named n v v' \<and>
        (conts v' (old_name n) = Some c \<or> (\<exists>c'. conts v' n = Some c' \<and> matches cfg c')))"
  proof (rule vtriple_then[OF vtriple_conseq[OF start_wrapped_triple[OF assms(1,2)]]], assumption)
    from v1 obtain cmd where m: "matches cfg \<lparr>c_id = i, c_up = True, c_image = Image cfg, c_cmd = cmd\<rparr>"
      and v1': "v1 = set_cont n (Some \<lparr>c_id = i, c_up = False, c_image = Image cfg, c_cmd = cmd\<rparr>) v"
      by (auto simp: create_rel_def matches_def)
    fix x v2
    assume v2: "\<exists>c. conts v1 n = Some c \<and> v2 = set_cont n (Some (c\<lparr>c_up := True\<rparr>)) v1"
    show "vtriple view v2 (RemoveContainer api h (old_name n)) (\<lambda>x v'. replaced cfg n v v')
       (\<lambda>e v'. only_named n v v' \<and>
          (conts v' (old_name n) = Some c \<or> (\<exists>c'. conts v' n = Some c' \<and> matches cfg c')))"
    proof (rule vtriple_conseq[OF remove_triple[OF assms(1) proper_old]])
      fix x v'
      assume "conts v2 (old_name n) \<noteq> None \<and> v' = set_cont (old_name n) None v2"
      with v2 v1' m show "replaced cfg n v v'" unfolding replaced_def by fastforce
    next
      fix e v'
      assume "v' = v2 \<or> v' = set_cont (old_name n) None v2"
      with v2 v1' m assms show "only_named n v v' \<and>
          (conts v' (old_name n) = Some c \<or> (\<exists>c'. conts v' n = Some c' \<and> matches cfg c'))"
        unfolding only_named_def by auto
    qed
  qed (use v1 assms in \<open>auto simp: create_rel_def only_named_def\<close>)
qed (use assms in \<open>auto simp: create_rel_def only_named_def\<close>)

lemma rolling_triple:
  assumes "docker_laws api view" "proper_name n" "S \<Longrightarrow> docker_steady api view"
  shows "vtriple view v (DoRollingUpdateContainer api cfg hcfg n h prs)
     (\<lambda>x v'. (v' = v \<and> (S \<longrightarrow> \<not> (\<exists>c. conts v n = Some c \<and> c_up c))) \<or> replaced cfg n v v')
     (\<lambda>e v'. only_named n v v' \<and> not_lost cfg n v v')"
    (is "vtriple _ _ _ ?Q ?E")
  unfolding DoRollingUpdateContainer_def Let_def swap_in_def[symmetric]
proof (rule vtriple_bind[OF vtriple_conseq[OF vtriple_conj[OF running_steady_triple[OF assms(1,3)] running_triple[OF assms(1)]]]],
    assumption, assumption)
  fix b v1
  assume b: "(v1 = v \<and> (S \<longrightarrow> (\<exists>c. conts v n = Some c \<and> c_up c) \<longrightarrow> b)) \<and>
      v1 = v \<and> (b \<longrightarrow> (\<exists>c. conts v n = Some c \<and> (False \<or> c_up c))) \<and> (False \<longrightarrow> conts v n \<noteq> None \<longrightarrow> b)"
  have run: "vtriple view v (thenIO (UseLocalOrPull api h (Image cfg) prs)
       (thenIO (StopRenameContainer api h n (old_name n)) (swap_in api cfg hcfg n h))) ?Q ?E"
    if c: "conts v n = Some c" for c
  proof (rule vtriple_then[OF vtriple_conseq[OF use_or_pull_triple[OF assms(1)]]], assumption)
    fix x and v2 :: dview
    assume v2: "conts v2 = conts v"
    then have c2: "conts v2 n = Some c" using c by simp
    show "vtriple view v2 (thenIO (StopRenameContainer api h n (old_name n)) (swap_in api cfg hcfg n h)) ?Q ?E"
    proof (rule vtriple_then[OF vtriple_conseq[OF stop_rename_triple[OF assms(1,2) c2, of _ cfg]]], assumption)
      fix x v3
      assume "v3 = set_cont n (Some (c\<lparr>c_up := False\<rparr>)) v2 \<or>
             v3 = set_cont (old_name n) (Some (c\<lparr>c_up := False\<rparr>)) (set_cont n None v2) \<and>
             conts v2 (old_name n) = None"
      then show "vtriple view v3 (swap_in api cfg hcfg n h) ?Q ?E"
      proof
        assume v3: "v3 = set_cont n (Some (c\<lparr>c_up := False\<rparr>)) v2"
        then show ?thesis
          using v2 c by (intro vtriple_conseq[OF swap_in_blocked[OF assms(1,2)]])
            (auto simp: only_named_def not_lost_def)
      next
        assume v3: "v3 = set_cont (old_name n) (Some (c\<lparr>c_up := False\<rparr>)) (set_cont n None v2) \<and>
             conts v2 (old_name n) = None"
        show ?thesis
          by (rule vtriple_conseq[OF swap_in_triple[OF assms(1,2)]])
             (use v3 v2 c in \<open>auto simp: only_named_def not_lost_def replaced_def matches_def fun_upd_twist\<close>)
      qed
    qed (auto simp: only_named_def not_lost_def v2)
  qed (auto simp: only_named_def not_lost_def)
  show "vtriple view v1 (if \<not> b then retIO () else thenIO (UseLocalOrPull api h (Image cfg) prs)
       (thenIO (StopRenameContainer api h n (old_name n)) (swap_in api cfg hcfg n h))) ?Q ?E"
    using b run by (auto intro!: vtriple_ret)
qed (auto simp: only_named_def not_lost_def)

lemma inspect_steady_triple:
  assumes "docker_laws api view" "proper_name n" "S \<Longrightarrow> docker_steady api view"
  shows "vtriple view v (ContainerInspect api n)
     (\<lambda>j v'. v' = v \<and> (\<exists>c. conts v n = Some c \<and> ID j = c_id c \<and> json_Image j = c_image c \<and>
        json_Cmd j = c_cmd c \<and> (Running j \<longrightarrow> c_up c) \<and> (S \<longrightarrow> c_up c \<longrightarrow> Running j)))
     (\<lambda>e v'. v' = v \<and> (ekind e = EDockerNotFound \<longrightarrow> conts v n = None))"
proof -
  have s: "vtriple view v (ContainerInspect api n)
        (\<lambda>j v'. S \<longrightarrow> (\<forall>c. conts v n = Some c \<longrightarrow> Running j = c_up c)) (\<lambda>_ v'. True)"
  proof (cases S)
    case True
    with assms(2,3) have "vtriple view v (ContainerInspect api n)
        (\<lambda>j _. \<forall>m c. resolves v n m c \<longrightarrow> Running j = c_up c) (\<lambda>_ _. True)"
      by (simp add: docker_steady_def)
    then show ?thesis by (rule vtriple_conseq) (simp_all add: assms(2))
  next
    case False
    then show ?thesis by (intro vtriple_conseq[OF inspect_triple[OF assms(1,2)]]) auto
  qed
  show ?thesis by (rule vtriple_conseq[OF vtriple_conj[OF inspect_triple[OF assms(1,2)] s]]) auto
qed

lemma create_relE:
  assumes "create_rel cfg n i v v'"
  obtains c where "c_id c = i" "matches cfg (c\<lparr>c_up := True\<rparr>)" "v' = set_cont n (Some c) v"
proof -
  from assms obtain cmd where "Cmd cfg \<noteq> None \<or> Entrypoint cfg \<noteq> None \<longrightarrow> cmd = Cmd cfg"
    "v' = set_cont n (Some \<lparr>c_id = i, c_up = False, c_image = Image cfg, c_cmd = cmd\<rparr>) v"
    unfolding create_rel_def by blast
  then show thesis
    by (intro that[of "\<lparr>c_id = i, c_up = False, c_image = Image cfg, c_cmd = cmd\<rparr>"]) (simp_all add: matches_def)
qed

text \<open>Starting by identifier acts on the container that has it.\<close>

lemma start_id_triple:
  assumes "docker_laws api view" "conts v n = Some c"
  shows "vtriple view v (ContainerStart api (c_id c))
     (\<lambda>x v'. v' = set_cont n (Some (c\<lparr>c_up := True\<rparr>)) v)
     (\<lambda>e v'. v' = v \<or> v' = set_cont n (Some (c\<lparr>c_up := True\<rparr>)) v)"
proof (rule vtriple_wf[OF assms(1)])
  assume wf: "view_wf v"
  with assms(2) have "okref v (c_id c)" by (auto simp: okref_def)
  from vtriple_conseq[OF start_triple[OF assms(1) this]] show ?thesis
    by (rule vtriple_conseq) (auto simp: start_rel_def resolves_id[OF wf assms(2)])
qed

definition run_post :: "bool \<Rightarrow> ContainerConfig \<Rightarrow> string \<Rightarrow> dview \<Rightarrow> dview \<Rightarrow> bool" where
  "run_post S cfg n v v' \<longleftrightarrow> only_named n v v' \<and> (\<exists>c. conts v' n = Some c \<and> c_up c \<and>
     (S \<longrightarrow> (case conts v n of
        None \<Rightarrow> matches cfg c
      | Some c0 \<Rightarrow> if c_up c0 then matches cfg c else c = c0\<lparr>c_up := True\<rparr>)))"

lemma run_absent_triple:
  assumes "docker_laws api view" "proper_name n" "conts v n = None"
  shows "vtriple view v (thenIO (UseLocalOrPull api h (Image cfg) prs)
          (bindIO (wrapIO e1 (ContainerCreate api cfg hcfg n)) (\<lambda>i. wrapIO e2 (ContainerStart api i))))
     (\<lambda>x. run_post S cfg n v) (\<lambda>e v'. only_named n v v' \<and> not_lost cfg n v v')"
proof (rule vtriple_then[OF vtriple_conseq[OF use_or_pull_triple[OF assms(1)]]], assumption)
  fix x and v1 :: dview
  assume v1: "conts v1 = conts v"
  show "vtriple view v1 (bindIO (wrapIO e1 (ContainerCreate api cfg hcfg n)) (\<lambda>i. wrapIO e2 (ContainerStart api i)))
     (\<lambda>x. run_post S cfg n v) (\<lambda>e v'. only_named n v v' \<and> not_lost cfg n v v')"
  proof (rule vtriple_bind[OF vtriple_wrap[OF vtriple_conseq[OF create_triple[OF assms(1,2)]]]], assumption)
    fix i v2
    assume "create_rel cfg n i v1 v2"
    then obtain c where c: "c_id c = i" "matches cfg (c\<lparr>c_up := True\<rparr>)" "v2 = set_cont n (Some c) v1"
      by (rule create_relE)
    then have "conts v2 n = Some c" by simp
    note start = start_id_triple[OF assms(1) this, unfolded c(1)]
    show "vtriple view v2 (wrapIO e2 (ContainerStart api i)) (\<lambda>x. run_post S cfg n v)
       (\<lambda>e v'. only_named n v v' \<and> not_lost cfg n v v')"
      by (rule vtriple_wrap, rule vtriple_conseq[OF start])
         (use c v1 assms(3) in \<open>auto simp: run_post_def only_named_def not_lost_def matches_def\<close>)
  qed (use v1 assms(3) in \<open>auto simp: only_named_def not_lost_def create_rel_def\<close>)
qed (use assms(3) in \<open>auto simp: only_named_def not_lost_def\<close>)

lemma run_triple:
  assumes "docker_laws api view" "proper_name n" "S \<Longrightarrow> docker_steady api view"
  shows "vtriple view v (DoRunContainer api cfg hcfg n h prs) (\<lambda>x. run_post S cfg n v)
     (\<lambda>e v'. only_named n v v' \<and> not_lost cfg n v v')" (is "vtriple _ _ _ ?Q ?E")
  unfolding DoRunContainer_def
proof (rule vtriple_try[OF inspect_steady_triple[OF assms]])
  fix e v1
  assume "v1 = v \<and> (ekind e = EDockerNotFound \<longrightarrow> conts v n = None)"
  then show "vtriple view v1 (if ekind e \<noteq> EDockerNotFound then failIO e
         else thenIO (UseLocalOrPull api h (Image cfg) prs)
          (bindIO (wrapIO (''Failed to create ['' @ n @ ''] container on host ['' @ h @ '']: '')
                     (ContainerCreate api cfg hcfg n))
            (\<lambda>i. wrapIO (''Failed to start ['' @ n @ ''] container on host ['' @ h @ '']: '')
                    (ContainerStart api i)))) ?Q ?E"
    using run_absent_triple[OF assms(1,2)]
    by (auto intro!: vtriple_fail simp: only_named_def not_lost_def)
next
  fix j v1
  assume "v1 = v \<and> (\<exists>c. conts v n = Some c \<and> ID j = c_id c \<and> json_Image j = c_image c \<and>
        json_Cmd j = c_cmd c \<and> (Running j \<longrightarrow> c_up c) \<and> (S \<longrightarrow> c_up c \<longrightarrow> Running j))"
  then obtain c where v1: "v1 = v" and c: "conts v n = Some c" "ID j = c_id c" "Running j \<Longrightarrow> c_up c"
    "S \<Longrightarrow> c_up c \<Longrightarrow> Running j" by blast
  have restart: "vtriple view v (wrapIO s (ContainerStart api (c_id c))) ?Q ?E" if "\<not> Running j" for s
    by (intro vtriple_wrap, rule vtriple_conseq[OF start_id_triple[OF assms(1) c(1)]])
       (use c that in \<open>auto simp: run_post_def only_named_def not_lost_def\<close>)
  have same: "run_post S cfg n v v" if "c_up c" "S \<Longrightarrow> matches cfg c"
    using that c(1) by (auto simp: run_post_def only_named_def)
  have roll: "vtriple view v (DoRollingUpdateContainer api cfg hcfg n h prs) ?Q ?E" if "Running j"
    by (rule vtriple_conseq[OF rolling_triple[OF assms]])
       (use c that in \<open>auto simp: run_post_def only_named_def replaced_def matches_def\<close>)
  have upgrade: "vtriple view v (bindIO (IsContainerUpgradable api cfg n h)
        (\<lambda>u. if u then DoRollingUpdateContainer api cfg hcfg n h prs else retIO ())) ?Q ?E" if "Running j"
    by (rule vtriple_bind[OF vtriple_conseq[OF upgradable_triple[OF assms(1,2)]]], assumption)
       (use that c roll in \<open>auto intro!: vtriple_ret same simp: matches_def only_named_def not_lost_def\<close>)
  show "vtriple view v1 (if Running j then bindIO (IsContainerUpgradable api cfg n h)
        (\<lambda>u. if u then DoRollingUpdateContainer api cfg hcfg n h prs else retIO ())
      else wrapIO (''Failed to start ['' @ n @ ''] container on host ['' @ h @ '']: '') (ContainerStart api (ID j))) ?Q ?E"
    using v1 c(2) upgrade restart by auto
qed

lemma run_again_triple:
  assumes "docker_laws api view" "docker_steady api view" "proper_name n"
    "conts v n = Some c" "c_up c" "c_image c = Image cfg" "c_cmd c = Cmd cfg"
  shows "vtriple view v (DoRunContainer api cfg hcfg n h prs) (\<lambda>x v'. v' = v) (\<lambda>e v'. v' = v)"
  unfolding DoRunContainer_def
  by (rule vtriple_try[OF inspect_steady_triple[where S = True, OF assms(1,3,2)]])
     (use assms in \<open>auto intro!: vtriple_fail vtriple_ret
        vtriple_bindE[OF upgradable_triple[OF assms(1,3)]]\<close>)

section \<open>Removing\<close>

lemma do_remove_triple:
  assumes "docker_laws api view" "proper_name n"
  shows "vtriple view v (DoRemoveContainer api n h)
     (\<lambda>x v'. v' = set_cont n None v) (\<lambda>e v'. \<forall>m. m \<noteq> n \<longrightarrow> conts v' m = conts v m)"
  unfolding DoRemoveContainer_def
proof (rule vtriple_try[OF inspect_triple[OF assms]])
  fix e v1
  assume "v1 = v \<and> (ekind e = EDockerNotFound \<longrightarrow> conts v n = None)"
  then show "vtriple view v1 (if ekind e = EDockerNotFound then retIO () else failIO e)
     (\<lambda>x v'. v' = set_cont n None v) (\<lambda>e v'. \<forall>m. m \<noteq> n \<longrightarrow> conts v' m = conts v m)"
    by (auto intro!: vtriple_ret vtriple_fail simp: set_cont_def fun_upd_idem)
next
  fix j v1
  assume "v1 = v \<and> (\<exists>c. conts v n = Some c \<and> ID j = c_id c \<and> json_Image j = c_image c \<and>
      json_Cmd j = c_cmd c \<and> (Running j \<longrightarrow> c_up c))"
  then have "v1 = v" by blast
  then show "vtriple view v1 (thenIO (StopContainer api h n) (RemoveContainer api h n))
     (\<lambda>x v'. v' = set_cont n None v) (\<lambda>e v'. \<forall>m. m \<noteq> n \<longrightarrow> conts v' m = conts v m)"
    by (auto intro!: vtriple_thenE[OF stop_triple[OF assms]]
          vtriple_conseq[OF remove_triple[OF assms]] simp: set_cont_def)
qed

section \<open>A daemon in service\<close>

lemma vtriple_total:
  "vtriple view v m Q E \<Longrightarrow> vtriple view v m (\<lambda>_ _. True) (\<lambda>_ _. False) \<Longrightarrow> vtriple view v m Q (\<lambda>_ _. False)"
  by (drule (1) vtriple_conj) (erule vtriple_conseq, auto)

lemma use_or_pull_total:
  assumes "docker_laws api view" "docker_reliable api view" "ParseNormalizedNamed api img = Inr r"
  shows "vtriple view v (UseLocalOrPull api h img prs) (\<lambda>x v'. conts v' = conts v \<and> images v' img) (\<lambda>e v'. False)"
proof -
  have ex: "vtriple view v (localImageExists api h img) (\<lambda>_ _. True) (\<lambda>_ _. False)"
    unfolding localImageExists_def
    by (rule vtriple_try[where R = "\<lambda>_ _. True" and H = "\<lambda>e _. ekind e = EDockerNotFound"])
       (use assms(2) in \<open>auto intro!: vtriple_ret simp: docker_reliable_def\<close>)
  have "vtriple view v (ImagePull api img opts) (\<lambda>x v'. conts v' = conts v \<and> images v \<le> images v')
      (\<lambda>e v'. conts v' = conts v \<and> images v \<le> images v')" for opts
    using assms(1) by (simp add: docker_laws_def)
  moreover have "vtriple view v (ImagePull api img opts) (\<lambda>x v'. images v' img) (\<lambda>e v'. False)" for opts
    using assms(2) by (simp add: docker_reliable_def)
  ultimately have pull: "vtriple view v (ImagePull api img opts)
      (\<lambda>x v'. conts v' = conts v \<and> images v' img) (\<lambda>e v'. False)" for opts
    using vtriple_conseq[OF vtriple_conj] by (smt (verit, best))
  show ?thesis
    unfolding UseLocalOrPull_def
    by (rule vtriple_bind[OF vtriple_total[OF image_exists_triple[OF assms(1)] ex]])
       (auto simp: pullImage_def assms(3) Let_def intro!: vtriple_ret vtriple_wrap pull)
qed

lemma reliable_refs:
  assumes "docker_reliable api view"
  shows "\<forall>r v m c. resolves v r m c \<longrightarrow> vtriple view v (ContainerStart api r) (\<lambda>_ _. True) (\<lambda>_ _. False)"
    "\<forall>r v m c. resolves v r m c \<longrightarrow> vtriple view v (ContainerStop api r) (\<lambda>_ _. True) (\<lambda>_ _. False)"
    "\<forall>a b v m c. resolves v a m c \<longrightarrow> conts v b = None \<longrightarrow>
        vtriple view v (ContainerRename api a b) (\<lambda>_ _. True) (\<lambda>_ _. False)"
    "\<forall>r v m c. resolves v r m c \<longrightarrow> \<not> c_up c \<longrightarrow>
        vtriple view v (ContainerRemove api r) (\<lambda>_ _. True) (\<lambda>_ _. False)"
    "\<forall>r v m c. resolves v r m c \<longrightarrow> \<not> c_up c \<longrightarrow>
        vtriple view v (ContainerWait api r) (\<lambda>_ _. True) (\<lambda>_ _. False)"
  using assms unfolding docker_reliable_def by - (elim conjE, assumption)+

lemma inspect_total:
  assumes "docker_reliable api view" "proper_name n"
  shows "vtriple view v (ContainerInspect api n) (\<lambda>_ _. True) (\<lambda>e _. ekind e = EDockerNotFound)"
  using assms by (simp add: docker_reliable_def)

lemma create_total:
  assumes "docker_reliable api view" "proper_name n" "conts v n = None" "images v (Image cfg)"
  shows "vtriple view v (ContainerCreate api cfg hcfg n) (\<lambda>_ _. True) (\<lambda>_ _. False)"
  using assms by (simp add: docker_reliable_def)

lemma start_total:
  assumes "docker_reliable api view" "resolves v r m c"
  shows "vtriple view v (ContainerStart api r) (\<lambda>_ _. True) (\<lambda>_ _. False)"
  by (rule reliable_refs(1)[OF assms(1), rule_format, OF assms(2)])

lemma stop_total:
  assumes "docker_reliable api view" "proper_name n" "conts v n = Some c"
  shows "vtriple view v (StopContainer api h n) (\<lambda>_ _. True) (\<lambda>_ _. False)"
proof -
  from assms(2,3) have "resolves v n n c" by simp
  note r = reliable_refs(2)[OF assms(1), rule_format, OF this]
  show ?thesis unfolding StopContainer_def by (rule vtriple_wrap[OF r])
qed

lemma remove_total:
  assumes "docker_reliable api view" "proper_name n" "conts v n = Some c" "\<not> c_up c"
  shows "vtriple view v (RemoveContainer api h n) (\<lambda>_ _. True) (\<lambda>_ _. False)"
proof -
  from assms(2,3) have "resolves v n n c" by simp
  note r = reliable_refs(4)[OF assms(1), rule_format, OF this assms(4)]
  show ?thesis unfolding RemoveContainer_def by (rule vtriple_wrap[OF r])
qed

lemma wait_total:
  assumes "docker_reliable api view" "proper_name n" "conts v n = Some c" "\<not> c_up c"
  shows "vtriple view v (WaitForContainer api n) (\<lambda>_ _. True) (\<lambda>_ _. False)"
proof -
  from assms(2,3) have "resolves v n n c" by simp
  note r = reliable_refs(5)[OF assms(1), rule_format, OF this assms(4)]
  show ?thesis unfolding WaitForContainer_def by (rule vtriple_wrap[OF r])
qed

lemma rename_total:
  assumes "docker_reliable api view" "proper_name a" "conts v a = Some c" "conts v b = None"
  shows "vtriple view v (RenameContainer api h a b) (\<lambda>_ _. True) (\<lambda>_ _. False)"
proof -
  from assms(2,3) have "resolves v a a c" by simp
  note r = reliable_refs(3)[OF assms(1), rule_format, OF this assms(4)]
  show ?thesis unfolding RenameContainer_def by (rule vtriple_wrap[OF r])
qed

lemma running_total:
  assumes "docker_laws api view" "docker_reliable api view"
  shows "vtriple view v (IsContainerRunning api h n b) (\<lambda>_ _. True) (\<lambda>_ _. False)"
proof -
  have "vtriple view v (ContainerList api b) (\<lambda>_ _. True) (\<lambda>_ _. False)"
    using assms(2) by (simp add: docker_reliable_def)
  note l = vtriple_total[OF list_triple[OF assms(1)] this]
  show ?thesis
    unfolding IsContainerRunning_def
    by (rule vtriple_bind[OF vtriple_wrap[OF l]]) (auto simp: vtriple_def names_match_Ret)
qed

lemma upgradable_total:
  assumes "docker_laws api view" "docker_reliable api view" "proper_name n" "conts v n = Some c"
  shows "vtriple view v (IsContainerUpgradable api cfg n h) (\<lambda>_ _. True) (\<lambda>_ _. False)"
  unfolding IsContainerUpgradable_def InspectContainer_def
  by (rule vtriple_bind[OF vtriple_wrap[OF vtriple_conseq[OF
        vtriple_conj[OF inspect_triple[OF assms(1,3)] inspect_total[OF assms(2,3)]]]]])
     (auto intro!: vtriple_ret simp: assms(4))

lemma swap_in_total:
  assumes "docker_laws api view" "docker_reliable api view" "proper_name n"
    "conts v n = None" "images v (Image cfg)" "conts v (old_name n) = Some c" "\<not> c_up c"
  shows "vtriple view v (swap_in api cfg hcfg n h) (\<lambda>_ _. True) (\<lambda>_ _. False)"
  unfolding swap_in_def CreateContiner_def StartContainer_def
proof (rule vtriple_then[OF vtriple_wrap[OF vtriple_wrap[OF vtriple_total[OF create_triple[OF assms(1,3)]
        create_total[OF assms(2-5)]]]]])
  fix i v1
  assume "create_rel cfg n i v v1"
  then obtain d where v1: "v1 = set_cont n (Some d) v" by (rule create_relE)
  then have r: "resolves v1 n n d" using assms(3) by simp
  show "vtriple view v1 (thenIO (wrapIO (''Failed to start ['' @ n @ ''] container on host ['' @ h @ '']: '')
       (wrapIO (''Failed to start ['' @ n @ ''] container on host ['' @ h @ '']: '') (ContainerStart api n)))
     (RemoveContainer api h (old_name n))) (\<lambda>_ _. True) (\<lambda>_ _. False)"
  proof (rule vtriple_then[OF vtriple_wrap[OF vtriple_wrap[OF vtriple_total[OF start_triple[OF assms(1)]
          start_total[OF assms(2) r]]]]])
    show "okref v1 n" using assms(3) by simp
    fix x v2
    assume "start_rel n x v1 v2"
    then have "conts v2 (old_name n) = Some c" using v1 assms(3,6) by (auto simp: start_rel_def)
    from remove_total[OF assms(2) proper_old this assms(7)]
    show "vtriple view v2 (RemoveContainer api h (old_name n)) (\<lambda>_ _. True) (\<lambda>_ _. False)" .
  qed
qed

lemma rolling_total:
  assumes "docker_laws api view" "docker_reliable api view" "proper_name n"
    "ParseNormalizedNamed api (Image cfg) = Inr r" "conts v n = Some c" "conts v (old_name n) = None"
  shows "vtriple view v (DoRollingUpdateContainer api cfg hcfg n h prs) (\<lambda>_ _. True) (\<lambda>_ _. False)"
proof -
  have update: "vtriple view v1 (thenIO (StopRenameContainer api h n (old_name n)) (swap_in api cfg hcfg n h))
      (\<lambda>_ _. True) (\<lambda>_ _. False)" if v1: "conts v1 = conts v" "images v1 (Image cfg)" for v1
  proof -
    let ?c = "c\<lparr>c_up := False\<rparr>" and ?v = "set_cont n (Some (c\<lparr>c_up := False\<rparr>)) v1"
    have c1: "conts v1 n = Some c" and cv: "conts ?v n = Some ?c" "\<not> c_up ?c" "conts ?v (old_name n) = None"
      using v1 assms by simp_all
    have stop: "vtriple view v1 (StopContainer api h n) (\<lambda>_ v'. v' = ?v) (\<lambda>_ _. False)"
      by (rule vtriple_conseq[OF vtriple_total[OF stop_triple[OF assms(1,3)] stop_total[OF assms(2,3) c1]]])
         (auto simp: c1)
    have wait: "vtriple view ?v (WaitForContainer api n) (\<lambda>_ v'. v' = ?v) (\<lambda>_ _. False)"
      by (rule vtriple_total[OF wait_triple[OF assms(1)] wait_total[OF assms(2,3) cv(1,2)]])
    have rename: "vtriple view ?v (RenameContainer api h n (old_name n))
        (\<lambda>_ v'. v' = set_cont (old_name n) (Some ?c) (set_cont n None ?v)) (\<lambda>_ _. False)"
      by (rule vtriple_conseq[OF vtriple_total[OF rename_triple[OF assms(1,3) proper_old]
            rename_total[OF assms(2,3) cv(1,3)]]]) (auto simp: cv)
    have "vtriple view v1 (StopRenameContainer api h n (old_name n))
        (\<lambda>_ v'. v' = set_cont (old_name n) (Some ?c) (set_cont n None ?v)) (\<lambda>_ _. False)"
      unfolding StopRenameContainer_def by (rule vtriple_then[OF stop]) (auto intro: vtriple_try[OF wait] rename)
    then show ?thesis
      by (rule vtriple_then) (auto intro!: swap_in_total[where c = ?c] assms simp: v1)
  qed
  show ?thesis
    unfolding DoRollingUpdateContainer_def Let_def swap_in_def[symmetric]
    by (rule vtriple_bind[OF vtriple_total[OF running_triple[OF assms(1)] running_total[OF assms(1,2)]]])
       (auto intro!: vtriple_ret vtriple_then[OF use_or_pull_total[OF assms(1,2,4)]] update)
qed

lemma run_total:
  assumes "docker_laws api view" "docker_reliable api view" "proper_name n"
    "ParseNormalizedNamed api (Image cfg) = Inr r" "conts v (old_name n) = None"
  shows "vtriple view v (DoRunContainer api cfg hcfg n h prs) (\<lambda>_ _. True) (\<lambda>_ _. False)"
proof -
  have create: "vtriple view v1 (bindIO (wrapIO e1 (ContainerCreate api cfg hcfg n))
      (\<lambda>i. wrapIO e2 (ContainerStart api i))) (\<lambda>_ _. True) (\<lambda>_ _. False)"
    if "conts v1 n = None" "images v1 (Image cfg)" for v1 e1 e2
  proof (rule vtriple_bind[OF vtriple_wrap[OF vtriple_total[OF create_triple[OF assms(1,3)]
          create_total[OF assms(2,3) that]]]])
    fix i v2
    assume cr: "create_rel cfg n i v1 v2"
    then obtain c where "c_id c = i" "v2 = set_cont n (Some c) v1" by (rule create_relE)
    with cr have "resolves v2 i n c" by (simp add: resolves_def create_rel_def)
    from start_total[OF assms(2) this]
    show "vtriple view v2 (wrapIO e2 (ContainerStart api i)) (\<lambda>_ _. True) (\<lambda>_ _. False)"
      by (rule vtriple_wrap)
  qed
  have start: "vtriple view v (wrapIO e (ContainerStart api (c_id c))) (\<lambda>_ _. True) (\<lambda>_ _. False)"
    if "conts v n = Some c" for c e
  proof (rule vtriple_wf[OF assms(1)])
    assume "view_wf v"
    with that have "resolves v (c_id c) n c" by (simp add: resolves_id)
    from start_total[OF assms(2) this] show ?thesis by (rule vtriple_wrap)
  qed
  show ?thesis
    unfolding DoRunContainer_def
    by (rule vtriple_try[OF vtriple_conj[OF inspect_triple[OF assms(1,3)] inspect_total[OF assms(2,3)]]])
       (auto intro!: vtriple_then[OF use_or_pull_total[OF assms(1,2,4)]] create start vtriple_ret
          vtriple_bind[OF vtriple_total[OF upgradable_triple[OF assms(1,3)] upgradable_total[OF assms(1-3)]]]
          rolling_total[OF assms(1-4) _ assms(5)])
qed

end
