(* ===== verification/RKE_World.thy ===== *)
theory RKE_World
  imports Docker_Laws
begin

text \<open>
  The state the program works on and the services it calls.  The program's own state is the store of \<open>Host\<close> objects
  (hosts are passed by pointer and shared between lists) and the local files; the Docker daemons, the Kubernetes API
  server and everything else outside (SSH, HTTP, etcd, random numbers, the terminal) are states of
  unknown types, changed only by the calls collected in \<open>env\<close>.

  Because a call acts on its own part of the state, what it leaves alone needs no hypothesis: a health check cannot
  touch a container and running a container on a host cannot touch another host's daemon.
\<close>

section \<open>External interfaces\<close>

subsection \<open>Kubernetes objects\<close>

text \<open>A taint without its time stamp, which the program writes but never reads.\<close>

record Taint =
  taint_Key :: string
  taint_Value :: string
  taint_Effect :: string

text \<open>\<open>metadata.labels\<close> is a map that may be nil: writing to a nil map panics.\<close>

record Node =
  node_Name :: string
  node_ObjLabels :: "string gomap option"
  Unschedulable :: bool
  Taints :: "Taint list"
  node_Conditions :: "(string \<times> string) list"

record K8sObject =
  obj_Name :: string
  obj_Namespace :: string
  obj_Data :: "string gomap"

record JobStatus =
  job_Conditions :: "(string \<times> string) list"

text \<open>\<^verbatim>\<open>rest.Config\<close>, as far as the program reads it; a client is known by its configuration.\<close>

record RestConfig =
  rest_Host :: string
  CAData :: string
  CertData :: string
  KeyData :: string

datatype k8s_kind = KSecret | KConfigMap | KJob | KPodSecurityPolicy | KServiceAccount | KRole | KRoleBinding
  | KClusterRole | KClusterRoleBinding

record 'k kube_api =
  NodesGet :: "RestConfig \<Rightarrow> string \<Rightarrow> ('k, Node) io"
  NodesList :: "RestConfig \<Rightarrow> ('k, Node list) io"
  NodesUpdate :: "RestConfig \<Rightarrow> Node \<Rightarrow> ('k, unit) io"
  NodesDelete :: "RestConfig \<Rightarrow> string \<Rightarrow> ('k, unit) io"
  ObjCreate :: "RestConfig \<Rightarrow> k8s_kind \<Rightarrow> string \<Rightarrow> K8sObject \<Rightarrow> ('k, unit) io"
  ObjUpdate :: "RestConfig \<Rightarrow> k8s_kind \<Rightarrow> string \<Rightarrow> K8sObject \<Rightarrow> ('k, unit) io"
  ObjGet :: "RestConfig \<Rightarrow> k8s_kind \<Rightarrow> string \<Rightarrow> string \<Rightarrow> ('k, K8sObject) io"
  JobGet :: "RestConfig \<Rightarrow> string \<Rightarrow> string \<Rightarrow> ('k, JobStatus) io"
  ServerVersion :: "RestConfig \<Rightarrow> ('k, string) io"

subsection \<open>Everything else outside\<close>

text \<open>What a dialer factory makes for a host: a method of \<^verbatim>\<open>hosts.dialer\<close> bound to the host and the key.\<close>

type_synonym signer = nat

datatype dialer = DialDockerOf hostref signer | DialLocalConnOf hostref signer | DialHealthcheckLocallyOf hostref | CustomDial nat

text \<open>The parts of \<^verbatim>\<open>ssh.ClientConfig\<close> that are set: the user, the keys that are offered, and how the key of the server is checked.\<close>

datatype HostKeyCallback = InsecureIgnoreHostKey

record ClientConfig =
  ssh_User :: string
  ssh_Auth :: "signer list"
  ssh_HostKeyCallback :: HostKeyCallback

record EtcdMember =
  mem_ID :: string
  mem_Name :: string

record 'e ext_api =
  NewPrivateKey :: "('e, rsa_key) io"
  RandSerial :: "('e, unit) io"
  CreateCertificate :: "('e, unit) io"
  ReadPassword :: "('e, string) io"
  CustomFactoryCall :: "nat \<Rightarrow> string \<Rightarrow> ('e, dialer) io"
  NewDockerClient :: "string \<Rightarrow> dialer option \<Rightarrow> ('e, unit) io"
  SSHDial :: "string \<Rightarrow> ClientConfig \<Rightarrow> ('e, unit) io"
  ConnDial :: "string \<Rightarrow> string \<Rightarrow> ('e, unit) io"
  NetDial :: "string \<Rightarrow> ('e, unit) io"
  HTTPGet :: "dialer \<Rightarrow> string \<Rightarrow> string \<Rightarrow> ('e, nat \<times> string) io"
  EtcdHealthGet :: "dialer \<Rightarrow> string \<Rightarrow> ('e, string) io"
  EtcdMemberAdd :: "string \<Rightarrow> string \<Rightarrow> ('e, unit) io"
  EtcdMemberList :: "string \<Rightarrow> ('e, EtcdMember list) io"
  EtcdMemberRemove :: "string \<Rightarrow> string \<Rightarrow> ('e, unit) io"
  ReadLine :: "('e, string) io"

text \<open>
  The environment: the three services and the pure library functions the program calls.  \<open>Attempts\<close> is how many times a
  background loop gets to try before the timer of the caller fires.
\<close>

datatype any_key = AnyRSA rsa_key | AnyECDSA nat

record ('d, 'k, 'e) env =
  dockerAPI :: "'d docker_api"
  kubeAPI :: "'k kube_api"
  extAPI :: "'e ext_api"
  EncodeCert :: "x509_cert \<Rightarrow> string"
  EncodeKey :: "rsa_key \<Rightarrow> string"
  ParseCertsPEM :: "string \<Rightarrow> gerror + x509_cert list"
  ParsePrivateKeyPEM :: "string \<Rightarrow> gerror + any_key"
  X509KeyPair :: "string \<Rightarrow> string \<Rightarrow> gerror + unit"
  SSHParsePrivateKey :: "string \<Rightarrow> gerror + signer"
  SSHParsePrivateKeyWithPassphrase :: "string \<Rightarrow> string \<Rightarrow> gerror + signer"
  HomeDir :: string
  BuildConfig :: "string option \<Rightarrow> gerror + RestConfig"
  NewForConfig :: "RestConfig \<Rightarrow> gerror + unit"
  DecodeYaml :: "k8s_kind \<Rightarrow> string \<Rightarrow> gerror + K8sObject"
  YamlMarshal :: "RancherKubernetesEngineConfig \<Rightarrow> gerror + string"
  YamlUnmarshal :: "string \<Rightarrow> gerror + RancherKubernetesEngineConfig"
  Getwd :: "gerror + string"
  Writable :: "string \<Rightarrow> bool"
  Attempts :: nat

section \<open>The state\<close>

record ('d, 'k, 'e) world =
  hstore :: "Host list"
  daemons :: "string \<Rightarrow> 'd"
  kube :: 'k
  ext :: 'e
  files :: "string \<rightharpoonup> string"

type_synonym ('d, 'k, 'e, 'a) wio = "(('d, 'k, 'e) world, 'a) io"

text \<open>A call of one of the services, run on its part of the state.\<close>

definition onDaemon :: "string \<Rightarrow> ('d, 'a) io \<Rightarrow> ('d, 'k, 'e, 'a) wio" where
  "onDaemon a m w = (case m (daemons w a) of (r, d') \<Rightarrow> (r, w\<lparr>daemons := (daemons w)(a := d')\<rparr>))"

definition onKube :: "('k, 'a) io \<Rightarrow> ('d, 'k, 'e, 'a) wio" where
  "onKube m w = (case m (kube w) of (r, k') \<Rightarrow> (r, w\<lparr>kube := k'\<rparr>))"

definition onExt :: "('e, 'a) io \<Rightarrow> ('d, 'k, 'e, 'a) wio" where
  "onExt m w = (case m (ext w) of (r, e') \<Rightarrow> (r, w\<lparr>ext := e'\<rparr>))"

text \<open>\<open>*p\<close> and \<open>p.f = v\<close> for a \<open>*Host\<close>; a pointer that is no host is nil.\<close>

definition getHost :: "hostref \<Rightarrow> ('d, 'k, 'e, Host) wio" where
  "getHost r w = (if r < length (hstore w) then (Ret (hstore w ! r), w) else (Panic ''nil pointer dereference'', w))"

definition setHost :: "hostref \<Rightarrow> (Host \<Rightarrow> Host) \<Rightarrow> ('d, 'k, 'e, unit) wio" where
  "setHost r f w =
     (if r < length (hstore w) then (Ret (), w\<lparr>hstore := (hstore w)[r := f (hstore w ! r)]\<rparr>)
      else (Panic ''nil pointer dereference'', w))"

fun getHosts :: "hostref list \<Rightarrow> ('d, 'k, 'e, Host list) wio" where
  "getHosts [] = retIO []"
| "getHosts (r # rs) = bindIO (getHost r) (\<lambda>h. bindIO (getHosts rs) (\<lambda>hs. retIO (h # hs)))"

text \<open>
  A call through \<open>host.DClient\<close>; a nil client panics on its first use.
\<close>

definition viaClient :: "Host \<Rightarrow> ('d, 'a) io \<Rightarrow> ('d, 'k, 'e, 'a) wio" where
  "viaClient h m = (case DClient h of
       None \<Rightarrow> panicIO ''nil pointer dereference''
     | Some a \<Rightarrow> onDaemon a m)"

definition ofSum :: "gerror + 'a \<Rightarrow> ('w, 'a) io" where
  "ofSum x = (case x of Inl e \<Rightarrow> failIO e | Inr y \<Rightarrow> retIO y)"

text \<open>\<^verbatim>\<open>ioutil.WriteFile\<close>, \<^verbatim>\<open>os.Remove\<close>, \<^verbatim>\<open>ioutil.ReadFile\<close>\<close>

definition writeFile :: "('d, 'k, 'e) env \<Rightarrow> string \<Rightarrow> string \<Rightarrow> ('d, 'k, 'e, unit) wio" where
  "writeFile env p s w =
     (if Writable env p then (Ret (), w\<lparr>files := (files w)(p \<mapsto> s)\<rparr>)
      else (Fail (errorf (''open '' @ p @ '': permission denied'')), w))"

definition removeFile :: "('d, 'k, 'e) env \<Rightarrow> string \<Rightarrow> ('d, 'k, 'e, unit) wio" where
  "removeFile env p w =
     (if files w p = None then (Fail (errorf (''remove '' @ p @ '': no such file or directory'')), w)
      else if Writable env p then (Ret (), w\<lparr>files := (files w)(p := None)\<rparr>)
      else (Fail (errorf (''remove '' @ p @ '': permission denied'')), w))"

section \<open>Services that answer\<close>

text \<open>A call of a service gives a result or an error; it does not panic.\<close>

definition answers :: "('w, 'a) io \<Rightarrow> bool" where
  "answers m \<longleftrightarrow> (\<forall>w s w'. m w \<noteq> (Panic s, w'))"

definition ext_answers :: "'e ext_api \<Rightarrow> bool" where
  "ext_answers x \<longleftrightarrow> answers (NewPrivateKey x) \<and> answers (RandSerial x) \<and> answers (CreateCertificate x) \<and>
     answers (ReadPassword x) \<and> (\<forall>n a. answers (CustomFactoryCall x n a)) \<and> (\<forall>a d. answers (NewDockerClient x a d)) \<and>
     (\<forall>a cfg. answers (SSHDial x a cfg)) \<and> (\<forall>n a. answers (ConnDial x n a)) \<and> (\<forall>a. answers (NetDial x a)) \<and>
     (\<forall>d a u. answers (HTTPGet x d a u)) \<and> (\<forall>d a. answers (EtcdHealthGet x d a)) \<and>
     (\<forall>a u. answers (EtcdMemberAdd x a u)) \<and> (\<forall>a. answers (EtcdMemberList x a)) \<and>
     (\<forall>a i. answers (EtcdMemberRemove x a i)) \<and> answers (ReadLine x)"

definition kube_answers :: "'k kube_api \<Rightarrow> bool" where
  "kube_answers x \<longleftrightarrow> (\<forall>c n. answers (NodesGet x c n)) \<and> (\<forall>c. answers (NodesList x c)) \<and>
     (\<forall>c n. answers (NodesUpdate x c n)) \<and> (\<forall>c n. answers (NodesDelete x c n)) \<and>
     (\<forall>c t n b. answers (ObjCreate x c t n b)) \<and> (\<forall>c t n b. answers (ObjUpdate x c t n b)) \<and>
     (\<forall>c t n b. answers (ObjGet x c t n b)) \<and> (\<forall>c n b. answers (JobGet x c n b)) \<and> (\<forall>c. answers (ServerVersion x c))"

section \<open>Views of the state\<close>

text \<open>What specifications of the operations on hosts speak of: the hosts, and the daemons as their clients see them.\<close>

record wview =
  wv_hosts :: "Host list"
  wv_docker :: "string \<Rightarrow> dview"

definition world_view :: "('d \<Rightarrow> dview) \<Rightarrow> ('d, 'k, 'e) world \<Rightarrow> wview" where
  "world_view view w = \<lparr>wv_hosts = hstore w, wv_docker = (\<lambda>a. view (daemons w a))\<rparr>"

definition set_daemon :: "string \<Rightarrow> dview \<Rightarrow> wview \<Rightarrow> wview" where
  "set_daemon a v x = x\<lparr>wv_docker := (wv_docker x)(a := v)\<rparr>"

lemma set_daemon_simps [simp]:
  "wv_hosts (set_daemon a v x) = wv_hosts x"
  "wv_docker (set_daemon a v x) = (wv_docker x)(a := v)"
  by (simp_all add: set_daemon_def)

lemma set_daemon_same [simp]: "set_daemon a (wv_docker x a) x = x"
  by (simp add: set_daemon_def)

lemma set_daemon_set_daemon [simp]: "set_daemon a v' (set_daemon a v x) = set_daemon a v' x"
  by (simp add: set_daemon_def)

text \<open>Calls that the view does not show.\<close>

lemma onExt_triple:
  assumes "answers m"
  shows "vtriple (world_view view) x (onExt m) (\<lambda>_ x'. x' = x) (\<lambda>_ x'. x' = x)"
  using assms by (fastforce simp: answers_def vtriple_def onExt_def world_view_def split: prod.splits outcome.splits)

lemma onKube_triple:
  assumes "answers m"
  shows "vtriple (world_view view) x (onKube m) (\<lambda>_ x'. x' = x) (\<lambda>_ x'. x' = x)"
  using assms by (fastforce simp: answers_def vtriple_def onKube_def world_view_def split: prod.splits outcome.splits)

text \<open>A triple about a daemon is a triple about the world in which that daemon is one of many.\<close>

lemma onDaemon_triple:
  assumes "vtriple view (wv_docker x a) m Q E"
  shows "vtriple (world_view view) x (onDaemon a m)
     (\<lambda>y x'. \<exists>v'. Q y v' \<and> x' = set_daemon a v' x) (\<lambda>e x'. \<exists>v'. E e v' \<and> x' = set_daemon a v' x)"
  unfolding vtriple_def
proof (intro allI impI)
  fix w
  assume w: "world_view view w = x"
  then have v: "wv_docker x a = view (daemons w a)" by (auto simp: world_view_def)
  obtain r d' where m: "m (daemons w a) = (r, d')" by fastforce
  let ?w = "w\<lparr>daemons := (daemons w)(a := d')\<rparr>"
  have x': "world_view view ?w = set_daemon a (view d') x"
    using w by (auto simp: world_view_def set_daemon_def fun_eq_iff)
  have run: "onDaemon a m w = (r, ?w)" by (simp add: onDaemon_def m)
  note t = assms[unfolded v]
  show "case onDaemon a m w of (Ret y, w') \<Rightarrow> \<exists>v'. Q y v' \<and> world_view view w' = set_daemon a v' x
      | (Fail e, w') \<Rightarrow> \<exists>v'. E e v' \<and> world_view view w' = set_daemon a v' x | (Panic s, w') \<Rightarrow> False"
  proof (cases r)
    case (Ret y)
    with vtriple_Ret[OF t, of y d'] m x' run show ?thesis by auto
  next
    case (Fail e)
    with vtriple_Fail[OF t, of e d'] m x' run show ?thesis by auto
  next
    case (Panic s)
    with vtriple_no_panic[OF t, of s d'] m show ?thesis by simp
  qed
qed

lemma viaClient_triple:
  assumes "DClient h = Some a" "vtriple view (wv_docker x a) m Q E"
  shows "vtriple (world_view view) x (viaClient h m)
     (\<lambda>y x'. \<exists>v'. Q y v' \<and> x' = set_daemon a v' x) (\<lambda>e x'. \<exists>v'. E e v' \<and> x' = set_daemon a v' x)"
  using onDaemon_triple[OF assms(2)] by (simp add: viaClient_def assms(1))

lemma getHost_triple:
  assumes "r < length (wv_hosts x)"
  shows "vtriple (world_view view) x (getHost r) (\<lambda>h x'. x' = x \<and> h = wv_hosts x ! r) (\<lambda>_ _. False)"
  using assms by (auto simp: vtriple_def getHost_def world_view_def)

lemma setHost_triple:
  assumes "r < length (wv_hosts x)"
  shows "vtriple (world_view view) x (setHost r f)
     (\<lambda>_ x'. x' = x\<lparr>wv_hosts := (wv_hosts x)[r := f (wv_hosts x ! r)]\<rparr>) (\<lambda>_ _. False)"
  using assms by (auto simp: vtriple_def setHost_def world_view_def)

lemma ofSum_triple:
  assumes "\<And>y. s = Inr y \<Longrightarrow> Q y x" "\<And>e. s = Inl e \<Longrightarrow> E e x"
  shows "vtriple view x (ofSum s) Q E"
  using assms by (auto simp: ofSum_def split: sum.splits intro: vtriple_ret vtriple_fail)

end
