(* ===== verification/Docker_Sim.thy ===== *)
theory Docker_Sim
  imports Docker_Laws
begin

text \<open>
  An executable Docker daemon that satisfies the hypotheses of \<open>Docker_Laws\<close>: a list of named containers and a list of
  images.  It shows that the hypotheses hold together and is what the concrete runs of the development execute against.
  The properties of \<^verbatim>\<open>docker/docker.go\<close> follow at the end.
\<close>

section \<open>A daemon in memory\<close>

type_synonym sim = "(string \<times> cont) list \<times> string list"

definition sim_wf :: "sim \<Rightarrow> bool" where
  "sim_wf d \<longleftrightarrow> distinct (map fst (fst d)) \<and> distinct (map (c_id \<circ> snd) (fst d)) \<and>
     list_all (list_all is_hex) (map (c_id \<circ> snd) (fst d))"

definition norm :: "sim \<Rightarrow> sim" where
  "norm d = (if sim_wf d then d else ([], []))"

definition sim_view :: "sim \<Rightarrow> dview" where
  "sim_view d = \<lparr>conts = map_of (fst (norm d)), images = (\<lambda>i. i \<in> set (snd (norm d)))\<rparr>"

definition find_cont :: "(string \<times> cont) list \<Rightarrow> string \<Rightarrow> (string \<times> cont) option" where
  "find_cont cs r = (if proper_name r then map_option (Pair r) (map_of cs r)
                     else List.find (\<lambda>(m, c). c_id c = r) cs)"

definition no_such :: "string \<Rightarrow> gerror" where
  "no_such r = GErr EDockerNotFound (''No such container: '' @ r)"

definition fresh_id :: "(string \<times> cont) list \<Rightarrow> string" where
  "fresh_id cs = replicate (Suc (sum_list (map (length \<circ> c_id \<circ> snd) cs))) CHR ''a''"

definition sim_on :: "string \<Rightarrow> (string \<Rightarrow> cont \<Rightarrow> (sim, 'a) io) \<Rightarrow> (sim, 'a) io" where
  "sim_on r f d = (case find_cont (fst (norm d)) r of
       None \<Rightarrow> (Fail (no_such r), norm d)
     | Some (m, c) \<Rightarrow> f m c (norm d))"

definition sim_set :: "string \<Rightarrow> cont \<Rightarrow> (sim, unit) io" where
  "sim_set m c = modIO (\<lambda>(cs, ims). (AList.update m c cs, ims))"

definition sim_create :: "ContainerConfig \<Rightarrow> HostConfig \<Rightarrow> string \<Rightarrow> (sim, string) io" where
  "sim_create cfg hcfg n d =
     (let (cs, ims) = norm d; i = fresh_id cs in
      if map_of cs n \<noteq> None then (Fail (errorf ''Conflict''), norm d)
      else if Image cfg \<notin> set ims then (Fail (GErr EDockerNotFound ''No such image''), norm d)
      else (Ret i, ((n, \<lparr>c_id = i, c_up = False, c_image = Image cfg, c_cmd = Cmd cfg\<rparr>) # cs, ims)))"

definition sim_docker :: "sim docker_api" where
  "sim_docker = \<lparr>
     ContainerInspect = (\<lambda>r. sim_on r (\<lambda>m c. retIO
        \<lparr>ID = c_id c, Running = c_up c, json_Image = c_image c, json_Cmd = c_cmd c\<rparr>)),
     ContainerCreate = sim_create,
     ContainerStart = (\<lambda>r. sim_on r (\<lambda>m c. sim_set m (c\<lparr>c_up := True\<rparr>))),
     ContainerStop = (\<lambda>r. sim_on r (\<lambda>m c. sim_set m (c\<lparr>c_up := False\<rparr>))),
     ContainerRename = (\<lambda>a b. sim_on a (\<lambda>m c (cs, ims).
        if map_of cs b \<noteq> None then (Fail (errorf ''Conflict''), (cs, ims))
        else (Ret (), ((b, c) # AList.delete m cs, ims)))),
     ContainerRemove = (\<lambda>r. sim_on r (\<lambda>m c (cs, ims).
        if c_up c then (Fail (errorf ''You cannot remove a running container''), (cs, ims))
        else (Ret (), (AList.delete m cs, ims)))),
     ContainerWait = (\<lambda>r. retIO ()),
     ContainerList = (\<lambda>all d. (Ret (map (\<lambda>(m, c). [''/'' @ m]) (filter (\<lambda>(m, c). all \<or> c_up c) (fst (norm d)))), norm d)),
     ImageInspect = (\<lambda>r d. (if r \<in> set (snd (norm d)) then Ret () else Fail (GErr EDockerNotFound ''No such image''), norm d)),
     ImagePull = (\<lambda>r opts d. (Ret (), (fst (norm d), r # snd (norm d)))),
     CopyFromContainer = (\<lambda>r p. retIO []),
     ContainerLogs = (\<lambda>r. retIO []),
     Info = retIO ''17.03.2-ce'',
     RefParse = (\<lambda>s. Inr (takeWhile (\<lambda>c. c \<noteq> CHR ''/'') s, tl (dropWhile (\<lambda>c. c \<noteq> CHR ''/'') s), [], []))\<rparr>"

lemma norm_wf [simp]: "sim_wf d \<Longrightarrow> norm d = d"
  by (simp add: norm_def)

lemma wf_norm [simp]: "sim_wf (norm d)"
  by (simp add: norm_def sim_wf_def)

lemma norm_norm [simp]: "norm (norm d) = norm d"
  by simp

lemma sim_view_wf: "sim_wf (cs, ims) \<Longrightarrow> sim_view (cs, ims) = \<lparr>conts = map_of cs, images = (\<lambda>i. i \<in> set ims)\<rparr>"
  by (simp add: sim_view_def)

lemma sim_view_norm [simp]: "sim_view (norm d) = sim_view d"
  by (simp add: sim_view_def)

lemma sim_id_unique:
  assumes "sim_wf (cs, ims)" "(m, c) \<in> set cs" "(m', c') \<in> set cs" "c_id c = c_id c'"
  shows "m = m' \<and> c = c'"
proof -
  have "inj_on (c_id \<circ> snd) (set cs)" "distinct cs"
    using assms(1) by (auto simp: sim_wf_def distinct_map)
  with assms show ?thesis by (auto dest: inj_onD[where x = "(m, c)" and y = "(m', c')"])
qed

lemma sim_view_is_wf: "view_wf (sim_view d)"
proof -
  obtain cs ims where n: "norm d = (cs, ims)" by fastforce
  then have wf: "sim_wf (cs, ims)" using wf_norm[of d] by simp
  then have "map_of cs m = Some c \<longleftrightarrow> (m, c) \<in> set cs" for m c
    by (simp add: sim_wf_def map_of_eq_Some_iff)
  then show ?thesis
    using wf sim_id_unique[OF wf]
    by (auto simp: view_wf_def sim_view_def n sim_wf_def list_all_iff proper_name_def)
qed

lemma find_cont_resolves:
  assumes "sim_wf (cs, ims)"
  shows "find_cont cs r = Some (m, c) \<longleftrightarrow> resolves (sim_view (cs, ims)) r m c"
proof -
  have mo: "map_of cs m = Some c \<longleftrightarrow> (m, c) \<in> set cs"
    using assms by (simp add: sim_wf_def map_of_eq_Some_iff)
  have fnd: "List.find (\<lambda>(m, c). c_id c = r) cs = Some (m, c) \<longleftrightarrow> (m, c) \<in> set cs \<and> c_id c = r"
  proof
    assume "List.find (\<lambda>(m, c). c_id c = r) cs = Some (m, c)"
    then show "(m, c) \<in> set cs \<and> c_id c = r" by (auto simp: find_Some_iff) (metis nth_mem)
  next
    assume mc: "(m, c) \<in> set cs \<and> c_id c = r"
    then have "List.find (\<lambda>(m, c). c_id c = r) cs \<noteq> None" by (auto simp: find_None_iff)
    then obtain m' c' where f: "List.find (\<lambda>(m, c). c_id c = r) cs = Some (m', c')" by fastforce
    then have "(m', c') \<in> set cs \<and> c_id c' = r" by (auto simp: find_Some_iff) (metis nth_mem)
    with mc sim_id_unique[OF assms] f show "List.find (\<lambda>(m, c). c_id c = r) cs = Some (m, c)" by metis
  qed
  show ?thesis using mo fnd by (auto simp: find_cont_def resolves_def sim_view_wf[OF assms])
qed

lemma wf_update:
  assumes "sim_wf (cs, ims)" "map_of cs m = Some c" "c_id c' = c_id c"
  shows "sim_wf (AList.update m c' cs, ims)"
proof -
  have ids: "map (c_id \<circ> snd) (AList.update m c' cs) = map (c_id \<circ> snd) cs"
    using assms(2,3) by (induction cs) (auto split: if_splits)
  with assms(1) show ?thesis unfolding sim_wf_def by (simp add: AList.distinct_update)
qed

lemma wf_delete: "sim_wf (cs, ims) \<Longrightarrow> sim_wf (AList.delete m cs, ims)"
  by (auto simp: sim_wf_def AList.distinct_delete AList.delete_eq distinct_map list_all_iff
       intro: inj_on_subset)

lemma wf_Cons:
  "sim_wf (cs, ims) \<Longrightarrow> n \<notin> fst ` set cs \<Longrightarrow> \<forall>(m, c') \<in> set cs. c_id c' \<noteq> c_id c \<Longrightarrow> list_all is_hex (c_id c)
   \<Longrightarrow> sim_wf ((n, c) # cs, ims)"
  by (auto simp: sim_wf_def)

lemma fresh_id_new:
  assumes "(m, c) \<in> set cs"
  shows "c_id c \<noteq> fresh_id cs"
proof -
  have "length (c_id c) \<le> sum_list (map (length \<circ> c_id \<circ> snd) cs)"
    using assms by (intro member_le_sum_list) force+
  then show ?thesis by (auto simp: fresh_id_def dest: arg_cong[where f = length])
qed

lemma fresh_id_hex: "list_all is_hex (fresh_id cs)"
  by (simp add: fresh_id_def list_all_iff is_hex_def)

lemma sim_on_triple:
  assumes "\<And>m c cs ims. sim_wf (cs, ims) \<Longrightarrow> v = sim_view (cs, ims) \<Longrightarrow> resolves v r m c \<Longrightarrow>
       map_of cs m = Some c \<Longrightarrow>
       (case f m c (cs, ims) of (Ret x, d') \<Rightarrow> Q x (sim_view d') | (Fail e, d') \<Rightarrow> E e (sim_view d') | (Panic s, d') \<Rightarrow> False)"
    and "unresolved r v \<Longrightarrow> E (no_such r) v"
  shows "vtriple sim_view v (sim_on r f) Q E"
  unfolding vtriple_def
proof (intro allI impI)
  fix d
  assume v: "sim_view d = v"
  obtain cs ims where n: "norm d = (cs, ims)" by fastforce
  then have wf: "sim_wf (cs, ims)" using wf_norm[of d] by simp
  have v': "v = sim_view (cs, ims)" using v n sim_view_norm[of d] by simp
  show "case sim_on r f d of (Ret x, w') \<Rightarrow> Q x (sim_view w') | (Fail e, w') \<Rightarrow> E e (sim_view w') | (Panic s, w') \<Rightarrow> False"
  proof (cases "find_cont cs r")
    case None
    then have "unresolved r v" using find_cont_resolves[OF wf, of r] v' by (auto simp: unresolved_def)
    with None assms(2) v' n show ?thesis by (simp add: sim_on_def)
  next
    case (Some mc)
    then obtain m c where mc: "find_cont cs r = Some (m, c)" by (cases mc) auto
    then have "resolves v r m c" using find_cont_resolves[OF wf] v' by simp
    moreover from this have "map_of cs m = Some c" by (simp add: resolves_def v' sim_view_wf[OF wf])
    ultimately show ?thesis using assms(1)[OF wf v', of m c] mc n by (simp add: sim_on_def)
  qed
qed

lemma sim_set_triple:
  assumes "\<And>m c. c_id (g c) = c_id c"
  shows "vtriple sim_view v (sim_on r (\<lambda>m c. sim_set m (g c)))
     (\<lambda>x v'. \<exists>m c. resolves v r m c \<and> v' = set_cont m (Some (g c)) v) (\<lambda>e v'. v' = v \<and> unresolved r v)"
  by (rule sim_on_triple)
     (auto simp: sim_set_def modIO_def wf_update[OF _ _ assms] sim_view_wf set_cont_def intro!: exI)

lemma sim_inspect_triple:
  "vtriple sim_view v (ContainerInspect sim_docker r)
     (\<lambda>j v'. v' = v \<and> (\<exists>m c. resolves v r m c \<and> ID j = c_id c \<and> json_Image j = c_image c \<and>
        json_Cmd j = c_cmd c \<and> Running j = c_up c))
     (\<lambda>e v'. v' = v \<and> ekind e = EDockerNotFound \<and> unresolved r v)"
  unfolding sim_docker_def docker_api.simps
  by (rule sim_on_triple) (auto simp: retIO_def no_such_def)

lemma sim_create_triple:
  "vtriple sim_view v (ContainerCreate sim_docker cfg hcfg n)
     (\<lambda>i v'. create_rel cfg n i v v') (\<lambda>e v'. v' = v \<and> (conts v n \<noteq> None \<or> \<not> images v (Image cfg)))"
  unfolding vtriple_def
proof (intro allI impI)
  fix d
  assume v: "sim_view d = v"
  obtain cs ims where n: "norm d = (cs, ims)" by fastforce
  then have wf: "sim_wf (cs, ims)" using wf_norm[of d] by simp
  have v': "v = \<lparr>conts = map_of cs, images = (\<lambda>i. i \<in> set ims)\<rparr>" using v n by (simp add: sim_view_def)
  let ?c = "\<lparr>c_id = fresh_id cs, c_up = False, c_image = Image cfg, c_cmd = Cmd cfg\<rparr>"
  have new: "sim_wf ((n, ?c) # cs, ims)" if "map_of cs n = None"
    using that fresh_id_new fresh_id_hex by (intro wf_Cons[OF wf]) (auto simp: map_of_eq_None_iff)
  show "case ContainerCreate sim_docker cfg hcfg n d of (Ret x, w') \<Rightarrow> create_rel cfg n x v (sim_view w')
      | (Fail e, w') \<Rightarrow> sim_view w' = v \<and> (conts v n \<noteq> None \<or> \<not> images v (Image cfg)) | (Panic s, w') \<Rightarrow> False"
    using new fresh_id_hex[of cs] fresh_id_new[of _ _ cs] v'
    by (auto simp: sim_docker_def sim_create_def n Let_def create_rel_def sim_view_wf wf set_cont_def
        proper_name_def dest: map_of_SomeD)
qed

lemma sim_rename_triple:
  "vtriple sim_view v (ContainerRename sim_docker a b) (\<lambda>x v'. rename_rel a b x v v')
     (\<lambda>e v'. v' = v \<and> (unresolved a v \<or> conts v b \<noteq> None))"
  unfolding sim_docker_def docker_api.simps
proof (rule sim_on_triple)
  fix m c cs ims
  assume wf: "sim_wf (cs, ims)" and v: "v = sim_view (cs, ims)" and r: "resolves v a m c" and mo: "map_of cs m = Some c"
  have new: "sim_wf ((b, c) # AList.delete m cs, ims)" if "map_of cs b = None"
  proof (rule wf_Cons[OF wf_delete[OF wf]])
    show "b \<notin> fst ` set (AList.delete m cs)" using that by (auto simp: map_of_eq_None_iff AList.delete_eq)
    have "(m, c) \<in> set cs" using mo by (rule map_of_SomeD)
    then show "\<forall>(m', c')\<in>set (AList.delete m cs). c_id c' \<noteq> c_id c"
      using sim_id_unique[OF wf] by (fastforce simp: AList.delete_eq)
    show "list_all is_hex (c_id c)" using wf \<open>(m, c) \<in> set cs\<close> by (auto simp: sim_wf_def list_all_iff)
  qed
  then show "case (case (cs, ims) of (cs, ims) \<Rightarrow>
        if map_of cs b \<noteq> None then (Fail (errorf ''Conflict''), (cs, ims)) else (Ret (), ((b, c) # AList.delete m cs, ims))) of
      (Ret x, d') \<Rightarrow> rename_rel a b x v (sim_view d')
    | (Fail e, d') \<Rightarrow> sim_view d' = v \<and> (unresolved a v \<or> conts v b \<noteq> None) | (Panic s, d') \<Rightarrow> False"
    using v r wf by (auto simp: rename_rel_def sim_view_wf set_cont_def wf_delete intro!: exI)
qed simp

lemma sim_remove_triple:
  "vtriple sim_view v (ContainerRemove sim_docker r) (\<lambda>x v'. remove_rel r x v v')
     (\<lambda>e v'. v' = v \<and> (\<forall>m c. resolves v r m c \<longrightarrow> c_up c))"
  unfolding sim_docker_def docker_api.simps
proof (rule sim_on_triple)
  fix m c cs ims
  assume wf: "sim_wf (cs, ims)" and v: "v = sim_view (cs, ims)" and r: "resolves v r m c" and mo: "map_of cs m = Some c"
  have u: "c' = c" if "resolves v r m' c'" for m' c'
    using that r find_cont_resolves[OF wf, of r m c] find_cont_resolves[OF wf, of r m' c'] v by simp
  show "case (case (cs, ims) of (cs, ims) \<Rightarrow>
        if c_up c then (Fail (errorf ''You cannot remove a running container''), (cs, ims))
        else (Ret (), (AList.delete m cs, ims))) of
      (Ret x, d') \<Rightarrow> remove_rel r x v (sim_view d')
    | (Fail e, d') \<Rightarrow> sim_view d' = v \<and> (\<forall>m c. resolves v r m c \<longrightarrow> c_up c) | (Panic s, d') \<Rightarrow> False"
  proof (cases "c_up c")
    case True
    with u show ?thesis by (auto simp: v)
  next
    case False
    with r have "remove_rel r () v (set_cont m None v)" by (auto simp: remove_rel_def)
    with False show ?thesis by (simp add: v sim_view_wf wf wf_delete set_cont_def)
  qed
qed (simp add: unresolved_def)

lemma sim_list_triple:
  "vtriple sim_view v (ContainerList sim_docker all)
     (\<lambda>ls v'. v' = v \<and> (\<forall>names \<in> set ls. names \<noteq> []) \<and>
        (\<forall>n. listed n ls \<longleftrightarrow> (\<exists>c. conts v n = Some c \<and> (all \<or> c_up c)))) (\<lambda>_ _. False)"
  unfolding vtriple_def
proof (intro allI impI)
  fix d
  assume v: "sim_view d = v"
  obtain cs ims where n: "norm d = (cs, ims)" by fastforce
  then have wf: "sim_wf (cs, ims)" using wf_norm[of d] by simp
  have v': "v = \<lparr>conts = map_of cs, images = (\<lambda>i. i \<in> set ims)\<rparr>" using v n by (simp add: sim_view_def)
  have mo: "map_of cs m = Some c \<longleftrightarrow> (m, c) \<in> set cs" for m c
    using wf by (simp add: sim_wf_def map_of_eq_Some_iff)
  have "listed n (map (\<lambda>(m, c). [''/'' @ m]) (filter (\<lambda>(m, c). all \<or> c_up c) cs)) \<longleftrightarrow>
      (\<exists>c. conts v n = Some c \<and> (all \<or> c_up c))" for n
    by (force simp: listed_def v' mo)
  then show "case ContainerList sim_docker all d of
      (Ret ls, v') \<Rightarrow> sim_view v' = v \<and> (\<forall>names \<in> set ls. names \<noteq> []) \<and>
        (\<forall>n. listed n ls \<longleftrightarrow> (\<exists>c. conts v n = Some c \<and> (all \<or> c_up c)))
      | (Fail _, _) \<Rightarrow> False | (Panic s, w') \<Rightarrow> False"
    using v n sim_view_norm[of d] by (auto simp: sim_docker_def)
qed

lemma sim_images_triple:
  "vtriple sim_view v (ImageInspect sim_docker r) (\<lambda>_ v'. v' = v \<and> images v r)
     (\<lambda>e v'. v' = v \<and> ekind e = EDockerNotFound \<and> \<not> images v r)"
  "vtriple sim_view v (ImagePull sim_docker r opts) (\<lambda>_ v'. conts v' = conts v \<and> images v \<le> images v' \<and> images v' r) (\<lambda>_ _. False)"
proof -
  have wf: "sim_wf (cs, r # ims) = sim_wf (cs, ims)" for cs r ims by (simp add: sim_wf_def)
  have "sim_view (fst (norm d), r # snd (norm d)) =
      \<lparr>conts = map_of (fst (norm d)), images = (\<lambda>i. i \<in> set (r # snd (norm d)))\<rparr>" for d r
    using wf_norm[of d] wf[of "fst (norm d)" r "snd (norm d)"] by (subst sim_view_wf) auto
  then show "vtriple sim_view v (ImagePull sim_docker r opts)
      (\<lambda>_ v'. conts v' = conts v \<and> images v \<le> images v' \<and> images v' r) (\<lambda>_ _. False)"
    by (auto simp: vtriple_def sim_docker_def le_fun_def) (simp_all add: sim_view_def)
  show "vtriple sim_view v (ImageInspect sim_docker r) (\<lambda>_ v'. v' = v \<and> images v r)
     (\<lambda>e v'. v' = v \<and> ekind e = EDockerNotFound \<and> \<not> images v r)"
    by (auto simp: vtriple_def sim_docker_def) (simp_all add: sim_view_def)
qed

lemma sim_start_triple:
  "vtriple sim_view v (ContainerStart sim_docker r) (\<lambda>x v'. start_rel r x v v') (\<lambda>e v'. v' = v \<and> unresolved r v)"
  unfolding sim_docker_def docker_api.simps by (rule vtriple_conseq[OF sim_set_triple]) (auto simp: start_rel_def)

lemma sim_stop_triple:
  "vtriple sim_view v (ContainerStop sim_docker r) (\<lambda>x v'. stop_rel r x v v') (\<lambda>e v'. v' = v \<and> unresolved r v)"
  unfolding sim_docker_def docker_api.simps by (rule vtriple_conseq[OF sim_set_triple]) (auto simp: stop_rel_def)

lemma sim_quiet_triple:
  "vtriple sim_view v (ContainerWait sim_docker r) (\<lambda>_ v'. v' = v) (\<lambda>_ _. False)"
  "vtriple sim_view v (CopyFromContainer sim_docker r p) (\<lambda>_ v'. v' = v) (\<lambda>_ _. False)"
  "vtriple sim_view v (ContainerLogs sim_docker r) (\<lambda>_ v'. v' = v) (\<lambda>_ _. False)"
  "vtriple sim_view v (Info sim_docker) (\<lambda>_ v'. v' = v) (\<lambda>_ _. False)"
  by (simp_all add: sim_docker_def vtriple_ret)

lemmas sim_triples = sim_inspect_triple sim_create_triple sim_start_triple sim_stop_triple sim_rename_triple
  sim_remove_triple sim_list_triple sim_images_triple sim_quiet_triple

lemma sim_docker_laws: "docker_laws sim_docker sim_view"
  unfolding docker_laws_def atomic_call_def
  by (intro conjI allI impI sim_view_is_wf; rule vtriple_conseq, rule sim_triples)
     (auto simp: inspect_rel_def)

lemma sim_docker_steady: "docker_steady sim_docker sim_view"
  unfolding docker_steady_def
  by (intro conjI allI impI; rule vtriple_conseq, rule sim_triples) auto

lemma sim_docker_reliable: "docker_reliable sim_docker sim_view"
  unfolding docker_reliable_def
  by (intro conjI allI impI; rule vtriple_conseq, rule sim_triples)
     (auto simp: unresolved_def)

section \<open>Properties of the container operations\<close>

definition demo_cfg :: ContainerConfig where
  "demo_cfg = ContainerConfig_zero\<lparr>Image := ''rancher/k8s:v1.8.9'', Cmd := Some [''kubelet'']\<rparr>"

definition demo_state :: sim where
  "demo_state = ([(''kubelet'', \<lparr>c_id = ''ab'', c_up = True, c_image = ''rancher/k8s:v1.7.0'', c_cmd = Some [''kubelet'']\<rparr>),
                  (''etcd'', \<lparr>c_id = ''cd'', c_up = True, c_image = ''quay.io/coreos/etcd'', c_cmd = None\<rparr>)], [])"

lemma demo_run:
  "fst (DoRunContainer sim_docker demo_cfg HostConfig_zero ''kubelet'' ''10.0.0.1'' [] demo_state) = Ret ()"
  by code_simp

text \<open>
  C12: when \<^verbatim>\<open>DoRunContainer\<close> returns without an error, a container of that name has been started.  If containers do
  not exit by themselves and there was no such container, or a running one, then the container that is there has the
  image and command asked for.  Of the other containers, only the one set aside as \<open>old-\<close> may have changed.
\<close>

theorem DoRunContainer_started:
  assumes "docker_laws api view" and "proper_name n"
    and "DoRunContainer api cfg hcfg n h prs d = (Ret (), d')"
  shows "\<exists>c. conts (view d') n = Some c \<and> c_up c \<and>
     (docker_steady api view \<longrightarrow> (\<forall>c0. conts (view d) n = Some c0 \<longrightarrow> c_up c0) \<longrightarrow> matches cfg c) \<and>
     (\<forall>m. m \<noteq> n \<longrightarrow> m \<noteq> old_name n \<longrightarrow> conts (view d') m = conts (view d) m)"
  using vtriple_Ret[OF run_triple[OF assms(1,2), of "docker_steady api view"] assms(3)]
  by (auto simp: run_post_def only_named_def split: option.splits)

theorem DoRunContainer_started_witness:
  "\<exists>c. conts (sim_view (snd (DoRunContainer sim_docker demo_cfg HostConfig_zero ''kubelet'' ''10.0.0.1'' [] demo_state)))
      ''kubelet'' = Some c \<and> c_up c \<and> matches demo_cfg c"
proof -
  let ?r = "DoRunContainer sim_docker demo_cfg HostConfig_zero ''kubelet'' ''10.0.0.1'' [] demo_state"
  have "?r = (Ret (), snd ?r)" using demo_run by (metis prod.collapse)
  moreover have "proper_name ''kubelet''" by code_simp
  moreover have "\<forall>c0. conts (sim_view demo_state) ''kubelet'' = Some c0 \<longrightarrow> c_up c0"
    by (simp add: sim_view_def demo_state_def norm_def)
  ultimately show ?thesis
    using DoRunContainer_started[OF sim_docker_laws, of "''kubelet''"] sim_docker_steady by blast
qed

text \<open>
  C13: when \<^verbatim>\<open>DoRunContainer\<close> fails, whichever call failed, the container that was there still exists, under its name or
  set aside as \<open>old-\<close>, or its replacement is already up with the image asked for; and no other container has changed.
\<close>

theorem DoRunContainer_failure_keeps_container:
  assumes "docker_laws api view" and "proper_name n"
    and "DoRunContainer api cfg hcfg n h prs d = (Fail e, d')"
  shows "(\<forall>c. conts (view d) n = Some c \<longrightarrow>
       (\<exists>m \<in> {n, old_name n}. \<exists>c'. conts (view d') m = Some c' \<and> c_id c' = c_id c) \<or>
       (\<exists>c'. conts (view d') n = Some c' \<and> c_up c' \<and> c_image c' = Image cfg)) \<and>
     (\<forall>m. m \<noteq> n \<longrightarrow> m \<noteq> old_name n \<longrightarrow> conts (view d') m = conts (view d) m)"
  using vtriple_Fail[OF run_triple[OF assms(1,2), of False] assms(3)]
  by (simp add: only_named_def not_lost_def)

text \<open>A daemon with a container already set aside: the rename fails, and so does the update.\<close>

definition demo_state_old :: sim where
  "demo_state_old = ((''old-kubelet'', \<lparr>c_id = ''ef'', c_up = False, c_image = [], c_cmd = None\<rparr>) # fst demo_state, [])"

theorem DoRunContainer_failure_keeps_container_witness:
  "\<exists>e d'. DoRunContainer sim_docker demo_cfg HostConfig_zero ''kubelet'' ''10.0.0.1'' [] demo_state_old = (Fail e, d') \<and>
     conts (sim_view d') ''etcd'' = conts (sim_view demo_state_old) ''etcd''"
proof -
  let ?r = "DoRunContainer sim_docker demo_cfg HostConfig_zero ''kubelet'' ''10.0.0.1'' [] demo_state_old"
  have "(case fst ?r of Fail e \<Rightarrow> True | _ \<Rightarrow> False)" by code_simp
  then obtain e where "fst ?r = Fail e" by (cases "fst ?r") simp_all
  then have e: "?r = (Fail e, snd ?r)" by (metis prod.collapse)
  have "proper_name ''kubelet''" "''etcd'' \<noteq> ''kubelet''" "''etcd'' \<noteq> old_name ''kubelet''" by code_simp+
  with DoRunContainer_failure_keeps_container[OF sim_docker_laws _ e]
  have "conts (sim_view (snd ?r)) ''etcd'' = conts (sim_view demo_state_old) ''etcd''" by metis
  with e show ?thesis by metis
qed

text \<open>
  C22: against a daemon in service, with an image name that parses and nothing set aside, \<^verbatim>\<open>DoRunContainer\<close>
  returns without an error: it does not fail, panic or block.
\<close>

theorem DoRunContainer_returns:
  assumes "docker_laws api view" and "docker_reliable api view" and "proper_name n"
    and "ParseNormalizedNamed api (Image cfg) = Inr r" and "conts (view d) (old_name n) = None"
  shows "\<exists>d'. DoRunContainer api cfg hcfg n h prs d = (Ret (), d')"
  using vtriple_returns[OF run_total[OF assms]] by auto

theorem DoRunContainer_returns_witness:
  "\<exists>d'. DoRunContainer sim_docker demo_cfg HostConfig_zero ''kubelet'' ''10.0.0.1'' [] demo_state = (Ret (), d')"
proof (rule DoRunContainer_returns[OF sim_docker_laws sim_docker_reliable])
  show "proper_name ''kubelet''" by code_simp
  show "ParseNormalizedNamed sim_docker (Image demo_cfg) =
      Inr \<lparr>ref_domain = ''docker.io'', ref_path = ''rancher/k8s:v1.8.9'', ref_tag = [], ref_digest = []\<rparr>" by code_simp
  show "conts (sim_view demo_state) (old_name ''kubelet'') = None"
    by (simp add: sim_view_def demo_state_def norm_def sim_wf_def old_name_def)
qed

text \<open>
  C23: running a container a second time with the same configuration changes nothing, whatever the second run returns,
  when the configuration gives a command or an entry point and containers do not exit by themselves.
\<close>

theorem DoRunContainer_idempotent:
  assumes "docker_laws api view" and "docker_steady api view" and "proper_name n"
    and "Cmd cfg \<noteq> None \<or> Entrypoint cfg \<noteq> None"
    and "\<And>c0. conts (view d) n = Some c0 \<Longrightarrow> c_up c0"
    and "DoRunContainer api cfg hcfg n h prs d = (Ret (), d1)"
    and "DoRunContainer api cfg hcfg n h prs d1 = (r, d2)"
  shows "view d2 = view d1 \<and> (\<forall>s. r \<noteq> Panic s)"
proof -
  have "run_post True cfg n (view d) (view d1)"
    using vtriple_Ret[OF run_triple[where S = True, OF assms(1,3,2)] assms(6)] .
  then obtain c where c: "conts (view d1) n = Some c" "matches cfg c"
    using assms(5) by (auto simp: run_post_def split: option.splits)
  then have "c_up c" "c_image c = Image cfg" "c_cmd c = Cmd cfg" using assms(4) by (auto simp: matches_def)
  note again = run_again_triple[OF assms(1-3) c(1) this]
  show ?thesis
    by (cases r) (use assms(7) again in \<open>auto dest: vtriple_Ret vtriple_Fail vtriple_no_panic\<close>)
qed

theorem DoRunContainer_idempotent_witness:
  "\<exists>d1 d2 r. DoRunContainer sim_docker demo_cfg HostConfig_zero ''kubelet'' ''10.0.0.1'' [] demo_state = (Ret (), d1) \<and>
     DoRunContainer sim_docker demo_cfg HostConfig_zero ''kubelet'' ''10.0.0.1'' [] d1 = (r, d2) \<and> sim_view d2 = sim_view d1"
proof -
  let ?r = "DoRunContainer sim_docker demo_cfg HostConfig_zero ''kubelet'' ''10.0.0.1'' []"
  obtain d1 where d1: "?r demo_state = (Ret (), d1)" using demo_run by (metis prod.collapse)
  obtain r d2 where d2: "?r d1 = (r, d2)" by (cases "?r d1")
  have "sim_view d2 = sim_view d1 \<and> (\<forall>s. r \<noteq> Panic s)"
  proof (rule DoRunContainer_idempotent[OF sim_docker_laws sim_docker_steady _ _ _ d1 d2])
    show "proper_name ''kubelet''" by code_simp
    show "Cmd demo_cfg \<noteq> None \<or> Entrypoint demo_cfg \<noteq> None" by code_simp
    show "\<And>c0. conts (sim_view demo_state) ''kubelet'' = Some c0 \<Longrightarrow> c_up c0"
      by (simp add: sim_view_def demo_state_def norm_def split: if_splits)
  qed
  with d1 d2 show ?thesis by blast
qed

text \<open>
  \<^verbatim>\<open>DoRemoveContainer\<close> that returns has removed exactly the container of that name, or found none; one that fails
  has touched no other container; it never panics.
\<close>

theorem DoRemoveContainer_removes:
  assumes "docker_laws api view" and "proper_name n"
  shows "case DoRemoveContainer api n h d of
       (Ret _, d') \<Rightarrow> conts (view d') = (conts (view d))(n := None) \<and> images (view d') = images (view d)
     | (Fail e, d') \<Rightarrow> \<forall>m. m \<noteq> n \<longrightarrow> conts (view d') m = conts (view d) m
     | (Panic s, d') \<Rightarrow> False"
proof -
  obtain r d' where r: "DoRemoveContainer api n h d = (r, d')" by fastforce
  with do_remove_triple[OF assms, of "view d" h] show ?thesis
    by (cases r) (auto dest: vtriple_Ret vtriple_Fail vtriple_no_panic)
qed

theorem DoRemoveContainer_removes_witness:
  "case DoRemoveContainer sim_docker ''kubelet'' ''10.0.0.1'' demo_state of
       (Ret _, d') \<Rightarrow> conts (sim_view d') = (conts (sim_view demo_state))(''kubelet'' := None) \<and>
          images (sim_view d') = images (sim_view demo_state)
     | (Fail e, d') \<Rightarrow> \<forall>m. m \<noteq> ''kubelet'' \<longrightarrow> conts (sim_view d') m = conts (sim_view demo_state) m
     | (Panic s, d') \<Rightarrow> False"
  by (rule DoRemoveContainer_removes[OF sim_docker_laws]) code_simp

text \<open>
  a container that exists but is stopped is started as it is: its image and command are not compared with
  the ones asked for, so a stopped container is not upgraded.
\<close>

theorem DoRunContainer_stopped_not_upgraded:
  assumes "docker_laws api view" and "docker_steady api view" and "proper_name n"
    and "conts (view d) n = Some c0" and "\<not> c_up c0"
    and "DoRunContainer api cfg hcfg n h prs d = (Ret (), d')"
  shows "conts (view d') n = Some (c0\<lparr>c_up := True\<rparr>)"
proof -
  have "run_post True cfg n (view d) (view d')"
    using vtriple_Ret[OF run_triple[where S = True, OF assms(1,3,2)] assms(6)] .
  with assms(4,5) show ?thesis by (auto simp: run_post_def)
qed

definition demo_state_stopped :: sim where
  "demo_state_stopped =
     ([(''kubelet'', \<lparr>c_id = ''ab'', c_up = False, c_image = ''rancher/k8s:v1.7.0'', c_cmd = Some [''kubelet'']\<rparr>)], [])"

theorem DoRunContainer_stopped_not_upgraded_witness:
  "conts (sim_view (snd (DoRunContainer sim_docker demo_cfg HostConfig_zero ''kubelet'' ''10.0.0.1'' [] demo_state_stopped)))
     ''kubelet'' = Some \<lparr>c_id = ''ab'', c_up = True, c_image = ''rancher/k8s:v1.7.0'', c_cmd = Some [''kubelet'']\<rparr>"
proof -
  let ?r = "DoRunContainer sim_docker demo_cfg HostConfig_zero ''kubelet'' ''10.0.0.1'' [] demo_state_stopped"
  let ?c = "\<lparr>c_id = ''ab'', c_up = False, c_image = ''rancher/k8s:v1.7.0'', c_cmd = Some [''kubelet'']\<rparr>"
  have "fst ?r = Ret ()" by code_simp
  then have r: "?r = (Ret (), snd ?r)" by (metis prod.collapse)
  have p: "proper_name ''kubelet''" and w: "sim_wf demo_state_stopped" by code_simp+
  then have "conts (sim_view demo_state_stopped) ''kubelet'' = Some ?c"
    by (simp add: sim_view_def demo_state_stopped_def)
  from DoRunContainer_stopped_not_upgraded[OF sim_docker_laws sim_docker_steady p this _ r] show ?thesis by simp
qed

end
