(* ===== verification/RKE_Sim.thy ===== *)
theory RKE_Sim
  imports RKE_World Docker_Sim
begin

text \<open>
  An executable world: daemons as in \<open>Docker_Sim\<close>, a Kubernetes API server that keeps nodes and objects in lists, and an
  outside that numbers the keys it makes and answers every request.  Concrete runs of the development use it, and it
  satisfies the hypotheses the properties make about the services.
\<close>

section \<open>A Kubernetes API server in memory\<close>

record sim_kube =
  sk_nodes :: "Node list"
  sk_objs :: "((k8s_kind \<times> string \<times> string) \<times> K8sObject) list"

definition k8s_not_found :: gerror where
  "k8s_not_found = GErr EK8sNotFound ''not found''"

definition sim_kube_api :: "sim_kube kube_api" where
  "sim_kube_api = \<lparr>
     NodesGet = (\<lambda>c n k. (case List.find (\<lambda>x. node_Name x = n) (sk_nodes k) of None \<Rightarrow> Fail k8s_not_found | Some x \<Rightarrow> Ret x, k)),
     NodesList = (\<lambda>c k. (Ret (sk_nodes k), k)),
     NodesUpdate = (\<lambda>c x k. if List.find (\<lambda>y. node_Name y = node_Name x) (sk_nodes k) = None then (Fail k8s_not_found, k)
        else (Ret (), k\<lparr>sk_nodes := map (\<lambda>y. if node_Name y = node_Name x then x else y) (sk_nodes k)\<rparr>)),
     NodesDelete = (\<lambda>c n k. if List.find (\<lambda>y. node_Name y = n) (sk_nodes k) = None then (Fail k8s_not_found, k)
        else (Ret (), k\<lparr>sk_nodes := filter (\<lambda>y. node_Name y \<noteq> n) (sk_nodes k)\<rparr>)),
     ObjCreate = (\<lambda>c t ns x k. if map_of (sk_objs k) (t, ns, obj_Name x) \<noteq> None then (Fail (GErr EK8sAlreadyExists ''already exists''), k)
        else (Ret (), k\<lparr>sk_objs := ((t, ns, obj_Name x), x) # sk_objs k\<rparr>)),
     ObjUpdate = (\<lambda>c t ns x k. if map_of (sk_objs k) (t, ns, obj_Name x) = None then (Fail k8s_not_found, k)
        else (Ret (), k\<lparr>sk_objs := AList.update (t, ns, obj_Name x) x (sk_objs k)\<rparr>)),
     ObjGet = (\<lambda>c t ns n k. (case map_of (sk_objs k) (t, ns, n) of None \<Rightarrow> Fail k8s_not_found | Some x \<Rightarrow> Ret x, k)),
     JobGet = (\<lambda>c ns n k. (case map_of (sk_objs k) (KJob, ns, n) of None \<Rightarrow> Fail k8s_not_found
        | Some x \<Rightarrow> Ret \<lparr>job_Conditions = [(''Complete'', ''True'')]\<rparr>, k)),
     ServerVersion = (\<lambda>c k. (Ret ''v1.8.7'', k))\<rparr>"

section \<open>An outside that answers\<close>

record sim_ext =
  sx_next :: nat
  sx_members :: "EtcdMember list"
  sx_lines :: "string list"

definition sim_ext_api :: "sim_ext ext_api" where
  "sim_ext_api = \<lparr>
     NewPrivateKey = (\<lambda>e. (Ret (RSAKey (sx_next e)), e\<lparr>sx_next := Suc (sx_next e)\<rparr>)),
     RandSerial = retIO (), CreateCertificate = retIO (), ReadPassword = retIO ''secret'',
     CustomFactoryCall = (\<lambda>n a. retIO (CustomDial n)), NewDockerClient = (\<lambda>a d. retIO ()),
     SSHDial = (\<lambda>a cfg. retIO ()), ConnDial = (\<lambda>n a. retIO ()), NetDial = (\<lambda>a. retIO ()),
     HTTPGet = (\<lambda>d a u. retIO (200, ''ok'')), EtcdHealthGet = (\<lambda>d a. retIO ''true''),
     EtcdMemberAdd = (\<lambda>a u e. (Ret (), e\<lparr>sx_members := sx_members e @ [\<lparr>mem_ID = u, mem_Name = []\<rparr>]\<rparr>)),
     EtcdMemberList = (\<lambda>a e. (Ret (sx_members e), e)),
     EtcdMemberRemove = (\<lambda>a i e. (Ret (), e\<lparr>sx_members := filter (\<lambda>m. mem_ID m \<noteq> i) (sx_members e)\<rparr>)),
     ReadLine = (\<lambda>e. case sx_lines e of [] \<Rightarrow> (Fail (errorf ''EOF''), e) | l # ls \<Rightarrow> (Ret l, e\<lparr>sx_lines := ls\<rparr>))\<rparr>"

lemma sim_ext_answers: "ext_answers sim_ext_api"
  by (auto simp: ext_answers_def answers_def sim_ext_api_def split: list.splits)

lemma sim_kube_answers: "kube_answers sim_kube_api"
  by (auto simp: kube_answers_def answers_def sim_kube_api_def split: option.splits)

section \<open>The environment\<close>

fun sim_key_string :: "rsa_key \<Rightarrow> string" where
  "sim_key_string (RSAKey n) = replicate n CHR ''k''"

definition sim_env :: "(sim, sim_kube, sim_ext) env" where
  "sim_env = \<lparr>dockerAPI = sim_docker, kubeAPI = sim_kube_api, extAPI = sim_ext_api,
     EncodeCert = (\<lambda>c. SubjectCN c), EncodeKey = sim_key_string,
     ParseCertsPEM = (\<lambda>s. Inl (errorf ''data does not contain any valid RSA or ECDSA certificates'')),
     ParsePrivateKeyPEM = (\<lambda>s. Inr (AnyRSA (RSAKey (length s)))),
     X509KeyPair = (\<lambda>c k. Inr ()),
     SSHParsePrivateKey = (\<lambda>s. Inr (length s)), SSHParsePrivateKeyWithPassphrase = (\<lambda>s p. Inr (length s)),
     HomeDir = ''/root'',
     BuildConfig = (\<lambda>f. case f of None \<Rightarrow> Inl (errorf ''no such file'')
        | Some s \<Rightarrow> Inr \<lparr>rest_Host = ''https://10.0.0.1:6443'', CAData = [], CertData = [], KeyData = []\<rparr>),
     NewForConfig = (\<lambda>c. Inr ()),
     DecodeYaml = (\<lambda>t s. Inr \<lparr>obj_Name = ''o'', obj_Namespace = [], obj_Data = []\<rparr>),
     YamlMarshal = (\<lambda>c. Inr ''nodes''), YamlUnmarshal = (\<lambda>s. Inl (errorf ''yaml'')),
     Getwd = Inr ''/root'', Writable = (\<lambda>p. True), Attempts = 6\<rparr>"

lemma sim_env_sel [simp]:
  "dockerAPI sim_env = sim_docker" "kubeAPI sim_env = sim_kube_api" "extAPI sim_env = sim_ext_api"
  by (simp_all add: sim_env_def)

definition Host_zero :: Host where
  "Host_zero = \<lparr>MachineName = [], Address = [], InternalAddress = [], Role = [], HostnameOverride = [], node_User = [],
     DockerSocket = [], SSHKey = [], node_SSHKeyPath = [], node_Labels = [], DClient = None, LocalConnPort = 0,
     IsControl = False, IsWorker = False, IsEtcd = False, IgnoreDockerVersion = False, ToAddEtcdMember = False,
     ExistingEtcdCluster = False, SavedKeyPhrase = [], ToAddLabels = [], ToDelLabels = [], ToAddTaints = [], ToDelTaints = []\<rparr>"

text \<open>A host with a connected client.\<close>

definition sim_host :: "string \<Rightarrow> Host" where
  "sim_host a = Host_zero\<lparr>Address := a, InternalAddress := a, HostnameOverride := a, node_User := ''ubuntu'',
     node_SSHKeyPath := ''~/.ssh/id_rsa'', DClient := Some a\<rparr>"

definition sim_world :: "Host list \<Rightarrow> (sim, sim_kube, sim_ext) world" where
  "sim_world hs = \<lparr>hstore = hs, daemons = (\<lambda>a. ([], [])), kube = \<lparr>sk_nodes = [], sk_objs = []\<rparr>,
     ext = \<lparr>sx_next = 0, sx_members = [], sx_lines = []\<rparr>, files = Map.empty\<rparr>"

end
