(* ===== verification/Pki.thy ===== *)
theory Pki
  imports RKE_Sim
begin

text \<open>
  \<^verbatim>\<open>pki/constants.go\<close>, \<^verbatim>\<open>pki/util.go\<close>, \<^verbatim>\<open>pki/kubeconfig.go\<close> and \<^verbatim>\<open>pki/pki.go\<close>: names and paths of certificates, certificate
  objects, kubeconfig files, and the generation of the certificates of a cluster, over the model of
  \<^verbatim>\<open>vendor/k8s.io/client-go/util/cert\<close>.
\<close>

section \<open>Constants\<close>

definition CertPathPrefix :: string where "CertPathPrefix = ''/etc/kubernetes/ssl/''"
definition CrtDownloaderContainer :: string where "CrtDownloaderContainer = ''cert-deployer''"
definition CertFetcherContainer :: string where "CertFetcherContainer = ''cert-fetcher''"
definition TempCertPath :: string where "TempCertPath = ''/etc/kubernetes/.tmp/''"
definition CACertName :: string where "CACertName = ''kube-ca''"
definition KubeAPICertName :: string where "KubeAPICertName = ''kube-apiserver''"
definition KubeControllerCertName :: string where "KubeControllerCertName = ''kube-controller-manager''"
definition KubeSchedulerCertName :: string where "KubeSchedulerCertName = ''kube-scheduler''"
definition KubeProxyCertName :: string where "KubeProxyCertName = ''kube-proxy''"
definition KubeNodeCertName :: string where "KubeNodeCertName = ''kube-node''"
definition EtcdCertName :: string where "EtcdCertName = ''kube-etcd''"
definition KubeNodeCommonName :: string where "KubeNodeCommonName = ''system:node''"
definition KubeNodeOrganizationName :: string where "KubeNodeOrganizationName = ''system:nodes''"
definition KubeAdminCertName :: string where "KubeAdminCertName = ''kube-admin''"
definition KubeAdminOrganizationName :: string where "KubeAdminOrganizationName = ''system:masters''"
definition KubeAdminConfigPrefix :: string where "KubeAdminConfigPrefix = ''kube_config_''"

lemmas cert_name_defs = CACertName_def KubeAPICertName_def KubeControllerCertName_def KubeSchedulerCertName_def
  KubeProxyCertName_def KubeNodeCertName_def EtcdCertName_def KubeAdminCertName_def

section \<open>Names, paths and environment variables\<close>

definition getEnvFromName :: "string \<Rightarrow> string" where
  "getEnvFromName name = replace_char CHR ''-'' CHR ''_'' (to_upper name)"

definition getKeyEnvFromEnv :: "string \<Rightarrow> string" where
  "getKeyEnvFromEnv e = e @ ''_KEY''"

definition getConfigEnvFromEnv :: "string \<Rightarrow> string" where
  "getConfigEnvFromEnv e = ''KUBECFG_'' @ e"

definition GetEtcdCrtName :: "string \<Rightarrow> string" where
  "GetEtcdCrtName address = EtcdCertName @ ''-'' @ replace_char CHR ''.'' CHR ''-'' address"

definition GetCertPath :: "string \<Rightarrow> string" where
  "GetCertPath name = CertPathPrefix @ name @ ''.pem''"

definition GetKeyPath :: "string \<Rightarrow> string" where
  "GetKeyPath name = CertPathPrefix @ name @ ''-key.pem''"

definition GetConfigPath :: "string \<Rightarrow> string" where
  "GetConfigPath name = CertPathPrefix @ ''kubecfg-'' @ name @ ''.yaml''"

definition GetCertTempPath :: "string \<Rightarrow> string" where
  "GetCertTempPath name = TempCertPath @ name @ ''.pem''"

definition GetKeyTempPath :: "string \<Rightarrow> string" where
  "GetKeyTempPath name = TempCertPath @ name @ ''-key.pem''"

definition GetConfigTempPath :: "string \<Rightarrow> string" where
  "GetConfigTempPath name = TempCertPath @ ''kubecfg-'' @ name @ ''.yaml''"

definition getDefaultCN :: "string \<Rightarrow> string" where
  "getDefaultCN name = ''system:'' @ name"

section \<open>Kubeconfig files\<close>

definition getKubeConfigX509 :: "string \<Rightarrow> string \<Rightarrow> string \<Rightarrow> string \<Rightarrow> string \<Rightarrow> string" where
  \<open>getKubeConfigX509 kubernetesURL componentName caPath crtPath keyPath = ''apiVersion: v1
kind: Config
clusters:
- cluster:
    api-version: v1
    certificate-authority: '' @ caPath @ ''
    server: "'' @ kubernetesURL @ ''"
  name: "local"
contexts:
- context:
    cluster: "local"
    user: "'' @ componentName @ ''"
  name: "Default"
current-context: "Default"
users:
- name: "'' @ componentName @ ''"
  user:
    client-certificate: '' @ crtPath @ ''
    client-key: '' @ keyPath\<close>

definition GetKubeConfigX509WithData :: "string \<Rightarrow> string \<Rightarrow> string \<Rightarrow> string \<Rightarrow> string \<Rightarrow> string" where
  \<open>GetKubeConfigX509WithData kubernetesURL componentName cacrt crt key = ''apiVersion: v1
kind: Config
clusters:
- cluster:
    api-version: v1
    certificate-authority-data: '' @ b64_encode b64_std cacrt @ ''
    server: "'' @ kubernetesURL @ ''"
  name: "local"
contexts:
- context:
    cluster: "local"
    user: "'' @ componentName @ ''"
  name: "Default"
current-context: "Default"
users:
- name: "'' @ componentName @ ''"
  user:
    client-certificate-data: '' @ b64_encode b64_std crt @ ''
    client-key-data: '' @ b64_encode b64_std key\<close>

section \<open>Certificate objects\<close>

definition ToCertObject ::
  "string \<Rightarrow> string \<Rightarrow> string \<Rightarrow> x509_cert option \<Rightarrow> rsa_key option \<Rightarrow> CertificatePKI" where
  "ToCertObject componentName commonName ouName crt key =
     (let commonName' = (if commonName = [] then getDefaultCN componentName else commonName);
          envName = getEnvFromName componentName;
          keyEnvName = getKeyEnvFromEnv envName;
          caCertPath = GetCertPath CACertName;
          path = GetCertPath componentName;
          keyPath = GetKeyPath componentName;
          hasConfig = (componentName \<noteq> CACertName \<and> componentName \<noteq> KubeAPICertName \<and>
                       \<not> contains EtcdCertName componentName)
      in \<lparr>Certificate = crt, cert_Key = key,
          cert_Config = (if hasConfig then getKubeConfigX509 ''https://127.0.0.1:6443'' componentName caCertPath path keyPath else []),
          cert_Name = componentName, CommonName = commonName', OUName = ouName, EnvName = envName,
          cert_Path = path, KeyEnvName = keyEnvName, KeyPath = keyPath,
          ConfigEnvName = (if hasConfig then getConfigEnvFromEnv envName else []),
          ConfigPath = (if hasConfig then GetConfigPath componentName else [])\<rparr>)"

text \<open>Encoding a nil certificate or key dereferences it.\<close>

definition EncodeCertPEM :: "('d, 'k, 'e) env \<Rightarrow> x509_cert option \<Rightarrow> ('w, string) io" where
  "EncodeCertPEM env c = (case c of None \<Rightarrow> panicIO ''nil pointer dereference'' | Some crt \<Rightarrow> retIO (EncodeCert env crt))"

definition EncodePrivateKeyPEM :: "('d, 'k, 'e) env \<Rightarrow> rsa_key option \<Rightarrow> ('w, string) io" where
  "EncodePrivateKeyPEM env k = (case k of None \<Rightarrow> panicIO ''nil pointer dereference'' | Some key \<Rightarrow> retIO (EncodeKey env key))"

definition CertToEnv :: "('d, 'k, 'e) env \<Rightarrow> CertificatePKI \<Rightarrow> ('w, string) io" where
  "CertToEnv env c = bindIO (EncodeCertPEM env (Certificate c)) (\<lambda>s. retIO (EnvName c @ ''='' @ s))"

definition KeyToEnv :: "('d, 'k, 'e) env \<Rightarrow> CertificatePKI \<Rightarrow> ('w, string) io" where
  "KeyToEnv env c = bindIO (EncodePrivateKeyPEM env (cert_Key c)) (\<lambda>s. retIO (KeyEnvName c @ ''='' @ s))"

definition ConfigToEnv :: "CertificatePKI \<Rightarrow> string" where
  "ConfigToEnv c = ConfigEnvName c @ ''='' @ cert_Config c"

definition ToEnv :: "('d, 'k, 'e) env \<Rightarrow> CertificatePKI \<Rightarrow> ('w, string list) io" where
  "ToEnv env c =
     bindIO (CertToEnv env c) (\<lambda>crt.
     bindIO (KeyToEnv env c) (\<lambda>key.
       retIO (if cert_Config c \<noteq> [] then [crt, key, ConfigToEnv c] else [crt, key])))"

section \<open>Signing\<close>

definition AltNames_zero :: AltNames where
  "AltNames_zero = \<lparr>DNSNames = [], alt_IPs = []\<rparr>"

definition NewSelfSignedCACert ::
  "('d, 'k, 'e) env \<Rightarrow> string \<Rightarrow> string list \<Rightarrow> rsa_key \<Rightarrow> ('d, 'k, 'e, x509_cert) wio" where
  "NewSelfSignedCACert env cn orgs key =
     thenIO (onExt (CreateCertificate (extAPI env)))
       (retIO \<lparr>SubjectCN = cn, SubjectOrg = orgs, cert_AltNames = AltNames_zero, cert_Usages = [], IsCA = True,
               PublicKey = key, SignedBy = key, IssuerCN = cn\<rparr>)"

definition NewSignedCert ::
  "('d, 'k, 'e) env \<Rightarrow> string \<Rightarrow> string list \<Rightarrow> ExtKeyUsage list \<Rightarrow> AltNames \<Rightarrow> rsa_key option \<Rightarrow>
   x509_cert option \<Rightarrow> rsa_key option \<Rightarrow> ('d, 'k, 'e, x509_cert) wio" where
  "NewSignedCert env cn orgs usages altNames key caCert caKey =
     thenIO (onExt (RandSerial (extAPI env)))
       (if cn = [] then failIO (errorf ''must specify a CommonName'')
        else if usages = [] then failIO (errorf ''must specify at least one ExtKeyUsage'')
        else (case (key, caCert, caKey) of
            (Some k, Some ca, Some ck) \<Rightarrow>
              thenIO (onExt (CreateCertificate (extAPI env)))
                (retIO \<lparr>SubjectCN = cn, SubjectOrg = orgs, cert_AltNames = altNames, cert_Usages = usages, IsCA = False,
                        PublicKey = k, SignedBy = ck, IssuerCN = SubjectCN ca\<rparr>)
          | _ \<Rightarrow> panicIO ''nil pointer dereference''))"

definition GenerateSignedCertAndKey ::
  "('d, 'k, 'e) env \<Rightarrow> x509_cert option \<Rightarrow> rsa_key option \<Rightarrow> bool \<Rightarrow> string \<Rightarrow> AltNames option \<Rightarrow> rsa_key option \<Rightarrow>
   string list \<Rightarrow> ('d, 'k, 'e, x509_cert \<times> rsa_key) wio" where
  "GenerateSignedCertAndKey env caCrt caKey serverCrt commonName altNames reusedKey orgs =
     bindIO (case reusedKey of
               Some k \<Rightarrow> retIO k
             | None \<Rightarrow> wrapIO (''Failed to generate private key for '' @ commonName @ '' certificate: '')
                         (onExt (NewPrivateKey (extAPI env))))
       (\<lambda>rootKey.
         bindIO (wrapIO (''Failed to generate '' @ commonName @ '' certificate: '')
                   (NewSignedCert env commonName orgs
                      (if serverCrt then [ExtKeyUsageClientAuth, ExtKeyUsageServerAuth] else [ExtKeyUsageClientAuth])
                      (case altNames of None \<Rightarrow> AltNames_zero | Some a \<Rightarrow> a) (Some rootKey) caCrt caKey))
           (\<lambda>crt. retIO (crt, rootKey)))"

definition generateCACertAndKey :: "('d, 'k, 'e) env \<Rightarrow> ('d, 'k, 'e, x509_cert \<times> rsa_key) wio" where
  "generateCACertAndKey env =
     bindIO (wrapIO ''Failed to generate private key for CA certificate: '' (onExt (NewPrivateKey (extAPI env))))
       (\<lambda>rootKey. bindIO (wrapIO ''Failed to generate CA certificate: '' (NewSelfSignedCACert env CACertName [] rootKey))
         (\<lambda>crt. retIO (crt, rootKey)))"

text \<open>The addresses of the hosts: those that parse as an IP and those that are names.\<close>

definition altAddress :: "string \<Rightarrow> AltNames \<Rightarrow> AltNames" where
  "altAddress a n = (case ParseIP a of
       Some i \<Rightarrow> n\<lparr>alt_IPs := alt_IPs n @ [Some i]\<rparr>
     | None \<Rightarrow> n\<lparr>DNSNames := DNSNames n @ [a]\<rparr>)"

definition altHost :: "Host \<Rightarrow> AltNames \<Rightarrow> AltNames" where
  "altHost h n =
     (let n1 = altAddress (Address h) n;
          n2 = (if InternalAddress h \<noteq> [] \<and> InternalAddress h \<noteq> Address h then altAddress (InternalAddress h) n1 else n1)
      in if HostnameOverride h \<noteq> [] \<and> HostnameOverride h \<noteq> Address h
         then n2\<lparr>DNSNames := DNSNames n2 @ [HostnameOverride h]\<rparr> else n2)"

fun altHosts :: "Host list \<Rightarrow> AltNames \<Rightarrow> AltNames" where
  "altHosts [] n = n"
| "altHosts (h # hs) n = altHosts hs (altHost h n)"

definition GetAltNames :: "Host list \<Rightarrow> string \<Rightarrow> ip option \<Rightarrow> AltNames" where
  "GetAltNames cpHosts clusterDomain serviceIP =
     (let n = altHosts cpHosts AltNames_zero in
      \<lparr>DNSNames = DNSNames n @ [''localhost'', ''kubernetes'', ''kubernetes.default'', ''kubernetes.default.svc'',
                    ''kubernetes.default.svc.'' @ clusterDomain],
       alt_IPs = alt_IPs n @ [ParseIP ''127.0.0.1'', serviceIP]\<rparr>)"

section \<open>The certificates of a cluster\<close>

text \<open>One certificate of \<^verbatim>\<open>generateCerts\<close>: signed, turned into an object and put into the map.\<close>

definition addSigned ::
  "('d, 'k, 'e) env \<Rightarrow> x509_cert \<Rightarrow> rsa_key \<Rightarrow> bool \<Rightarrow> string \<Rightarrow> AltNames option \<Rightarrow> string list \<Rightarrow>
   string \<Rightarrow> string \<Rightarrow> string \<Rightarrow> CertificatePKI gomap \<Rightarrow> ('d, 'k, 'e, CertificatePKI gomap) wio" where
  "addSigned env caCrt caKey server cn altNames orgs component objCN objOU certs =
     bindIO (GenerateSignedCertAndKey env (Some caCrt) (Some caKey) server cn altNames None orgs)
       (\<lambda>(crt, key). retIO (mput component (ToCertObject component objCN objOU (Some crt) (Some key)) certs))"

definition addAdmin ::
  "('d, 'k, 'e) env \<Rightarrow> x509_cert \<Rightarrow> rsa_key \<Rightarrow> Host list \<Rightarrow> string \<Rightarrow> CertificatePKI gomap \<Rightarrow>
   ('d, 'k, 'e, CertificatePKI gomap) wio" where
  "addAdmin env caCrt caKey cpHosts localConfigPath certs =
     bindIO (GenerateSignedCertAndKey env (Some caCrt) (Some caKey) False KubeAdminCertName None None [KubeAdminOrganizationName])
       (\<lambda>(crt, key). case cpHosts of
          [] \<Rightarrow> panicIO ''index out of range''
        | h # _ \<Rightarrow>
            retIO (mput KubeAdminCertName
              ((ToCertObject KubeAdminCertName KubeAdminCertName KubeAdminOrganizationName (Some crt) (Some key))
                 \<lparr>cert_Config := GetKubeConfigX509WithData (''https://'' @ Address h @ '':6443'') KubeAdminCertName
                                   (EncodeCert env caCrt) (EncodeCert env crt) (EncodeKey env key),
                  ConfigPath := localConfigPath\<rparr>) certs))"

definition addEtcd ::
  "('d, 'k, 'e) env \<Rightarrow> x509_cert \<Rightarrow> rsa_key \<Rightarrow> AltNames \<Rightarrow> Host \<Rightarrow> CertificatePKI gomap \<Rightarrow>
   ('d, 'k, 'e, CertificatePKI gomap) wio" where
  "addEtcd env caCrt caKey altNames host certs =
     addSigned env caCrt caKey True EtcdCertName (Some altNames) [] (GetEtcdCrtName (InternalAddress host)) [] [] certs"

definition generateCerts ::
  "('d, 'k, 'e) env \<Rightarrow> Host list \<Rightarrow> Host list \<Rightarrow> string \<Rightarrow> string \<Rightarrow> ip option \<Rightarrow>
   ('d, 'k, 'e, CertificatePKI gomap) wio" where
  "generateCerts env cpHosts etcdHosts clusterDomain localConfigPath serviceIP =
     bindIO (generateCACertAndKey env) (\<lambda>(caCrt, caKey).
     bindIO (addSigned env caCrt caKey True KubeAPICertName (Some (GetAltNames cpHosts clusterDomain serviceIP)) []
               KubeAPICertName [] [] (mput CACertName (ToCertObject CACertName [] [] (Some caCrt) (Some caKey)) [])) (\<lambda>certs.
     bindIO (addSigned env caCrt caKey False (getDefaultCN KubeControllerCertName) None [] KubeControllerCertName [] [] certs) (\<lambda>certs.
     bindIO (addSigned env caCrt caKey False (getDefaultCN KubeSchedulerCertName) None [] KubeSchedulerCertName [] [] certs) (\<lambda>certs.
     bindIO (addSigned env caCrt caKey False (getDefaultCN KubeProxyCertName) None [] KubeProxyCertName [] [] certs) (\<lambda>certs.
     bindIO (addSigned env caCrt caKey False KubeNodeCommonName None [KubeNodeOrganizationName] KubeNodeCertName
               KubeNodeCommonName KubeNodeOrganizationName certs) (\<lambda>certs.
     bindIO (addAdmin env caCrt caKey cpHosts localConfigPath certs)
       (foldIO (addEtcd env caCrt caKey (GetAltNames etcdHosts clusterDomain serviceIP)) etcdHosts)))))))"

definition StartCertificatesGeneration ::
  "('d, 'k, 'e) env \<Rightarrow> Host list \<Rightarrow> Host list \<Rightarrow> string \<Rightarrow> string \<Rightarrow> ip option \<Rightarrow>
   ('d, 'k, 'e, CertificatePKI gomap) wio" where
  "StartCertificatesGeneration env cpHosts etcdHosts clusterDomain localConfigPath serviceIP =
     generateCerts env cpHosts etcdHosts clusterDomain localConfigPath serviceIP"

definition RegenerateEtcdCertificate ::
  "('d, 'k, 'e) env \<Rightarrow> CertificatePKI gomap \<Rightarrow> Host \<Rightarrow> Host list \<Rightarrow> string \<Rightarrow> ip option \<Rightarrow>
   ('d, 'k, 'e, CertificatePKI gomap) wio" where
  "RegenerateEtcdCertificate env crtMap etcdHost etcdHosts clusterDomain serviceIP =
     (let ca = cert_get crtMap CACertName;
          etcdAltNames = GetAltNames etcdHosts clusterDomain serviceIP
      in bindIO (GenerateSignedCertAndKey env (Certificate ca) (cert_Key ca) True EtcdCertName (Some etcdAltNames) None [])
           (\<lambda>(crt, key).
              let etcdName = GetEtcdCrtName (InternalAddress etcdHost)
              in retIO (mput etcdName (ToCertObject etcdName [] [] (Some crt) (Some key)) crtMap)))"

section \<open>What the certificates are\<close>

subsection \<open>Names\<close>

lemma GetEtcdCrtName_inj:
  assumes "CHR ''-'' \<notin> set a" "CHR ''-'' \<notin> set b" "GetEtcdCrtName a = GetEtcdCrtName b"
  shows "a = b"
  using assms replace_char_inj[of "CHR ''-''" a b "CHR ''.''"] by (simp add: GetEtcdCrtName_def)

text \<open>The name of an etcd certificate is none of the fixed names.\<close>

lemma etcd_name_neq [simp]:
  "GetEtcdCrtName a \<noteq> CACertName" "GetEtcdCrtName a \<noteq> KubeAPICertName" "GetEtcdCrtName a \<noteq> KubeControllerCertName"
  "GetEtcdCrtName a \<noteq> KubeSchedulerCertName" "GetEtcdCrtName a \<noteq> KubeProxyCertName" "GetEtcdCrtName a \<noteq> KubeNodeCertName"
  "GetEtcdCrtName a \<noteq> KubeAdminCertName"
  by (simp_all add: GetEtcdCrtName_def cert_name_defs)

lemma contains_prefix: "contains sub (sub @ s)"
  by (metis append_Nil contains_iff)

text \<open>Etcd certificates, the CA and the API server have no kubeconfig.\<close>

lemma ToCertObject_no_config:
  "cert_Config (ToCertObject (GetEtcdCrtName a) cn ou crt key) = []"
  "cert_Config (ToCertObject CACertName cn ou crt key) = []"
  "cert_Config (ToCertObject KubeAPICertName cn ou crt key) = []"
  by (simp_all add: ToCertObject_def Let_def GetEtcdCrtName_def contains_prefix)

lemma ToCertObject_sel [simp]:
  "Certificate (ToCertObject n cn ou crt key) = crt" "cert_Key (ToCertObject n cn ou crt key) = key"
  "cert_Name (ToCertObject n cn ou crt key) = n" "EnvName (ToCertObject n cn ou crt key) = getEnvFromName n"
  "KeyEnvName (ToCertObject n cn ou crt key) = getKeyEnvFromEnv (getEnvFromName n)"
  "cert_Path (ToCertObject n cn ou crt key) = GetCertPath n" "KeyPath (ToCertObject n cn ou crt key) = GetKeyPath n"
  by (simp_all add: ToCertObject_def Let_def)

subsection \<open>Signing\<close>

lemma NewSignedCert_Ret:
  assumes "NewSignedCert env cn orgs us alt key caCrt caKey w = (Ret crt, w')"
  obtains k ca ck where "key = Some k" "caCrt = Some ca" "caKey = Some ck" "cn \<noteq> []" "us \<noteq> []"
    "crt = \<lparr>SubjectCN = cn, SubjectOrg = orgs, cert_AltNames = alt, cert_Usages = us, IsCA = False,
            PublicKey = k, SignedBy = ck, IssuerCN = SubjectCN ca\<rparr>"
  using assms by (auto simp: NewSignedCert_def io_Ret_iffs split: if_splits option.splits)

lemma GenerateSigned_Ret:
  assumes "GenerateSignedCertAndKey env caCrt caKey server cn alt reused orgs w = (Ret (crt, key), w')"
  obtains ca ck where "caCrt = Some ca" "caKey = Some ck" "PublicKey crt = key" "SignedBy crt = ck" "SubjectCN crt = cn"
    "SubjectOrg crt = orgs" "\<not> IsCA crt" "IssuerCN crt = SubjectCN ca"
    "cert_AltNames crt = (case alt of None \<Rightarrow> AltNames_zero | Some a \<Rightarrow> a)"
    "cert_Usages crt = (if server then [ExtKeyUsageClientAuth, ExtKeyUsageServerAuth] else [ExtKeyUsageClientAuth])"
    "\<forall>k. reused = Some k \<longrightarrow> key = k"
  using assms
  by (auto simp: GenerateSignedCertAndKey_def io_Ret_iffs elim!: NewSignedCert_Ret split: option.splits prod.splits)

lemma generateCA_Ret:
  assumes "generateCACertAndKey env w = (Ret (crt, key), w')"
  shows "IsCA crt \<and> PublicKey crt = key \<and> SignedBy crt = key \<and> SubjectCN crt = CACertName \<and> IssuerCN crt = SubjectCN crt"
  using assms by (auto simp: generateCACertAndKey_def NewSelfSignedCACert_def io_Ret_iffs)

subsection \<open>A chain of trust\<close>

text \<open>
  Every certificate of the map is filed under its name, belongs to its key, and is signed by the key \<open>ck\<close> of the CA
  certificate \<open>ca\<close>, which is in the map itself.
\<close>

definition signed_entry :: "x509_cert \<Rightarrow> rsa_key \<Rightarrow> string \<Rightarrow> CertificatePKI \<Rightarrow> bool" where
  "signed_entry ca ck n c \<longleftrightarrow> cert_Name c = n \<and>
     (\<exists>crt key. Certificate c = Some crt \<and> cert_Key c = Some key \<and> PublicKey crt = key \<and> SignedBy crt = ck \<and>
                IssuerCN crt = SubjectCN ca \<and> (IsCA crt \<longleftrightarrow> n = CACertName))"

definition chain_ok :: "x509_cert \<Rightarrow> rsa_key \<Rightarrow> CertificatePKI gomap \<Rightarrow> bool" where
  "chain_ok ca ck certs \<longleftrightarrow>
     (\<exists>c. mget certs CACertName = Some c \<and> Certificate c = Some ca \<and> cert_Key c = Some ck) \<and>
     (\<forall>n c. mget certs n = Some c \<longrightarrow> signed_entry ca ck n c)"

lemma chain_ok_put:
  "chain_ok ca ck certs \<Longrightarrow> n \<noteq> CACertName \<Longrightarrow> signed_entry ca ck n c \<Longrightarrow> chain_ok ca ck (mput n c certs)"
  by (auto simp: chain_ok_def)

lemma addSigned_Ret:
  assumes "addSigned env ca ck server cn alt orgs n objCN objOU certs w = (Ret certs', w')" "n \<noteq> CACertName"
  obtains crt key where "certs' = mput n (ToCertObject n objCN objOU (Some crt) (Some key)) certs"
    "signed_entry ca ck n (ToCertObject n objCN objOU (Some crt) (Some key))"
    "SubjectCN crt = cn" "SubjectOrg crt = orgs" "cert_AltNames crt = (case alt of None \<Rightarrow> AltNames_zero | Some a \<Rightarrow> a)"
    "cert_Usages crt = (if server then [ExtKeyUsageClientAuth, ExtKeyUsageServerAuth] else [ExtKeyUsageClientAuth])"
proof -
  from assms(1) obtain crt key w1 where
    g: "GenerateSignedCertAndKey env (Some ca) (Some ck) server cn alt None orgs w = (Ret (crt, key), w1)"
    and c: "certs' = mput n (ToCertObject n objCN objOU (Some crt) (Some key)) certs"
    by (auto simp: addSigned_def io_Ret_iffs split: prod.splits)
  from g have "signed_entry ca ck n (ToCertObject n objCN objOU (Some crt) (Some key))"
    by (rule GenerateSigned_Ret) (use assms(2) in \<open>auto simp: signed_entry_def\<close>)
  with g c that show thesis by (auto elim!: GenerateSigned_Ret)
qed

text \<open>
  The map holds, under the name \<open>n\<close>, a certificate issued to the subject \<open>cn\<close> of the organizations \<open>orgs\<close>, valid under the
  alternative names \<open>alt\<close>, for servers as well as clients or for clients only.
\<close>

definition issued :: "CertificatePKI gomap \<Rightarrow> string \<Rightarrow> string \<Rightarrow> string list \<Rightarrow> AltNames \<Rightarrow> bool \<Rightarrow> bool" where
  "issued certs n cn orgs alt server \<longleftrightarrow>
     (\<exists>c crt. mget certs n = Some c \<and> Certificate c = Some crt \<and> SubjectCN crt = cn \<and> SubjectOrg crt = orgs \<and>
        cert_AltNames crt = alt \<and>
        cert_Usages crt = (if server then [ExtKeyUsageClientAuth, ExtKeyUsageServerAuth] else [ExtKeyUsageClientAuth]))"

lemma issued_cong: "mget certs n = mget certs' n \<Longrightarrow> issued certs n = issued certs' n"
  by (simp add: issued_def fun_eq_iff)

lemma issued_put_other [simp]: "n \<noteq> n' \<Longrightarrow> issued (mput n' c certs) n = issued certs n"
  by (rule issued_cong) simp

lemma addSigned_issues:
  assumes "addSigned env ca ck server cn alt orgs n objCN objOU certs w = (Ret certs', w')" "n \<noteq> CACertName"
  obtains c where "certs' = mput n c certs" "signed_entry ca ck n c"
    "issued certs' n cn orgs (case alt of None \<Rightarrow> AltNames_zero | Some a \<Rightarrow> a) server"
  using assms by (rule addSigned_Ret) (auto simp: issued_def intro: that)

lemma addAdmin_Ret:
  assumes "addAdmin env ca ck cps path certs w = (Ret certs', w')"
  obtains c where "certs' = mput KubeAdminCertName c certs" "signed_entry ca ck KubeAdminCertName c"
    "ConfigPath c = path"
    "issued certs' KubeAdminCertName KubeAdminCertName [KubeAdminOrganizationName] AltNames_zero False"
    "\<exists>crt key. Certificate c = Some crt \<and> cert_Key c = Some key \<and>
        cert_Config c = GetKubeConfigX509WithData (''https://'' @ Address (hd cps) @ '':6443'') KubeAdminCertName
                          (EncodeCert env ca) (EncodeCert env crt) (EncodeKey env key)"
proof -
  from assms obtain crt key w1 h hs where
    g: "GenerateSignedCertAndKey env (Some ca) (Some ck) False KubeAdminCertName None None [KubeAdminOrganizationName] w = (Ret (crt, key), w1)"
    and cps: "cps = h # hs" and
    c: "certs' = mput KubeAdminCertName
              ((ToCertObject KubeAdminCertName KubeAdminCertName KubeAdminOrganizationName (Some crt) (Some key))
                 \<lparr>cert_Config := GetKubeConfigX509WithData (''https://'' @ Address h @ '':6443'') KubeAdminCertName
                                   (EncodeCert env ca) (EncodeCert env crt) (EncodeKey env key),
                  ConfigPath := path\<rparr>) certs"
    by (cases cps) (auto simp: addAdmin_def io_Ret_iffs split: prod.splits)
  have n: "KubeAdminCertName \<noteq> CACertName" by (simp add: cert_name_defs)
  from g obtain "PublicKey crt = key" "SignedBy crt = ck" "\<not> IsCA crt" "IssuerCN crt = SubjectCN ca"
    "SubjectCN crt = KubeAdminCertName" "SubjectOrg crt = [KubeAdminOrganizationName]" "cert_AltNames crt = AltNames_zero"
    "cert_Usages crt = [ExtKeyUsageClientAuth]" by (auto elim!: GenerateSigned_Ret)
  with n c cps show thesis by (intro that) (auto simp: signed_entry_def issued_def)
qed

lemma foldIO_addEtcd_Ret:
  assumes "foldIO (addEtcd env ca ck alt) hs certs w = (Ret certs', w')" "chain_ok ca ck certs"
  shows "chain_ok ca ck certs' \<and>
     fst ` set certs' = fst ` set certs \<union> (\<lambda>h. GetEtcdCrtName (InternalAddress h)) ` set hs \<and>
     (\<forall>n. n \<notin> (\<lambda>h. GetEtcdCrtName (InternalAddress h)) ` set hs \<longrightarrow> mget certs' n = mget certs n) \<and>
     (\<forall>h \<in> set hs. issued certs' (GetEtcdCrtName (InternalAddress h)) EtcdCertName [] alt True)"
  using assms
proof (induction hs arbitrary: certs w)
  case Nil
  then show ?case by simp
next
  case (Cons h hs)
  let ?n = "GetEtcdCrtName (InternalAddress h)"
  from Cons.prems(1) obtain certs1 w1 where
    a: "addEtcd env ca ck alt h certs w = (Ret certs1, w1)"
    and f: "foldIO (addEtcd env ca ck alt) hs certs1 w1 = (Ret certs', w')"
    by (auto simp: io_Ret_iffs)
  from a[unfolded addEtcd_def] etcd_name_neq(1) obtain c where
    c1: "certs1 = mput ?n c certs" and s: "signed_entry ca ck ?n c" and u: "issued certs1 ?n EtcdCertName [] alt True"
    by (rule addSigned_issues) simp
  from Cons.prems(2) s have ok: "chain_ok ca ck certs1" unfolding c1 by (intro chain_ok_put) auto
  note IH = Cons.IH[OF f ok]
  have k: "fst ` set certs1 = insert ?n (fst ` set certs)"
    using c1 by (metis mget_mput dom_map_of_conv_image_fst dom_fun_upd option.distinct(1))
  have h: "issued certs' ?n EtcdCertName [] alt True"
  proof (cases "?n \<in> (\<lambda>h. GetEtcdCrtName (InternalAddress h)) ` set hs")
    case True
    then obtain h' where "h' \<in> set hs" "?n = GetEtcdCrtName (InternalAddress h')" by blast
    with IH show ?thesis by simp
  next
    case False
    with IH have "issued certs' ?n = issued certs1 ?n" by (intro issued_cong) blast
    with u show ?thesis by simp
  qed
  from IH k have "fst ` set certs' = fst ` set certs \<union> (\<lambda>h. GetEtcdCrtName (InternalAddress h)) ` set (h # hs)" by auto
  moreover from IH c1 have "\<forall>n. n \<notin> (\<lambda>h. GetEtcdCrtName (InternalAddress h)) ` set (h # hs) \<longrightarrow> mget certs' n = mget certs n" by simp
  moreover from IH h have "\<forall>h \<in> set (h # hs). issued certs' (GetEtcdCrtName (InternalAddress h)) EtcdCertName [] alt True"
    by (simp only: list.set ball_simps) blast
  ultimately show ?case using IH by blast
qed

definition baseCertNames :: "string set" where
  "baseCertNames = {CACertName, KubeAPICertName, KubeControllerCertName, KubeSchedulerCertName, KubeProxyCertName,
     KubeNodeCertName, KubeAdminCertName}"

lemma keys_mput: "fst ` set (mput k v m) = insert k (fst ` set m)"
  by (metis mget_mput dom_map_of_conv_image_fst dom_fun_upd option.distinct(1))

lemma base_name_neq:
  "KubeAPICertName \<noteq> CACertName" "KubeControllerCertName \<noteq> CACertName" "KubeSchedulerCertName \<noteq> CACertName"
  "KubeProxyCertName \<noteq> CACertName" "KubeNodeCertName \<noteq> CACertName" "KubeAdminCertName \<noteq> CACertName"
  by (simp_all add: cert_name_defs)

lemma generateCerts_steps:
  assumes "generateCerts env cps ets dn path sip w = (Ret certs, w')"
  obtains ca ck w1 c2 w2 c3 w3 c4 w4 c5 w5 c6 w6 c7 w7 where
    "generateCACertAndKey env w = (Ret (ca, ck), w1)"
    "addSigned env ca ck True KubeAPICertName (Some (GetAltNames cps dn sip)) [] KubeAPICertName [] []
           (mput CACertName (ToCertObject CACertName [] [] (Some ca) (Some ck)) []) w1 = (Ret c2, w2)"
    "addSigned env ca ck False (getDefaultCN KubeControllerCertName) None [] KubeControllerCertName [] [] c2 w2 = (Ret c3, w3)"
    "addSigned env ca ck False (getDefaultCN KubeSchedulerCertName) None [] KubeSchedulerCertName [] [] c3 w3 = (Ret c4, w4)"
    "addSigned env ca ck False (getDefaultCN KubeProxyCertName) None [] KubeProxyCertName [] [] c4 w4 = (Ret c5, w5)"
    "addSigned env ca ck False KubeNodeCommonName None [KubeNodeOrganizationName] KubeNodeCertName KubeNodeCommonName
           KubeNodeOrganizationName c5 w5 = (Ret c6, w6)"
    "addAdmin env ca ck cps path c6 w6 = (Ret c7, w7)"
    "foldIO (addEtcd env ca ck (GetAltNames ets dn sip)) ets c7 w7 = (Ret certs, w')"
  using assms unfolding generateCerts_def bindIO_Ret_iff by (auto split: prod.splits simp: bindIO_Ret_iff)

lemma base_certs:
  assumes ca: "IsCA ca" "PublicKey ca = ck" "SignedBy ca = ck" "IssuerCN ca = SubjectCN ca"
    and e: "signed_entry ca ck KubeAPICertName e2" "signed_entry ca ck KubeControllerCertName e3"
      "signed_entry ca ck KubeSchedulerCertName e4" "signed_entry ca ck KubeProxyCertName e5"
      "signed_entry ca ck KubeNodeCertName e6" "signed_entry ca ck KubeAdminCertName e7"
    and c: "c7 = mput KubeAdminCertName e7 (mput KubeNodeCertName e6 (mput KubeProxyCertName e5 (mput KubeSchedulerCertName e4
      (mput KubeControllerCertName e3 (mput KubeAPICertName e2
        (mput CACertName (ToCertObject CACertName [] [] (Some ca) (Some ck)) []))))))"
  shows "chain_ok ca ck c7" "fst ` set c7 = baseCertNames" "mget c7 KubeAdminCertName = Some e7"
proof -
  have "chain_ok ca ck (mput CACertName (ToCertObject CACertName [] [] (Some ca) (Some ck)) [])"
    using ca by (auto simp: chain_ok_def signed_entry_def)
  then show "chain_ok ca ck c7"
    unfolding c by (elim chain_ok_put[OF _ base_name_neq(1) e(1), THEN chain_ok_put[OF _ base_name_neq(2) e(2)],
      THEN chain_ok_put[OF _ base_name_neq(3) e(3)], THEN chain_ok_put[OF _ base_name_neq(4) e(4)],
      THEN chain_ok_put[OF _ base_name_neq(5) e(5)], THEN chain_ok_put[OF _ base_name_neq(6) e(6)]])
  show "fst ` set c7 = baseCertNames"
    unfolding c keys_mput baseCertNames_def by auto
qed (simp_all add: c cert_name_defs)

text \<open>
  The subjects that Kubernetes knows its components by, each with the alternative names and the use of its certificate;
  the etcd hosts have a certificate each.
\<close>

definition certs_issued :: "AltNames \<Rightarrow> AltNames \<Rightarrow> Host list \<Rightarrow> CertificatePKI gomap \<Rightarrow> bool" where
  "certs_issued apiNames etcdNames ets certs \<longleftrightarrow>
     issued certs KubeAPICertName ''kube-apiserver'' [] apiNames True \<and>
     issued certs KubeControllerCertName ''system:kube-controller-manager'' [] AltNames_zero False \<and>
     issued certs KubeSchedulerCertName ''system:kube-scheduler'' [] AltNames_zero False \<and>
     issued certs KubeProxyCertName ''system:kube-proxy'' [] AltNames_zero False \<and>
     issued certs KubeNodeCertName ''system:node'' [''system:nodes''] AltNames_zero False \<and>
     issued certs KubeAdminCertName ''kube-admin'' [''system:masters''] AltNames_zero False \<and>
     (\<forall>h \<in> set ets. issued certs (GetEtcdCrtName (InternalAddress h)) ''kube-etcd'' [] etcdNames True)"

lemmas subject_defs = cert_name_defs getDefaultCN_def KubeNodeCommonName_def KubeNodeOrganizationName_def KubeAdminOrganizationName_def

lemma generateCerts_Ret:
  assumes "generateCerts env cps ets dn path sip w = (Ret certs, w')"
  obtains ca ck where "chain_ok ca ck certs" "IsCA ca" "SignedBy ca = ck" "PublicKey ca = ck" "SubjectCN ca = CACertName"
    "fst ` set certs = baseCertNames \<union> (\<lambda>h. GetEtcdCrtName (InternalAddress h)) ` set ets"
    "certs_issued (GetAltNames cps dn sip) (GetAltNames ets dn sip) ets certs"
    "\<exists>c crt key. mget certs KubeAdminCertName = Some c \<and> Certificate c = Some crt \<and> cert_Key c = Some key \<and>
        ConfigPath c = path \<and>
        cert_Config c = GetKubeConfigX509WithData (''https://'' @ Address (hd cps) @ '':6443'') KubeAdminCertName
                          (EncodeCert env ca) (EncodeCert env crt) (EncodeKey env key)"
proof -
  from assms obtain ca ck w1 c2 w2 c3 w3 c4 w4 c5 w5 c6 w6 c7 w7 where
    g1: "generateCACertAndKey env w = (Ret (ca, ck), w1)" and
    g2: "addSigned env ca ck True KubeAPICertName (Some (GetAltNames cps dn sip)) [] KubeAPICertName [] []
           (mput CACertName (ToCertObject CACertName [] [] (Some ca) (Some ck)) []) w1 = (Ret c2, w2)" and
    g3: "addSigned env ca ck False (getDefaultCN KubeControllerCertName) None [] KubeControllerCertName [] [] c2 w2 = (Ret c3, w3)" and
    g4: "addSigned env ca ck False (getDefaultCN KubeSchedulerCertName) None [] KubeSchedulerCertName [] [] c3 w3 = (Ret c4, w4)" and
    g5: "addSigned env ca ck False (getDefaultCN KubeProxyCertName) None [] KubeProxyCertName [] [] c4 w4 = (Ret c5, w5)" and
    g6: "addSigned env ca ck False KubeNodeCommonName None [KubeNodeOrganizationName] KubeNodeCertName KubeNodeCommonName
           KubeNodeOrganizationName c5 w5 = (Ret c6, w6)" and
    g7: "addAdmin env ca ck cps path c6 w6 = (Ret c7, w7)" and
    g8: "foldIO (addEtcd env ca ck (GetAltNames ets dn sip)) ets c7 w7 = (Ret certs, w')"
    by (rule generateCerts_steps)
  from generateCA_Ret[OF g1] have ca: "IsCA ca" "PublicKey ca = ck" "SignedBy ca = ck" "IssuerCN ca = SubjectCN ca"
    and cn: "SubjectCN ca = CACertName" by auto
  from g2 base_name_neq(1) obtain e2 where p2: "c2 = mput KubeAPICertName e2
      (mput CACertName (ToCertObject CACertName [] [] (Some ca) (Some ck)) [])" "signed_entry ca ck KubeAPICertName e2"
    and i2: "issued c2 KubeAPICertName KubeAPICertName [] (GetAltNames cps dn sip) True" by (rule addSigned_issues) simp
  from g3 base_name_neq(2) obtain e3 where p3: "c3 = mput KubeControllerCertName e3 c2" "signed_entry ca ck KubeControllerCertName e3"
    and i3: "issued c3 KubeControllerCertName (getDefaultCN KubeControllerCertName) [] AltNames_zero False" by (rule addSigned_issues) simp
  from g4 base_name_neq(3) obtain e4 where p4: "c4 = mput KubeSchedulerCertName e4 c3" "signed_entry ca ck KubeSchedulerCertName e4"
    and i4: "issued c4 KubeSchedulerCertName (getDefaultCN KubeSchedulerCertName) [] AltNames_zero False" by (rule addSigned_issues) simp
  from g5 base_name_neq(4) obtain e5 where p5: "c5 = mput KubeProxyCertName e5 c4" "signed_entry ca ck KubeProxyCertName e5"
    and i5: "issued c5 KubeProxyCertName (getDefaultCN KubeProxyCertName) [] AltNames_zero False" by (rule addSigned_issues) simp
  from g6 base_name_neq(5) obtain e6 where p6: "c6 = mput KubeNodeCertName e6 c5" "signed_entry ca ck KubeNodeCertName e6"
    and i6: "issued c6 KubeNodeCertName KubeNodeCommonName [KubeNodeOrganizationName] AltNames_zero False" by (rule addSigned_issues) simp
  from g7 obtain e7 where p7: "c7 = mput KubeAdminCertName e7 c6" "signed_entry ca ck KubeAdminCertName e7" "ConfigPath e7 = path"
    and i7: "issued c7 KubeAdminCertName KubeAdminCertName [KubeAdminOrganizationName] AltNames_zero False"
    and a7: "\<exists>crt key. Certificate e7 = Some crt \<and> cert_Key e7 = Some key \<and>
        cert_Config e7 = GetKubeConfigX509WithData (''https://'' @ Address (hd cps) @ '':6443'') KubeAdminCertName
                          (EncodeCert env ca) (EncodeCert env crt) (EncodeKey env key)"
    by (rule addAdmin_Ret)
  have c7: "c7 = mput KubeAdminCertName e7 (mput KubeNodeCertName e6 (mput KubeProxyCertName e5 (mput KubeSchedulerCertName e4
      (mput KubeControllerCertName e3 c2))))" by (simp only: p3(1) p4(1) p5(1) p6(1) p7(1))
  note base = base_certs[OF ca p2(2) p3(2) p4(2) p5(2) p6(2) p7(2) c7[unfolded p2(1)]]
  note f = foldIO_addEtcd_Ret[OF g8 base(1)]
  have "n \<notin> (\<lambda>h. GetEtcdCrtName (InternalAddress h)) ` set ets" if "n \<in> baseCertNames" for n
    using that etcd_name_neq unfolding baseCertNames_def by (metis imageE insertE emptyE)
  with f have keep: "mget certs n = mget c7 n" if "n \<in> baseCertNames" for n using that by blast
  note k = issued_cong[OF keep]
  have "certs_issued (GetAltNames cps dn sip) (GetAltNames ets dn sip) ets certs"
    using i2 i3 i4 i5 i6 i7 f unfolding certs_issued_def
    by (simp add: k baseCertNames_def p3(1) p4(1) p5(1) p6(1) p7(1) subject_defs)
  then show thesis
    by (rule that[rotated 6]) (use f ca cn base(2,3) a7 p7(3) keep[of KubeAdminCertName] in \<open>auto simp: baseCertNames_def\<close>)
qed

subsection \<open>Alternative names\<close>

text \<open>An address is covered by a certificate as an IP address if it parses as one, as a DNS name otherwise.\<close>

definition covers :: "AltNames \<Rightarrow> string \<Rightarrow> bool" where
  "covers n a \<longleftrightarrow> (case ParseIP a of Some i \<Rightarrow> Some i \<in> set (alt_IPs n) | None \<Rightarrow> a \<in> set (DNSNames n))"

definition alt_le :: "AltNames \<Rightarrow> AltNames \<Rightarrow> bool" where
  "alt_le n n' \<longleftrightarrow> set (alt_IPs n) \<subseteq> set (alt_IPs n') \<and> set (DNSNames n) \<subseteq> set (DNSNames n')"

lemma alt_le_refl [simp]: "alt_le n n"
  by (simp add: alt_le_def)

lemma alt_le_trans: "alt_le a b \<Longrightarrow> alt_le b c \<Longrightarrow> alt_le a c"
  by (auto simp: alt_le_def)

lemma covers_mono: "covers n a \<Longrightarrow> alt_le n n' \<Longrightarrow> covers n' a"
  by (auto simp: covers_def alt_le_def split: option.splits)

lemma altAddress_grows: "alt_le n (altAddress a n)" "covers (altAddress a n) a"
  by (auto simp: altAddress_def covers_def alt_le_def split: option.splits)

lemma alt_le_append: "alt_le n (n\<lparr>DNSNames := DNSNames n @ xs\<rparr>)"
  by (auto simp: alt_le_def)

lemma altHost_le: "alt_le n (altHost h n)"
  unfolding altHost_def Let_def
  by (auto intro: alt_le_trans[OF altAddress_grows(1)] alt_le_trans[OF _ alt_le_append] altAddress_grows(1))

lemma altHost_covers:
  "covers (altHost h n) (Address h)" "InternalAddress h \<noteq> [] \<Longrightarrow> covers (altHost h n) (InternalAddress h)"
  unfolding altHost_def Let_def
  by (auto intro: covers_mono[OF altAddress_grows(2)] covers_mono[OF covers_mono[OF altAddress_grows(2)]]
      altAddress_grows alt_le_append)

lemma altHosts_le: "alt_le n (altHosts hs n)"
  by (induction hs arbitrary: n) (auto intro: alt_le_trans[OF altHost_le])

lemma altHosts_covers:
  "h \<in> set hs \<Longrightarrow> covers (altHosts hs n) (Address h) \<and> (InternalAddress h \<noteq> [] \<longrightarrow> covers (altHosts hs n) (InternalAddress h))"
proof (induction hs arbitrary: n)
  case (Cons g hs)
  then show ?case by (auto intro: covers_mono[OF altHost_covers(1) altHosts_le] covers_mono[OF altHost_covers(2) altHosts_le])
qed simp

lemma altHosts_hostname:
  "h \<in> set hs \<Longrightarrow> HostnameOverride h \<noteq> [] \<Longrightarrow> HostnameOverride h \<noteq> Address h \<Longrightarrow> HostnameOverride h \<in> set (DNSNames (altHosts hs n))"
proof (induction hs arbitrary: n)
  case (Cons g hs)
  have "HostnameOverride g \<in> set (DNSNames (altHost g n))" if "g = h"
    using Cons.prems that by (auto simp: altHost_def Let_def)
  with Cons altHosts_le[of "altHost g n" hs] show ?case by (auto simp: alt_le_def)
qed simp

subsection \<open>Generation succeeds\<close>

text \<open>The library's random source and signing routine work.\<close>

definition signing_works :: "'e ext_api \<Rightarrow> bool" where
  "signing_works x \<longleftrightarrow> (\<forall>e. (\<exists>k e'. NewPrivateKey x e = (Ret k, e')) \<and> (\<exists>e'. RandSerial x e = (Ret (), e')) \<and>
     (\<exists>e'. CreateCertificate x e = (Ret (), e')))"

lemma onExt_returns: "(\<And>e. \<exists>y e'. m e = (Ret y, e')) \<Longrightarrow> \<exists>y w'. onExt m w = (Ret y, w')"
  unfolding onExt_def by (metis (no_types, lifting) case_prod_conv)

lemma GenerateSigned_returns:
  assumes "signing_works (extAPI env)" "cn \<noteq> []"
  shows "\<exists>crt key w'. GenerateSignedCertAndKey env (Some ca) (Some ck) server cn alt reused orgs w = (Ret (crt, key), w')"
proof -
  have k: "\<exists>k w'. onExt (NewPrivateKey (extAPI env)) w = (Ret k, w')" for w :: "('b, 'c, 'a) world"
    using assms(1) by (intro onExt_returns) (auto simp: signing_works_def)
  have s1: "\<exists>u w'. onExt (RandSerial (extAPI env)) w = (Ret u, w')" for w :: "('b, 'c, 'a) world"
    using assms(1) by (intro onExt_returns) (auto simp: signing_works_def)
  have s2: "\<exists>u w'. onExt (CreateCertificate (extAPI env)) w = (Ret u, w')" for w :: "('b, 'c, 'a) world"
    using assms(1) by (intro onExt_returns) (auto simp: signing_works_def)
  have sign: "\<exists>crt w'. NewSignedCert env cn orgs us al (Some key) (Some ca) (Some ck) w = (Ret crt, w')" if "us \<noteq> []"
    for us al key and w :: "('b, 'c, 'a) world"
  proof -
    obtain u w1 where 1: "onExt (RandSerial (extAPI env)) w = (Ret u, w1)" using s1 by blast
    obtain v w2 where "onExt (CreateCertificate (extAPI env)) w1 = (Ret v, w2)" using s2 by blast
    with 1 that assms(2) show ?thesis by (auto simp: NewSignedCert_def io_Ret_iffs)
  qed
  obtain key w1 where key: "(case reused of Some k \<Rightarrow> retIO k
             | None \<Rightarrow> wrapIO (''Failed to generate private key for '' @ cn @ '' certificate: '')
                         (onExt (NewPrivateKey (extAPI env)))) w = (Ret key, w1)"
    using k[of w] by (cases reused) auto
  obtain crt w2 where "NewSignedCert env cn orgs (if server then [ExtKeyUsageClientAuth, ExtKeyUsageServerAuth] else [ExtKeyUsageClientAuth])
      (case alt of None \<Rightarrow> AltNames_zero | Some a \<Rightarrow> a) (Some key) (Some ca) (Some ck) w1 = (Ret crt, w2)"
    using sign by (metis list.distinct(1))
  with key show ?thesis unfolding GenerateSignedCertAndKey_def bindIO_Ret_iff wrapIO_Ret_iff retIO_iff by blast
qed

lemma addSigned_returns:
  assumes "signing_works (extAPI env)" "cn \<noteq> []"
  shows "\<exists>certs' w'. addSigned env ca ck server cn alt orgs n objCN objOU certs w = (Ret certs', w')"
proof -
  from GenerateSigned_returns[OF assms] obtain crt key w' where
    "GenerateSignedCertAndKey env (Some ca) (Some ck) server cn alt None orgs w = (Ret (crt, key), w')" by blast
  then show ?thesis unfolding addSigned_def bindIO_Ret_iff by fastforce
qed

lemma addAdmin_returns:
  assumes "signing_works (extAPI env)" "cps \<noteq> []"
  shows "\<exists>certs' w'. addAdmin env ca ck cps path certs w = (Ret certs', w')"
proof -
  have "KubeAdminCertName \<noteq> []" by (simp add: cert_name_defs)
  from GenerateSigned_returns[OF assms(1) this] obtain crt key w' where
    "GenerateSignedCertAndKey env (Some ca) (Some ck) False KubeAdminCertName None None [KubeAdminOrganizationName] w = (Ret (crt, key), w')"
    by blast
  then show ?thesis using assms(2) unfolding addAdmin_def bindIO_Ret_iff by (cases cps) fastforce+
qed

lemma fold_addEtcd_returns:
  assumes "signing_works (extAPI env)"
  shows "\<exists>certs' w'. foldIO (addEtcd env ca ck alt) hs certs w = (Ret certs', w')"
proof (induction hs arbitrary: certs w)
  case (Cons h hs)
  have "EtcdCertName \<noteq> []" by (simp add: cert_name_defs)
  from addSigned_returns[OF assms this] obtain c1 w1 where "addEtcd env ca ck alt h certs w = (Ret c1, w1)"
    unfolding addEtcd_def by blast
  with Cons.IH[of c1 w1] show ?case by (auto simp: io_Ret_iffs)
qed simp

lemma generateCA_returns:
  assumes "signing_works (extAPI env)"
  shows "\<exists>crt key w'. generateCACertAndKey env w = (Ret (crt, key), w')"
proof -
  have "\<exists>k w'. onExt (NewPrivateKey (extAPI env)) w = (Ret k, w')" for w :: "('b, 'c, 'a) world"
    using assms(1) by (intro onExt_returns) (auto simp: signing_works_def)
  then obtain k w1 where k: "onExt (NewPrivateKey (extAPI env)) w = (Ret k, w1)" by blast
  have "\<exists>u w'. onExt (CreateCertificate (extAPI env)) w = (Ret u, w')" for w :: "('b, 'c, 'a) world"
    using assms(1) by (intro onExt_returns) (auto simp: signing_works_def)
  then obtain u w2 where "onExt (CreateCertificate (extAPI env)) w1 = (Ret u, w2)" by blast
  with k show ?thesis by (auto simp: generateCACertAndKey_def NewSelfSignedCACert_def io_Ret_iffs)
qed

lemma generateCerts_total:
  assumes "signing_works (extAPI env)" "cps \<noteq> []"
  shows "\<exists>certs w'. generateCerts env cps ets dn path sip w = (Ret certs, w')"
proof -
  note s = addSigned_returns[OF assms(1)]
  have cn: "KubeAPICertName \<noteq> []" "getDefaultCN n \<noteq> []" "KubeNodeCommonName \<noteq> []" for n
    by (simp_all add: cert_name_defs getDefaultCN_def KubeNodeCommonName_def)
  obtain ca ck w1 where 1: "generateCACertAndKey env w = (Ret (ca, ck), w1)" using generateCA_returns[OF assms(1)] by blast
  obtain c2 w2 where 2: "addSigned env ca ck True KubeAPICertName (Some (GetAltNames cps dn sip)) [] KubeAPICertName [] []
      (mput CACertName (ToCertObject CACertName [] [] (Some ca) (Some ck)) []) w1 = (Ret c2, w2)" using s[OF cn(1)] by blast
  obtain c3 w3 where 3: "addSigned env ca ck False (getDefaultCN KubeControllerCertName) None [] KubeControllerCertName [] [] c2 w2 = (Ret c3, w3)"
    using s[OF cn(2)] by blast
  obtain c4 w4 where 4: "addSigned env ca ck False (getDefaultCN KubeSchedulerCertName) None [] KubeSchedulerCertName [] [] c3 w3 = (Ret c4, w4)"
    using s[OF cn(2)] by blast
  obtain c5 w5 where 5: "addSigned env ca ck False (getDefaultCN KubeProxyCertName) None [] KubeProxyCertName [] [] c4 w4 = (Ret c5, w5)"
    using s[OF cn(2)] by blast
  obtain c6 w6 where 6: "addSigned env ca ck False KubeNodeCommonName None [KubeNodeOrganizationName] KubeNodeCertName KubeNodeCommonName
      KubeNodeOrganizationName c5 w5 = (Ret c6, w6)" using s[OF cn(3)] by blast
  obtain c7 w7 where 7: "addAdmin env ca ck cps path c6 w6 = (Ret c7, w7)" using addAdmin_returns[OF assms] by blast
  obtain c8 w8 where "foldIO (addEtcd env ca ck (GetAltNames ets dn sip)) ets c7 w7 = (Ret c8, w8)"
    using fold_addEtcd_returns[OF assms(1)] by blast
  with 1 2 3 4 5 6 7 show ?thesis by (auto simp: generateCerts_def bindIO_run)
qed

lemma sim_signing_works: "signing_works sim_ext_api"
  by (simp add: signing_works_def sim_ext_api_def)

section \<open>Properties of the certificates\<close>

text \<open>
  C14: when \<^verbatim>\<open>generateCerts\<close> returns, the map holds exactly the seven certificates of the cluster components and one
  for each etcd host; all are signed by the key of the one CA certificate among them and belong to their own keys.  Each
  certificate is issued to the subject that Kubernetes knows its component by: the controller manager, the scheduler and the proxy
  under their system users, the kubelet as system:node of the group system:nodes, the administrator in the group
  system:masters.  The API server's and the etcd certificates, and no others, are valid for servers, under the names of the
  control plane and of the etcd hosts; the administrator's kubeconfig points to the first control plane host and embeds exactly the
  CA, the administrator's certificate and key.
\<close>

theorem generateCerts_chain_of_trust:
  assumes "generateCerts env cps ets dn path sip w = (Ret certs, w')"
  shows "\<exists>ca ck. chain_ok ca ck certs \<and> IsCA ca \<and> SignedBy ca = ck \<and> PublicKey ca = ck \<and> SubjectCN ca = CACertName \<and>
     fst ` set certs = baseCertNames \<union> (\<lambda>h. GetEtcdCrtName (InternalAddress h)) ` set ets \<and>
     certs_issued (GetAltNames cps dn sip) (GetAltNames ets dn sip) ets certs \<and>
     (\<exists>c crt key. mget certs KubeAdminCertName = Some c \<and> Certificate c = Some crt \<and> cert_Key c = Some key \<and>
        ConfigPath c = path \<and>
        cert_Config c = GetKubeConfigX509WithData (''https://'' @ Address (hd cps) @ '':6443'') KubeAdminCertName
                          (EncodeCert env ca) (EncodeCert env crt) (EncodeKey env key))"
  using assms by (rule generateCerts_Ret) blast

theorem generateCerts_chain_of_trust_witness:
  "\<exists>certs w' ca ck. generateCerts sim_env [sim_host ''10.0.0.1''] [sim_host ''10.0.0.1'', sim_host ''10.0.0.2''] ''cluster.local'' ''kube_config''
       (ParseIP ''10.233.0.1'') (sim_world []) = (Ret certs, w') \<and>
     chain_ok ca ck certs \<and> mget certs ''kube-etcd-10-0-0-2'' \<noteq> None"
proof -
  from generateCerts_total[of sim_env "[sim_host ''10.0.0.1'']", simplified, OF sim_signing_works]
  obtain certs w' where r: "generateCerts sim_env [sim_host ''10.0.0.1''] [sim_host ''10.0.0.1'', sim_host ''10.0.0.2'']
      ''cluster.local'' ''kube_config'' (ParseIP ''10.233.0.1'') (sim_world []) = (Ret certs, w')" by blast
  from generateCerts_chain_of_trust[OF r] obtain ca ck where ok: "chain_ok ca ck certs" and
    i: "certs_issued (GetAltNames [sim_host ''10.0.0.1''] ''cluster.local'' (ParseIP ''10.233.0.1''))
          (GetAltNames [sim_host ''10.0.0.1'', sim_host ''10.0.0.2''] ''cluster.local'' (ParseIP ''10.233.0.1''))
          [sim_host ''10.0.0.1'', sim_host ''10.0.0.2''] certs"
    by (elim exE conjE) (rule that)
  have n: "GetEtcdCrtName (InternalAddress (sim_host ''10.0.0.2'')) = ''kube-etcd-10-0-0-2''" by code_simp
  from i have "mget certs (GetEtcdCrtName (InternalAddress (sim_host ''10.0.0.2''))) \<noteq> None"
    by (auto simp: certs_issued_def issued_def)
  then have "mget certs ''kube-etcd-10-0-0-2'' \<noteq> None" unfolding n .
  with r ok show ?thesis by blast
qed

text \<open>
  generating the certificates of a cluster with a control plane host returns whenever keys can be made and
  certificates signed: no step of it panics or fails by itself.
\<close>

theorem generateCerts_returns:
  assumes "signing_works (extAPI env)" and "cps \<noteq> []"
  shows "\<exists>certs w'. generateCerts env cps ets dn path sip w = (Ret certs, w')"
  using assms by (rule generateCerts_total)

theorem generateCerts_returns_witness:
  "\<exists>certs w'. generateCerts sim_env [sim_host ''10.0.0.1''] [] ''cluster.local'' ''kube_config'' None (sim_world []) = (Ret certs, w')"
  by (rule generateCerts_returns) (simp_all add: sim_signing_works)

lemma ParseIP_loopback: "ParseIP ''127.0.0.1'' = Some (v4InV6Prefix @ [127, 0, 0, 1])"
proof -
  have "parseIPv4_loop (Suc (Suc (Suc (Suc 0)))) True ''127.0.0.1'' = Some [127, 0, 0, 1]"
    by (simp add: scan1_def digit_val_def big_def)
  moreover have "IPv4len = Suc (Suc (Suc (Suc 0)))" by (simp add: IPv4len_def)
  ultimately show ?thesis by (simp only: ParseIP_def parseIPv4_def) simp
qed

text \<open>
  C33: the alternative names of the API server's and etcd certificates cover every host by address, by internal address
  and by host name, the loopback by its address 127.0.0.1 and as localhost, the cluster's service address, and the names that the
  API server has as a service.
\<close>

theorem GetAltNames_covers_hosts:
  assumes "h \<in> set hs"
  shows "covers (GetAltNames hs dn sip) (Address h) \<and>
     (InternalAddress h \<noteq> [] \<longrightarrow> covers (GetAltNames hs dn sip) (InternalAddress h)) \<and>
     (HostnameOverride h \<noteq> [] \<longrightarrow> HostnameOverride h \<noteq> Address h \<longrightarrow>
        HostnameOverride h \<in> set (DNSNames (GetAltNames hs dn sip))) \<and>
     {ParseIP ''127.0.0.1'', sip} \<subseteq> set (alt_IPs (GetAltNames hs dn sip)) \<and> ParseIP ''127.0.0.1'' \<noteq> None \<and>
     {''localhost'', ''kubernetes'', ''kubernetes.default'', ''kubernetes.default.svc'', ''kubernetes.default.svc.'' @ dn}
       \<subseteq> set (DNSNames (GetAltNames hs dn sip))"
proof -
  have le: "alt_le (altHosts hs AltNames_zero) (GetAltNames hs dn sip)"
    by (auto simp: alt_le_def GetAltNames_def Let_def)
  from altHosts_covers[OF assms, of AltNames_zero] have "covers (GetAltNames hs dn sip) (Address h)"
    "InternalAddress h \<noteq> [] \<longrightarrow> covers (GetAltNames hs dn sip) (InternalAddress h)"
    using covers_mono[OF _ le] by blast+
  moreover have "HostnameOverride h \<noteq> [] \<longrightarrow> HostnameOverride h \<noteq> Address h \<longrightarrow>
        HostnameOverride h \<in> set (DNSNames (GetAltNames hs dn sip))"
    using altHosts_hostname[OF assms, of AltNames_zero] le by (auto simp: alt_le_def)
  moreover have "ParseIP ''127.0.0.1'' \<noteq> None" by (simp add: ParseIP_loopback)
  ultimately show ?thesis by (simp add: GetAltNames_def Let_def)
qed

theorem GetAltNames_covers_hosts_witness:
  "covers (GetAltNames [sim_host ''10.0.0.1''] ''cluster.local'' (ParseIP ''10.233.0.1'')) ''10.0.0.1''"
  using GetAltNames_covers_hosts[of "sim_host ''10.0.0.1''" "[sim_host ''10.0.0.1'']"] by (simp add: sim_host_def)

text \<open>
  etcd hosts with different internal addresses have different certificate names, as long as no address contains
  a dash; a dash and a dot are not told apart.
\<close>

theorem etcd_certificate_names_distinct:
  assumes "distinct (map InternalAddress hs)" and "\<forall>h \<in> set hs. CHR ''-'' \<notin> set (InternalAddress h)"
  shows "distinct (map (\<lambda>h. GetEtcdCrtName (InternalAddress h)) hs)"
  using assms by (induction hs) (auto dest: GetEtcdCrtName_inj)

theorem etcd_certificate_names_distinct_witness:
  "distinct (map (\<lambda>h. GetEtcdCrtName (InternalAddress h)) [sim_host ''10.0.0.1'', sim_host ''10.0.0.2'']) \<and>
   GetEtcdCrtName ''db-1.local'' = GetEtcdCrtName ''db.1-local''"
proof
  show "distinct (map (\<lambda>h. GetEtcdCrtName (InternalAddress h)) [sim_host ''10.0.0.1'', sim_host ''10.0.0.2''])"
    by (rule etcd_certificate_names_distinct) (simp_all add: sim_host_def)
  show "GetEtcdCrtName ''db-1.local'' = GetEtcdCrtName ''db.1-local''" by code_simp
qed

text \<open>
  C34: adding an etcd member: \<^verbatim>\<open>RegenerateEtcdCertificate\<close> signs a new certificate for the host with the CA of the map,
  leaves every other certificate as it is and keeps the chain of trust.
\<close>

theorem RegenerateEtcdCertificate_keeps_chain:
  assumes "chain_ok ca ck certs" and "RegenerateEtcdCertificate env certs h ets dn sip w = (Ret certs', w')"
  shows "chain_ok ca ck certs' \<and>
     (\<forall>n. n \<noteq> GetEtcdCrtName (InternalAddress h) \<longrightarrow> mget certs' n = mget certs n) \<and>
     (\<exists>c crt. mget certs' (GetEtcdCrtName (InternalAddress h)) = Some c \<and> Certificate c = Some crt \<and>
        cert_AltNames crt = GetAltNames ets dn sip)"
proof -
  let ?n = "GetEtcdCrtName (InternalAddress h)"
  from assms(1) obtain c0 where c0: "mget certs CACertName = Some c0" "Certificate c0 = Some ca" "cert_Key c0 = Some ck"
    by (auto simp: chain_ok_def)
  with assms(2) obtain crt key w1 where
    g: "GenerateSignedCertAndKey env (Some ca) (Some ck) True EtcdCertName (Some (GetAltNames ets dn sip)) None [] w = (Ret (crt, key), w1)"
    and c: "certs' = mput ?n (ToCertObject ?n [] [] (Some crt) (Some key)) certs"
    by (auto simp: RegenerateEtcdCertificate_def cert_get_def Let_def io_Ret_iffs split: prod.splits)
  from g have s: "signed_entry ca ck ?n (ToCertObject ?n [] [] (Some crt) (Some key))"
    and a: "cert_AltNames crt = GetAltNames ets dn sip"
    by (auto elim!: GenerateSigned_Ret simp: signed_entry_def)
  from chain_ok_put[OF assms(1) etcd_name_neq(1) s] a show ?thesis unfolding c by simp
qed

theorem RegenerateEtcdCertificate_keeps_chain_witness:
  "\<exists>ca ck certs certs' w'. chain_ok ca ck certs \<and>
     RegenerateEtcdCertificate sim_env certs (sim_host ''10.0.0.3'') [sim_host ''10.0.0.3''] ''cluster.local'' None (sim_world []) = (Ret certs', w') \<and>
     chain_ok ca ck certs'"
proof -
  let ?ca = "\<lparr>SubjectCN = CACertName, SubjectOrg = [], cert_AltNames = AltNames_zero, cert_Usages = [], IsCA = True,
      PublicKey = RSAKey 7, SignedBy = RSAKey 7, IssuerCN = CACertName\<rparr>"
  let ?certs = "[(CACertName, ToCertObject CACertName [] [] (Some ?ca) (Some (RSAKey 7)))]"
  let ?r = "RegenerateEtcdCertificate sim_env ?certs (sim_host ''10.0.0.3'') [sim_host ''10.0.0.3''] ''cluster.local'' None (sim_world [])"
  have "EtcdCertName \<noteq> []" by (simp add: cert_name_defs)
  from GenerateSigned_returns[of sim_env, simplified, OF sim_signing_works this] obtain crt key w1 where
    "GenerateSignedCertAndKey sim_env (Some ?ca) (Some (RSAKey 7)) True EtcdCertName
      (Some (GetAltNames [sim_host ''10.0.0.3''] ''cluster.local'' None)) None [] (sim_world []) = (Ret (crt, key), w1)" by blast
  then obtain certs' where r: "?r = (Ret certs', w1)"
    by (simp add: RegenerateEtcdCertificate_def cert_get_def Let_def bindIO_run)
  have ok: "chain_ok ?ca (RSAKey 7) ?certs" by (auto simp: chain_ok_def signed_entry_def)
  from RegenerateEtcdCertificate_keeps_chain[OF ok r] r ok show ?thesis by blast
qed

end
