(* ===== verification/K8s.thy ===== *)
theory K8s
  imports RKE_Sim
begin

text \<open>
  Package \<^verbatim>\<open>k8s\<close>: the calls of the Kubernetes API server, with their retry loops (\<^verbatim>\<open>k8s.go\<close>, \<^verbatim>\<open>node.go\<close>, \<^verbatim>\<open>secret.go\<close>,
  \<^verbatim>\<open>configmap.go\<close>, \<^verbatim>\<open>job.go\<close>, \<^verbatim>\<open>psp.go\<close>, \<^verbatim>\<open>serviceaccount.go\<close>, \<^verbatim>\<open>role.go\<close>, \<^verbatim>\<open>clusterrole.go\<close>).  Sleeping between
  attempts is not modelled: it changes nothing that the program reads.
\<close>

section \<open>Clients and retries\<close>

definition DefaultRetries :: nat where "DefaultRetries = 5"
definition NamespaceSystem :: string where "NamespaceSystem = ''kube-system''"

definition NewClient :: "('d, 'k, 'e) env \<Rightarrow> string \<Rightarrow> ('d, 'k, 'e, RestConfig) wio" where
  "NewClient env kubeConfigPath =
     bindIO (getIO (\<lambda>w. files w kubeConfigPath)) (\<lambda>f.
     bindIO (ofSum (BuildConfig env f)) (\<lambda>config.
     thenIO (ofSum (NewForConfig env config)) (retIO config)))"

definition decodeYamlResource :: "('d, 'k, 'e) env \<Rightarrow> k8s_kind \<Rightarrow> string \<Rightarrow> ('d, 'k, 'e, K8sObject) wio" where
  "decodeYamlResource env kind yamlManifest = ofSum (DecodeYaml env kind yamlManifest)"

text \<open>\<open>n\<close> attempts; the last error is returned.\<close>

fun retryLoop :: "nat \<Rightarrow> gerror option \<Rightarrow> ('w, unit) io \<Rightarrow> ('w, unit) io" where
  "retryLoop 0 err run = (case err of None \<Rightarrow> retIO () | Some e \<Rightarrow> failIO e)"
| "retryLoop (Suc n) err run = tryIO run (\<lambda>e. retryLoop n (Some e) run) (\<lambda>_. retIO ())"

definition retryTo :: "('w, unit) io \<Rightarrow> nat \<Rightarrow> ('w, unit) io" where
  "retryTo run retries = retryLoop (if retries = 0 then DefaultRetries else retries) None run"

section \<open>Nodes\<close>

definition k8s_DeleteNode :: "('d, 'k, 'e) env \<Rightarrow> RestConfig \<Rightarrow> string \<Rightarrow> ('d, 'k, 'e, unit) wio" where
  "k8s_DeleteNode env client nodeName = onKube (NodesDelete (kubeAPI env) client nodeName)"

definition GetNodeList :: "('d, 'k, 'e) env \<Rightarrow> RestConfig \<Rightarrow> ('d, 'k, 'e, Node list) wio" where
  "GetNodeList env client = onKube (NodesList (kubeAPI env) client)"

definition GetNode :: "('d, 'k, 'e) env \<Rightarrow> RestConfig \<Rightarrow> string \<Rightarrow> ('d, 'k, 'e, Node) wio" where
  "GetNode env client nodeName = onKube (NodesGet (kubeAPI env) client nodeName)"

text \<open>
  Six rounds; a round that updated the node does not leave the loop, the next one finds the node in the wanted
  state and returns.
\<close>

fun cordonLoop :: "nat \<Rightarrow> bool \<Rightarrow> ('d, 'k, 'e) env \<Rightarrow> RestConfig \<Rightarrow> string \<Rightarrow> bool \<Rightarrow> ('d, 'k, 'e, unit) wio" where
  "cordonLoop 0 updated env client nodeName cordoned =
     (if updated then retIO () else failIO (errorf (''Failed to set cordonded state for node: '' @ nodeName)))"
| "cordonLoop (Suc n) updated env client nodeName cordoned =
     tryIO (GetNode env client nodeName)
       (\<lambda>_. cordonLoop n updated env client nodeName cordoned)
       (\<lambda>node. if Unschedulable node = cordoned then retIO ()
          else tryIO (onKube (NodesUpdate (kubeAPI env) client (node\<lparr>Unschedulable := cordoned\<rparr>)))
                 (\<lambda>_. cordonLoop n updated env client nodeName cordoned)
                 (\<lambda>_. cordonLoop n True env client nodeName cordoned))"

definition CordonUncordon :: "('d, 'k, 'e) env \<Rightarrow> RestConfig \<Rightarrow> string \<Rightarrow> bool \<Rightarrow> ('d, 'k, 'e, unit) wio" where
  "CordonUncordon env client nodeName cordoned = cordonLoop 6 False env client nodeName cordoned"

definition IsNodeReady :: "Node \<Rightarrow> bool" where
  "IsNodeReady node \<longleftrightarrow> list_ex (\<lambda>(t, st). t = ''Ready'' \<and> st = ''True'') (node_Conditions node)"

text \<open>\<open>append(ts[:i], ts[i+1:]...)\<close>: the slice bounds are checked against the length.\<close>

definition remove_at :: "nat \<Rightarrow> 'a list \<Rightarrow> 'a list outcome" where
  "remove_at i xs = (if i < length xs then Ret (take i xs @ drop (Suc i) xs) else Panic ''slice bounds out of range'')"

fun remove_by_key :: "string \<Rightarrow> Taint list \<Rightarrow> Taint list option" where
  "remove_by_key key [] = None"
| "remove_by_key key (t # ts) = (if taint_Key t = key then Some ts else map_option ((#) t) (remove_by_key key ts))"

fun removeTaintLoop ::
  "nat \<Rightarrow> gerror \<Rightarrow> ('d, 'k, 'e) env \<Rightarrow> RestConfig \<Rightarrow> string \<Rightarrow> string \<Rightarrow> ('d, 'k, 'e, unit) wio" where
  "removeTaintLoop 0 err env client nodeName taintKey =
     failIO (errorf (''Timeout waiting for node ['' @ nodeName @ ''] to be updated with new set of taints: '' @ emsg err))"
| "removeTaintLoop (Suc n) err env client nodeName taintKey =
     tryIO (GetNode env client nodeName)
       (\<lambda>e. if ekind e = EK8sNotFound then retIO () else failIO e)
       (\<lambda>node. case remove_by_key taintKey (Taints node) of
          None \<Rightarrow> retIO ()
        | Some ts \<Rightarrow> tryIO (onKube (NodesUpdate (kubeAPI env) client (node\<lparr>Taints := ts\<rparr>)))
                      (\<lambda>e. removeTaintLoop n e env client nodeName taintKey)
                      (\<lambda>_. retIO ()))"

definition RemoveTaintFromNodeByKey :: "('d, 'k, 'e) env \<Rightarrow> RestConfig \<Rightarrow> string \<Rightarrow> string \<Rightarrow> ('d, 'k, 'e, unit) wio" where
  "RemoveTaintFromNodeByKey env client nodeName taintKey = removeTaintLoop 6 (errorf []) env client nodeName taintKey"

text \<open>Labels: deletions first, then additions; writing to the labels of a node that has none panics.\<close>

definition syncLabelMap :: "string gomap \<Rightarrow> string gomap \<Rightarrow> string gomap option \<Rightarrow> string gomap option outcome" where
  "syncLabelMap toAdd toDel labels =
     (case labels of
        None \<Rightarrow> if toAdd = [] then Ret None else Panic ''assignment to entry in nil map''
      | Some l \<Rightarrow> Ret (Some (fold (\<lambda>(k, v) m. mput k v m) toAdd (fold (\<lambda>(k, v) m. mdel k m) toDel l))))"

definition labelsUnchanged :: "string gomap option \<Rightarrow> string gomap option \<Rightarrow> bool" where
  "labelsUnchanged old new =
     (case new of None \<Rightarrow> False | Some l \<Rightarrow> map_deep_equal (case old of None \<Rightarrow> [] | Some o' \<Rightarrow> o') l)"

definition doSyncLabels ::
  "('d, 'k, 'e) env \<Rightarrow> RestConfig \<Rightarrow> string \<Rightarrow> string gomap \<Rightarrow> string gomap \<Rightarrow> ('d, 'k, 'e, unit) wio" where
  "doSyncLabels env client nodeName toAddLabels toDelLabels =
     tryIO (GetNode env client nodeName)
       (\<lambda>e. if ekind e = EK8sNotFound then retIO () else failIO e)
       (\<lambda>node. bindIO (\<lambda>w. (syncLabelMap toAddLabels toDelLabels (node_ObjLabels node), w)) (\<lambda>labels.
          if labelsUnchanged (node_ObjLabels node) labels then retIO ()
          else onKube (NodesUpdate (kubeAPI env) client (node\<lparr>node_ObjLabels := labels\<rparr>))))"

definition SyncLabels ::
  "('d, 'k, 'e) env \<Rightarrow> RestConfig \<Rightarrow> string \<Rightarrow> string gomap \<Rightarrow> string gomap \<Rightarrow> ('d, 'k, 'e, unit) wio" where
  "SyncLabels env client nodeName toAddLabels toDelLabels =
     wrapIO (''Timeout waiting for labels to be synced for node ['' @ nodeName @ '']: '')
       (retryLoop 6 None (doSyncLabels env client nodeName toAddLabels toDelLabels))"

definition toTaint :: "string \<Rightarrow> Taint outcome" where
  "toTaint taintStr =
     (case split_on CHR ''='' taintStr of
        key # rest # _ \<Rightarrow> (case split_on CHR '':'' rest of
            val # effect # _ \<Rightarrow> Ret \<lparr>taint_Key = key, taint_Value = val, taint_Effect = effect\<rparr>
          | _ \<Rightarrow> Panic ''index out of range'')
      | _ \<Rightarrow> Panic ''index out of range'')"

definition isTaintExist :: "Taint \<Rightarrow> Taint list \<Rightarrow> bool" where
  "isTaintExist t ts \<longleftrightarrow> list_ex (\<lambda>u. taint_Key u = taint_Key t \<and> taint_Value u = taint_Value t \<and> taint_Effect u = taint_Effect t) ts"

fun addTaints :: "string list \<Rightarrow> Taint list \<Rightarrow> Taint list outcome" where
  "addTaints [] ts = Ret ts"
| "addTaints (s # ss) ts = (case toTaint s of
      Ret t \<Rightarrow> addTaints ss (if isTaintExist t ts then ts else ts @ [t])
    | Fail e \<Rightarrow> Fail e | Panic p \<Rightarrow> Panic p)"

text \<open>The loop over the taints to delete removes the entry at the position of the deletion, not of the taint.\<close>

fun delTaints :: "nat \<Rightarrow> string list \<Rightarrow> Taint list \<Rightarrow> Taint list outcome" where
  "delTaints i [] ts = Ret ts"
| "delTaints i (s # ss) ts = (case toTaint s of
      Ret t \<Rightarrow> if isTaintExist t ts
               then (case remove_at i ts of Ret ts' \<Rightarrow> delTaints (Suc i) ss ts' | Fail e \<Rightarrow> Fail e | Panic p \<Rightarrow> Panic p)
               else delTaints (Suc i) ss ts
    | Fail e \<Rightarrow> Fail e | Panic p \<Rightarrow> Panic p)"

definition doSyncTaints ::
  "('d, 'k, 'e) env \<Rightarrow> RestConfig \<Rightarrow> string \<Rightarrow> string list \<Rightarrow> string list \<Rightarrow> ('d, 'k, 'e, unit) wio" where
  "doSyncTaints env client nodeName toAddTaints toDelTaints =
     tryIO (GetNode env client nodeName)
       (\<lambda>e. if ekind e = EK8sNotFound then retIO () else failIO e)
       (\<lambda>node. bindIO (\<lambda>w. (addTaints toAddTaints (Taints node), w)) (\<lambda>ts.
               bindIO (\<lambda>w. (delTaints 0 toDelTaints ts, w)) (\<lambda>ts'.
                 onKube (NodesUpdate (kubeAPI env) client (node\<lparr>Taints := ts'\<rparr>)))))"

text \<open>When every attempt fails, the message reads \<open>node.Name\<close> of a node that was never assigned.\<close>

definition SyncTaints ::
  "('d, 'k, 'e) env \<Rightarrow> RestConfig \<Rightarrow> string \<Rightarrow> string list \<Rightarrow> string list \<Rightarrow> ('d, 'k, 'e, unit) wio" where
  "SyncTaints env client nodeName toAddTaints toDelTaints =
     catchIO (retryLoop 6 None (doSyncTaints env client nodeName toAddTaints toDelTaints))
       (\<lambda>_. panicIO ''nil pointer dereference'')"

section \<open>Objects: create, or update what exists\<close>

definition createOrUpdate ::
  "('d, 'k, 'e) env \<Rightarrow> RestConfig \<Rightarrow> k8s_kind \<Rightarrow> string \<Rightarrow> K8sObject \<Rightarrow> ('d, 'k, 'e, unit) wio" where
  "createOrUpdate env client kind ns obj =
     tryIO (onKube (ObjCreate (kubeAPI env) client kind ns obj))
       (\<lambda>err. if ekind err \<noteq> EK8sAlreadyExists then failIO err
              else onKube (ObjUpdate (kubeAPI env) client kind ns obj))
       (\<lambda>_. retIO ())"

definition GetSecret :: "('d, 'k, 'e) env \<Rightarrow> RestConfig \<Rightarrow> string \<Rightarrow> ('d, 'k, 'e, K8sObject) wio" where
  "GetSecret env client secretName = onKube (ObjGet (kubeAPI env) client KSecret NamespaceSystem secretName)"

definition UpdateSecret :: "('d, 'k, 'e) env \<Rightarrow> RestConfig \<Rightarrow> string gomap \<Rightarrow> string \<Rightarrow> ('d, 'k, 'e, unit) wio" where
  "UpdateSecret env client secretDataMap secretName =
     createOrUpdate env client KSecret NamespaceSystem
       \<lparr>obj_Name = secretName, obj_Namespace = NamespaceSystem, obj_Data = secretDataMap\<rparr>"

definition UpdateConfigMap :: "('d, 'k, 'e) env \<Rightarrow> RestConfig \<Rightarrow> string \<Rightarrow> string \<Rightarrow> ('d, 'k, 'e, unit) wio" where
  "UpdateConfigMap env client configYaml configMapName =
     createOrUpdate env client KConfigMap NamespaceSystem
       \<lparr>obj_Name = configMapName, obj_Namespace = NamespaceSystem, obj_Data = [(configMapName, configYaml)]\<rparr>"

definition GetConfigMap :: "('d, 'k, 'e) env \<Rightarrow> RestConfig \<Rightarrow> string \<Rightarrow> ('d, 'k, 'e, K8sObject) wio" where
  "GetConfigMap env client configMapName = onKube (ObjGet (kubeAPI env) client KConfigMap NamespaceSystem configMapName)"

definition updatePodSecurityPolicy :: "('d, 'k, 'e) env \<Rightarrow> RestConfig \<Rightarrow> K8sObject \<Rightarrow> ('d, 'k, 'e, unit) wio" where
  "updatePodSecurityPolicy env client psp = createOrUpdate env client KPodSecurityPolicy [] psp"

definition UpdatePodSecurityPolicyFromYaml :: "('d, 'k, 'e) env \<Rightarrow> RestConfig \<Rightarrow> string \<Rightarrow> ('d, 'k, 'e, unit) wio" where
  "UpdatePodSecurityPolicyFromYaml env client pspYaml =
     bindIO (decodeYamlResource env KPodSecurityPolicy pspYaml)
       (\<lambda>psp. retryTo (updatePodSecurityPolicy env client psp) DefaultRetries)"

definition updateServiceAccount :: "('d, 'k, 'e) env \<Rightarrow> RestConfig \<Rightarrow> K8sObject \<Rightarrow> ('d, 'k, 'e, unit) wio" where
  "updateServiceAccount env client serviceAccount = createOrUpdate env client KServiceAccount NamespaceSystem serviceAccount"

definition UpdateServiceAccountFromYaml :: "('d, 'k, 'e) env \<Rightarrow> RestConfig \<Rightarrow> string \<Rightarrow> ('d, 'k, 'e, unit) wio" where
  "UpdateServiceAccountFromYaml env client serviceAccountYaml =
     bindIO (decodeYamlResource env KServiceAccount serviceAccountYaml)
       (\<lambda>sa. retryTo (updateServiceAccount env client sa) DefaultRetries)"

definition updateRoleBinding :: "('d, 'k, 'e) env \<Rightarrow> RestConfig \<Rightarrow> K8sObject \<Rightarrow> ('d, 'k, 'e, unit) wio" where
  "updateRoleBinding env client roleBinding = createOrUpdate env client KRoleBinding (obj_Namespace roleBinding) roleBinding"

definition UpdateRoleBindingFromYaml :: "('d, 'k, 'e) env \<Rightarrow> RestConfig \<Rightarrow> string \<Rightarrow> ('d, 'k, 'e, unit) wio" where
  "UpdateRoleBindingFromYaml env client roleBindingYaml =
     bindIO (decodeYamlResource env KRoleBinding roleBindingYaml)
       (\<lambda>rb. retryTo (updateRoleBinding env client rb) DefaultRetries)"

definition updateRole :: "('d, 'k, 'e) env \<Rightarrow> RestConfig \<Rightarrow> K8sObject \<Rightarrow> ('d, 'k, 'e, unit) wio" where
  "updateRole env client role = createOrUpdate env client KRole (obj_Namespace role) role"

definition UpdateRoleFromYaml :: "('d, 'k, 'e) env \<Rightarrow> RestConfig \<Rightarrow> string \<Rightarrow> ('d, 'k, 'e, unit) wio" where
  "UpdateRoleFromYaml env client roleYaml =
     bindIO (decodeYamlResource env KRole roleYaml) (\<lambda>r. retryTo (updateRole env client r) DefaultRetries)"

definition updateClusterRoleBinding :: "('d, 'k, 'e) env \<Rightarrow> RestConfig \<Rightarrow> K8sObject \<Rightarrow> ('d, 'k, 'e, unit) wio" where
  "updateClusterRoleBinding env client crb = createOrUpdate env client KClusterRoleBinding [] crb"

definition UpdateClusterRoleBindingFromYaml :: "('d, 'k, 'e) env \<Rightarrow> RestConfig \<Rightarrow> string \<Rightarrow> ('d, 'k, 'e, unit) wio" where
  "UpdateClusterRoleBindingFromYaml env client clusterRoleBindingYaml =
     bindIO (decodeYamlResource env KClusterRoleBinding clusterRoleBindingYaml)
       (\<lambda>crb. retryTo (updateClusterRoleBinding env client crb) DefaultRetries)"

definition updateClusterRole :: "('d, 'k, 'e) env \<Rightarrow> RestConfig \<Rightarrow> K8sObject \<Rightarrow> ('d, 'k, 'e, unit) wio" where
  "updateClusterRole env client cr = createOrUpdate env client KClusterRole [] cr"

definition UpdateClusterRoleFromYaml :: "('d, 'k, 'e) env \<Rightarrow> RestConfig \<Rightarrow> string \<Rightarrow> ('d, 'k, 'e, unit) wio" where
  "UpdateClusterRoleFromYaml env client clusterRoleYaml =
     bindIO (decodeYamlResource env KClusterRole clusterRoleYaml)
       (\<lambda>cr. retryTo (updateClusterRole env client cr) DefaultRetries)"

section \<open>Jobs\<close>

definition ensureJobCompleted :: "('d, 'k, 'e) env \<Rightarrow> RestConfig \<Rightarrow> K8sObject \<Rightarrow> ('d, 'k, 'e, unit) wio" where
  "ensureJobCompleted env client job =
     bindIO (wrapIO ''Failed to update job status: '' (onKube (JobGet (kubeAPI env) client (obj_Namespace job) (obj_Name job))))
       (\<lambda>existingJob.
          if list_ex (\<lambda>(t, st). t = ''Complete'' \<and> st = ''True'') (job_Conditions existingJob) then retIO ()
          else failIO (errorf ''Failed to get job complete status: <nil>''))"

definition ApplyK8sSystemJob :: "('d, 'k, 'e) env \<Rightarrow> string \<Rightarrow> string \<Rightarrow> ('d, 'k, 'e, unit) wio" where
  "ApplyK8sSystemJob env jobYaml kubeConfigPath =
     bindIO (decodeYamlResource env KJob jobYaml) (\<lambda>j.
       let job = (if obj_Namespace j = [] then j\<lparr>obj_Namespace := NamespaceSystem\<rparr> else j) in
       bindIO (NewClient env kubeConfigPath) (\<lambda>client.
         tryIO (onKube (ObjCreate (kubeAPI env) client KJob (obj_Namespace job) job))
           (\<lambda>err. if ekind err = EK8sAlreadyExists then retIO () else failIO err)
           (\<lambda>_. retryTo (ensureJobCompleted env client job) DefaultRetries)))"

section \<open>The API server as seen by its clients\<close>

record kview =
  kv_nodes :: "string \<rightharpoonup> Node"
  kv_objs :: "k8s_kind \<times> string \<times> string \<rightharpoonup> K8sObject"

definition set_node :: "string \<Rightarrow> Node option \<Rightarrow> kview \<Rightarrow> kview" where
  "set_node n x v = v\<lparr>kv_nodes := (kv_nodes v)(n := x)\<rparr>"

definition set_obj :: "k8s_kind \<times> string \<times> string \<Rightarrow> K8sObject option \<Rightarrow> kview \<Rightarrow> kview" where
  "set_obj k x v = v\<lparr>kv_objs := (kv_objs v)(k := x)\<rparr>"

lemma set_node_simps [simp]: "kv_nodes (set_node n x v) = (kv_nodes v)(n := x)" "kv_objs (set_node n x v) = kv_objs v"
  by (simp_all add: set_node_def)

lemma set_obj_simps [simp]: "kv_objs (set_obj k x v) = (kv_objs v)(k := x)" "kv_nodes (set_obj k x v) = kv_nodes v"
  by (simp_all add: set_obj_def)

text \<open>
  The documented behaviour of the API server towards one client: objects are found under kind, namespace and name, created once,
  updated when they exist, and a failed write has or has not taken effect.
\<close>

definition kube_laws :: "'k kube_api \<Rightarrow> ('k \<Rightarrow> kview) \<Rightarrow> bool" where
  "kube_laws api kv \<longleftrightarrow>
     (\<forall>c n v. vtriple kv v (NodesGet api c n) (\<lambda>x v'. v' = v \<and> kv_nodes v n = Some x \<and> node_Name x = n)
        (\<lambda>e v'. v' = v \<and> (ekind e = EK8sNotFound \<longrightarrow> kv_nodes v n = None))) \<and>
     (\<forall>c x v. vtriple kv v (NodesUpdate api c x)
        (\<lambda>_ v'. kv_nodes v (node_Name x) \<noteq> None \<and> v' = set_node (node_Name x) (Some x) v)
        (\<lambda>e v'. v' = v \<or> (kv_nodes v (node_Name x) \<noteq> None \<and> v' = set_node (node_Name x) (Some x) v))) \<and>
     (\<forall>c n v. vtriple kv v (NodesDelete api c n)
        (\<lambda>_ v'. kv_nodes v n \<noteq> None \<and> v' = set_node n None v) (\<lambda>e v'. v' = v \<or> v' = set_node n None v)) \<and>
     (\<forall>c t ns x v. vtriple kv v (ObjCreate api c t ns x)
        (\<lambda>_ v'. kv_objs v (t, ns, obj_Name x) = None \<and> v' = set_obj (t, ns, obj_Name x) (Some x) v)
        (\<lambda>e v'. (ekind e = EK8sAlreadyExists \<longrightarrow> v' = v \<and> kv_objs v (t, ns, obj_Name x) \<noteq> None) \<and>
                (v' = v \<or> v' = set_obj (t, ns, obj_Name x) (Some x) v))) \<and>
     (\<forall>c t ns x v. vtriple kv v (ObjUpdate api c t ns x)
        (\<lambda>_ v'. kv_objs v (t, ns, obj_Name x) \<noteq> None \<and> v' = set_obj (t, ns, obj_Name x) (Some x) v)
        (\<lambda>e v'. v' = v \<or> v' = set_obj (t, ns, obj_Name x) (Some x) v)) \<and>
     (\<forall>c t ns n v. vtriple kv v (ObjGet api c t ns n) (\<lambda>x v'. v' = v \<and> kv_objs v (t, ns, n) = Some x)
        (\<lambda>e v'. v' = v \<and> (ekind e = EK8sNotFound \<longrightarrow> kv_objs v (t, ns, n) = None))) \<and>
     (\<forall>c v. vtriple kv v (NodesList api c) (\<lambda>_ v'. v' = v) (\<lambda>_ v'. v' = v)) \<and>
     (\<forall>c n b v. vtriple kv v (JobGet api c n b) (\<lambda>_ v'. v' = v) (\<lambda>_ v'. v' = v)) \<and>
     (\<forall>c v. vtriple kv v (ServerVersion api c) (\<lambda>_ v'. v' = v) (\<lambda>_ v'. v' = v))"

definition kw :: "('k \<Rightarrow> kview) \<Rightarrow> ('d, 'k, 'e) world \<Rightarrow> kview" where
  "kw kv w = kv (kube w)"

lemma onKube_view:
  assumes "vtriple kv v m Q E"
  shows "vtriple (kw kv) v (onKube m) Q E"
  using assms unfolding vtriple_def onKube_def kw_def by (fastforce split: prod.splits outcome.splits)

text \<open>A loop of attempts: whatever a failed attempt leaves must allow the next one.\<close>

lemma retryLoop_triple:
  assumes "\<And>v. P v \<Longrightarrow> vtriple view v run (\<lambda>_. Q) (\<lambda>e. P)" "P v" "n > 0 \<or> err \<noteq> None"
  shows "vtriple view v (retryLoop n err run) (\<lambda>_. Q) (\<lambda>e. P)"
  using assms(2,3)
proof (induction n arbitrary: v err)
  case 0
  then show ?case by (auto intro: vtriple_fail)
next
  case (Suc n)
  show ?case
    unfolding retryLoop.simps
    by (rule vtriple_try[OF assms(1)[OF Suc.prems(1)]]) (auto intro: Suc.IH vtriple_ret)
qed

lemma retryTo_triple:
  assumes "\<And>v. P v \<Longrightarrow> vtriple view v run (\<lambda>_. Q) (\<lambda>e. P)" "P v"
  shows "vtriple view v (retryTo run n) (\<lambda>_. Q) (\<lambda>e. P)"
  unfolding retryTo_def by (rule retryLoop_triple[OF assms]) (auto simp: DefaultRetries_def)

lemma createOrUpdate_triple:
  assumes "kube_laws (kubeAPI env) kv"
  shows "vtriple (kw kv) v (createOrUpdate env c t ns x)
     (\<lambda>_ v'. v' = set_obj (t, ns, obj_Name x) (Some x) v) (\<lambda>e v'. v' = v \<or> v' = set_obj (t, ns, obj_Name x) (Some x) v)"
  unfolding createOrUpdate_def
proof (rule vtriple_try[OF onKube_view])
  show "vtriple kv v (ObjCreate (kubeAPI env) c t ns x)
        (\<lambda>_ v'. kv_objs v (t, ns, obj_Name x) = None \<and> v' = set_obj (t, ns, obj_Name x) (Some x) v)
        (\<lambda>e v'. (ekind e = EK8sAlreadyExists \<longrightarrow> v' = v \<and> kv_objs v (t, ns, obj_Name x) \<noteq> None) \<and>
                (v' = v \<or> v' = set_obj (t, ns, obj_Name x) (Some x) v))"
    using assms unfolding kube_laws_def by (elim conjE allE)
  fix e v1
  assume v1: "(ekind e = EK8sAlreadyExists \<longrightarrow> v1 = v \<and> kv_objs v (t, ns, obj_Name x) \<noteq> None) \<and>
                (v1 = v \<or> v1 = set_obj (t, ns, obj_Name x) (Some x) v)"
  have "vtriple kv v (ObjUpdate (kubeAPI env) c t ns x)
        (\<lambda>_ v'. kv_objs v (t, ns, obj_Name x) \<noteq> None \<and> v' = set_obj (t, ns, obj_Name x) (Some x) v)
        (\<lambda>e v'. v' = v \<or> v' = set_obj (t, ns, obj_Name x) (Some x) v)"
    using assms unfolding kube_laws_def by (elim conjE allE)
  note u0 = this
  have u: "vtriple (kw kv) v (onKube (ObjUpdate (kubeAPI env) c t ns x))
     (\<lambda>_ v'. v' = set_obj (t, ns, obj_Name x) (Some x) v) (\<lambda>e v'. v' = v \<or> v' = set_obj (t, ns, obj_Name x) (Some x) v)"
    by (rule vtriple_conseq[OF onKube_view[OF u0]]) auto
  show "vtriple (kw kv) v1 (if ekind e \<noteq> EK8sAlreadyExists then failIO e
              else onKube (ObjUpdate (kubeAPI env) c t ns x))
     (\<lambda>_ v'. v' = set_obj (t, ns, obj_Name x) (Some x) v) (\<lambda>e v'. v' = v \<or> v' = set_obj (t, ns, obj_Name x) (Some x) v)"
    using v1 u by (cases "ekind e = EK8sAlreadyExists") (auto intro!: vtriple_fail)
qed (auto intro: vtriple_ret)

lemma getNode_triple:
  assumes "kube_laws (kubeAPI env) kv"
  shows "vtriple (kw kv) v (GetNode env c n) (\<lambda>x v'. v' = v \<and> kv_nodes v n = Some x \<and> node_Name x = n)
        (\<lambda>e v'. v' = v \<and> (ekind e = EK8sNotFound \<longrightarrow> kv_nodes v n = None))"
  unfolding GetNode_def using assms by (intro onKube_view) (simp add: kube_laws_def)

lemma nodesUpdate_triple:
  assumes "kube_laws (kubeAPI env) kv"
  shows "vtriple (kw kv) v (onKube (NodesUpdate (kubeAPI env) c x))
        (\<lambda>_ v'. kv_nodes v (node_Name x) \<noteq> None \<and> v' = set_node (node_Name x) (Some x) v)
        (\<lambda>e v'. v' = v \<or> (kv_nodes v (node_Name x) \<noteq> None \<and> v' = set_node (node_Name x) (Some x) v))"
proof (rule onKube_view)
  show "vtriple kv v (NodesUpdate (kubeAPI env) c x)
        (\<lambda>_ v'. kv_nodes v (node_Name x) \<noteq> None \<and> v' = set_node (node_Name x) (Some x) v)
        (\<lambda>e v'. v' = v \<or> (kv_nodes v (node_Name x) \<noteq> None \<and> v' = set_node (node_Name x) (Some x) v))"
    using assms unfolding kube_laws_def by (elim conjE allE)
qed

section \<open>Nodes: what the loops achieve\<close>

text \<open>Only the node of that name changes.\<close>

definition only_node :: "string \<Rightarrow> kview \<Rightarrow> kview \<Rightarrow> bool" where
  "only_node n v v' \<longleftrightarrow> kv_objs v' = kv_objs v \<and> (\<forall>m. m \<noteq> n \<longrightarrow> kv_nodes v' m = kv_nodes v m)"

lemma only_node_refl [simp]: "only_node n v v"
  by (simp add: only_node_def)

lemma only_node_set [simp]: "only_node n v0 v \<Longrightarrow> only_node n v0 (set_node n x v)"
  by (auto simp: only_node_def)

text \<open>Started with an update already made, the loop keeps the wanted state.\<close>

lemma cordonLoop_triple:
  assumes "kube_laws (kubeAPI env) kv" "only_node n v0 v"
    "updated \<Longrightarrow> \<exists>x. kv_nodes v n = Some x \<and> Unschedulable x = b"
  shows "vtriple (kw kv) v (cordonLoop k updated env c n b)
     (\<lambda>_ v'. only_node n v0 v' \<and> (\<exists>x. kv_nodes v' n = Some x \<and> Unschedulable x = b)) (\<lambda>e v'. only_node n v0 v')"
  using assms(2,3)
proof (induction k arbitrary: v updated)
  case 0
  then show ?case by (auto intro!: vtriple_ret vtriple_fail)
next
  case (Suc k)
  show ?case
    unfolding cordonLoop.simps
  proof (rule vtriple_try[OF getNode_triple[OF assms(1)]])
    fix e v1
    assume "v1 = v \<and> (ekind e = EK8sNotFound \<longrightarrow> kv_nodes v n = None)"
    with Suc show "vtriple (kw kv) v1 (cordonLoop k updated env c n b)
       (\<lambda>_ v'. only_node n v0 v' \<and> (\<exists>x. kv_nodes v' n = Some x \<and> Unschedulable x = b)) (\<lambda>e v'. only_node n v0 v')"
      by simp
  next
    fix x v1
    assume x: "v1 = v \<and> kv_nodes v n = Some x \<and> node_Name x = n"
    show "vtriple (kw kv) v1 (if Unschedulable x = b then retIO ()
          else tryIO (onKube (NodesUpdate (kubeAPI env) c (x\<lparr>Unschedulable := b\<rparr>)))
                 (\<lambda>_. cordonLoop k updated env c n b) (\<lambda>_. cordonLoop k True env c n b))
       (\<lambda>_ v'. only_node n v0 v' \<and> (\<exists>x. kv_nodes v' n = Some x \<and> Unschedulable x = b)) (\<lambda>e v'. only_node n v0 v')"
    proof (cases "Unschedulable x = b")
      case True
      with x Suc.prems show ?thesis by (auto intro!: vtriple_ret)
    next
      case False
      with x Suc.prems have "\<not> updated" by auto
      have "vtriple (kw kv) v (tryIO (onKube (NodesUpdate (kubeAPI env) c (x\<lparr>Unschedulable := b\<rparr>)))
            (\<lambda>_. cordonLoop k updated env c n b) (\<lambda>_. cordonLoop k True env c n b))
         (\<lambda>_ v'. only_node n v0 v' \<and> (\<exists>x. kv_nodes v' n = Some x \<and> Unschedulable x = b)) (\<lambda>e v'. only_node n v0 v')"
        by (rule vtriple_try[OF nodesUpdate_triple[OF assms(1)]]; rule Suc.IH)
           (use x Suc.prems \<open>\<not> updated\<close> in auto)
      with False x show ?thesis by simp
    qed
  qed
qed

text \<open>Labels after a synchronisation: additions override deletions.\<close>

definition synced :: "string gomap \<Rightarrow> string gomap \<Rightarrow> string gomap \<Rightarrow> (string \<rightharpoonup> string) \<Rightarrow> bool" where
  "synced toAdd toDel old new \<longleftrightarrow>
     (\<forall>k. new k = (case map_of (rev toAdd) k of Some v \<Rightarrow> Some v
                   | None \<Rightarrow> if k \<in> fst ` set toDel then None else map_of old k))"

lemma fold_mdel: "mget (fold (\<lambda>(k, v) m. mdel k m) del m) k = (if k \<in> fst ` set del then None else mget m k)"
  by (induction del arbitrary: m) auto

lemma fold_mput: "mget (fold (\<lambda>(k, v) m. mput k v m) add m) k = (case map_of (rev add) k of Some v \<Rightarrow> Some v | None \<Rightarrow> mget m k)"
  by (induction add arbitrary: m) (auto simp: map_add_def split: option.splits)

lemma synced_fold:
  "synced add del l (mget (fold (\<lambda>(k, v) m. mput k v m) add (fold (\<lambda>(k, v) m. mdel k m) del l)))"
  unfolding synced_def fold_mput fold_mdel by (auto split: option.splits)

lemma synced_again:
  assumes "synced add del l0 (mget l) \<or> mget l = mget l0"
  shows "synced add del l0 (mget (fold (\<lambda>(k, v) m. mput k v m) add (fold (\<lambda>(k, v) m. mdel k m) del l)))"
  using assms
proof
  assume "mget l = mget l0"
  then show ?thesis unfolding synced_def fold_mput fold_mdel by (auto split: option.splits)
next
  assume s: "synced add del l0 (mget l)"
  show ?thesis
    unfolding synced_def
  proof
    fix k
    show "mget (fold (\<lambda>(k, v) m. mput k v m) add (fold (\<lambda>(k, v) m. mdel k m) del l)) k =
      (case map_of (rev add) k of Some v \<Rightarrow> Some v | None \<Rightarrow> if k \<in> fst ` set del then None else map_of l0 k)"
      using s[unfolded synced_def, rule_format, of k] unfolding fold_mput fold_mdel by (auto split: option.splits)
  qed
qed

definition labelled :: "string \<Rightarrow> (Node \<Rightarrow> string gomap \<Rightarrow> bool) \<Rightarrow> kview \<Rightarrow> bool" where
  "labelled n P v \<longleftrightarrow> (\<exists>x l. kv_nodes v n = Some x \<and> node_ObjLabels x = Some l \<and> P x l)"

text \<open>The node before and after have the same name, taints and schedulability.\<close>

definition same_but_labels :: "Node \<Rightarrow> Node \<Rightarrow> bool" where
  "same_but_labels x y \<longleftrightarrow> y\<lparr>node_ObjLabels := node_ObjLabels x\<rparr> = x"

lemma same_but_labels_simps [simp]:
  "same_but_labels x x" "same_but_labels x y \<Longrightarrow> same_but_labels x (y\<lparr>node_ObjLabels := l\<rparr>)"
  by (auto simp: same_but_labels_def)

lemma doSyncLabels_triple:
  assumes "kube_laws (kubeAPI env) kv"
    and inv: "only_node n v0 v \<and> labelled n (\<lambda>x l. same_but_labels x0 x \<and> (synced add del l0 (mget l) \<or> mget l = mget l0)) v"
  shows "vtriple (kw kv) v (doSyncLabels env c n add del)
     (\<lambda>_ v'. only_node n v0 v' \<and> labelled n (\<lambda>x l. same_but_labels x0 x \<and> synced add del l0 (mget l)) v')
     (\<lambda>e v'. only_node n v0 v' \<and>
        labelled n (\<lambda>x l. same_but_labels x0 x \<and> (synced add del l0 (mget l) \<or> mget l = mget l0)) v')"
    (is "vtriple _ _ _ ?Q ?E")
  unfolding doSyncLabels_def
proof (rule vtriple_try[OF getNode_triple[OF assms(1)]])
  fix e v1
  assume "v1 = v \<and> (ekind e = EK8sNotFound \<longrightarrow> kv_nodes v n = None)"
  with inv show "vtriple (kw kv) v1 (if ekind e = EK8sNotFound then retIO () else failIO e) ?Q ?E"
    by (auto intro!: vtriple_fail simp: labelled_def)
next
  fix x v1
  assume x: "v1 = v \<and> kv_nodes v n = Some x \<and> node_Name x = n"
  from inv x obtain l where l: "node_ObjLabels x = Some l" "same_but_labels x0 x"
    "synced add del l0 (mget l) \<or> mget l = mget l0" by (auto simp: labelled_def)
  let ?l = "fold (\<lambda>(k, v) m. mput k v m) add (fold (\<lambda>(k, v) m. mdel k m) del l)"
  have s: "synced add del l0 (mget ?l)" by (rule synced_again[OF l(3)])
  have m: "syncLabelMap add del (node_ObjLabels x) = Ret (Some ?l)" by (simp add: syncLabelMap_def l(1))
  have upd: "vtriple (kw kv) v (onKube (NodesUpdate (kubeAPI env) c (x\<lparr>node_ObjLabels := Some ?l\<rparr>))) ?Q ?E"
    by (rule vtriple_conseq[OF nodesUpdate_triple[OF assms(1)]]) (use x inv l s in \<open>auto simp: labelled_def\<close>)
  have "vtriple (kw kv) v (if labelsUnchanged (node_ObjLabels x) (Some ?l) then retIO ()
      else onKube (NodesUpdate (kubeAPI env) c (x\<lparr>node_ObjLabels := Some ?l\<rparr>))) ?Q ?E"
    using upd inv x l s by (auto intro!: vtriple_ret simp: labelsUnchanged_def map_deep_equal_iff labelled_def)
  then show "vtriple (kw kv) v1 (bindIO (\<lambda>w. (syncLabelMap add del (node_ObjLabels x), w)) (\<lambda>labels.
          if labelsUnchanged (node_ObjLabels x) labels then retIO ()
          else onKube (NodesUpdate (kubeAPI env) c (x\<lparr>node_ObjLabels := labels\<rparr>)))) ?Q ?E"
    using x m by (simp add: vtriple_def bindIO_def)
qed

section \<open>The simulated server\<close>

definition sim_kview :: "sim_kube \<Rightarrow> kview" where
  "sim_kview k = \<lparr>kv_nodes = (\<lambda>n. List.find (\<lambda>x. node_Name x = n) (sk_nodes k)), kv_objs = map_of (sk_objs k)\<rparr>"

lemma find_map_other:
  "n \<noteq> node_Name x \<Longrightarrow> List.find (\<lambda>y. node_Name y = n) (map (\<lambda>y. if node_Name y = node_Name x then x else y) ns) =
     List.find (\<lambda>y. node_Name y = n) ns"
  by (induction ns) auto

lemma find_map_update:
  "List.find (\<lambda>y. node_Name y = node_Name x) ns \<noteq> None \<Longrightarrow>
   List.find (\<lambda>y. node_Name y = n) (map (\<lambda>y. if node_Name y = node_Name x then x else y) ns) =
     (if n = node_Name x then Some x else List.find (\<lambda>y. node_Name y = n) ns)"
  by (cases "n = node_Name x") (simp_all add: find_map_other, induction ns, auto)

lemma find_filter_delete:
  "List.find (\<lambda>y. node_Name y = n) (filter (\<lambda>y. node_Name y \<noteq> m) ns) =
     (if n = m then None else List.find (\<lambda>y. node_Name y = n) ns)"
  by (induction ns) auto

lemma sim_kube_laws: "kube_laws sim_kube_api sim_kview"
  unfolding kube_laws_def
proof (intro conjI allI)
  fix c n v
  show "vtriple sim_kview v (NodesGet sim_kube_api c n) (\<lambda>x v'. v' = v \<and> kv_nodes v n = Some x \<and> node_Name x = n)
        (\<lambda>e v'. v' = v \<and> (ekind e = EK8sNotFound \<longrightarrow> kv_nodes v n = None))"
    by (auto simp: vtriple_def sim_kube_api_def sim_kview_def k8s_not_found_def find_Some_iff split: option.splits)
  fix x
  show "vtriple sim_kview v (NodesUpdate sim_kube_api c x)
        (\<lambda>_ v'. kv_nodes v (node_Name x) \<noteq> None \<and> v' = set_node (node_Name x) (Some x) v)
        (\<lambda>e v'. v' = v \<or> (kv_nodes v (node_Name x) \<noteq> None \<and> v' = set_node (node_Name x) (Some x) v))"
    by (auto simp: vtriple_def sim_kube_api_def sim_kview_def set_node_def find_map_update fun_eq_iff)
  show "vtriple sim_kview v (NodesDelete sim_kube_api c n)
        (\<lambda>_ v'. kv_nodes v n \<noteq> None \<and> v' = set_node n None v) (\<lambda>e v'. v' = v \<or> v' = set_node n None v)"
    by (auto simp: vtriple_def sim_kube_api_def sim_kview_def set_node_def find_filter_delete fun_eq_iff)
next
  fix c t ns x v
  show "vtriple sim_kview v (ObjCreate sim_kube_api c t ns x)
        (\<lambda>_ v'. kv_objs v (t, ns, obj_Name x) = None \<and> v' = set_obj (t, ns, obj_Name x) (Some x) v)
        (\<lambda>e v'. (ekind e = EK8sAlreadyExists \<longrightarrow> v' = v \<and> kv_objs v (t, ns, obj_Name x) \<noteq> None) \<and>
                (v' = v \<or> v' = set_obj (t, ns, obj_Name x) (Some x) v))"
    by (auto simp: vtriple_def sim_kube_api_def sim_kview_def set_obj_def)
  show "vtriple sim_kview v (ObjUpdate sim_kube_api c t ns x)
        (\<lambda>_ v'. kv_objs v (t, ns, obj_Name x) \<noteq> None \<and> v' = set_obj (t, ns, obj_Name x) (Some x) v)
        (\<lambda>e v'. v' = v \<or> v' = set_obj (t, ns, obj_Name x) (Some x) v)"
    by (auto simp: vtriple_def sim_kube_api_def sim_kview_def set_obj_def AList.update_conv')
next
  fix c t ns n v
  show "vtriple sim_kview v (ObjGet sim_kube_api c t ns n) (\<lambda>x v'. v' = v \<and> kv_objs v (t, ns, n) = Some x)
        (\<lambda>e v'. v' = v \<and> (ekind e = EK8sNotFound \<longrightarrow> kv_objs v (t, ns, n) = None))"
    by (auto simp: vtriple_def sim_kube_api_def sim_kview_def split: option.splits)
qed (auto simp: vtriple_def sim_kube_api_def sim_kview_def split: option.splits)

section \<open>Properties of the calls\<close>

definition sim_client :: RestConfig where
  "sim_client = \<lparr>rest_Host = ''https://10.0.0.1:6443'', CAData = [], CertData = [], KeyData = []\<rparr>"

definition sim_node :: Node where
  "sim_node = \<lparr>node_Name = ''n1'', node_ObjLabels = Some [(''a'', ''1''), (''b'', ''2'')], Unschedulable = False,
     Taints = [\<lparr>taint_Key = ''k'', taint_Value = ''v'', taint_Effect = ''NoSchedule''\<rparr>,
               \<lparr>taint_Key = ''node-role.kubernetes.io/etcd'', taint_Value = ''true'', taint_Effect = ''NoExecute''\<rparr>],
     node_Conditions = [(''Ready'', ''True'')]\<rparr>"

definition sim_node_world :: "(sim, sim_kube, sim_ext) world" where
  "sim_node_world = (sim_world [])\<lparr>kube := \<lparr>sk_nodes = [sim_node], sk_objs = []\<rparr>\<rparr>"

text \<open>
  \<^verbatim>\<open>UpdateSecret\<close> that returns has stored the secret, whether or not it existed, and changed nothing else; a
  \<^verbatim>\<open>GetSecret\<close> that follows and returns gives the data back.
\<close>

theorem UpdateSecret_stores:
  assumes "kube_laws (kubeAPI env) kv" and "UpdateSecret env c datam n w = (Ret (), w')"
  shows "kv_objs (kv (kube w')) = (kv_objs (kv (kube w)))
       ((KSecret, NamespaceSystem, n) \<mapsto> \<lparr>obj_Name = n, obj_Namespace = NamespaceSystem, obj_Data = datam\<rparr>) \<and>
     kv_nodes (kv (kube w')) = kv_nodes (kv (kube w)) \<and>
     (\<forall>s w''. GetSecret env c n w' = (Ret s, w'') \<longrightarrow> obj_Data s = datam)"
proof -
  let ?s = "\<lparr>obj_Name = n, obj_Namespace = NamespaceSystem, obj_Data = datam\<rparr>"
  have w': "kv (kube w') = set_obj (KSecret, NamespaceSystem, n) (Some ?s) (kv (kube w))"
    using vtriple_Ret[OF createOrUpdate_triple[OF assms(1)]] assms(2) unfolding UpdateSecret_def kw_def by fastforce
  have "vtriple kv (kv (kube w')) (ObjGet (kubeAPI env) c KSecret NamespaceSystem n)
      (\<lambda>x v'. v' = kv (kube w') \<and> kv_objs (kv (kube w')) (KSecret, NamespaceSystem, n) = Some x)
      (\<lambda>e v'. v' = kv (kube w') \<and> (ekind e = EK8sNotFound \<longrightarrow> kv_objs (kv (kube w')) (KSecret, NamespaceSystem, n) = None))"
    using assms(1) by (simp add: kube_laws_def)
  from vtriple_Ret[OF onKube_view[OF this, folded kw_def]]
  have "GetSecret env c n w' = (Ret s, w'') \<Longrightarrow> obj_Data s = datam" for s w''
    unfolding GetSecret_def using w' by (auto simp: kw_def)
  with w' show ?thesis by simp
qed

theorem UpdateSecret_stores_witness:
  "\<exists>w'. UpdateSecret sim_env sim_client [(''k'', ''v'')] ''kube-ca'' sim_node_world = (Ret (), w') \<and>
     (\<forall>s w''. GetSecret sim_env sim_client ''kube-ca'' w' = (Ret s, w'') \<longrightarrow> obj_Data s = [(''k'', ''v'')])"
proof -
  let ?r = "UpdateSecret sim_env sim_client [(''k'', ''v'')] ''kube-ca'' sim_node_world"
  have "fst ?r = Ret ()" by code_simp
  then have r: "?r = (Ret (), snd ?r)" by (metis prod.collapse)
  have "kube_laws (kubeAPI sim_env) sim_kview" by (simp add: sim_kube_laws)
  from UpdateSecret_stores[OF this r] r show ?thesis by blast
qed

text \<open>
  C36: \<^verbatim>\<open>SyncLabels\<close> that returns leaves the node with the labels to add set, the labels to delete gone unless they are
  also to be added, every other label as it was, and nothing but the labels of that node changed; it never panics on
  a node that has labels.
\<close>

theorem SyncLabels_synced:
  assumes "kube_laws (kubeAPI env) kv" and "kv_nodes (kv (kube w)) n = Some x0" and "node_ObjLabels x0 = Some l0"
  shows "case SyncLabels env c n add del w of
       (Ret _, w') \<Rightarrow> only_node n (kv (kube w)) (kv (kube w')) \<and>
          (\<exists>x l. kv_nodes (kv (kube w')) n = Some x \<and> node_ObjLabels x = Some l \<and> same_but_labels x0 x \<and>
             (\<forall>k. mget l k = (case map_of (rev add) k of Some v \<Rightarrow> Some v
                | None \<Rightarrow> if k \<in> fst ` set del then None else mget l0 k)))
     | (Fail e, w') \<Rightarrow> only_node n (kv (kube w)) (kv (kube w'))
     | (Panic s, w') \<Rightarrow> False"
proof -
  let ?P = "\<lambda>v. only_node n (kv (kube w)) v \<and>
      labelled n (\<lambda>x l. same_but_labels x0 x \<and> (synced add del l0 (mget l) \<or> mget l = mget l0)) v"
  have "?P (kv (kube w))" using assms(2,3) by (auto simp: labelled_def)
  from retryLoop_triple[where P = ?P, OF doSyncLabels_triple[OF assms(1)] this, of 6 None c]
  have t: "vtriple (kw kv) (kw kv w) (SyncLabels env c n add del)
      (\<lambda>_ v'. only_node n (kv (kube w)) v' \<and> labelled n (\<lambda>x l. same_but_labels x0 x \<and> synced add del l0 (mget l)) v') (\<lambda>e. ?P)"
    unfolding SyncLabels_def kw_def by (intro vtriple_wrap) simp
  obtain r w' where r: "SyncLabels env c n add del w = (r, w')" by fastforce
  show ?thesis
  proof (cases r)
    case (Ret u)
    with vtriple_Ret[OF t] r show ?thesis by (fastforce simp: labelled_def synced_def kw_def)
  next
    case (Fail e)
    with vtriple_Fail[OF t] r show ?thesis by (simp add: kw_def)
  next
    case (Panic s)
    with vtriple_no_panic[OF t] r show ?thesis by simp
  qed
qed

theorem SyncLabels_synced_witness:
  "case SyncLabels sim_env sim_client ''n1'' [(''c'', ''3'')] [(''a'', ''1'')] sim_node_world of
       (Ret _, w') \<Rightarrow> only_node ''n1'' (sim_kview (kube sim_node_world)) (sim_kview (kube w')) \<and>
          (\<exists>x l. kv_nodes (sim_kview (kube w')) ''n1'' = Some x \<and> node_ObjLabels x = Some l \<and> same_but_labels sim_node x \<and>
             (\<forall>k. mget l k = (case map_of (rev [(''c'', ''3'')]) k of Some v \<Rightarrow> Some v
                | None \<Rightarrow> if k \<in> fst ` set [(''a'', ''1'')] then None else mget [(''a'', ''1''), (''b'', ''2'')] k)))
     | (Fail e, w') \<Rightarrow> only_node ''n1'' (sim_kview (kube sim_node_world)) (sim_kview (kube w'))
     | (Panic s, w') \<Rightarrow> False"
proof (rule SyncLabels_synced)
  show "kube_laws (kubeAPI sim_env) sim_kview" by (simp add: sim_kube_laws)
qed (simp_all add: sim_kview_def sim_node_world_def sim_node_def)

text \<open>
  \<^verbatim>\<open>CordonUncordon\<close> that returns leaves the node with the wanted schedulability; it changes no other node and no object, and
  it ends after six rounds.
\<close>

theorem CordonUncordon_sets:
  assumes "kube_laws (kubeAPI env) kv"
  shows "case CordonUncordon env c n b w of
       (Ret _, w') \<Rightarrow> only_node n (kv (kube w)) (kv (kube w')) \<and>
          (\<exists>x. kv_nodes (kv (kube w')) n = Some x \<and> Unschedulable x = b)
     | (Fail e, w') \<Rightarrow> only_node n (kv (kube w)) (kv (kube w'))
     | (Panic s, w') \<Rightarrow> False"
proof -
  have t: "vtriple (kw kv) (kw kv w) (CordonUncordon env c n b)
     (\<lambda>_ v'. only_node n (kw kv w) v' \<and> (\<exists>x. kv_nodes v' n = Some x \<and> Unschedulable x = b)) (\<lambda>e v'. only_node n (kw kv w) v')"
    unfolding CordonUncordon_def by (rule cordonLoop_triple[OF assms]) auto
  obtain r w' where r: "CordonUncordon env c n b w = (r, w')" by fastforce
  with t show ?thesis
    by (cases r) (auto dest: vtriple_Ret vtriple_Fail vtriple_no_panic simp: kw_def[symmetric])
qed

theorem CordonUncordon_sets_witness:
  "case CordonUncordon sim_env sim_client ''n1'' True sim_node_world of
       (Ret _, w') \<Rightarrow> only_node ''n1'' (sim_kview (kube sim_node_world)) (sim_kview (kube w')) \<and>
          (\<exists>x. kv_nodes (sim_kview (kube w')) ''n1'' = Some x \<and> Unschedulable x = True)
     | (Fail e, w') \<Rightarrow> only_node ''n1'' (sim_kview (kube sim_node_world)) (sim_kview (kube w'))
     | (Panic s, w') \<Rightarrow> False"
  by (rule CordonUncordon_sets) (simp add: sim_kube_laws)

text \<open>
  A taint printed as \<open>key=value:effect\<close> is read back by \<^verbatim>\<open>toTaint\<close>, as long as its parts contain no separator.
\<close>

theorem toTaint_roundtrip:
  assumes "CHR ''='' \<notin> set (taint_Key t) \<union> set (taint_Value t) \<union> set (taint_Effect t)"
    and "CHR '':'' \<notin> set (taint_Value t) \<union> set (taint_Effect t)"
  shows "toTaint (taint_Key t @ ''='' @ taint_Value t @ '':'' @ taint_Effect t) = Ret t"
proof -
  let ?r = "taint_Value t @ '':'' @ taint_Effect t"
  have 1: "split_on CHR ''='' (taint_Key t @ CHR ''='' # ?r) = taint_Key t # split_on CHR ''='' ?r"
    using assms(1) by (intro split_on_append) simp
  have 2: "split_on CHR ''='' ?r = [?r]" using assms(1) by (intro split_on_no_sep) simp
  have 3: "split_on CHR '':'' (taint_Value t @ CHR '':'' # taint_Effect t) = taint_Value t # split_on CHR '':'' (taint_Effect t)"
    using assms(2) by (intro split_on_append) simp
  have 4: "split_on CHR '':'' (taint_Effect t) = [taint_Effect t]" using assms(2) by (intro split_on_no_sep) simp
  from 1 2 3 4 show ?thesis by (simp add: toTaint_def)
qed

theorem toTaint_roundtrip_witness:
  "toTaint ''node-role.kubernetes.io/etcd=true:NoExecute'' =
     Ret \<lparr>taint_Key = ''node-role.kubernetes.io/etcd'', taint_Value = ''true'', taint_Effect = ''NoExecute''\<rparr>"
  using toTaint_roundtrip[of "\<lparr>taint_Key = ''node-role.kubernetes.io/etcd'', taint_Value = ''true'', taint_Effect = ''NoExecute''\<rparr>"]
  by simp

text \<open>
  The deletion loop of \<^verbatim>\<open>doSyncTaints\<close> uses the position in the list of taints to delete as the position in the node's
  list: deleting one taint that the node has removes the node's first taint, whichever it is.
\<close>

theorem delTaints_removes_first:
  assumes "toTaint s = Ret t" and "isTaintExist t ts"
  shows "delTaints 0 [s] ts = Ret (tl ts)"
  using assms by (cases ts) (auto simp: remove_at_def isTaintExist_def)

theorem delTaints_removes_first_witness:
  "delTaints 0 [''node-role.kubernetes.io/etcd=true:NoExecute''] (Taints sim_node) =
     Ret [\<lparr>taint_Key = ''node-role.kubernetes.io/etcd'', taint_Value = ''true'', taint_Effect = ''NoExecute''\<rparr>]"
proof -
  let ?t = "\<lparr>taint_Key = ''node-role.kubernetes.io/etcd'', taint_Value = ''true'', taint_Effect = ''NoExecute''\<rparr>"
  have "toTaint ''node-role.kubernetes.io/etcd=true:NoExecute'' = Ret ?t" by code_simp
  moreover have "isTaintExist ?t (Taints sim_node)" by code_simp
  ultimately show ?thesis
    using delTaints_removes_first[of _ ?t "Taints sim_node"] by (simp add: sim_node_def)
qed

end
