(* ===== verification/Go_Path.thy ===== *)
theory Go_Path
  imports RKE_Prelude
begin

text \<open>
  The part of \<^verbatim>\<open>path/filepath\<close> that the program calls, for slash-separated paths: \<^verbatim>\<open>Clean\<close>, \<^verbatim>\<open>Join\<close>, \<^verbatim>\<open>Dir\<close>
  and \<^verbatim>\<open>Base\<close>.
\<close>

text \<open>Path elements are pushed on a stack; the stack is kept in reverse order.\<close>

definition clean_step :: "bool \<Rightarrow> string \<Rightarrow> string list \<Rightarrow> string list" where
  "clean_step rooted e st =
     (if e = [] \<or> e = ''.'' then st
      else if e = ''..'' then
        (case st of
           [] \<Rightarrow> if rooted then [] else [''..'']
         | t # ts \<Rightarrow> if t = ''..'' then ''..'' # st else ts)
      else e # st)"

definition Clean :: "string \<Rightarrow> string" where
  "Clean p =
     (let rooted = (case p of c # _ \<Rightarrow> c = CHR ''/'' | [] \<Rightarrow> False);
          st = rev (fold (clean_step rooted) (split_on CHR ''/'' p) []);
          body = join_with ''/'' st
      in if rooted then ''/'' @ body else if body = [] then ''.'' else body)"

definition path_Join :: "string \<Rightarrow> string \<Rightarrow> string" where
  "path_Join a b = (if a = [] \<and> b = [] then [] else if a = [] then Clean b else if b = [] then Clean a else Clean (a @ ''/'' @ b))"

definition path_Dir :: "string \<Rightarrow> string" where
  "path_Dir p = Clean (rev (dropWhile (\<lambda>c. c \<noteq> CHR ''/'') (rev p)))"

definition path_Base :: "string \<Rightarrow> string" where
  "path_Base p =
     (if p = [] then ''.''
      else (let q = rev (dropWhile (\<lambda>c. c = CHR ''/'') (rev p));
                b = rev (takeWhile (\<lambda>c. c \<noteq> CHR ''/'') (rev q))
            in if b = [] then ''/'' else b))"

lemma path_examples:
  "Clean ''/a//b/./../c'' = ''/a/c''" "path_Dir ''conf/cluster.yml'' = ''conf''" "path_Dir ''cluster.yml'' = ''.''"
  "path_Base ''conf/cluster.yml'' = ''cluster.yml''" "path_Base ''conf/'' = ''conf''" "Clean ''../../x'' = ''../../x''"
  by code_simp+

text \<open>The base name of a path has no slash, unless the path is made of slashes only.\<close>

lemma path_Base_no_slash: "path_Base p = ''/'' \<or> CHR ''/'' \<notin> set (path_Base p)"
  by (auto simp: path_Base_def Let_def dest!: set_takeWhileD)

end
