(* ===== verification/Hosts.thy ===== *)
theory Hosts
  imports K8s Go_Path
begin

text \<open>
  Package \<^verbatim>\<open>hosts\<close>: connecting to a host's Docker daemon (\<^verbatim>\<open>tunnel.go\<close>, \<^verbatim>\<open>dialer.go\<close>, \<^verbatim>\<open>local.go\<close>), cleaning a
  host up, deleting it from the cluster, and comparing lists of hosts (\<^verbatim>\<open>hosts.go\<close>).
\<close>

section \<open>Keys\<close>

text \<open>A path shorter than two characters panics; a file that cannot be read gives an empty key.\<close>

definition privateKeyPath :: "('d, 'k, 'e) env \<Rightarrow> string \<Rightarrow> ('d, 'k, 'e, string) wio" where
  "privateKeyPath env sshKeyPath =
     (if length sshKeyPath < 2 then panicIO ''slice bounds out of range''
      else (let p = (if take 2 sshKeyPath = ''~/'' then path_Join (HomeDir env) (drop 2 sshKeyPath) else sshKeyPath)
            in getIO (\<lambda>w. case files w p of None \<Rightarrow> [] | Some s \<Rightarrow> s)))"

definition parsePrivateKey :: "('d, 'k, 'e) env \<Rightarrow> string \<Rightarrow> gerror + signer" where
  "parsePrivateKey env keyBuff = SSHParsePrivateKey env keyBuff"

definition parsePrivateKeyWithPassPhrase :: "('d, 'k, 'e) env \<Rightarrow> string \<Rightarrow> string \<Rightarrow> gerror + signer" where
  "parsePrivateKeyWithPassPhrase env keyBuff passphrase = SSHParsePrivateKeyWithPassphrase env keyBuff passphrase"

definition keyText :: "('d, 'k, 'e) env \<Rightarrow> Host \<Rightarrow> ('d, 'k, 'e, string) wio" where
  "keyText env h = (if SSHKey h \<noteq> [] then retIO (SSHKey h) else privateKeyPath env (node_SSHKeyPath h))"

definition makeSSHConfig :: "string \<Rightarrow> signer \<Rightarrow> gerror + ClientConfig" where
  "makeSSHConfig user key = Inr \<lparr>ssh_User = user, ssh_Auth = [key], ssh_HostKeyCallback = InsecureIgnoreHostKey\<rparr>"

definition checkEncryptedKey :: "('d, 'k, 'e) env \<Rightarrow> hostref \<Rightarrow> ('d, 'k, 'e, signer) wio" where
  "checkEncryptedKey env r =
     bindIO (getHost r) (\<lambda>h.
     bindIO (keyText env h) (\<lambda>txt.
       case parsePrivateKey env txt of
         Inr key \<Rightarrow> retIO key
       | Inl err \<Rightarrow>
           if contains ''decode encrypted private keys'' (emsg err) then
             bindIO (if SavedKeyPhrase h = [] then
                       bindIO (onExt (ReadPassword (extAPI env))) (\<lambda>p.
                         thenIO (setHost r (\<lambda>h. h\<lparr>SavedKeyPhrase := p\<rparr>)) (retIO p))
                     else retIO (SavedKeyPhrase h)) (\<lambda>passphrase.
             bindIO (keyText env h) (\<lambda>txt'. ofSum (parsePrivateKeyWithPassPhrase env txt' passphrase)))
           else failIO err))"

section \<open>Dialers\<close>

definition runSSHFactory :: "('d, 'k, 'e) env \<Rightarrow> hostref \<Rightarrow> ('d, 'k, 'e, dialer) wio" where
  "runSSHFactory env r =
     bindIO (wrapIO ''Failed to parse the private key: '' (checkEncryptedKey env r)) (\<lambda>key. retIO (DialDockerOf r key))"

definition runLocalConnFactory :: "('d, 'k, 'e) env \<Rightarrow> hostref \<Rightarrow> ('d, 'k, 'e, dialer) wio" where
  "runLocalConnFactory env r =
     bindIO (wrapIO ''Failed to parse the private key: '' (checkEncryptedKey env r)) (\<lambda>key. retIO (DialLocalConnOf r key))"

definition runLocalHealthcheckFactory :: "hostref \<Rightarrow> ('d, 'k, 'e, dialer) wio" where
  "runLocalHealthcheckFactory r = retIO (DialHealthcheckLocallyOf r)"

fun runFactory :: "('d, 'k, 'e) env \<Rightarrow> DialerFactory \<Rightarrow> hostref \<Rightarrow> ('d, 'k, 'e, dialer) wio" where
  "runFactory env SSHFactory r = runSSHFactory env r"
| "runFactory env LocalConnFactory r = runLocalConnFactory env r"
| "runFactory env LocalHealthcheckFactory r = runLocalHealthcheckFactory r"
| "runFactory env (CustomFactory n) r =
     bindIO (getHost r) (\<lambda>h. onExt (CustomFactoryCall (extAPI env) n (Address h)))"

text \<open>What the HTTP transport calls to open a connection.\<close>

definition DialDocker :: "('d, 'k, 'e) env \<Rightarrow> hostref \<Rightarrow> signer \<Rightarrow> ('d, 'k, 'e, unit) wio" where
  "DialDocker env r key =
     bindIO (getHost r) (\<lambda>h. let sshAddr = Address h @ '':22'' in
     bindIO (wrapIO ''Error configuring SSH: '' (ofSum (makeSSHConfig (node_User h) key))) (\<lambda>cfg.
     thenIO (wrapIO (''Failed to dial ssh using address ['' @ sshAddr @ '']: '') (onExt (SSHDial (extAPI env) sshAddr cfg)))
    (thenIO (if DockerSocket h = [] then setHost r (\<lambda>h. h\<lparr>DockerSocket := ''/var/run/docker.sock''\<rparr>) else retIO ())
    (bindIO (getHost r) (\<lambda>h'.
       wrapIO ''Failed to dial to Docker socket: '' (onExt (ConnDial (extAPI env) ''unix'' (DockerSocket h'))))))))"

definition DialLocalConn :: "('d, 'k, 'e) env \<Rightarrow> hostref \<Rightarrow> signer \<Rightarrow> string \<Rightarrow> string \<Rightarrow> ('d, 'k, 'e, unit) wio" where
  "DialLocalConn env r key network addr =
     bindIO (getHost r) (\<lambda>h. let sshAddr = Address h @ '':22'' in
     bindIO (wrapIO ''Error configuring SSH: '' (ofSum (makeSSHConfig (node_User h) key))) (\<lambda>cfg.
     thenIO (wrapIO (''Failed to dial ssh using address ['' @ sshAddr @ '']: '') (onExt (SSHDial (extAPI env) sshAddr cfg)))
       (wrapIO (''Failed to dial to Local Port ['' @ show_nat (LocalConnPort h) @ ''] on host ['' @ Address h @ '']: '')
          (onExt (ConnDial (extAPI env) network addr)))))"

definition DialHealthcheckLocally :: "('d, 'k, 'e) env \<Rightarrow> hostref \<Rightarrow> string \<Rightarrow> ('d, 'k, 'e, unit) wio" where
  "DialHealthcheckLocally env r addr =
     bindIO (getHost r) (\<lambda>h. wrapIO (''Failed to dial address ['' @ Address h @ '']: '') (onExt (NetDial (extAPI env) addr)))"

definition newHTTPClient :: "('d, 'k, 'e) env \<Rightarrow> hostref \<Rightarrow> DialerFactory option \<Rightarrow> ('d, 'k, 'e, dialer) wio" where
  "newHTTPClient env r dialerFactory = runFactory env (case dialerFactory of None \<Rightarrow> SSHFactory | Some f \<Rightarrow> f) r"

section \<open>Tunnels\<close>

definition DockerAPIVersion :: string where "DockerAPIVersion = ''1.24''"
definition K8sVersion :: string where "K8sVersion = ''1.8''"

definition supportedVersions :: string where
  "supportedVersions = ''['' @ join_with '' '' (case mget K8sDockerVersions K8sVersion of None \<Rightarrow> [] | Some vs \<Rightarrow> vs) @ '']''"

definition checkDockerVersion :: "('d, 'k, 'e) env \<Rightarrow> hostref \<Rightarrow> ('d, 'k, 'e, unit) wio" where
  "checkDockerVersion env r =
     bindIO (getHost r) (\<lambda>h.
     bindIO (wrapIO ''Can't retrieve Docker Info: '' (viaClient h (Info (dockerAPI env)))) (\<lambda>serverVersion.
       if \<not> IsSupportedDockerVersion serverVersion K8sVersion \<and> \<not> IgnoreDockerVersion h
       then failIO (errorf (''Unsupported Docker version found ['' @ serverVersion @ ''], supported versions are '' @ supportedVersions))
       else retIO ()))"

definition TunnelUp :: "('d, 'k, 'e) env \<Rightarrow> hostref \<Rightarrow> DialerFactory option \<Rightarrow> ('d, 'k, 'e, unit) wio" where
  "TunnelUp env r dialerFactory =
     bindIO (getHost r) (\<lambda>h.
       if DClient h \<noteq> None then retIO ()
       else bindIO (wrapIO ''Can't establish dialer connection: '' (newHTTPClient env r dialerFactory)) (\<lambda>d.
            thenIO (wrapIO ''Can't initiate NewClient: '' (onExt (NewDockerClient (extAPI env) DockerAPIVersion (Some d))))
           (thenIO (setHost r (\<lambda>h. h\<lparr>DClient := Some (Address h)\<rparr>))
              (checkDockerVersion env r))))"

text \<open>The client made from the environment talks to the daemon of the machine the program runs on.\<close>

definition local_daemon :: string where "local_daemon = ''unix:///var/run/docker.sock''"

definition TunnelUpLocal :: "('d, 'k, 'e) env \<Rightarrow> hostref \<Rightarrow> ('d, 'k, 'e, unit) wio" where
  "TunnelUpLocal env r =
     bindIO (getHost r) (\<lambda>h.
       if DClient h \<noteq> None then retIO ()
       else thenIO (wrapIO ''Can't initiate NewClient: '' (onExt (NewDockerClient (extAPI env) [] None)))
           (thenIO (setHost r (\<lambda>h. h\<lparr>DClient := Some local_daemon\<rparr>))
              (checkDockerVersion env r)))"

section \<open>Cleaning up\<close>

definition ToCleanEtcdDir :: string where "ToCleanEtcdDir = ''/var/lib/etcd''"
definition ToCleanSSLDir :: string where "ToCleanSSLDir = ''/etc/kubernetes/ssl''"
definition ToCleanCNIConf :: string where "ToCleanCNIConf = ''/etc/cni''"
definition ToCleanCNIBin :: string where "ToCleanCNIBin = ''/opt/cni''"
definition ToCleanCalicoRun :: string where "ToCleanCalicoRun = ''/var/run/calico''"
definition ToCleanTempCertPath :: string where "ToCleanTempCertPath = ''/etc/kubernetes/.tmp/''"
definition CleanerContainerName :: string where "CleanerContainerName = ''kube-cleaner''"

definition buildCleanerConfig :: "string list \<Rightarrow> string \<Rightarrow> ContainerConfig \<times> HostConfig" where
  "buildCleanerConfig toCleanDirs cleanerImage =
     (ContainerConfig_zero\<lparr>Image := cleanerImage, Cmd := Some ([''rm'', ''-rf''] @ toCleanDirs)\<rparr>,
      HostConfig_zero\<lparr>Binds := map (\<lambda>vol. vol @ '':'' @ vol @ '':z'') toCleanDirs\<rparr>)"

definition CleanUp ::
  "('d, 'k, 'e) env \<Rightarrow> hostref \<Rightarrow> string list \<Rightarrow> string \<Rightarrow> PrivateRegistry gomap \<Rightarrow> ('d, 'k, 'e, unit) wio" where
  "CleanUp env r toCleanPaths cleanerImage prsMap =
     bindIO (getHost r) (\<lambda>h. case buildCleanerConfig toCleanPaths cleanerImage of (imageCfg, hostCfg) \<Rightarrow>
       thenIO (viaClient h (DoRunContainer (dockerAPI env) imageCfg hostCfg CleanerContainerName (Address h) prsMap))
      (thenIO (viaClient h (WaitForContainer (dockerAPI env) CleanerContainerName))
         (viaClient h (RemoveContainer (dockerAPI env) (Address h) CleanerContainerName))))"

definition CleanUpAll :: "('d, 'k, 'e) env \<Rightarrow> hostref \<Rightarrow> string \<Rightarrow> PrivateRegistry gomap \<Rightarrow> ('d, 'k, 'e, unit) wio" where
  "CleanUpAll env r cleanerImage prsMap =
     CleanUp env r [ToCleanEtcdDir, ToCleanSSLDir, ToCleanCNIConf, ToCleanCNIBin, ToCleanCalicoRun, ToCleanTempCertPath]
       cleanerImage prsMap"

definition CleanUpWorkerHost :: "('d, 'k, 'e) env \<Rightarrow> hostref \<Rightarrow> string \<Rightarrow> PrivateRegistry gomap \<Rightarrow> ('d, 'k, 'e, unit) wio" where
  "CleanUpWorkerHost env r cleanerImage prsMap =
     bindIO (getHost r) (\<lambda>h. if IsControl h then retIO ()
       else CleanUp env r [ToCleanSSLDir, ToCleanCNIConf, ToCleanCNIBin, ToCleanCalicoRun] cleanerImage prsMap)"

definition CleanUpControlHost :: "('d, 'k, 'e) env \<Rightarrow> hostref \<Rightarrow> string \<Rightarrow> PrivateRegistry gomap \<Rightarrow> ('d, 'k, 'e, unit) wio" where
  "CleanUpControlHost env r cleanerImage prsMap =
     bindIO (getHost r) (\<lambda>h. if IsWorker h then retIO ()
       else CleanUp env r [ToCleanSSLDir, ToCleanCNIConf, ToCleanCNIBin, ToCleanCalicoRun] cleanerImage prsMap)"

definition CleanUpEtcdHost :: "('d, 'k, 'e) env \<Rightarrow> hostref \<Rightarrow> string \<Rightarrow> PrivateRegistry gomap \<Rightarrow> ('d, 'k, 'e, unit) wio" where
  "CleanUpEtcdHost env r cleanerImage prsMap =
     bindIO (getHost r) (\<lambda>h.
       CleanUp env r (if IsWorker h \<or> IsControl h then [ToCleanEtcdDir] else [ToCleanEtcdDir, ToCleanSSLDir]) cleanerImage prsMap)"

section \<open>Nodes of the cluster\<close>

definition DeleteNode :: "('d, 'k, 'e) env \<Rightarrow> hostref \<Rightarrow> RestConfig \<Rightarrow> bool \<Rightarrow> ('d, 'k, 'e, unit) wio" where
  "DeleteNode env r kubeClient hasAnotherRole =
     (if hasAnotherRole then retIO ()
      else bindIO (getHost r) (\<lambda>h.
        tryIO (GetNode env kubeClient (HostnameOverride h))
          (\<lambda>err. if ekind err = EK8sNotFound then retIO () else failIO err)
          (\<lambda>_. thenIO (CordonUncordon env kubeClient (HostnameOverride h) True)
                 (k8s_DeleteNode env kubeClient (HostnameOverride h)))))"

definition RemoveTaintFromHost :: "('d, 'k, 'e) env \<Rightarrow> hostref \<Rightarrow> string \<Rightarrow> RestConfig \<Rightarrow> ('d, 'k, 'e, unit) wio" where
  "RemoveTaintFromHost env r taintKey kubeClient =
     bindIO (getHost r) (\<lambda>h. RemoveTaintFromNodeByKey env kubeClient (HostnameOverride h) taintKey)"

section \<open>Comparing lists of hosts\<close>

text \<open>The lists hold pointers; hosts are compared by the address they have in the store \<open>hs\<close>.\<close>

definition addr :: "Host list \<Rightarrow> hostref \<Rightarrow> string" where
  "addr hs r = Address (hs ! r)"

definition GetToDeleteHosts :: "Host list \<Rightarrow> hostref list \<Rightarrow> hostref list \<Rightarrow> hostref list" where
  "GetToDeleteHosts hs currentHosts configHosts =
     filter (\<lambda>c. \<not> list_ex (\<lambda>n. addr hs c = addr hs n) configHosts) currentHosts"

definition GetToAddHosts :: "Host list \<Rightarrow> hostref list \<Rightarrow> hostref list \<Rightarrow> hostref list" where
  "GetToAddHosts hs currentHosts configHosts =
     filter (\<lambda>n. \<not> list_ex (\<lambda>c. addr hs c = addr hs n) currentHosts) configHosts"

definition IsHostListChanged :: "Host list \<Rightarrow> hostref list \<Rightarrow> hostref list \<Rightarrow> bool" where
  "IsHostListChanged hs currentHosts configHosts =
     (if list_ex (\<lambda>h. \<not> list_ex (\<lambda>c. addr hs h = addr hs c) configHosts) currentHosts then True
      else if list_ex (\<lambda>h. \<not> list_ex (\<lambda>c. addr hs h = addr hs c) currentHosts) configHosts then True
      else False)"

section \<open>Connecting changes nothing but the host\<close>

text \<open>
  The factories may ask for and remember a pass phrase; they touch no daemon, no other host, no node and no file.
\<close>

definition host_quiet :: "hostref \<Rightarrow> ('d, 'k, 'e) world \<Rightarrow> ('d, 'k, 'e) world \<Rightarrow> bool" where
  "host_quiet r w0 w \<longleftrightarrow> daemons w = daemons w0 \<and> kube w = kube w0 \<and> files w = files w0 \<and>
     (\<exists>p. hstore w = hstore w0 \<or> hstore w = (hstore w0)[r := (hstore w0 ! r)\<lparr>SavedKeyPhrase := p\<rparr>])"

lemma keeps_onExt_quiet: "keeps (host_quiet r w0) (onExt m)"
  by (rule keepsI) (auto simp: onExt_def host_quiet_def split: prod.splits)

lemma keeps_getHost: "keeps I (getHost r)"
  by (rule keepsI) (simp add: getHost_def)

lemma keeps_ofSum: "keeps I (ofSum x)"
  by (rule keepsI) (auto simp: ofSum_def retIO_def failIO_def split: sum.splits)

lemma keeps_phrase_quiet: "keeps (host_quiet r w0) (setHost r (\<lambda>h. h\<lparr>SavedKeyPhrase := p\<rparr>))"
proof (rule keepsI)
  fix w
  assume q: "host_quiet r w0 w"
  show "host_quiet r w0 (snd (setHost r (\<lambda>h. h\<lparr>SavedKeyPhrase := p\<rparr>) w))"
  proof (cases "r < length (hstore w)")
    case True
    from q obtain p' where h: "hstore w = hstore w0 \<or> hstore w = (hstore w0)[r := (hstore w0 ! r)\<lparr>SavedKeyPhrase := p'\<rparr>]"
      by (auto simp: host_quiet_def)
    with True have "(hstore w)[r := (hstore w ! r)\<lparr>SavedKeyPhrase := p\<rparr>] = (hstore w0)[r := (hstore w0 ! r)\<lparr>SavedKeyPhrase := p\<rparr>]"
      by auto
    with q True show ?thesis by (auto simp: host_quiet_def setHost_def)
  next
    case False
    with q show ?thesis by (simp add: setHost_def)
  qed
qed

lemma keeps_keyText: "keeps I (keyText env h)"
  by (auto simp: keyText_def privateKeyPath_def Let_def intro!: keeps_intros)

lemma keeps_checkEncryptedKey: "keeps (host_quiet r w0) (checkEncryptedKey env r)"
  unfolding checkEncryptedKey_def
  by (auto intro!: keeps_intros keeps_getHost keeps_keyText keeps_onExt_quiet keeps_phrase_quiet keeps_ofSum split: sum.splits)

lemma keeps_runFactory: "keeps (host_quiet r w0) (runFactory env f r)"
  by (cases f) (auto simp: runSSHFactory_def runLocalConnFactory_def runLocalHealthcheckFactory_def
      intro!: keeps_intros keeps_checkEncryptedKey keeps_getHost keeps_onExt_quiet)

lemma host_quiet_refl: "host_quiet r w w"
  by (simp add: host_quiet_def)

lemma getHost_Ret_iff [simp]:
  "getHost r w = (Ret h, w') \<longleftrightarrow> r < length (hstore w) \<and> h = hstore w ! r \<and> w' = w"
  by (auto simp: getHost_def)

lemma setHost_Ret_iff [simp]:
  "setHost r f w = (Ret u, w') \<longleftrightarrow> r < length (hstore w) \<and> w' = w\<lparr>hstore := (hstore w)[r := f (hstore w ! r)]\<rparr>"
  by (auto simp: setHost_def)

lemma checkDockerVersion_Ret:
  assumes "checkDockerVersion env r w = (Ret (), w')" "DClient (hstore w ! r) = Some a"
  obtains v d' where "Info (dockerAPI env) (daemons w a) = (Ret v, d')" "hstore w' = hstore w"
    "IsSupportedDockerVersion v K8sVersion \<or> IgnoreDockerVersion (hstore w ! r)"
  using assms
  by (auto simp: checkDockerVersion_def io_Ret_iffs viaClient_def onDaemon_def split: if_splits prod.splits)

section \<open>Properties of hosts\<close>

lemma TunnelUp_Ret:
  assumes "TunnelUp env r df w = (Ret (), w')" "DClient (hstore w ! r) = None"
  shows "r < length (hstore w) \<and> DClient (hstore w' ! r) = Some (Address (hstore w ! r)) \<and>
     (\<exists>v d'. Info (dockerAPI env) (daemons w (Address (hstore w ! r))) = (Ret v, d') \<and>
        (IsSupportedDockerVersion v K8sVersion \<or> IgnoreDockerVersion (hstore w ! r))) \<and>
     length (hstore w') = length (hstore w) \<and> (\<forall>i. i \<noteq> r \<longrightarrow> hstore w' ! i = hstore w ! i)"
proof -
  from assms obtain d w1 w2 where r: "r < length (hstore w)"
    and f: "newHTTPClient env r df w = (Ret d, w1)"
    and n: "onExt (NewDockerClient (extAPI env) DockerAPIVersion (Some d)) w1 = (Ret (), w2)"
    and rest: "thenIO (setHost r (\<lambda>h. h\<lparr>DClient := Some (Address h)\<rparr>)) (checkDockerVersion env r) w2 = (Ret (), w')"
    by (auto simp: TunnelUp_def io_Ret_iffs)
  have "host_quiet r w w1" using keepsD[OF keeps_runFactory host_quiet_refl f[unfolded newHTTPClient_def]] .
  from keepsD[OF keeps_onExt_quiet this n] have q: "host_quiet r w w2" .
  let ?h = "(hstore w2)[r := (hstore w2 ! r)\<lparr>DClient := Some (Address (hstore w2 ! r))\<rparr>]"
  from q r have len: "length (hstore w2) = length (hstore w)" by (auto simp: host_quiet_def)
  have a: "Address (hstore w2 ! r) = Address (hstore w ! r)"
    "IgnoreDockerVersion (hstore w2 ! r) = IgnoreDockerVersion (hstore w ! r)" "daemons w2 = daemons w"
    "\<forall>i. i \<noteq> r \<longrightarrow> hstore w2 ! i = hstore w ! i"
    using q r by (auto simp: host_quiet_def)
  from rest have c: "checkDockerVersion env r (w2\<lparr>hstore := ?h\<rparr>) = (Ret (), w')" by (auto simp: io_Ret_iffs)
  have "DClient (hstore (w2\<lparr>hstore := ?h\<rparr>) ! r) = Some (Address (hstore w ! r))" using r len a by simp
  from c this obtain v d' where "Info (dockerAPI env) (daemons w2 (Address (hstore w ! r))) = (Ret v, d')"
    "hstore w' = ?h" "IsSupportedDockerVersion v K8sVersion \<or> IgnoreDockerVersion (hstore w ! r)"
    by (rule checkDockerVersion_Ret) (use r len a in auto)
  with a r len show ?thesis by auto
qed

text \<open>
  C37: \<^verbatim>\<open>TunnelUp\<close> that returns for a host without a client has asked the daemon of the host for its Docker version, which is supported
  unless the configuration says to ignore it, and leaves the host with the client of that daemon and every other host as it was.  For a
  host that has a client already it returns at once and changes nothing, without a check.
\<close>

theorem TunnelUp_connects:
  assumes "TunnelUp env r df w = (Ret (), w')"
  shows "r < length (hstore w) \<and>
     (case DClient (hstore w ! r) of
        Some a \<Rightarrow> w' = w
      | None \<Rightarrow> DClient (hstore w' ! r) = Some (Address (hstore w ! r)) \<and>
          (\<exists>v d'. Info (dockerAPI env) (daemons w (Address (hstore w ! r))) = (Ret v, d') \<and>
             (IsSupportedDockerVersion v K8sVersion \<or> IgnoreDockerVersion (hstore w ! r))) \<and>
          length (hstore w') = length (hstore w) \<and> (\<forall>i. i \<noteq> r \<longrightarrow> hstore w' ! i = hstore w ! i))"
proof (cases "DClient (hstore w ! r)")
  case None
  with TunnelUp_Ret[OF assms None] show ?thesis by simp
next
  case (Some a)
  with assms show ?thesis by (auto simp: TunnelUp_def io_Ret_iffs)
qed

definition sim_fresh_host :: Host where
  "sim_fresh_host = (sim_host ''10.0.0.1'')\<lparr>DClient := None\<rparr>"

theorem TunnelUp_connects_witness:
  "\<exists>w'. TunnelUp sim_env 0 None (sim_world [sim_fresh_host]) = (Ret (), w') \<and>
     DClient (hstore w' ! 0) = Some ''10.0.0.1''"
proof -
  let ?r = "TunnelUp sim_env 0 None (sim_world [sim_fresh_host])"
  have "fst ?r = Ret ()" by code_simp
  then have r: "?r = (Ret (), snd ?r)" by (metis prod.collapse)
  have "DClient (hstore (sim_world [sim_fresh_host]) ! 0) = None" "Address (hstore (sim_world [sim_fresh_host]) ! 0) = ''10.0.0.1''"
    by (simp_all add: sim_world_def sim_fresh_host_def sim_host_def)
  with TunnelUp_connects[OF r] have "DClient (hstore (snd ?r) ! 0) = Some ''10.0.0.1''" by simp
  with r show ?thesis by metis
qed

text \<open>A list of hosts stands for the set of machines it names.\<close>

definition machines :: "Host list \<Rightarrow> hostref list \<Rightarrow> string set" where
  "machines hs rs = addr hs ` set rs"

text \<open>
  C38: the functions that compare two lists of hosts refine the operations on sets of machines: the hosts to delete and to add are the
  hosts of the two lists whose machines are in the one set and not in the other, they stand for the two differences, and the lists
  count as changed exactly when the sets differ.
\<close>

theorem host_lists_compared_by_address:
  "set (GetToDeleteHosts hs cur cfg) = {r \<in> set cur. addr hs r \<notin> machines hs cfg} \<and>
   set (GetToAddHosts hs cur cfg) = {r \<in> set cfg. addr hs r \<notin> machines hs cur} \<and>
   machines hs (GetToDeleteHosts hs cur cfg) = machines hs cur - machines hs cfg \<and>
   machines hs (GetToAddHosts hs cur cfg) = machines hs cfg - machines hs cur \<and>
   (IsHostListChanged hs cur cfg \<longleftrightarrow> machines hs cur \<noteq> machines hs cfg)"
proof -
  have d: "set (GetToDeleteHosts hs cur cfg) = {r \<in> set cur. addr hs r \<notin> machines hs cfg}"
    by (auto simp: GetToDeleteHosts_def machines_def list_ex_iff)
  have a: "set (GetToAddHosts hs cur cfg) = {r \<in> set cfg. addr hs r \<notin> machines hs cur}"
    by (force simp: GetToAddHosts_def machines_def list_ex_iff image_iff)
  have "machines hs (GetToDeleteHosts hs cur cfg) = machines hs cur - machines hs cfg"
    "machines hs (GetToAddHosts hs cur cfg) = machines hs cfg - machines hs cur"
    unfolding machines_def[of hs "GetToDeleteHosts hs cur cfg"] machines_def[of hs "GetToAddHosts hs cur cfg"] d a
    by (auto simp: machines_def)
  moreover have "IsHostListChanged hs cur cfg \<longleftrightarrow> machines hs cur \<noteq> machines hs cfg"
    unfolding IsHostListChanged_def machines_def list_ex_iff set_eq_iff image_iff by (auto; metis)
  ultimately show ?thesis using d a by blast
qed

text \<open>On one daemon, only the containers of one name (and the name it is set aside under) have changed.\<close>

definition one_named :: "string \<Rightarrow> string \<Rightarrow> wview \<Rightarrow> wview \<Rightarrow> bool" where
  "one_named a n x x' \<longleftrightarrow> wv_hosts x' = wv_hosts x \<and> (\<forall>b. b \<noteq> a \<longrightarrow> wv_docker x' b = wv_docker x b) \<and>
     only_named n (wv_docker x a) (wv_docker x' a)"

lemma cleanUp_triple:
  assumes "docker_laws (dockerAPI env) view" "r < length (wv_hosts x)" "DClient (wv_hosts x ! r) = Some a"
  shows "vtriple (world_view view) x (CleanUp env r paths img prs)
     (\<lambda>_ x'. one_named a CleanerContainerName x x' \<and> conts (wv_docker x' a) CleanerContainerName = None)
     (\<lambda>_ x'. one_named a CleanerContainerName x x')" (is "vtriple _ _ _ (\<lambda>_ x'. ?good x' \<and> _) _")
  unfolding CleanUp_def buildCleanerConfig_def prod.case
proof (rule vtriple_bindE[OF getHost_triple[OF assms(2)]])
  have p: "proper_name CleanerContainerName" by code_simp
  let ?n = CleanerContainerName
  fix hh x1
  assume "x1 = x \<and> hh = wv_hosts x ! r"
  then have x1: "x1 = x" and hh: "DClient hh = Some a" using assms(3) by auto
  let ?i = "ContainerConfig_zero\<lparr>Image := img, Cmd := Some ([''rm'', ''-rf''] @ paths)\<rparr>"
    and ?g = "HostConfig_zero\<lparr>Binds := map (\<lambda>vol. vol @ '':'' @ vol @ '':z'') paths\<rparr>"
  show "vtriple (world_view view) x1
     (thenIO (viaClient hh (DoRunContainer (dockerAPI env) ?i ?g ?n (Address hh) prs))
     (thenIO (viaClient hh (WaitForContainer (dockerAPI env) ?n))
        (viaClient hh (RemoveContainer (dockerAPI env) (Address hh) ?n))))
    (\<lambda>_ x'. ?good x' \<and> conts (wv_docker x' a) ?n = None) (\<lambda>_ x'. ?good x')"
    unfolding x1
  proof (rule vtriple_thenE[OF viaClient_triple[OF hh run_triple[OF assms(1) p, of False]]])
    fix x2 y assume "\<exists>v'. run_post False ?i ?n (wv_docker x a) v' \<and> x2 = set_daemon a v' x"
    then have x2: "?good x2" by (auto simp: one_named_def run_post_def)
    have w3: "vtriple (world_view view) x2 (viaClient hh (WaitForContainer (dockerAPI env) ?n)) (\<lambda>_ x'. x' = x2) (\<lambda>_ x'. x' = x2)"
      by (rule vtriple_conseq[OF viaClient_triple[OF hh wait_triple[OF assms(1)]]]) auto
    show "vtriple (world_view view) x2 (thenIO (viaClient hh (WaitForContainer (dockerAPI env) ?n))
        (viaClient hh (RemoveContainer (dockerAPI env) (Address hh) ?n)))
      (\<lambda>_ x'. ?good x' \<and> conts (wv_docker x' a) ?n = None) (\<lambda>_ x'. ?good x')"
      by (rule vtriple_thenE[OF w3])
         (use x2 in \<open>auto simp: one_named_def only_named_def intro!: vtriple_conseq[OF viaClient_triple[OF hh remove_triple[OF assms(1) p]]]\<close>)
  qed (auto simp: one_named_def)
qed simp

text \<open>
  C39: \<^verbatim>\<open>CleanUp\<close> on a connected host never panics.  When it returns, the cleaner container is gone again; and whatever
  it returns, of all the containers of all daemons only the cleaner on that host can have changed.
\<close>

theorem CleanUp_leaves_no_cleaner:
  assumes "docker_laws (dockerAPI env) view" and "r < length (hstore w)" and "DClient (hstore w ! r) = Some a"
  shows "case CleanUp env r paths img prs w of (res, w') \<Rightarrow>
     (\<forall>s. res \<noteq> Panic s) \<and> hstore w' = hstore w \<and>
     (res = Ret () \<longrightarrow> conts (view (daemons w' a)) CleanerContainerName = None) \<and>
     (\<forall>b m. b \<noteq> a \<or> m \<noteq> CleanerContainerName \<and> m \<noteq> old_name CleanerContainerName \<longrightarrow>
        conts (view (daemons w' b)) m = conts (view (daemons w b)) m)"
proof -
  have "r < length (wv_hosts (world_view view w))" "DClient (wv_hosts (world_view view w) ! r) = Some a"
    using assms(2,3) by (simp_all add: world_view_def)
  note t = cleanUp_triple[OF assms(1) this]
  obtain res w' where r: "CleanUp env r paths img prs w = (res, w')" by fastforce
  have "one_named a CleanerContainerName (world_view view w) (world_view view w') \<and> (\<forall>s. res \<noteq> Panic s) \<and>
      (res = Ret () \<longrightarrow> conts (view (daemons w' a)) CleanerContainerName = None)"
    using vtriple_Ret[OF t] vtriple_Fail[OF t] vtriple_no_panic[OF t] r by (cases res) (auto simp: world_view_def)
  with r show ?thesis by (auto simp: one_named_def world_view_def only_named_def)
qed

theorem CleanUp_leaves_no_cleaner_witness:
  "case CleanUp sim_env 0 [''/etc/cni''] ''alpine'' [] (sim_world [sim_host ''10.0.0.1'']) of (res, w') \<Rightarrow>
     (\<forall>s. res \<noteq> Panic s) \<and> hstore w' = hstore (sim_world [sim_host ''10.0.0.1'']) \<and>
     (res = Ret () \<longrightarrow> conts (sim_view (daemons w' ''10.0.0.1'')) CleanerContainerName = None) \<and>
     (\<forall>b m. b \<noteq> ''10.0.0.1'' \<or> m \<noteq> CleanerContainerName \<and> m \<noteq> old_name CleanerContainerName \<longrightarrow>
        conts (sim_view (daemons w' b)) m = conts (sim_view (daemons (sim_world [sim_host ''10.0.0.1'']) b)) m)"
  by (rule CleanUp_leaves_no_cleaner) (simp_all add: sim_docker_laws sim_world_def sim_host_def)

text \<open>
  \<^verbatim>\<open>DeleteNode\<close> does nothing for a host with another role.  Otherwise it changes no node but the host's, and when it returns there
  is none of that name; a failure does not bring back a node that was gone.
\<close>

lemma deleteNode_triple:
  assumes "kube_laws (kubeAPI env) kv"
  shows "vtriple (kw kv) v (tryIO (GetNode env c n)
          (\<lambda>err. if ekind err = EK8sNotFound then retIO () else failIO err)
          (\<lambda>_. thenIO (CordonUncordon env c n True) (k8s_DeleteNode env c n)))
     (\<lambda>_ v'. kv_nodes v' n = None \<and> only_node n v v') (\<lambda>_ v'. only_node n v v' \<and> (kv_nodes v n = None \<longrightarrow> v' = v))"
proof (rule vtriple_try[OF getNode_triple[OF assms]])
  have "vtriple kv v (NodesDelete (kubeAPI env) c n)
        (\<lambda>_ v'. kv_nodes v n \<noteq> None \<and> v' = set_node n None v) (\<lambda>e v'. v' = v \<or> v' = set_node n None v)" for v
    using assms unfolding kube_laws_def by (elim conjE allE)
  then have delete: "vtriple (kw kv) v (k8s_DeleteNode env c n)
        (\<lambda>_ v'. kv_nodes v n \<noteq> None \<and> v' = set_node n None v) (\<lambda>e v'. v' = v \<or> v' = set_node n None v)" for v
    unfolding k8s_DeleteNode_def by (rule onKube_view)
  have "vtriple (kw kv) v (CordonUncordon env c n True)
     (\<lambda>_ v'. only_node n v v' \<and> (\<exists>x. kv_nodes v' n = Some x \<and> Unschedulable x = True)) (\<lambda>e v'. only_node n v v')"
    unfolding CordonUncordon_def by (rule cordonLoop_triple[OF assms]) auto
  then have "vtriple (kw kv) v (thenIO (CordonUncordon env c n True) (k8s_DeleteNode env c n))
     (\<lambda>_ v'. kv_nodes v' n = None \<and> only_node n v v') (\<lambda>_. only_node n v)"
    by (rule vtriple_thenE) (auto intro!: vtriple_conseq[OF delete])
  then show "vtriple (kw kv) v' (thenIO (CordonUncordon env c n True) (k8s_DeleteNode env c n))
     (\<lambda>_ v'. kv_nodes v' n = None \<and> only_node n v v') (\<lambda>_ v'. only_node n v v' \<and> (kv_nodes v n = None \<longrightarrow> v' = v))"
    if "v' = v \<and> kv_nodes v n = Some x \<and> node_Name x = n" for x v'
    using that by (auto elim: vtriple_conseq)
qed (auto intro!: vtriple_ret vtriple_fail)

lemma DeleteNode_nodes:
  assumes "kube_laws (kubeAPI env) kv" "DeleteNode env r c other w = (res, w')"
  shows "if other \<or> length (hstore w) \<le> r then w' = w
     else only_node (HostnameOverride (hstore w ! r)) (kv (kube w)) (kv (kube w')) \<and>
          (res = Ret () \<or> kv_nodes (kv (kube w)) (HostnameOverride (hstore w ! r)) = None \<longrightarrow>
             kv_nodes (kv (kube w')) (HostnameOverride (hstore w ! r)) = None)"
proof (cases "other \<or> length (hstore w) \<le> r")
  case True
  with assms(2) show ?thesis by (cases other) (simp_all add: DeleteNode_def retIO_def bindIO_def getHost_def)
next
  case False
  let ?n = "HostnameOverride (hstore w ! r)"
  from False assms(2) have run: "tryIO (GetNode env c ?n) (\<lambda>err. if ekind err = EK8sNotFound then retIO () else failIO err)
          (\<lambda>_. thenIO (CordonUncordon env c ?n True) (k8s_DeleteNode env c ?n)) w = (res, w')"
    by (simp add: DeleteNode_def bindIO_def getHost_def)
  note t = deleteNode_triple[OF assms(1), of "kw kv w" c ?n]
  show ?thesis
    using vtriple_Ret[OF t] vtriple_Fail[OF t] vtriple_no_panic[OF t] run False by (cases res) (auto simp: kw_def)
qed

end
