(* ===== verification/Services.thy ===== *)
theory Services
  imports Pki Hosts
begin

text \<open>
  Package \<^verbatim>\<open>services\<close>, the part every plane uses: the service address of the cluster (\<^verbatim>\<open>services.go\<close>), the container
  configurations and the start and removal of each service (\<^verbatim>\<open>kubeapi.go\<close>, \<^verbatim>\<open>kubecontroller.go\<close>, \<^verbatim>\<open>scheduler.go\<close>,
  \<^verbatim>\<open>kubelet.go\<close>, \<^verbatim>\<open>kubeproxy.go\<close>, \<^verbatim>\<open>proxy.go\<close>, the sidekick of \<^verbatim>\<open>services.go\<close>) and the health check (\<^verbatim>\<open>healthcheck.go\<close>).
  The lemmas say of each start and each removal what becomes of the containers of all daemons.
\<close>

section \<open>Constants\<close>

definition ETCDRole :: string where "ETCDRole = ''etcd''"
definition ControlRole :: string where "ControlRole = ''controlplane''"
definition WorkerRole :: string where "WorkerRole = ''worker''"
definition RBACAuthorizationMode :: string where "RBACAuthorizationMode = ''rbac''"
definition KubeAPIContainerName :: string where "KubeAPIContainerName = ''kube-api''"
definition KubeletContainerName :: string where "KubeletContainerName = ''kubelet''"
definition KubeproxyContainerName :: string where "KubeproxyContainerName = ''kube-proxy''"
definition KubeControllerContainerName :: string where "KubeControllerContainerName = ''kube-controller''"
definition SchedulerContainerName :: string where "SchedulerContainerName = ''scheduler''"
definition EtcdContainerName :: string where "EtcdContainerName = ''etcd''"
definition NginxProxyContainerName :: string where "NginxProxyContainerName = ''nginx-proxy''"
definition SidekickContainerName :: string where "SidekickContainerName = ''service-sidekick''"
definition KubeAPIPort :: nat where "KubeAPIPort = 6443"
definition SchedulerPort :: nat where "SchedulerPort = 10251"
definition KubeControllerPort :: nat where "KubeControllerPort = 10252"
definition KubeletPort :: nat where "KubeletPort = 10250"
definition KubeproxyPort :: nat where "KubeproxyPort = 10256"
definition NginxProxyEnvName :: string where "NginxProxyEnvName = ''CP_HOSTS''"
definition HealthzAddress :: string where "HealthzAddress = ''localhost''"
definition HealthzEndpoint :: string where "HealthzEndpoint = ''/healthz''"
definition HTTPProtoPrefix :: string where "HTTPProtoPrefix = ''http://''"
definition HTTPSProtoPrefix :: string where "HTTPSProtoPrefix = ''https://''"

lemmas container_names = KubeAPIContainerName_def KubeletContainerName_def KubeproxyContainerName_def
  KubeControllerContainerName_def SchedulerContainerName_def EtcdContainerName_def NginxProxyContainerName_def
  SidekickContainerName_def

section \<open>The Kubernetes service address\<close>

text \<open>
  The loop that increments the address: from the last byte to the first, \<open>ip[j]++\<close>, until a byte has not wrapped to zero.
  It runs over the reversed bytes.
\<close>

fun incr_loop :: "byte list \<Rightarrow> byte list" where
  "incr_loop [] = []"
| "incr_loop (b # bs) = (if b + 1 > 0 then (b + 1) # bs else (b + 1) # incr_loop bs)"

definition incr_ip :: "ip \<Rightarrow> ip" where
  "incr_ip ip = rev (incr_loop (rev ip))"

text \<open>\<open>ip.Mask\<close> gives nil for lengths that do not fit, over which the loop does nothing.\<close>

definition GetKubernetesServiceIP :: "string \<Rightarrow> gerror + ip option" where
  "GetKubernetesServiceIP serviceClusterRange =
     (case ParseCIDR serviceClusterRange of
        None \<Rightarrow> Inl (errorf (''Failed to get kubernetes service IP from Kube API option [service_cluster_ip_range]: invalid CIDR address: ''
                  @ serviceClusterRange))
      | Some (ip, msk) \<Rightarrow> Inr (map_option incr_ip (Mask ip msk)))"

section \<open>Container configurations\<close>

text \<open>\<open>for arg, value := range ExtraArgs\<close>: the order is the map's.\<close>

definition extraArgs :: "string gomap \<Rightarrow> string list" where
  "extraArgs m = map (\<lambda>(arg, value). ''--'' @ arg @ ''='' @ value) m"

definition buildSidekickConfig :: "string \<Rightarrow> ContainerConfig \<times> HostConfig" where
  "buildSidekickConfig sidekickImage =
     (ContainerConfig_zero\<lparr>Image := sidekickImage\<rparr>, HostConfig_zero\<lparr>NetworkMode := ''none''\<rparr>)"

text \<open>The host configuration the control services share.\<close>

definition serviceHostCfg :: HostConfig where
  "serviceHostCfg = HostConfig_zero\<lparr>VolumesFrom := [SidekickContainerName], Binds := [''/etc/kubernetes:/etc/kubernetes:z''],
     NetworkMode := ''host'', RestartPolicyName := ''always''\<rparr>"

definition buildKubeAPIConfig :: "KubeAPIService \<Rightarrow> string \<Rightarrow> string \<Rightarrow> ContainerConfig \<times> HostConfig" where
  "buildKubeAPIConfig kubeAPIService etcdConnString authorizationMode =
     (let entry = [''/opt/rke/entrypoint.sh'',
            ''kube-apiserver'',
            ''--insecure-bind-address=127.0.0.1'',
            ''--bind-address=0.0.0.0'',
            ''--insecure-port=0'',
            ''--secure-port=6443'',
            ''--cloud-provider='',
            ''--allow_privileged=true'',
            ''--kubelet-preferred-address-types=InternalIP,ExternalIP,Hostname'',
            ''--service-cluster-ip-range='' @ api_ServiceClusterIPRange kubeAPIService,
            ''--admission-control=ServiceAccount,NamespaceLifecycle,LimitRanger,PersistentVolumeLabel,DefaultStorageClass,ResourceQuota,DefaultTolerationSeconds'',
            ''--runtime-config=batch/v2alpha1'',
            ''--runtime-config=authentication.k8s.io/v1beta1=true'',
            ''--storage-backend=etcd3'',
            ''--client-ca-file='' @ GetCertPath CACertName,
            ''--tls-cert-file='' @ GetCertPath KubeAPICertName,
            ''--tls-private-key-file='' @ GetKeyPath KubeAPICertName,
            ''--service-account-key-file='' @ GetKeyPath KubeAPICertName,
            ''--etcd-cafile='' @ GetCertPath CACertName,
            ''--etcd-certfile='' @ GetCertPath KubeAPICertName,
            ''--etcd-keyfile='' @ GetKeyPath KubeAPICertName];
          cmd0 = slice_append None [''--etcd-servers='' @ etcdConnString];
          cmd1 = (if authorizationMode = RBACAuthorizationMode then slice_append cmd0 [''--authorization-mode=RBAC''] else cmd0);
          cmd2 = (if api_PodSecurityPolicy kubeAPIService
                  then slice_append cmd1 [''--runtime-config=extensions/v1beta1/podsecuritypolicy=true'', ''--admission-control=PodSecurityPolicy'']
                  else cmd1)
      in (ContainerConfig_zero\<lparr>Image := svc_Image kubeAPIService, Cmd := cmd2,
            Entrypoint := Some (entry @ extraArgs (svc_ExtraArgs kubeAPIService))\<rparr>, serviceHostCfg))"

definition buildKubeControllerConfig :: "KubeControllerService \<Rightarrow> string \<Rightarrow> ContainerConfig \<times> HostConfig" where
  "buildKubeControllerConfig kubeControllerService authorizationMode =
     (let entry = [''/opt/rke/entrypoint.sh'',
            ''kube-controller-manager'',
            ''--address=0.0.0.0'',
            ''--cloud-provider='',
            ''--leader-elect=true'',
            ''--kubeconfig='' @ GetConfigPath KubeControllerCertName,
            ''--enable-hostpath-provisioner=false'',
            ''--node-monitor-grace-period=40s'',
            ''--pod-eviction-timeout=5m0s'',
            ''--v=2'',
            ''--allocate-node-cidrs=true'',
            ''--cluster-cidr='' @ ctl_ClusterCIDR kubeControllerService,
            ''--service-cluster-ip-range='' @ ctl_ServiceClusterIPRange kubeControllerService,
            ''--service-account-private-key-file='' @ GetKeyPath KubeAPICertName,
            ''--root-ca-file='' @ GetCertPath CACertName]
      in (ContainerConfig_zero\<lparr>Image := svc_Image kubeControllerService,
            Cmd := (if authorizationMode = RBACAuthorizationMode then slice_append None [''--use-service-account-credentials=true''] else None),
            Entrypoint := Some (entry @ extraArgs (svc_ExtraArgs kubeControllerService))\<rparr>, serviceHostCfg))"

definition buildSchedulerConfig :: "SchedulerService \<Rightarrow> ContainerConfig \<times> HostConfig" where
  "buildSchedulerConfig schedulerService =
     (let entry = [''/opt/rke/entrypoint.sh'',
            ''kube-scheduler'',
            ''--leader-elect=true'',
            ''--v=2'',
            ''--address=0.0.0.0'',
            ''--kubeconfig='' @ GetConfigPath KubeSchedulerCertName]
      in (ContainerConfig_zero\<lparr>Image := svc_Image schedulerService,
            Entrypoint := Some (entry @ extraArgs (svc_ExtraArgs schedulerService))\<rparr>, serviceHostCfg))"

definition buildKubeletConfig :: "Host \<Rightarrow> KubeletService \<Rightarrow> ContainerConfig \<times> HostConfig" where
  "buildKubeletConfig host kubeletService =
     (let entry = [''/opt/rke/entrypoint.sh'',
            ''kubelet'',
            ''--v=2'',
            ''--address=0.0.0.0'',
            ''--cluster-domain='' @ let_ClusterDomain kubeletService,
            ''--pod-infra-container-image='' @ let_InfraContainerImage kubeletService,
            ''--cgroups-per-qos=True'',
            ''--enforce-node-allocatable='',
            ''--hostname-override='' @ HostnameOverride host,
            ''--cluster-dns='' @ let_ClusterDNSServer kubeletService,
            ''--network-plugin=cni'',
            ''--cni-conf-dir=/etc/cni/net.d'',
            ''--cni-bin-dir=/opt/cni/bin'',
            ''--resolv-conf=/etc/resolv.conf'',
            ''--allow-privileged=true'',
            ''--cloud-provider='',
            ''--kubeconfig='' @ GetConfigPath KubeNodeCertName,
            ''--volume-plugin-dir=/var/lib/kubelet/volumeplugins'',
            ''--require-kubeconfig=True'',
            ''--fail-swap-on='' @ format_bool (let_FailSwapOn kubeletService)]
      in (ContainerConfig_zero\<lparr>Image := svc_Image kubeletService,
            Entrypoint := Some (entry @ extraArgs (svc_ExtraArgs kubeletService))\<rparr>,
          HostConfig_zero\<lparr>VolumesFrom := [SidekickContainerName],
            Binds := [''/etc/kubernetes:/etc/kubernetes:z'',
              ''/etc/cni:/etc/cni:ro,z'',
              ''/opt/cni:/opt/cni:ro,z'',
              ''/etc/resolv.conf:/etc/resolv.conf'',
              ''/sys:/sys'',
              ''/var/lib/docker:/var/lib/docker:rw,z'',
              ''/var/lib/kubelet:/var/lib/kubelet:shared,z'',
              ''/var/run:/var/run:rw'',
              ''/run:/run'',
              ''/etc/ceph:/etc/ceph'',
              ''/dev:/host/dev'',
              ''/var/log/containers:/var/log/containers:z'',
              ''/var/log/pods:/var/log/pods:z''],
            NetworkMode := ''host'', PidMode := ''host'', Privileged := True, RestartPolicyName := ''always''\<rparr>))"

definition buildKubeproxyConfig :: "KubeproxyService \<Rightarrow> ContainerConfig \<times> HostConfig" where
  "buildKubeproxyConfig kubeproxyService =
     (let entry = [''/opt/rke/entrypoint.sh'',
            ''kube-proxy'',
            ''--v=2'',
            ''--healthz-bind-address=0.0.0.0'',
            ''--kubeconfig='' @ GetConfigPath KubeProxyCertName]
      in (ContainerConfig_zero\<lparr>Image := svc_Image kubeproxyService,
            Entrypoint := Some (entry @ extraArgs (svc_ExtraArgs kubeproxyService))\<rparr>,
          serviceHostCfg\<lparr>Privileged := True\<rparr>))"

definition buildNginxProxyConfig :: "string \<Rightarrow> string \<Rightarrow> ContainerConfig \<times> HostConfig" where
  "buildNginxProxyConfig nginxProxyEnv nginxProxyImage =
     (ContainerConfig_zero\<lparr>Image := nginxProxyImage,
        Env := [NginxProxyEnvName @ ''='' @ nginxProxyEnv], Cmd := Some [NginxProxyEnvName @ ''='' @ nginxProxyEnv]\<rparr>,
      HostConfig_zero\<lparr>NetworkMode := ''host'', RestartPolicyName := ''always''\<rparr>)"

text \<open>
  The three loops that write a list with commas between its elements: after element \<open>i\<close> comes a comma if \<open>i < len - 1\<close>.
\<close>

fun commaLoop :: "('a \<Rightarrow> string) \<Rightarrow> nat \<Rightarrow> nat \<Rightarrow> 'a list \<Rightarrow> string \<Rightarrow> string" where
  "commaLoop f n i [] acc = acc"
| "commaLoop f n i (h # hs) acc =
     commaLoop f n (i + 1) hs (if int i < int n - 1 then acc @ f h @ '','' else acc @ f h)"

definition buildProxyEnv :: "Host list \<Rightarrow> string" where
  "buildProxyEnv cpHosts = commaLoop InternalAddress (length cpHosts) 0 cpHosts []"

definition GetEtcdConnString :: "Host list \<Rightarrow> string" where
  "GetEtcdConnString hosts = commaLoop (\<lambda>h. ''https://'' @ InternalAddress h @ '':2379'') (length hosts) 0 hosts []"

definition getEtcdInitialCluster :: "Host list \<Rightarrow> string" where
  "getEtcdInitialCluster hosts =
     commaLoop (\<lambda>h. ''etcd-'' @ HostnameOverride h @ ''=https://'' @ InternalAddress h @ '':2380'') (length hosts) 0 hosts []"

section \<open>Health checks\<close>

definition getHealthCheckHTTPClient ::
  "('d, 'k, 'e) env \<Rightarrow> hostref \<Rightarrow> nat \<Rightarrow> DialerFactory option \<Rightarrow> ('d, 'k, 'e, dialer) wio" where
  "getHealthCheckHTTPClient env r port localConnDialerFactory =
     thenIO (setHost r (\<lambda>h. h\<lparr>LocalConnPort := port\<rparr>))
    (bindIO (getHost r) (\<lambda>h. wrapIO (''Failed to create a dialer for host ['' @ Address h @ '']: '')
       (runFactory env (case localConnDialerFactory of None \<Rightarrow> LocalConnFactory | Some f \<Rightarrow> f) r)))"

definition getHealthz ::
  "('d, 'k, 'e) env \<Rightarrow> dialer \<Rightarrow> bool \<Rightarrow> string \<Rightarrow> string \<Rightarrow> nat \<Rightarrow> ('d, 'k, 'e, unit) wio" where
  "getHealthz env client useTLS serviceName hostAddress port =
     (let proto = (if useTLS then HTTPSProtoPrefix else HTTPProtoPrefix) in
      bindIO (wrapIO (''Failed to check '' @ HealthzEndpoint @ '' for service ['' @ serviceName @ ''] on host ['' @ hostAddress @ '']: '')
         (onExt (HTTPGet (extAPI env) client hostAddress (proto @ HealthzAddress @ '':'' @ show_nat port @ HealthzEndpoint))))
       (\<lambda>(statusCode, statusBody).
          if statusCode \<noteq> 200
          then failIO (errorf (''service ['' @ serviceName @ ''] is not healthy response code: ['' @ show_nat statusCode @ ''], response body: '' @ statusBody))
          else retIO ()))"

text \<open>The loop: at most \<open>n\<close> attempts, stopping at the first that succeeds, the last error being reported.\<close>

fun healthLoop :: "('w, unit) io \<Rightarrow> nat \<Rightarrow> string \<Rightarrow> ('w, unit) io" where
  "healthLoop m 0 err = failIO (errorf (''Failed to verify healthcheck: '' @ err))"
| "healthLoop m (Suc n) err = tryIO m (\<lambda>e. healthLoop m n (emsg e)) (\<lambda>_. retIO ())"

definition runHealthcheck ::
  "('d, 'k, 'e) env \<Rightarrow> hostref \<Rightarrow> nat \<Rightarrow> bool \<Rightarrow> string \<Rightarrow> DialerFactory option \<Rightarrow> ('d, 'k, 'e, unit) wio" where
  "runHealthcheck env r port useTLS serviceName localConnDialerFactory =
     bindIO (getHost r) (\<lambda>h.
       tryIO (getHealthCheckHTTPClient env r port localConnDialerFactory)
         (\<lambda>_. failIO (errorf (''Failed to initiate new HTTP client for service ['' @ serviceName @ ''] for host ['' @ Address h @ '']'')))
         (\<lambda>client. healthLoop (getHealthz env client useTLS serviceName (Address h) port) 10 []))"

section \<open>Starting and removing services\<close>

definition runSidekick :: "('d, 'k, 'e) env \<Rightarrow> hostref \<Rightarrow> string \<Rightarrow> PrivateRegistry gomap \<Rightarrow> ('d, 'k, 'e, unit) wio" where
  "runSidekick env r sidekickImage prsMap =
     bindIO (getHost r) (\<lambda>h.
     bindIO (viaClient h (IsContainerRunning (dockerAPI env) (Address h) SidekickContainerName True)) (\<lambda>isRunning.
       if isRunning then retIO ()
       else (case buildSidekickConfig sidekickImage of (imageCfg, hostCfg) \<Rightarrow>
         thenIO (viaClient h (UseLocalOrPull (dockerAPI env) (Address h) sidekickImage prsMap))
        (thenIO (viaClient h (CreateContiner (dockerAPI env) (Address h) SidekickContainerName imageCfg hostCfg))
           (retIO ())))))"

definition removeContainerOf :: "('d, 'k, 'e) env \<Rightarrow> hostref \<Rightarrow> string \<Rightarrow> ('d, 'k, 'e, unit) wio" where
  "removeContainerOf env r containerName =
     bindIO (getHost r) (\<lambda>h. viaClient h (DoRemoveContainer (dockerAPI env) containerName (Address h)))"

definition removeSidekick :: "('d, 'k, 'e) env \<Rightarrow> hostref \<Rightarrow> ('d, 'k, 'e, unit) wio" where
  "removeSidekick env r = removeContainerOf env r SidekickContainerName"

definition runKubeAPI ::
  "('d, 'k, 'e) env \<Rightarrow> hostref \<Rightarrow> hostref list \<Rightarrow> KubeAPIService \<Rightarrow> string \<Rightarrow> DialerFactory option \<Rightarrow> PrivateRegistry gomap \<Rightarrow>
     ('d, 'k, 'e, unit) wio" where
  "runKubeAPI env r etcdHosts kubeAPIService authorizationMode df prsMap =
     bindIO (getHosts etcdHosts) (\<lambda>ehs.
     bindIO (getHost r) (\<lambda>h.
       case buildKubeAPIConfig kubeAPIService (GetEtcdConnString ehs) authorizationMode of (imageCfg, hostCfg) \<Rightarrow>
       thenIO (viaClient h (DoRunContainer (dockerAPI env) imageCfg hostCfg KubeAPIContainerName (Address h) prsMap))
         (runHealthcheck env r KubeAPIPort True KubeAPIContainerName df)))"

definition removeKubeAPI :: "('d, 'k, 'e) env \<Rightarrow> hostref \<Rightarrow> ('d, 'k, 'e, unit) wio" where
  "removeKubeAPI env r = removeContainerOf env r KubeAPIContainerName"

definition runKubeController ::
  "('d, 'k, 'e) env \<Rightarrow> hostref \<Rightarrow> KubeControllerService \<Rightarrow> string \<Rightarrow> DialerFactory option \<Rightarrow> PrivateRegistry gomap \<Rightarrow>
     ('d, 'k, 'e, unit) wio" where
  "runKubeController env r kubeControllerService authorizationMode df prsMap =
     bindIO (getHost r) (\<lambda>h.
       case buildKubeControllerConfig kubeControllerService authorizationMode of (imageCfg, hostCfg) \<Rightarrow>
       thenIO (viaClient h (DoRunContainer (dockerAPI env) imageCfg hostCfg KubeControllerContainerName (Address h) prsMap))
         (runHealthcheck env r KubeControllerPort False KubeControllerContainerName df))"

definition removeKubeController :: "('d, 'k, 'e) env \<Rightarrow> hostref \<Rightarrow> ('d, 'k, 'e, unit) wio" where
  "removeKubeController env r = removeContainerOf env r KubeControllerContainerName"

definition runScheduler ::
  "('d, 'k, 'e) env \<Rightarrow> hostref \<Rightarrow> SchedulerService \<Rightarrow> DialerFactory option \<Rightarrow> PrivateRegistry gomap \<Rightarrow> ('d, 'k, 'e, unit) wio" where
  "runScheduler env r schedulerService df prsMap =
     bindIO (getHost r) (\<lambda>h.
       case buildSchedulerConfig schedulerService of (imageCfg, hostCfg) \<Rightarrow>
       thenIO (viaClient h (DoRunContainer (dockerAPI env) imageCfg hostCfg SchedulerContainerName (Address h) prsMap))
         (runHealthcheck env r SchedulerPort False SchedulerContainerName df))"

definition removeScheduler :: "('d, 'k, 'e) env \<Rightarrow> hostref \<Rightarrow> ('d, 'k, 'e, unit) wio" where
  "removeScheduler env r = removeContainerOf env r SchedulerContainerName"

definition runKubelet ::
  "('d, 'k, 'e) env \<Rightarrow> hostref \<Rightarrow> KubeletService \<Rightarrow> DialerFactory option \<Rightarrow> PrivateRegistry gomap \<Rightarrow> ('d, 'k, 'e, unit) wio" where
  "runKubelet env r kubeletService df prsMap =
     bindIO (getHost r) (\<lambda>h.
       case buildKubeletConfig h kubeletService of (imageCfg, hostCfg) \<Rightarrow>
       thenIO (viaClient h (DoRunContainer (dockerAPI env) imageCfg hostCfg KubeletContainerName (Address h) prsMap))
         (runHealthcheck env r KubeletPort True KubeletContainerName df))"

definition removeKubelet :: "('d, 'k, 'e) env \<Rightarrow> hostref \<Rightarrow> ('d, 'k, 'e, unit) wio" where
  "removeKubelet env r = removeContainerOf env r KubeletContainerName"

definition runKubeproxy ::
  "('d, 'k, 'e) env \<Rightarrow> hostref \<Rightarrow> KubeproxyService \<Rightarrow> DialerFactory option \<Rightarrow> PrivateRegistry gomap \<Rightarrow> ('d, 'k, 'e, unit) wio" where
  "runKubeproxy env r kubeproxyService df prsMap =
     bindIO (getHost r) (\<lambda>h.
       case buildKubeproxyConfig kubeproxyService of (imageCfg, hostCfg) \<Rightarrow>
       thenIO (viaClient h (DoRunContainer (dockerAPI env) imageCfg hostCfg KubeproxyContainerName (Address h) prsMap))
         (runHealthcheck env r KubeproxyPort False KubeproxyContainerName df))"

definition removeKubeproxy :: "('d, 'k, 'e) env \<Rightarrow> hostref \<Rightarrow> ('d, 'k, 'e, unit) wio" where
  "removeKubeproxy env r = removeContainerOf env r KubeproxyContainerName"

definition runNginxProxy ::
  "('d, 'k, 'e) env \<Rightarrow> hostref \<Rightarrow> hostref list \<Rightarrow> string \<Rightarrow> PrivateRegistry gomap \<Rightarrow> ('d, 'k, 'e, unit) wio" where
  "runNginxProxy env r cpHosts nginxProxyImage prsMap =
     bindIO (getHosts cpHosts) (\<lambda>chs.
     bindIO (getHost r) (\<lambda>h.
       case buildNginxProxyConfig (buildProxyEnv chs) nginxProxyImage of (imageCfg, hostCfg) \<Rightarrow>
       viaClient h (DoRunContainer (dockerAPI env) imageCfg hostCfg NginxProxyContainerName (Address h) prsMap)))"

definition removeNginxProxy :: "('d, 'k, 'e) env \<Rightarrow> hostref \<Rightarrow> ('d, 'k, 'e, unit) wio" where
  "removeNginxProxy env r = removeContainerOf env r NginxProxyContainerName"

definition RollingUpdateNginxProxy ::
  "('d, 'k, 'e) env \<Rightarrow> hostref list \<Rightarrow> hostref list \<Rightarrow> string \<Rightarrow> PrivateRegistry gomap \<Rightarrow> ('d, 'k, 'e, unit) wio" where
  "RollingUpdateNginxProxy env cpHosts workerHosts nginxProxyImage prsMap =
     bindIO (getHosts cpHosts) (\<lambda>chs.
       forIO (\<lambda>r. bindIO (getHost r) (\<lambda>h.
         case buildNginxProxyConfig (buildProxyEnv chs) nginxProxyImage of (imageCfg, hostCfg) \<Rightarrow>
         viaClient h (DoRollingUpdateContainer (dockerAPI env) imageCfg hostCfg NginxProxyContainerName (Address h) prsMap))) workerHosts)"

section \<open>Lists with commas\<close>

lemma commaLoop_join: "n = i + length hs \<Longrightarrow> commaLoop f n i hs acc = acc @ join_with '','' (map f hs)"
proof (induction hs arbitrary: i acc)
  case Nil
  then show ?case by simp
next
  case (Cons h hs)
  show ?case
  proof (cases hs)
    case Nil
    with Cons.prems show ?thesis by simp
  next
    case (Cons h' hs')
    then have "map f hs \<noteq> []" by simp
    with Cons.IH[of "i + 1"] Cons.prems show ?thesis by (simp add: join_with_Cons)
  qed
qed

lemma conn_strings:
  "buildProxyEnv hs = join_with '','' (map InternalAddress hs)"
  "GetEtcdConnString hs = join_with '','' (map (\<lambda>h. ''https://'' @ InternalAddress h @ '':2379'') hs)"
  "getEtcdInitialCluster hs = join_with '','' (map (\<lambda>h. ''etcd-'' @ HostnameOverride h @ ''=https://'' @ InternalAddress h @ '':2380'') hs)"
  by (simp_all add: buildProxyEnv_def GetEtcdConnString_def getEtcdInitialCluster_def commaLoop_join)

section \<open>Incrementing an address\<close>

lemma length_incr_loop [simp]: "length (incr_loop bs) = length bs"
  by (induction bs) auto

lemma length_incr_ip [simp]: "length (incr_ip ip) = length ip"
  by (simp add: incr_ip_def)

lemma ip_val_snoc: "ip_val (bs @ [b]) = ip_val bs * 256 + unat b"
  by (induction bs) (simp_all add: algebra_simps)

lemma byte_incr: "unat (b + 1 :: byte) = (if b = 255 then 0 else unat b + 1)"
proof (cases "b = 255")
  case True
  then show ?thesis by simp
next
  case False
  moreover have "(-1 :: byte) = 255" by code_simp
  ultimately have "b + 1 \<noteq> 0" by (metis add.commute eq_neg_iff_add_eq_0)
  then show ?thesis using False by (simp add: unatSuc add.commute)
qed

lemma byte_incr_pos: "(b + 1 :: byte) > 0 \<longleftrightarrow> b \<noteq> 255"
proof -
  have "(b + 1 > 0) = (unat (b + 1) > 0)" by (simp add: word_less_nat_alt)
  then show ?thesis by (simp add: byte_incr)
qed

lemma incr_loop_val: "ip_val (rev (incr_loop bs)) = (ip_val (rev bs) + 1) mod 256 ^ length bs"
proof (induction bs)
  case Nil
  then show ?case by simp
next
  case (Cons b bs)
  have bound: "ip_val (rev bs) < 256 ^ length bs" using ip_val_bound[of "rev bs"] by simp
  show ?case
  proof (cases "b = 255")
    case True
    then have b: "\<not> b + 1 > 0" "unat b = 255" "unat (b + 1) = 0"
      unfolding byte_incr_pos byte_incr by simp_all
    have "ip_val (rev (incr_loop (b # bs))) = ((ip_val (rev bs) + 1) mod 256 ^ length bs) * 256"
      using b Cons.IH by (simp add: ip_val_snoc)
    also have "\<dots> = ((ip_val (rev bs) + 1) * 256) mod (256 ^ length bs * 256)"
      by (simp add: mult_mod_left)
    finally show ?thesis using b(2) by (simp add: ip_val_snoc algebra_simps)
  next
    case False
    have u: "unat b + 1 < 256"
      using False unat_byte[of b] by (metis Suc_eq_plus1 byte_incr unat_byte)
    have "ip_val (rev bs) * 256 + (unat b + 1) < (ip_val (rev bs) + 1) * 256" using u by simp
    also have "\<dots> \<le> 256 ^ length bs * 256" using bound by (intro mult_right_mono) auto
    finally have "ip_val (rev bs) * 256 + (unat b + 1) < 256 ^ length (b # bs)" by simp
    moreover have "ip_val (rev (incr_loop (b # bs))) = ip_val (rev bs) * 256 + (unat b + 1)"
      using False by (simp add: ip_val_snoc byte_incr_pos byte_incr)
    ultimately show ?thesis by (simp add: ip_val_snoc)
  qed
qed

lemma incr_ip_val: "ip_val (incr_ip ip) = (ip_val ip + 1) mod 256 ^ length ip"
  using incr_loop_val[of "rev ip"] by (simp add: incr_ip_def)

text \<open>On an even last byte the loop stops at once, and the bits an even mask keeps do not change.\<close>

lemma incr_ip_even:
  assumes "ip \<noteq> []" "even (last ip)"
  shows "incr_ip ip = butlast ip @ [last ip + 1]"
proof -
  obtain bs b where ip: "ip = bs @ [b]" using assms(1) by (metis append_butlast_last_id)
  have "odd (255 :: byte)" by simp
  with assms(2) ip have "b \<noteq> 255" by auto
  with ip show ?thesis by (simp add: incr_ip_def byte_incr_pos)
qed

lemma even_and_incr:
  fixes x m :: byte
  assumes "even m" "even x"
  shows "(x + 1) AND m = x AND m"
proof (rule bit_word_eqI)
  fix n
  assume "n < LENGTH(8)"
  show "bit ((x + 1) AND m) n = bit (x AND m) n"
  proof (cases n)
    case 0
    with assms(1) show ?thesis by (simp add: bit_0 even_and_iff)
  next
    case (Suc k)
    have "x + 1 = x OR 1" using assms(2) by (simp add: or_one_eq)
    then show ?thesis using Suc by (simp add: bit_simps)
  qed
qed

lemma map2_and_incr:
  assumes "length ip = length mk" "mk \<noteq> []" "even (last mk)"
  shows "map2 (AND) (incr_ip (map2 (AND) ip mk)) mk = map2 (AND) ip mk"
proof -
  obtain ms m where mk: "mk = ms @ [m]" using assms(2) by (metis append_butlast_last_id)
  then have "ip \<noteq> []" using assms(1) by auto
  then obtain bs b where ip: "ip = bs @ [b]" by (metis append_butlast_last_id)
  have len: "length bs = length ms" using assms(1) mk ip by simp
  have m: "even m" using assms(3) mk by simp
  then have e: "even (b AND m)" by (simp add: even_and_iff)
  have inc: "incr_ip (map2 (AND) ip mk) = map2 (AND) bs ms @ [(b AND m) + 1]"
    using incr_ip_even[of "map2 (AND) ip mk"] e by (simp add: mk ip len)
  have "map2 (AND) (map2 (AND) bs ms) ms = map2 (AND) bs ms"
    by (rule nth_equalityI) (simp_all add: len and.assoc)
  with inc even_and_incr[OF m e] show ?thesis by (simp add: mk ip len and.assoc)
qed

section \<open>Parsing gives whole addresses\<close>

lemma parseIPv6_loop_shape:
  assumes "parseIPv6_loop acc ell s = Some (bs, e, rest)" "length acc \<le> IPv6len" "even (length acc)"
    "\<forall>i. ell = Some i \<longrightarrow> i \<le> length acc"
  shows "length bs \<le> IPv6len \<and> (\<forall>i. e = Some i \<longrightarrow> i \<le> length bs)"
  using assms
proof (induction acc ell s arbitrary: bs e rest rule: parseIPv6_loop.induct)
  case (1 acc ell s)
  let ?goal = "length bs \<le> IPv6len \<and> (\<forall>i. e = Some i \<longrightarrow> i \<le> length bs)"
  show ?goal
  proof (cases "length acc \<ge> IPv6len")
    case True
    with "1.prems" show ?thesis by (subst (asm) parseIPv6_loop.simps) auto
  next
    case short: False
    with "1.prems"(3) have le: "length acc + 2 \<le> IPv6len" unfolding IPv6len_def by presburger
    from "1.prems"(1) short obtain n s1 where x: "xtoi s = Some (n, s1)" "\<not> n > 0xFFFF"
      by (subst (asm) parseIPv6_loop.simps) (auto split: option.splits if_splits)
    let ?acc = "acc @ [of_nat (n div 256), of_nat (n mod 256)]"
    note run = "1.prems"(1)[unfolded parseIPv6_loop.simps[of acc ell s]]
    show ?thesis
    proof (cases "s1 \<noteq> [] \<and> hd s1 = CHR ''.''")
      case True
      with run short x show ?thesis using "1.prems"(4)
        by (auto simp: IPv6len_def IPv4len_def v4InV6Prefix_def dest!: parseIPv4_shape split: if_splits option.splits)
    next
      case nodot: False
      have b2: "\<forall>i. ell = Some i \<longrightarrow> i \<le> Suc (Suc (length acc))" using "1.prems"(4) by auto
      have IH: "\<And>ell' s'. parseIPv6_loop ?acc ell' s' = Some (bs, e, rest) \<Longrightarrow>
          (ell' = Some (length ?acc) \<and> s' = tl (tl s1) \<and> tl (tl s1) \<noteq> [] \<and> hd (tl s1) = CHR '':'' \<and> ell = None) \<or>
          (ell' = ell \<and> s' = tl s1 \<and> hd (tl s1) \<noteq> CHR '':'') \<Longrightarrow>
          s1 \<noteq> [] \<Longrightarrow> hd s1 = CHR '':'' \<and> length s1 \<noteq> 1 \<Longrightarrow> ?goal"
        using "1.IH"[OF short x(1) refl x(2) nodot refl] le "1.prems"(3,4) b2 by auto
      show ?thesis
        using run short x nodot le "1.prems"(4) IH by (auto simp: Let_def split: if_splits dest: le_SucI)
    qed
  qed
qed

lemma length_parseIPv6: "parseIPv6 s = Some ip \<Longrightarrow> length ip = IPv6len"
  unfolding parseIPv6_def Let_def
  by (auto split: if_splits option.splits prod.splits dest!: parseIPv6_loop_shape)

lemma ParseCIDR_shape:
  assumes "ParseCIDR s = Some (ip, mk)"
  obtains n l where "mk = CIDRMask n l" "n \<le> 8 * l" "l = IPv4len \<or> l = IPv6len"
    "length ip = IPv6len" "l = IPv4len \<longrightarrow> take 12 ip = v4InV6Prefix"
proof -
  let ?a = "takeWhile (\<lambda>c. c \<noteq> CHR ''/'') s"
  from assms obtain n where n: "n \<le> 8 * length mk" "mk = CIDRMask n (length mk)"
    and ip: "parseIPv4 ?a = Some ip \<and> length mk = IPv4len \<or> parseIPv6 ?a = Some ip \<and> length mk = IPv6len"
    unfolding ParseCIDR_def Let_def
    by (cases "parseIPv4 ?a"; cases "parseIPv6 ?a"; cases "dtoi (tl (dropWhile (\<lambda>c. c \<noteq> CHR ''/'') s))")
       (auto simp: not_less split: if_splits list.splits)
  from ip show thesis
  proof
    assume v4: "parseIPv4 ?a = Some ip \<and> length mk = IPv4len"
    then obtain bs where "ip = v4InV6Prefix @ bs" using parseIPv4_shape by blast
    then have "take 12 ip = v4InV6Prefix" by (simp add: v4InV6Prefix_def)
    moreover have "length ip = IPv6len" using v4 length_parseIPv4 by blast
    ultimately show thesis using that[OF n(2,1)] v4 by simp
  next
    assume "parseIPv6 ?a = Some ip \<and> length mk = IPv6len"
    with that[OF n(2,1)] show thesis by (auto simp: length_parseIPv6 IPv4len_def IPv6len_def)
  qed
qed

lemma CIDRMask_full: "CIDRMask (8 * l) l = replicate l 255"
  by (induction l) simp_all

lemma Mask_ParseCIDR:
  assumes "ParseCIDR s = Some (ip, mk)"
  obtains bs where "Mask ip mk = Some (map2 (AND) bs mk)" "length bs = length mk" "mk \<noteq> []"
    "mk \<noteq> replicate (length mk) 255 \<longrightarrow> even (last mk)"
proof -
  from assms obtain n l where mk: "mk = CIDRMask n l" "n \<le> 8 * l" and l: "l = IPv4len \<or> l = IPv6len"
    and ip: "length ip = IPv6len" "l = IPv4len \<longrightarrow> take 12 ip = v4InV6Prefix" by (rule ParseCIDR_shape)
  have "length mk \<noteq> 0" using l mk(1) by (auto simp: IPv4len_def IPv6len_def)
  then have ne: "mk \<noteq> []" by simp
  have ev: "mk \<noteq> replicate (length mk) 255 \<longrightarrow> even (last mk)"
  proof
    assume "mk \<noteq> replicate (length mk) 255"
    with mk have "n \<noteq> 8 * l" using CIDRMask_full by fastforce
    with mk CIDRMask_last_even[of l n] l show "even (last mk)" by (auto simp: IPv4len_def IPv6len_def)
  qed
  from l show thesis
  proof
    assume v4: "l = IPv4len"
    then have "Mask ip mk = Some (map2 (AND) (drop 12 ip) mk)"
      using ip mk by (auto simp: Mask_def Let_def IPv4len_def IPv6len_def)
    then show thesis using that[OF _ _ ne ev] ip mk v4 by (simp add: IPv4len_def IPv6len_def)
  next
    assume v6: "l = IPv6len"
    then have "Mask ip mk = Some (map2 (AND) ip mk)"
      using ip mk by (auto simp: Mask_def Let_def IPv4len_def IPv6len_def)
    then show thesis using that[OF _ _ ne ev] ip mk v6 by simp
  qed
qed

section \<open>Properties of the service address\<close>

text \<open>
  C32: \<^verbatim>\<open>GetKubernetesServiceIP\<close> fails only on text that is no CIDR range; otherwise it gives an address, of the length of
  the range's family, whose number is the number of the network address plus one, modulo the size of the address
  space; and unless the range is a single address, that is exactly the next number, and it lies in the range.
\<close>

theorem GetKubernetesServiceIP_first_address:
  "case ParseCIDR s of
     None \<Rightarrow> (\<exists>e. GetKubernetesServiceIP s = Inl e)
   | Some (ip, mk) \<Rightarrow> (\<exists>net a. Mask ip mk = Some net \<and> GetKubernetesServiceIP s = Inr (Some a) \<and>
       length a = length mk \<and> ip_val a = (ip_val net + 1) mod 256 ^ length mk \<and>
       (mk = replicate (length mk) 255 \<or> ip_val a = ip_val net + 1 \<and> Mask a mk = Some net))"
proof (cases "ParseCIDR s")
  case None
  then show ?thesis by (simp add: GetKubernetesServiceIP_def)
next
  case (Some p)
  then obtain ip mk where p: "ParseCIDR s = Some (ip, mk)" by (cases p) auto
  from p obtain bs where net: "Mask ip mk = Some (map2 (AND) bs mk)" and len: "length bs = length mk" and ne: "mk \<noteq> []"
    and ev: "mk \<noteq> replicate (length mk) 255 \<longrightarrow> even (last mk)" by (rule Mask_ParseCIDR)
  let ?net = "map2 (AND) bs mk"
  have room: "ip_val (incr_ip ?net) = ip_val ?net + 1 \<and> Mask (incr_ip ?net) mk = Some ?net"
    if "mk \<noteq> replicate (length mk) 255"
  proof
    from that ev have e: "even (last mk)" by simp
    have "bs \<noteq> []" using len ne by auto
    then have "last ?net = last bs AND last mk" using len ne by (simp add: last_map last_zip)
    with e have l: "even (last ?net)" by (simp add: even_and_iff)
    have nn: "?net \<noteq> []" using len ne by (metis length_0_conv length_map length_zip min.idem)
    have "last ?net \<noteq> 255" using l by (metis odd_numeral) 
    then have "ip_val (incr_ip ?net) = ip_val (butlast ?net) * 256 + (unat (last ?net) + 1)"
      by (simp add: incr_ip_even[OF nn l] ip_val_snoc byte_incr)
    also have "\<dots> = ip_val (butlast ?net @ [last ?net]) + 1" by (simp add: ip_val_snoc)
    finally show "ip_val (incr_ip ?net) = ip_val ?net + 1" using nn by simp
    show "Mask (incr_ip ?net) mk = Some ?net"
      using map2_and_incr[OF len ne e] len by (auto simp: Mask_def Let_def IPv4len_def IPv6len_def)
  qed
  show ?thesis using p net len room incr_ip_val[of ?net] by (auto simp: GetKubernetesServiceIP_def)
qed

text \<open>
  the lists written for the proxy and for etcd name exactly the hosts they are made from: splitting them at the commas
  gives back each host's address, in order, where no address holds a comma.
\<close>

theorem connection_strings_roundtrip:
  assumes "hs \<noteq> []" and "\<forall>h \<in> set hs. CHR '','' \<notin> set (InternalAddress h) \<and> CHR '','' \<notin> set (HostnameOverride h)"
  shows "split_on CHR '','' (buildProxyEnv hs) = map InternalAddress hs \<and>
     split_on CHR '','' (GetEtcdConnString hs) = map (\<lambda>h. ''https://'' @ InternalAddress h @ '':2379'') hs \<and>
     split_on CHR '','' (getEtcdInitialCluster hs) =
       map (\<lambda>h. ''etcd-'' @ HostnameOverride h @ ''=https://'' @ InternalAddress h @ '':2380'') hs"
  unfolding conn_strings using assms by (intro conjI split_join) auto

theorem connection_strings_roundtrip_witness:
  "split_on CHR '','' (buildProxyEnv [sim_host ''10.0.0.1'', sim_host ''10.0.0.2'']) = [''10.0.0.1'', ''10.0.0.2'']"
proof -
  let ?hs = "[sim_host ''10.0.0.1'', sim_host ''10.0.0.2'']"
  have "\<forall>h \<in> set ?hs. CHR '','' \<notin> set (InternalAddress h) \<and> CHR '','' \<notin> set (HostnameOverride h)"
    by (simp add: sim_host_def)
  with connection_strings_roundtrip[of ?hs] show ?thesis by (simp add: sim_host_def)
qed

section \<open>What the operations on a host's services touch\<close>

text \<open>
  Working on a host's services changes the bookkeeping kept in it: the port and pass phrase of the last connection, the
  taints to add, and whether it joins an existing etcd cluster; no other part of it.
\<close>

definition plain_host :: "Host \<Rightarrow> Host" where
  "plain_host h = h\<lparr>LocalConnPort := 0, SavedKeyPhrase := [], ToAddTaints := [], ExistingEtcdCluster := False\<rparr>"

definition conn_eq :: "Host \<Rightarrow> Host \<Rightarrow> bool" where
  "conn_eq h h' \<longleftrightarrow> plain_host h = plain_host h'"

text \<open>Of all the containers of all daemons, only those of \<open>S\<close> may have changed.\<close>

definition touched :: "(string \<times> string) set \<Rightarrow> wview \<Rightarrow> wview \<Rightarrow> bool" where
  "touched S x x' \<longleftrightarrow> list_all2 conn_eq (wv_hosts x) (wv_hosts x') \<and>
     (\<forall>a m. (a, m) \<notin> S \<longrightarrow> conts (wv_docker x' a) m = conts (wv_docker x a) m)"

text \<open>A host the program may work on: connected to the daemon \<open>a\<close>, with a key or the path of one.\<close>

definition key_ok :: "Host \<Rightarrow> bool" where
  "key_ok h \<longleftrightarrow> SSHKey h \<noteq> [] \<or> 2 \<le> length (node_SSHKeyPath h)"

definition ready :: "wview \<Rightarrow> hostref \<Rightarrow> string \<Rightarrow> bool" where
  "ready x r a \<longleftrightarrow> r < length (wv_hosts x) \<and> DClient (wv_hosts x ! r) = Some a \<and> key_ok (wv_hosts x ! r)"

text \<open>The names \<^verbatim>\<open>DoRunContainer\<close> may use for a service.\<close>

definition slots :: "string \<Rightarrow> string list \<Rightarrow> (string \<times> string) set" where
  "slots a ns = {a} \<times> (set ns \<union> old_name ` set ns)"

definition up :: "wview \<Rightarrow> string \<Rightarrow> string \<Rightarrow> bool" where
  "up x a n \<longleftrightarrow> (\<exists>c. conts (wv_docker x a) n = Some c \<and> c_up c)"

definition absent :: "wview \<Rightarrow> string \<Rightarrow> string \<Rightarrow> bool" where
  "absent x a n \<longleftrightarrow> conts (wv_docker x a) n = None"

lemma conn_eq_refl [simp]: "conn_eq h h"
  by (simp add: conn_eq_def)

lemma conn_eq_trans: "conn_eq h h' \<Longrightarrow> conn_eq h' h'' \<Longrightarrow> conn_eq h h''"
  by (simp add: conn_eq_def)

lemma conn_eq_sel:
  assumes "conn_eq h h'"
  shows "DClient h' = DClient h" "Address h' = Address h" "InternalAddress h' = InternalAddress h"
    "HostnameOverride h' = HostnameOverride h" "IsControl h' = IsControl h" "IsWorker h' = IsWorker h" "IsEtcd h' = IsEtcd h"
    "key_ok h' = key_ok h" "ToAddEtcdMember h' = ToAddEtcdMember h"
    "IgnoreDockerVersion h' = IgnoreDockerVersion h"
  using assms unfolding conn_eq_def plain_host_def key_ok_def by (cases h; cases h'; simp)+

lemma touched_refl [simp]: "touched S x x"
  by (simp add: touched_def list_all2_refl)

lemma touched_trans: "touched S x x' \<Longrightarrow> touched S x' x'' \<Longrightarrow> touched S x x''"
  unfolding touched_def by (auto intro: list_all2_trans[OF conn_eq_trans])

lemma touched_mono: "touched S x x' \<Longrightarrow> S \<subseteq> T \<Longrightarrow> touched T x x'"
  unfolding touched_def by blast

lemma touched_host:
  "touched S x x' \<Longrightarrow> r < length (wv_hosts x) \<Longrightarrow> r < length (wv_hosts x') \<and> conn_eq (wv_hosts x ! r) (wv_hosts x' ! r)"
  by (simp add: touched_def list_all2_conv_all_nth)

lemma touched_ready: "touched S x x' \<Longrightarrow> ready x r a \<Longrightarrow> ready x' r a"
  unfolding ready_def using touched_host[of S x x' r] by (metis conn_eq_sel(1,8))

lemma touched_cont: "touched S x x' \<Longrightarrow> (a, n) \<notin> S \<Longrightarrow> conts (wv_docker x' a) n = conts (wv_docker x a) n"
  by (simp add: touched_def)

lemma touched_up: "touched S x x' \<Longrightarrow> (a, n) \<notin> S \<Longrightarrow> up x' a n \<longleftrightarrow> up x a n"
  by (simp add: up_def touched_cont)

lemma touched_absent: "touched S x x' \<Longrightarrow> (a, n) \<notin> S \<Longrightarrow> absent x' a n \<longleftrightarrow> absent x a n"
  by (simp add: absent_def touched_cont)

text \<open>A triple that says only containers of \<open>S\<close> are touched, whatever the outcome, and \<open>Q\<close> of a result.\<close>

definition confined ::
  "('d \<Rightarrow> dview) \<Rightarrow> (string \<times> string) set \<Rightarrow> wview \<Rightarrow> ('d, 'k, 'e, 'a) wio \<Rightarrow> ('a \<Rightarrow> wview \<Rightarrow> bool) \<Rightarrow> bool" where
  "confined view S x m Q \<longleftrightarrow>
     vtriple (world_view view) x m (\<lambda>y x'. touched S x x' \<and> Q y x') (\<lambda>_ x'. touched S x x')"

lemma confined_bind:
  assumes "confined view S x m R" "\<And>y x'. touched S x x' \<Longrightarrow> R y x' \<Longrightarrow> confined view S x' (k y) Q"
  shows "confined view S x (bindIO m k) Q"
  unfolding confined_def
proof (rule vtriple_bind[OF assms(1)[unfolded confined_def]])
  fix y x'
  assume "touched S x x' \<and> R y x'"
  then have t: "touched S x x'" and "R y x'" by simp_all
  from assms(2)[OF this, unfolded confined_def]
  show "vtriple (world_view view) x' (k y) (\<lambda>y x'. touched S x x' \<and> Q y x') (\<lambda>_ x'. touched S x x')"
    by (rule vtriple_conseq) (auto intro: touched_trans[OF t])
qed

lemma confined_then:
  assumes "confined view S x m R" "\<And>y x'. touched S x x' \<Longrightarrow> R y x' \<Longrightarrow> confined view S x' k Q"
  shows "confined view S x (thenIO m k) Q"
  unfolding thenIO_def by (rule confined_bind[OF assms])

lemma confined_try:
  assumes "confined view S x m R" "\<And>e x'. touched S x x' \<Longrightarrow> confined view S x' (h e) Q"
    "\<And>y x'. touched S x x' \<Longrightarrow> R y x' \<Longrightarrow> confined view S x' (k y) Q"
  shows "confined view S x (tryIO m h k) Q"
  unfolding confined_def
proof (rule vtriple_try[OF assms(1)[unfolded confined_def]])
  fix e x'
  assume t: "touched S x x'"
  from assms(2)[OF this, unfolded confined_def]
  show "vtriple (world_view view) x' (h e) (\<lambda>y x'. touched S x x' \<and> Q y x') (\<lambda>_ x'. touched S x x')"
    by (rule vtriple_conseq) (auto intro: touched_trans[OF t])
next
  fix y x'
  assume "touched S x x' \<and> R y x'"
  then have t: "touched S x x'" and "R y x'" by simp_all
  from assms(3)[OF this, unfolded confined_def]
  show "vtriple (world_view view) x' (k y) (\<lambda>y x'. touched S x x' \<and> Q y x') (\<lambda>_ x'. touched S x x')"
    by (rule vtriple_conseq) (auto intro: touched_trans[OF t])
qed

lemma confined_ret: "Q y x \<Longrightarrow> confined view S x (retIO y) Q"
  by (simp add: confined_def vtriple_ret)

lemma confined_fail: "confined view S x (failIO e) Q"
  by (simp add: confined_def vtriple_fail)

lemma confined_wrap: "confined view S x m Q \<Longrightarrow> confined view S x (wrapIO s m) Q"
  unfolding confined_def by (rule vtriple_wrap)

lemma confined_conseq: "confined view S x m R \<Longrightarrow> S \<subseteq> T \<Longrightarrow> (\<And>y x'. touched S x x' \<Longrightarrow> R y x' \<Longrightarrow> Q y x') \<Longrightarrow> confined view T x m Q"
  unfolding confined_def by (erule vtriple_conseq) (auto intro: touched_mono)

lemma confined_getHost: "r < length (wv_hosts x) \<Longrightarrow> Q (wv_hosts x ! r) x \<Longrightarrow> confined view S x (getHost r) Q"
  unfolding confined_def by (rule vtriple_conseq[OF getHost_triple]) auto

lemma confined_onExt: "answers m \<Longrightarrow> confined view S x (onExt m) (\<lambda>_ x'. x' = x)"
  unfolding confined_def by (rule vtriple_conseq[OF onExt_triple]) auto

lemma confined_setHost:
  assumes "r < length (wv_hosts x)" "conn_eq (wv_hosts x ! r) (f (wv_hosts x ! r))"
  shows "confined view S x (setHost r f) (\<lambda>_ x'. x' = x\<lparr>wv_hosts := (wv_hosts x)[r := f (wv_hosts x ! r)]\<rparr>)"
  unfolding confined_def
  by (rule vtriple_conseq[OF setHost_triple[OF assms(1)]])
     (auto simp: touched_def list_all2_conv_all_nth nth_list_update assms)

lemma confined_ofSum: "(\<And>y. s = Inr y \<Longrightarrow> Q y x) \<Longrightarrow> confined view S x (ofSum s) Q"
  unfolding confined_def by (rule ofSum_triple) auto

lemma confined_getIO: "confined view S x (getIO f) (\<lambda>_ x'. x' = x)"
  by (auto simp: confined_def vtriple_def getIO_def)

subsection \<open>Factories and health checks\<close>

lemma ext_answersD:
  assumes "ext_answers x"
  shows "answers (ReadPassword x)" "answers (CustomFactoryCall x n b)" "answers (HTTPGet x d b u)" "answers (EtcdHealthGet x d b)"
    "answers (EtcdMemberAdd x b u)" "answers (EtcdMemberList x b)" "answers (EtcdMemberRemove x b u)"
  using assms unfolding ext_answers_def by blast+

lemma confined_keyText: "key_ok h \<Longrightarrow> confined view S x (keyText env h) (\<lambda>_ x'. x' = x)"
  unfolding keyText_def privateKeyPath_def key_ok_def Let_def by (auto intro!: confined_ret confined_getIO)

lemma confined_checkEncryptedKey:
  assumes "ext_answers (extAPI env)" "r < length (wv_hosts x)" "key_ok (wv_hosts x ! r)"
  shows "confined view S x (checkEncryptedKey env r) (\<lambda>_ _. True)"
proof -
  let ?h = "wv_hosts x ! r"
  have phrase: "confined view S x (bindIO (onExt (ReadPassword (extAPI env))) (\<lambda>p.
      thenIO (setHost r (\<lambda>h. h\<lparr>SavedKeyPhrase := p\<rparr>)) (retIO p))) (\<lambda>_ x'. True)"
    by (rule confined_bind[OF confined_onExt[OF ext_answersD(1)[OF assms(1)]]])
       (use assms(2) in \<open>auto intro!: confined_then[OF confined_setHost] confined_ret simp: conn_eq_def plain_host_def\<close>)
  have again: "confined view S x' (bindIO (keyText env ?h) (\<lambda>t. ofSum (f t))) (\<lambda>_ _. True)" for x' and f :: "string \<Rightarrow> gerror + signer"
    by (rule confined_bind[OF confined_keyText[OF assms(3)]]) (auto intro: confined_ofSum)
  show ?thesis
    unfolding checkEncryptedKey_def
    by (rule confined_bind[OF confined_getHost[where Q = "\<lambda>h x'. x' = x \<and> h = ?h", OF assms(2)]], simp)
       (auto intro!: confined_bind[OF confined_keyText[OF assms(3)]] confined_ret confined_fail
          confined_bind[OF phrase] confined_bind[OF confined_ret[where Q = "\<lambda>_ _. True"]] again split: sum.splits)
qed

lemma confined_runFactory:
  assumes "ext_answers (extAPI env)" "r < length (wv_hosts x)" "key_ok (wv_hosts x ! r)"
  shows "confined view S x (runFactory env f r) (\<lambda>_ _. True)"
proof (cases f)
  case (CustomFactory n)
  then show ?thesis
    by (auto intro!: confined_bind[OF confined_getHost[where Q = "\<lambda>_ _. True"]] assms(2)
        confined_conseq[OF confined_onExt[OF ext_answersD(2)[OF assms(1)]]])
qed (auto simp: runSSHFactory_def runLocalConnFactory_def runLocalHealthcheckFactory_def
      intro!: confined_bind[OF confined_wrap[OF confined_checkEncryptedKey[OF assms]]] confined_ret)

lemma confined_healthLoop:
  assumes "\<And>x. confined view S x m (\<lambda>_ _. True)"
  shows "confined view S x (healthLoop m n err) (\<lambda>_ _. True)"
proof (induction n arbitrary: x err)
  case 0
  then show ?case by (simp add: confined_fail)
next
  case (Suc n)
  then show ?case by (auto intro!: confined_try[OF assms] confined_ret)
qed

lemma confined_getHealthz:
  assumes "ext_answers (extAPI env)"
  shows "confined view S x (getHealthz env client useTLS serviceName hostAddress port) (\<lambda>_ _. True)"
  unfolding getHealthz_def Let_def
  by (rule confined_bind[OF confined_wrap[OF confined_onExt[OF ext_answersD(3)[OF assms]]]])
     (auto intro!: confined_fail confined_ret split: prod.splits)

lemma confined_runHealthcheck:
  assumes "ext_answers (extAPI env)" "ready x r a"
  shows "confined view S x (runHealthcheck env r port useTLS serviceName df) (\<lambda>_ _. True)"
proof -
  have r: "r < length (wv_hosts x)" and k: "key_ok (wv_hosts x ! r)" using assms(2) by (simp_all add: ready_def)
  let ?f = "\<lambda>h. h\<lparr>LocalConnPort := port\<rparr>"
  let ?x = "x\<lparr>wv_hosts := (wv_hosts x)[r := ?f (wv_hosts x ! r)]\<rparr>"
  have r': "r < length (wv_hosts ?x)" and k': "key_ok (wv_hosts ?x ! r)" using r k by (simp_all add: key_ok_def)
  have client: "confined view S x (getHealthCheckHTTPClient env r port df) (\<lambda>_ _. True)"
    unfolding getHealthCheckHTTPClient_def
  proof (rule confined_then[OF confined_setHost[OF r]])
    show "conn_eq (wv_hosts x ! r) (?f (wv_hosts x ! r))" by (simp add: conn_eq_def plain_host_def)
    fix y x'
    assume x': "x' = ?x"
    show "confined view S x' (bindIO (getHost r) (\<lambda>h. wrapIO (''Failed to create a dialer for host ['' @ Address h @ '']: '')
       (runFactory env (case df of None \<Rightarrow> LocalConnFactory | Some f \<Rightarrow> f) r))) (\<lambda>_ _. True)"
      unfolding x'
      by (rule confined_bind[OF confined_getHost[where Q = "\<lambda>_ x'. x' = ?x"]])
         (use r' k' in \<open>auto intro!: confined_wrap confined_runFactory assms(1)\<close>)
  qed
  show ?thesis
    unfolding runHealthcheck_def
    by (rule confined_bind[OF confined_getHost[where Q = "\<lambda>_ x'. x' = x"]])
       (auto intro!: r confined_try[OF client] confined_fail confined_healthLoop confined_getHealthz assms(1))
qed

subsection \<open>Starting and removing\<close>

lemma proper_service_names [simp]:
  "proper_name KubeAPIContainerName" "proper_name KubeletContainerName" "proper_name KubeproxyContainerName"
  "proper_name KubeControllerContainerName" "proper_name SchedulerContainerName" "proper_name EtcdContainerName"
  "proper_name NginxProxyContainerName" "proper_name SidekickContainerName"
  by (code_simp)+

lemma slots_simps: "(b, m) \<in> slots a ns \<longleftrightarrow> b = a \<and> (m \<in> set ns \<or> m \<in> old_name ` set ns)"
  by (auto simp: slots_def)

lemma only_named_touched:
  "only_named n (wv_docker x a) v' \<Longrightarrow> n \<in> set ns \<Longrightarrow> touched (slots a ns) x (set_daemon a v' x)"
  by (auto simp: touched_def only_named_def slots_simps list_all2_refl)

lemma confined_run:
  assumes "docker_laws (dockerAPI env) view" "DClient h = Some a" "proper_name n" "n \<in> set ns"
  shows "confined view (slots a ns) x (viaClient h (DoRunContainer (dockerAPI env) cfg hcfg n adr prs)) (\<lambda>_ x'. up x' a n)"
  unfolding confined_def
  by (rule vtriple_conseq[OF viaClient_triple[OF assms(2) run_triple[OF assms(1,3), of False]]])
     (auto simp: run_post_def up_def intro!: only_named_touched assms(4))

lemma confined_remove:
  assumes "docker_laws (dockerAPI env) view" "ready x r a" "proper_name n" "n \<in> set ns"
  shows "confined view (slots a ns) x (removeContainerOf env r n) (\<lambda>_ x'. absent x' a n)"
proof -
  have r: "r < length (wv_hosts x)" and c: "DClient (wv_hosts x ! r) = Some a" using assms(2) by (simp_all add: ready_def)
  have "confined view (slots a ns) x (viaClient h (DoRemoveContainer (dockerAPI env) n (Address h))) (\<lambda>_ x'. absent x' a n)"
    if "h = wv_hosts x ! r" for h
    unfolding confined_def
    by (rule vtriple_conseq[OF viaClient_triple[OF _ do_remove_triple[OF assms(1,3)]]])
       (use c that assms(4) in \<open>auto simp: absent_def touched_def slots_simps list_all2_refl\<close>)
  then show ?thesis
    unfolding removeContainerOf_def
    by (intro confined_bind[OF confined_getHost[where Q = "\<lambda>h x'. x' = x \<and> h = wv_hosts x ! r"]]) (auto intro: r)
qed

text \<open>The shape of every service start: run the container, then check its health.\<close>

lemma confined_start:
  assumes "docker_laws (dockerAPI env) view" "ext_answers (extAPI env)" "ready x r a" "proper_name n" "n \<in> set ns"
    "\<And>h. m h = thenIO (viaClient h (DoRunContainer (dockerAPI env) (cfg h) (hcfg h) n (Address h) prs)) (runHealthcheck env r port tls sn df)"
  shows "confined view (slots a ns) x (bindIO (getHost r) m) (\<lambda>_ x'. up x' a n)"
proof -
  have r: "r < length (wv_hosts x)" and c: "DClient (wv_hosts x ! r) = Some a" using assms(3) by (simp_all add: ready_def)
  have health: "confined view (slots a ns) x' (runHealthcheck env r port tls sn df) (\<lambda>_ x''. up x'' a n)"
    if "touched (slots a ns) x x'" "up x' a n" for x'
  proof -
    have "confined view {} x' (runHealthcheck env r port tls sn df) (\<lambda>_ _. True)"
      using confined_runHealthcheck[OF assms(2)] touched_ready[OF that(1) assms(3)] by blast
    then show ?thesis by (rule confined_conseq) (use that(2) in \<open>auto simp: touched_up\<close>)
  qed
  show ?thesis
    by (intro confined_bind[OF confined_getHost[where Q = "\<lambda>h x'. x' = x \<and> h = wv_hosts x ! r"]])
       (auto simp: assms(6) r intro!: confined_then[OF confined_run] health assms c)
qed

lemma getHosts_run:
  "\<forall>r \<in> set rs. r < length (hstore w) \<Longrightarrow> getHosts rs w = (Ret (map ((!) (hstore w)) rs), w)"
  by (induction rs) (auto simp: bindIO_def getHost_def retIO_def)

lemma getHosts_ret:
  "\<forall>r \<in> set rs. r < length (wv_hosts x) \<Longrightarrow> confined view S x (getHosts rs) (\<lambda>hs x'. x' = x \<and> hs = map ((!) (wv_hosts x)) rs)"
proof (induction rs)
  case Nil
  then show ?case by (simp add: confined_ret)
next
  case (Cons r rs)
  then show ?case
    by (auto intro!: confined_ret confined_bind[OF confined_getHost[where Q = "\<lambda>h x'. x' = x \<and> h = wv_hosts x ! r"]]
        confined_bind[OF Cons.IH])
qed

lemma confined_runSidekick:
  assumes "docker_laws (dockerAPI env) view" "ready x r a" "SidekickContainerName \<in> set ns"
  shows "confined view (slots a ns) x (runSidekick env r img prs) (\<lambda>_ x'. \<not> absent x' a SidekickContainerName)"
proof -
  let ?n = SidekickContainerName and ?h = "wv_hosts x ! r"
  have r: "r < length (wv_hosts x)" and c: "DClient ?h = Some a" using assms(2) by (simp_all add: ready_def)
  have running: "confined view (slots a ns) x (viaClient ?h (IsContainerRunning (dockerAPI env) (Address ?h) ?n True))
      (\<lambda>b x'. b \<longrightarrow> \<not> absent x' a ?n)"
    unfolding confined_def
    by (rule vtriple_conseq[OF viaClient_triple[OF c running_triple[OF assms(1)]]]) (auto simp: absent_def)
  have pull: "confined view (slots a ns) x' (viaClient ?h (UseLocalOrPull (dockerAPI env) (Address ?h) img prs)) (\<lambda>_ _. True)" for x'
    unfolding confined_def
    by (rule vtriple_conseq[OF viaClient_triple[OF c use_or_pull_triple[OF assms(1)]]]) (auto simp: touched_def list_all2_refl)
  have create: "confined view (slots a ns) x' (viaClient ?h (CreateContiner (dockerAPI env) (Address ?h) ?n cfg hcfg))
      (\<lambda>_ x'. \<not> absent x' a ?n)" for x' cfg hcfg
    unfolding confined_def CreateContiner_def
    by (rule vtriple_conseq[OF viaClient_triple[OF c vtriple_wrap[OF create_triple[OF assms(1)]]]])
       (use assms(3) in \<open>auto simp: absent_def touched_def slots_simps list_all2_refl elim!: create_relE\<close>)
  show ?thesis
    unfolding runSidekick_def buildSidekickConfig_def prod.case
    by (intro confined_bind[OF confined_getHost[where Q = "\<lambda>h x'. x' = x \<and> h = ?h"]])
       (auto simp: r intro!: confined_bind[OF running] confined_then[OF pull] confined_then[OF create] confined_ret)
qed

lemma confined_world:
  assumes "confined view S (world_view view w) m Q" "m w = (res, w')"
  shows "touched S (world_view view w) (world_view view w')" "res \<noteq> Panic s"
    "res = Ret y \<Longrightarrow> Q y (world_view view w')"
  using assms vtriple_Ret[OF assms(1)[unfolded confined_def], of _ w'] vtriple_Fail[OF assms(1)[unfolded confined_def], of _ w']
    vtriple_no_panic[OF assms(1)[unfolded confined_def], of _ w'] by (cases res; auto)+

lemma touched_world:
  "touched S (world_view view w) (world_view view w') \<longleftrightarrow> list_all2 conn_eq (hstore w) (hstore w') \<and>
     (\<forall>a m. (a, m) \<notin> S \<longrightarrow> conts (view (daemons w' a)) m = conts (view (daemons w a)) m)"
  by (simp add: touched_def world_view_def)

text \<open>
  The kubelet that runs is kept whatever its new configuration says: if its container is up, was made without a command
  and has the configured image, \<^verbatim>\<open>runKubelet\<close> changes no container at all, although the arguments it would now be
  started with (cluster domain, DNS server, extra arguments) are not those it was started with.
\<close>

theorem runKubelet_keeps_old_arguments:
  assumes "docker_laws (dockerAPI env) view" and "docker_steady (dockerAPI env) view" and "ext_answers (extAPI env)"
    and "ready (world_view view w) r a" and "conts (view (daemons w a)) KubeletContainerName = Some c"
    and "c_up c" and "c_image c = svc_Image kubeletService" and "c_cmd c = None"
  shows "case runKubelet env r kubeletService df prs w of (res, w') \<Rightarrow>
     (\<forall>s. res \<noteq> Panic s) \<and> (\<forall>b. conts (view (daemons w' b)) = conts (view (daemons w b)))"
proof -
  let ?x = "world_view view w"
  have r: "r < length (wv_hosts ?x)" and cl: "DClient (wv_hosts ?x ! r) = Some a" using assms(4) by (simp_all add: ready_def)
  have again: "confined view {} ?x (viaClient (wv_hosts ?x ! r) (DoRunContainer (dockerAPI env) cfg hcfg KubeletContainerName adr prs))
      (\<lambda>_ _. True)" if "Image cfg = svc_Image kubeletService" "Cmd cfg = None" for cfg hcfg adr
    unfolding confined_def
    by (rule vtriple_conseq[OF viaClient_triple[OF cl run_again_triple[OF assms(1,2)]]])
       (use assms(5-8) that in \<open>auto simp: world_view_def touched_def list_all2_refl\<close>)
  have "confined view {} ?x (runKubelet env r kubeletService df prs) (\<lambda>_ _. True)"
    unfolding runKubelet_def buildKubeletConfig_def Let_def prod.case
    by (intro confined_bind[OF confined_getHost[where Q = "\<lambda>h x'. x' = ?x \<and> h = wv_hosts ?x ! r"]])
       (auto simp: r ContainerConfig_zero_def intro!: confined_then[OF again] confined_runHealthcheck assms(3)
          intro: touched_ready[OF _ assms(4)])
  note t = confined_world[OF this]
  obtain res w' where run: "runKubelet env r kubeletService df prs w = (res, w')" by fastforce
  from t(1)[OF run] t(2)[OF run] run show ?thesis by (auto simp: touched_world)
qed

definition demo_kubelet :: "(sim, sim_kube, sim_ext) world" where
  "demo_kubelet = (sim_world [sim_host ''10.0.0.1''])\<lparr>daemons :=
     (\<lambda>a. ([(''kubelet'', \<lparr>c_id = ''ab'', c_up = True, c_image = ''rancher/k8s:v1.8.9'', c_cmd = None\<rparr>)], []))\<rparr>"

definition demo_kubelet_service :: KubeletService where
  "demo_kubelet_service = \<lparr>svc_Image = ''rancher/k8s:v1.8.9'', svc_ExtraArgs = [(''max-pods'', ''10'')], let_ClusterDomain = ''cluster.local'',
     let_InfraContainerImage = ''pause'', let_ClusterDNSServer = ''10.43.0.10'', let_FailSwapOn = False\<rparr>"

theorem runKubelet_keeps_old_arguments_witness:
  "case runKubelet sim_env 0 demo_kubelet_service None [] demo_kubelet of (res, w') \<Rightarrow>
     (\<forall>s. res \<noteq> Panic s) \<and> (\<forall>b. conts (sim_view (daemons w' b)) = conts (sim_view (daemons demo_kubelet b)))"
proof (rule runKubelet_keeps_old_arguments)
  show "docker_laws (dockerAPI sim_env) sim_view" "docker_steady (dockerAPI sim_env) sim_view" "ext_answers (extAPI sim_env)"
    by (simp_all add: sim_docker_laws sim_docker_steady sim_ext_answers)
  show "ready (world_view sim_view demo_kubelet) 0 ''10.0.0.1''"
    by (simp add: ready_def world_view_def demo_kubelet_def sim_world_def sim_host_def key_ok_def)
  show "conts (sim_view (daemons demo_kubelet ''10.0.0.1'')) KubeletContainerName =
      Some \<lparr>c_id = ''ab'', c_up = True, c_image = ''rancher/k8s:v1.8.9'', c_cmd = None\<rparr>"
    by (simp add: demo_kubelet_def sim_view_def norm_def sim_wf_def is_hex_def KubeletContainerName_def)
qed (simp_all add: demo_kubelet_service_def)

end
