(* ===== verification/Cluster_Config.thy ===== *)
theory Cluster_Config
  imports Services
begin

text \<open>
  From the configuration to a cluster: the defaults of \<^verbatim>\<open>cluster/defaults.go\<close>, the checks of \<^verbatim>\<open>cluster/validation.go\<close>, the
  classification of hosts by role of \<^verbatim>\<open>cluster/hosts.go\<close>, \<open>ParseCluster\<close> of \<^verbatim>\<open>cluster/cluster.go\<close> and the local
  configuration of \<^verbatim>\<open>cluster/local.go\<close>.

  \<open>ParseCluster\<close> copies the configuration struct, but not the slice of nodes nor the map of network options in it: the
  defaults written to them are seen by the caller, and the cluster state that is saved later has them.  The model returns the
  caller's configuration as it is afterwards beside the cluster.
\<close>

section \<open>Constants\<close>

definition DefaultClusterConfig :: string where "DefaultClusterConfig = ''cluster.yml''"
definition DefaultServiceClusterIPRange :: string where "DefaultServiceClusterIPRange = ''10.233.0.0/18''"
definition DefaultClusterCIDR :: string where "DefaultClusterCIDR = ''10.233.64.0/18''"
definition DefaultClusterDNSService :: string where "DefaultClusterDNSService = ''10.233.0.3''"
definition DefaultClusterDomain :: string where "DefaultClusterDomain = ''cluster.local''"
definition DefaultClusterSSHKeyPath :: string where "DefaultClusterSSHKeyPath = ''~/.ssh/id_rsa''"
definition DefaultDockerSockPath :: string where "DefaultDockerSockPath = ''/var/run/docker.sock''"
definition DefaultAuthStrategy :: string where "DefaultAuthStrategy = ''x509''"
definition DefaultAuthorizationMode :: string where "DefaultAuthorizationMode = ''rbac''"
definition DefaultNetworkPlugin :: string where "DefaultNetworkPlugin = ''flannel''"
definition DefaultNetworkCloudProvider :: string where "DefaultNetworkCloudProvider = ''none''"
definition DefaultInfraContainerImage :: string where "DefaultInfraContainerImage = ''rancher/pause-amd64:3.0''"
definition DefaultAplineImage :: string where "DefaultAplineImage = ''alpine:latest''"
definition DefaultNginxProxyImage :: string where "DefaultNginxProxyImage = ''rancher/rke-nginx-proxy:v0.1.1''"
definition DefaultCertDownloaderImage :: string where "DefaultCertDownloaderImage = ''rancher/rke-cert-deployer:v0.1.1''"
definition DefaultKubernetesServicesSidecarImage :: string where "DefaultKubernetesServicesSidecarImage = ''rancher/rke-service-sidekick:v0.1.0''"
definition DefaultIngressController :: string where "DefaultIngressController = ''nginx''"
definition DefaultEtcdImage :: string where "DefaultEtcdImage = ''rancher/etcd:v3.0.17''"
definition DefaultK8sImage :: string where "DefaultK8sImage = ''rancher/k8s:v1.8.7-rancher1-1''"
definition DefaultFlannelImage :: string where "DefaultFlannelImage = ''rancher/coreos-flannel:v0.9.1''"
definition DefaultFlannelCNIImage :: string where "DefaultFlannelCNIImage = ''rancher/coreos-flannel-cni:v0.2.0''"
definition DefaultCalicoNodeImage :: string where "DefaultCalicoNodeImage = ''rancher/calico-node:v2.6.2''"
definition DefaultCalicoCNIImage :: string where "DefaultCalicoCNIImage = ''rancher/calico-cni:v1.11.0''"
definition DefaultCalicoControllersImage :: string where "DefaultCalicoControllersImage = ''rancher/calico-kube-controllers:v1.0.0''"
definition DefaultCalicoctlImage :: string where "DefaultCalicoctlImage = ''rancher/calico-ctl:v1.6.2''"
definition DefaultWeaveImage :: string where "DefaultWeaveImage = ''weaveworks/weave-kube:2.1.2''"
definition DefaultWeaveCNIImage :: string where "DefaultWeaveCNIImage = ''weaveworks/weave-npc:2.1.2''"
definition DefaultCanalNodeImage :: string where "DefaultCanalNodeImage = ''rancher/calico-node:v2.6.2''"
definition DefaultCanalCNIImage :: string where "DefaultCanalCNIImage = ''rancher/calico-cni:v1.11.0''"
definition DefaultCanalFlannelImage :: string where "DefaultCanalFlannelImage = ''rancher/coreos-flannel:v0.9.1''"
definition DefaultKubeDNSImage :: string where "DefaultKubeDNSImage = ''rancher/k8s-dns-kube-dns-amd64:1.14.5''"
definition DefaultDNSmasqImage :: string where "DefaultDNSmasqImage = ''rancher/k8s-dns-dnsmasq-nanny-amd64:1.14.5''"
definition DefaultKubeDNSSidecarImage :: string where "DefaultKubeDNSSidecarImage = ''rancher/k8s-dns-sidecar-amd64:1.14.5''"
definition DefaultKubeDNSAutoScalerImage :: string where "DefaultKubeDNSAutoScalerImage = ''rancher/cluster-proportional-autoscaler-amd64:1.0.0''"

definition X509AuthenticationProvider :: string where "X509AuthenticationProvider = ''x509''"
definition StateConfigMapName :: string where "StateConfigMapName = ''cluster-state''"
definition NoneAuthorizationMode :: string where "NoneAuthorizationMode = ''none''"
definition LocalNodeAddress :: string where "LocalNodeAddress = ''127.0.0.1''"
definition LocalNodeHostname :: string where "LocalNodeHostname = ''localhost''"
definition LocalNodeUser :: string where "LocalNodeUser = ''root''"

definition FlannelNetworkPlugin :: string where "FlannelNetworkPlugin = ''flannel''"
definition CalicoNetworkPlugin :: string where "CalicoNetworkPlugin = ''calico''"
definition CanalNetworkPlugin :: string where "CanalNetworkPlugin = ''canal''"
definition WeaveNetworkPlugin :: string where "WeaveNetworkPlugin = ''weave''"
definition CalicoCloudProvider :: string where "CalicoCloudProvider = ''calico_cloud_provider''"

definition etcdRoleLabel :: string where "etcdRoleLabel = ''node-role.kubernetes.io/etcd''"
definition masterRoleLabel :: string where "masterRoleLabel = ''node-role.kubernetes.io/master''"
definition workerRoleLabel :: string where "workerRoleLabel = ''node-role.kubernetes.io/worker''"

section \<open>Defaults\<close>

definition setDefaultIfEmptyMapValue :: "string gomap \<Rightarrow> string \<Rightarrow> string \<Rightarrow> string gomap" where
  "setDefaultIfEmptyMapValue configMap key val = (if mget configMap key = None then mput key val configMap else configMap)"

definition setDefaultIfEmpty :: "string \<Rightarrow> string \<Rightarrow> string" where
  "setDefaultIfEmpty var defaultValue = (if var = [] then defaultValue else var)"

definition setClusterImageDefaults :: "Cluster \<Rightarrow> Cluster" where
  "setClusterImageDefaults c = c\<lparr>SystemImages := (let i = SystemImages c in \<lparr>
     img_Etcd = setDefaultIfEmpty (img_Etcd i) DefaultEtcdImage,
     img_Alpine = setDefaultIfEmpty (img_Alpine i) DefaultAplineImage,
     img_NginxProxy = setDefaultIfEmpty (img_NginxProxy i) DefaultNginxProxyImage,
     img_CertDownloader = setDefaultIfEmpty (img_CertDownloader i) DefaultCertDownloaderImage,
     img_KubernetesServicesSidecar = setDefaultIfEmpty (img_KubernetesServicesSidecar i) DefaultKubernetesServicesSidecarImage,
     img_KubeDNS = setDefaultIfEmpty (img_KubeDNS i) DefaultKubeDNSImage,
     img_DNSmasq = setDefaultIfEmpty (img_DNSmasq i) DefaultDNSmasqImage,
     img_KubeDNSSidecar = setDefaultIfEmpty (img_KubeDNSSidecar i) DefaultKubeDNSSidecarImage,
     img_KubeDNSAutoscaler = setDefaultIfEmpty (img_KubeDNSAutoscaler i) DefaultKubeDNSAutoScalerImage,
     img_Kubernetes = setDefaultIfEmpty (img_Kubernetes i) DefaultK8sImage,
     img_Flannel = setDefaultIfEmpty (img_Flannel i) DefaultFlannelImage,
     img_FlannelCNI = setDefaultIfEmpty (img_FlannelCNI i) DefaultFlannelCNIImage,
     img_CalicoNode = setDefaultIfEmpty (img_CalicoNode i) DefaultCalicoNodeImage,
     img_CalicoCNI = setDefaultIfEmpty (img_CalicoCNI i) DefaultCalicoCNIImage,
     img_CalicoControllers = setDefaultIfEmpty (img_CalicoControllers i) DefaultCalicoControllersImage,
     img_CalicoCtl = setDefaultIfEmpty (img_CalicoCtl i) DefaultCalicoctlImage,
     img_CanalNode = setDefaultIfEmpty (img_CanalNode i) DefaultCanalNodeImage,
     img_CanalCNI = setDefaultIfEmpty (img_CanalCNI i) DefaultCanalCNIImage,
     img_CanalFlannel = setDefaultIfEmpty (img_CanalFlannel i) DefaultCanalFlannelImage,
     img_WeaveNode = setDefaultIfEmpty (img_WeaveNode i) DefaultWeaveImage,
     img_WeaveCNI = setDefaultIfEmpty (img_WeaveCNI i) DefaultWeaveCNIImage,
     img_PodInfraContainer = setDefaultIfEmpty (img_PodInfraContainer i) DefaultInfraContainerImage\<rparr>)\<rparr>"

text \<open>\<^verbatim>\<open>reference.TrimNamed\<close> and \<^verbatim>\<open>reference.WithTag\<close>; a tag is matched by \<^verbatim>\<open>[\w][\w.-]{0,127}\<close>.\<close>

definition TrimNamed :: "Named \<Rightarrow> Named" where
  "TrimNamed r = r\<lparr>ref_tag := [], ref_digest := []\<rparr>"

definition word_char :: "char \<Rightarrow> bool" where
  "word_char c \<longleftrightarrow> (let n = (of_char c :: nat) in 48 \<le> n \<and> n \<le> 57 \<or> 65 \<le> n \<and> n \<le> 90 \<or> 97 \<le> n \<and> n \<le> 122 \<or> n = 95)"

definition valid_tag :: "string \<Rightarrow> bool" where
  "valid_tag s \<longleftrightarrow> (case s of [] \<Rightarrow> False | c # cs \<Rightarrow>
     word_char c \<and> list_all (\<lambda>d. word_char d \<or> d = CHR ''.'' \<or> d = CHR ''-'') cs \<and> length cs \<le> 127)"

definition WithTag :: "Named \<Rightarrow> string \<Rightarrow> gerror + Named" where
  "WithTag r tag = (if valid_tag tag then Inr (r\<lparr>ref_tag := tag\<rparr>) else Inl (errorf ''invalid tag format''))"

text \<open>The errors of the parser are dropped, and a method of the nil reference they come with is called: a panic.\<close>

definition orNil :: "gerror + 'a \<Rightarrow> ('w, 'a) io" where
  "orNil x = (case x of Inl _ \<Rightarrow> panicIO ''nil pointer dereference'' | Inr y \<Rightarrow> retIO y)"

definition setClusterKubernetesImageVersion :: "'d docker_api \<Rightarrow> Cluster \<Rightarrow> ('w, Cluster) io" where
  "setClusterKubernetesImageVersion api c =
     (let k8sImageNamed = ParseNormalizedNamed api (img_Kubernetes (SystemImages c)) in
      bindIO (if Version c \<noteq> []
              then bindIO (orNil k8sImageNamed) (\<lambda>n.
                   bindIO (orNil (WithTag (TrimNamed n) (Version c))) (\<lambda>v.
                     retIO (c\<lparr>SystemImages := (SystemImages c)\<lparr>img_Kubernetes := ref_String v\<rparr>\<rparr>)))
              else retIO c) (\<lambda>c'.
      bindIO (orNil (ParseNormalizedNamed api (img_Kubernetes (SystemImages c')))) (\<lambda>_.
      bindIO (orNil k8sImageNamed) (\<lambda>_. retIO c'))))"

definition setClusterServicesDefaults :: "Cluster \<Rightarrow> Cluster" where
  "setClusterServicesDefaults c =
     (let s = Services c; k8s = img_Kubernetes (SystemImages c);
          api = KubeAPI s; ctl = KubeController s; kubelet = Kubelet s in
      c\<lparr>Services := \<lparr>
          Etcd = (Etcd s)\<lparr>svc_Image := setDefaultIfEmpty (svc_Image (Etcd s)) (img_Etcd (SystemImages c))\<rparr>,
          KubeAPI = api\<lparr>svc_Image := setDefaultIfEmpty (svc_Image api) k8s,
             api_ServiceClusterIPRange := setDefaultIfEmpty (api_ServiceClusterIPRange api) DefaultServiceClusterIPRange\<rparr>,
          KubeController = ctl\<lparr>svc_Image := setDefaultIfEmpty (svc_Image ctl) k8s,
             ctl_ServiceClusterIPRange := setDefaultIfEmpty (ctl_ServiceClusterIPRange ctl) DefaultServiceClusterIPRange,
             ctl_ClusterCIDR := setDefaultIfEmpty (ctl_ClusterCIDR ctl) DefaultClusterCIDR\<rparr>,
          Scheduler = (Scheduler s)\<lparr>svc_Image := setDefaultIfEmpty (svc_Image (Scheduler s)) k8s\<rparr>,
          Kubelet = kubelet\<lparr>svc_Image := setDefaultIfEmpty (svc_Image kubelet) k8s,
             let_ClusterDNSServer := setDefaultIfEmpty (let_ClusterDNSServer kubelet) DefaultClusterDNSService,
             let_ClusterDomain := setDefaultIfEmpty (let_ClusterDomain kubelet) DefaultClusterDomain,
             let_InfraContainerImage := setDefaultIfEmpty (let_InfraContainerImage kubelet) (img_PodInfraContainer (SystemImages c))\<rparr>,
          Kubeproxy = (Kubeproxy s)\<lparr>svc_Image := setDefaultIfEmpty (svc_Image (Kubeproxy s)) k8s\<rparr>\<rparr>,
        Authentication := (Authentication c)\<lparr>authn_Strategy := setDefaultIfEmpty (authn_Strategy (Authentication c)) DefaultAuthStrategy\<rparr>\<rparr>)"

definition setClusterNetworkDefaults :: "Cluster \<Rightarrow> Cluster" where
  "setClusterNetworkDefaults c =
     (let plugin = setDefaultIfEmpty (net_Plugin (Network c)) DefaultNetworkPlugin;
          options = (case net_Options (Network c) of None \<Rightarrow> [] | Some m \<Rightarrow> m)
      in c\<lparr>Network := (Network c)\<lparr>net_Plugin := plugin, net_Options := Some
           (if plugin = CalicoNetworkPlugin
            then setDefaultIfEmptyMapValue options CalicoCloudProvider DefaultNetworkCloudProvider else options)\<rparr>\<rparr>)"

definition nodeDefaults :: "string \<Rightarrow> RKEConfigNode \<Rightarrow> RKEConfigNode" where
  "nodeDefaults sshKeyPath n = n\<lparr>
     InternalAddress := if InternalAddress n = [] then Address n else InternalAddress n,
     HostnameOverride := if HostnameOverride n = [] then Address n else HostnameOverride n,
     node_SSHKeyPath := if node_SSHKeyPath n = [] then sshKeyPath else node_SSHKeyPath n\<rparr>"

text \<open>The part of \<^verbatim>\<open>setClusterDefaults\<close> before the calls.\<close>

definition setOwnDefaults :: "Cluster \<Rightarrow> Cluster" where
  "setOwnDefaults c =
     (let key = (if SSHKeyPath c = [] then DefaultClusterSSHKeyPath else SSHKeyPath c);
          mode = (if authz_Mode (Authorization c) = [] then DefaultAuthorizationMode else authz_Mode (Authorization c));
          psp = (api_PodSecurityPolicy (KubeAPI (Services c)) \<and> mode = RBACAuthorizationMode)
      in c\<lparr>SSHKeyPath := key, Nodes := map (nodeDefaults key) (Nodes c),
           Authorization := (Authorization c)\<lparr>authz_Mode := mode\<rparr>,
           Services := (Services c)\<lparr>KubeAPI := (KubeAPI (Services c))\<lparr>api_PodSecurityPolicy := psp\<rparr>\<rparr>,
           Ingress := (Ingress c)\<lparr>ing_Provider := if ing_Provider (Ingress c) = [] then DefaultIngressController
                                                    else ing_Provider (Ingress c)\<rparr>\<rparr>)"

definition setClusterDefaults :: "'d docker_api \<Rightarrow> Cluster \<Rightarrow> ('w, Cluster) io" where
  "setClusterDefaults api c =
     bindIO (setClusterKubernetesImageVersion api (setClusterImageDefaults (setOwnDefaults c))) (\<lambda>c'.
       retIO (setClusterNetworkDefaults (setClusterServicesDefaults c')))"

section \<open>Classifying hosts\<close>

text \<open>\<open>&newHost\<close> of a loop's own variable: a new object.\<close>

definition newHost :: "Host \<Rightarrow> ('d, 'k, 'e, hostref) wio" where
  "newHost h w = (Ret (length (hstore w)), w\<lparr>hstore := hstore w @ [h]\<rparr>)"

definition hostOf :: "bool \<Rightarrow> RKEConfigNode \<Rightarrow> Host" where
  "hostOf ignore n = RKEConfigNode.extend n \<lparr>DClient = None, LocalConnPort = 0, IsControl = False, IsWorker = False, IsEtcd = False,
     IgnoreDockerVersion = ignore, ToAddEtcdMember = False, ExistingEtcdCluster = False, SavedKeyPhrase = [],
     ToAddLabels = fold (\<lambda>(k, v). mput k v) (node_Labels n) [], ToDelLabels = [], ToAddTaints = [], ToDelTaints = []\<rparr>"

text \<open>
  The switch over a role; \<open>r\<close> is the address of the new host, whose fields are set while the lists
  already point to it.
\<close>

definition invertRole :: "hostref \<Rightarrow> string \<Rightarrow> Host \<times> Cluster \<Rightarrow> ('w, Host \<times> Cluster) io" where
  "invertRole r role hc = (case hc of (h, c) \<Rightarrow>
     if role = ETCDRole then
       retIO (h\<lparr>IsEtcd := True, ToAddLabels := mput etcdRoleLabel ''true'' (ToAddLabels h)\<rparr>, c\<lparr>EtcdHosts := EtcdHosts c @ [r]\<rparr>)
     else if role = ControlRole then
       retIO (h\<lparr>IsControl := True, ToAddLabels := mput masterRoleLabel ''true'' (ToAddLabels h)\<rparr>,
              c\<lparr>ControlPlaneHosts := ControlPlaneHosts c @ [r]\<rparr>)
     else if role = WorkerRole then
       retIO (h\<lparr>IsWorker := True, ToAddLabels := mput workerRoleLabel ''true'' (ToAddLabels h)\<rparr>, c\<lparr>WorkerHosts := WorkerHosts c @ [r]\<rparr>)
     else failIO (errorf (''Failed to recognize host ['' @ Address h @ ''] role '' @ role)))"

definition delRoleLabels :: "Host \<Rightarrow> Host" where
  "delRoleLabels h =
     (let d1 = (if \<not> IsEtcd h then mput etcdRoleLabel ''true'' (ToDelLabels h) else ToDelLabels h);
          d2 = (if \<not> IsControl h then mput masterRoleLabel ''true'' d1 else d1);
          d3 = (if \<not> IsWorker h then mput workerRoleLabel ''true'' d2 else d2)
      in h\<lparr>ToDelLabels := d3\<rparr>)"

definition invertNode :: "RKEConfigNode \<Rightarrow> Cluster \<Rightarrow> ('d, 'k, 'e, Cluster) wio" where
  "invertNode n c =
     bindIO (getIO (\<lambda>w. length (hstore w))) (\<lambda>r.
     bindIO (foldIO (invertRole r) (Role n) (hostOf (cfg_IgnoreDockerVersion c) n, c)) (\<lambda>(h, c').
     thenIO (newHost (delRoleLabels h)) (retIO c')))"

definition InvertIndexHosts :: "Cluster \<Rightarrow> ('d, 'k, 'e, Cluster) wio" where
  "InvertIndexHosts c = foldIO invertNode (Nodes c) (c\<lparr>EtcdHosts := [], WorkerHosts := [], ControlPlaneHosts := []\<rparr>)"

section \<open>Validation\<close>

definition validateAuthOptions :: "Cluster \<Rightarrow> ('w, unit) io" where
  "validateAuthOptions c =
     (if authn_Strategy (Authentication c) \<noteq> DefaultAuthStrategy
      then failIO (errorf (''Authentication strategy ['' @ authn_Strategy (Authentication c) @ ''] is not supported''))
      else retIO ())"

definition validateNetworkOptions :: "Cluster \<Rightarrow> ('w, unit) io" where
  "validateNetworkOptions c =
     (let p = net_Plugin (Network c) in
      if p \<noteq> FlannelNetworkPlugin \<and> p \<noteq> CalicoNetworkPlugin \<and> p \<noteq> CanalNetworkPlugin \<and> p \<noteq> WeaveNetworkPlugin
      then failIO (errorf (''Network plugin ['' @ p @ ''] is not supported'')) else retIO ())"

fun validateRoles :: "nat \<Rightarrow> string list \<Rightarrow> ('w, unit) io" where
  "validateRoles i [] = retIO ()"
| "validateRoles i (role # roles) =
     (if role \<noteq> ETCDRole \<and> role \<noteq> ControlRole \<and> role \<noteq> WorkerRole
      then failIO (errorf (''Role ['' @ role @ ''] for host ('' @ show_nat (i + 1) @ '') is not recognized''))
      else validateRoles i roles)"

fun validateNodes :: "nat \<Rightarrow> RKEConfigNode list \<Rightarrow> ('w, unit) io" where
  "validateNodes i [] = retIO ()"
| "validateNodes i (host # hosts) =
     (if Address host = [] then failIO (errorf (''User for host ('' @ show_nat (i + 1) @ '') is not provided''))
      else if node_User host = [] then failIO (errorf (''User for host ('' @ show_nat (i + 1) @ '') is not provided''))
      else if Role host = [] then failIO (errorf (''Role for host ('' @ show_nat (i + 1) @ '') is not provided''))
      else thenIO (validateRoles i (Role host)) (validateNodes (Suc i) hosts))"

definition validateHostsOptions :: "Cluster \<Rightarrow> ('w, unit) io" where
  "validateHostsOptions c = validateNodes 0 (Nodes c)"

definition servicesOptions :: "Cluster \<Rightarrow> string gomap" where
  "servicesOptions c = (let s = Services c in
    [(''etcd_image'', svc_Image (Etcd s)),
     (''kube_api_image'', svc_Image (KubeAPI s)),
     (''kube_api_service_cluster_ip_range'', api_ServiceClusterIPRange (KubeAPI s)),
     (''kube_controller_image'', svc_Image (KubeController s)),
     (''kube_controller_service_cluster_ip_range'', ctl_ServiceClusterIPRange (KubeController s)),
     (''kube_controller_cluster_cidr'', ctl_ClusterCIDR (KubeController s)),
     (''scheduler_image'', svc_Image (Scheduler s)),
     (''kubelet_image'', svc_Image (Kubelet s)),
     (''kubelet_cluster_dns_service'', let_ClusterDNSServer (Kubelet s)),
     (''kubelet_cluster_domain'', let_ClusterDomain (Kubelet s)),
     (''kubelet_infra_container_image'', let_InfraContainerImage (Kubelet s)),
     (''kubeproxy_image'', svc_Image (Kubeproxy s))])"

definition validateServicesOptions :: "Cluster \<Rightarrow> ('w, unit) io" where
  "validateServicesOptions c =
     forIO (\<lambda>(optionName, optionValue).
       if optionValue = [] then failIO (errorf (join_with '' '' (split_on CHR ''_'' optionName) @ '' can't be empty''))
       else retIO ()) (servicesOptions c)"

definition validateIngressOptions :: "Cluster \<Rightarrow> ('w, unit) io" where
  "validateIngressOptions c =
     (if ing_Provider (Ingress c) \<noteq> DefaultIngressController \<and> ing_Provider (Ingress c) \<noteq> ''none''
      then failIO (errorf (''Ingress controller '' @ ing_Provider (Ingress c) @ '' is incorrect'')) else retIO ())"

definition ValidateCluster :: "Cluster \<Rightarrow> ('w, unit) io" where
  "ValidateCluster c =
     (if ControlPlaneHosts c = [] then failIO (errorf ''Cluster must have at least one control plane host'')
      else if EtcdHosts c = [] then failIO (errorf ''Cluster must have at least one etcd plane host'')
      else thenIO (validateHostsOptions c) (thenIO (validateAuthOptions c) (thenIO (validateNetworkOptions c)
          (thenIO (validateIngressOptions c) (validateServicesOptions c)))))"

section \<open>Parsing\<close>

definition ParseConfig :: "('d, 'k, 'e) env \<Rightarrow> string \<Rightarrow> ('w, RancherKubernetesEngineConfig) io" where
  "ParseConfig env clusterFile = ofSum (YamlUnmarshal env clusterFile)"

definition GetLocalKubeConfig :: "string \<Rightarrow> string \<Rightarrow> string" where
  "GetLocalKubeConfig configPath configDir =
     (let baseDir = (if configDir \<noteq> [] then path_Dir configDir else path_Dir configPath)
      in baseDir @ ''/'' @ KubeAdminConfigPrefix @ path_Base configPath)"

definition registriesMap :: "PrivateRegistry list \<Rightarrow> PrivateRegistry gomap \<Rightarrow> PrivateRegistry gomap" where
  "registriesMap prs m =
     fold (\<lambda>pr. let pr' = (if pr_URL pr = [] then pr\<lparr>pr_URL := DockerRegistryURL\<rparr> else pr) in mput (pr_URL pr') pr') prs m"

definition clusterOf ::
  "RancherKubernetesEngineConfig \<Rightarrow> string \<Rightarrow> DialerFactory option \<Rightarrow> DialerFactory option \<Rightarrow> Cluster" where
  "clusterOf rkeConfig clusterFilePath dockerDialerFactory localConnDialerFactory =
     RancherKubernetesEngineConfig.extend rkeConfig \<lparr>cl_ConfigPath = clusterFilePath, LocalKubeConfigPath = [], EtcdHosts = [],
       WorkerHosts = [], ControlPlaneHosts = [], KubernetesServiceIP = None, Certificates = None, ClusterDomain = [],
       ClusterCIDR = [], ClusterDNSServer = [], DockerDialerFactory = dockerDialerFactory,
       LocalConnDialerFactory = localConnDialerFactory, PrivateRegistriesMap = []\<rparr>"

text \<open>The caller's configuration afterwards: the nodes and, unless it was nil, the map of network options are shared.\<close>

definition callerConfig :: "RancherKubernetesEngineConfig \<Rightarrow> Cluster \<Rightarrow> RancherKubernetesEngineConfig" where
  "callerConfig rkeConfig c = rkeConfig\<lparr>Nodes := Nodes c,
     Network := (Network rkeConfig)\<lparr>net_Options := (case net_Options (Network rkeConfig) of None \<Rightarrow> None
        | Some _ \<Rightarrow> net_Options (Network c))\<rparr>\<rparr>"

definition finishCluster :: "string \<Rightarrow> ip option \<Rightarrow> Cluster \<Rightarrow> Cluster" where
  "finishCluster configDir serviceIP c =
     (let path = (if cl_ConfigPath c = [] then DefaultClusterConfig else cl_ConfigPath c)
      in c\<lparr>KubernetesServiceIP := serviceIP, ClusterDomain := let_ClusterDomain (Kubelet (Services c)),
           ClusterCIDR := ctl_ClusterCIDR (KubeController (Services c)),
           ClusterDNSServer := let_ClusterDNSServer (Kubelet (Services c)),
           cl_ConfigPath := path, LocalKubeConfigPath := GetLocalKubeConfig path configDir,
           PrivateRegistriesMap := registriesMap (PrivateRegistries c) (PrivateRegistriesMap c)\<rparr>)"

definition ParseCluster ::
  "('d, 'k, 'e) env \<Rightarrow> RancherKubernetesEngineConfig \<Rightarrow> string \<Rightarrow> string \<Rightarrow> DialerFactory option \<Rightarrow> DialerFactory option \<Rightarrow>
     ('d, 'k, 'e, Cluster \<times> RancherKubernetesEngineConfig) wio" where
  "ParseCluster env rkeConfig clusterFilePath configDir dockerDialerFactory localConnDialerFactory =
     bindIO (setClusterDefaults (dockerAPI env) (clusterOf rkeConfig clusterFilePath dockerDialerFactory localConnDialerFactory)) (\<lambda>c0.
     bindIO (wrapIO ''Failed to classify hosts from config file: '' (InvertIndexHosts c0)) (\<lambda>c1.
     thenIO (wrapIO ''Failed to validate cluster: '' (ValidateCluster c1))
    (bindIO (wrapIO ''Failed to get Kubernetes Service IP: ''
        (ofSum (GetKubernetesServiceIP (api_ServiceClusterIPRange (KubeAPI (Services c1)))))) (\<lambda>ip.
       retIO (finishCluster configDir ip c1, callerConfig rkeConfig c1)))))"

section \<open>The local cluster\<close>

definition BaseService_zero :: BaseService where
  "BaseService_zero = \<lparr>svc_Image = [], svc_ExtraArgs = []\<rparr>"

definition RKEConfigServices_zero :: RKEConfigServices where
  "RKEConfigServices_zero = \<lparr>Etcd = BaseService_zero,
     KubeAPI = BaseService.extend BaseService_zero \<lparr>api_ServiceClusterIPRange = [], api_PodSecurityPolicy = False\<rparr>,
     KubeController = BaseService.extend BaseService_zero \<lparr>ctl_ClusterCIDR = [], ctl_ServiceClusterIPRange = []\<rparr>,
     Scheduler = BaseService_zero,
     Kubelet = BaseService.extend BaseService_zero \<lparr>let_ClusterDomain = [], let_InfraContainerImage = [],
       let_ClusterDNSServer = [], let_FailSwapOn = False\<rparr>,
     Kubeproxy = BaseService_zero\<rparr>"

definition RKEConfigNode_zero :: RKEConfigNode where
  "RKEConfigNode_zero = \<lparr>MachineName = [], Address = [], InternalAddress = [], Role = [], HostnameOverride = [], node_User = [],
     DockerSocket = [], SSHKey = [], node_SSHKeyPath = [], node_Labels = []\<rparr>"

definition RKESystemImages_zero :: RKESystemImages where
  "RKESystemImages_zero = \<lparr>img_Etcd = [], img_Alpine = [], img_NginxProxy = [], img_CertDownloader = [],
     img_KubernetesServicesSidecar = [], img_KubeDNS = [], img_DNSmasq = [], img_KubeDNSSidecar = [], img_KubeDNSAutoscaler = [],
     img_Kubernetes = [], img_Flannel = [], img_FlannelCNI = [], img_CalicoNode = [], img_CalicoCNI = [], img_CalicoControllers = [],
     img_CalicoCtl = [], img_CanalNode = [], img_CanalCNI = [], img_CanalFlannel = [], img_WeaveNode = [], img_WeaveCNI = [],
     img_PodInfraContainer = []\<rparr>"

definition RancherKubernetesEngineConfig_zero :: RancherKubernetesEngineConfig where
  "RancherKubernetesEngineConfig_zero = \<lparr>Nodes = [], Services = RKEConfigServices_zero,
     Network = \<lparr>net_Plugin = [], net_Options = None\<rparr>, Authentication = \<lparr>authn_Strategy = [], authn_Options = []\<rparr>, Addons = [],
     SystemImages = RKESystemImages_zero, SSHKeyPath = [], Authorization = \<lparr>authz_Mode = [], authz_Options = []\<rparr>,
     cfg_IgnoreDockerVersion = False, Version = [], PrivateRegistries = [],
     Ingress = \<lparr>ing_Provider = [], ing_Options = [], ing_NodeSelector = []\<rparr>\<rparr>"

definition GetLocalRKENodeConfig :: RKEConfigNode where
  "GetLocalRKENodeConfig = RKEConfigNode_zero\<lparr>Address := LocalNodeAddress, HostnameOverride := LocalNodeHostname,
     node_User := LocalNodeUser, Role := [ControlRole, WorkerRole, ETCDRole]\<rparr>"

definition GetLocalRKEConfig :: RancherKubernetesEngineConfig where
  "GetLocalRKEConfig = RancherKubernetesEngineConfig_zero\<lparr>Nodes := [GetLocalRKENodeConfig],
     Services := RKEConfigServices_zero\<lparr>Kubelet := (Kubelet RKEConfigServices_zero)\<lparr>svc_Image := DefaultK8sImage,
       svc_ExtraArgs := [(''fail-swap-on'', ''false'')]\<rparr>\<rparr>\<rparr>"

section \<open>Hosts are classified by their roles\<close>

definition knownRoles :: "string set" where
  "knownRoles = {ETCDRole, ControlRole, WorkerRole}"

lemma role_names [simp]:
  "ControlRole \<noteq> ETCDRole" "WorkerRole \<noteq> ETCDRole" "ETCDRole \<noteq> ControlRole" "WorkerRole \<noteq> ControlRole"
  "ETCDRole \<noteq> WorkerRole" "ControlRole \<noteq> WorkerRole"
  by (simp_all add: ETCDRole_def ControlRole_def WorkerRole_def)

lemma role_labels [simp]:
  "masterRoleLabel \<noteq> etcdRoleLabel" "workerRoleLabel \<noteq> etcdRoleLabel" "etcdRoleLabel \<noteq> masterRoleLabel"
  "workerRoleLabel \<noteq> masterRoleLabel" "etcdRoleLabel \<noteq> workerRoleLabel" "masterRoleLabel \<noteq> workerRoleLabel"
  by (simp_all add: etcdRoleLabel_def masterRoleLabel_def workerRoleLabel_def)

text \<open>What the roles make of a host, and the label of a role.\<close>

fun withRole :: "string \<Rightarrow> Host \<Rightarrow> Host" where
  "withRole role h =
     (if role = ETCDRole then h\<lparr>IsEtcd := True, ToAddLabels := mput etcdRoleLabel ''true'' (ToAddLabels h)\<rparr>
      else if role = ControlRole then h\<lparr>IsControl := True, ToAddLabels := mput masterRoleLabel ''true'' (ToAddLabels h)\<rparr>
      else h\<lparr>IsWorker := True, ToAddLabels := mput workerRoleLabel ''true'' (ToAddLabels h)\<rparr>)"

definition classified :: "bool \<Rightarrow> RKEConfigNode \<Rightarrow> Host" where
  "classified ignore n = delRoleLabels (fold withRole (Role n) (hostOf ignore n))"

text \<open>The references of the nodes that have a role, as often as they name it, the first node being \<open>k\<close>.\<close>

fun refsOf :: "string \<Rightarrow> nat \<Rightarrow> RKEConfigNode list \<Rightarrow> hostref list" where
  "refsOf role k [] = []"
| "refsOf role k (n # ns) = replicate (count_list (Role n) role) k @ refsOf role (Suc k) ns"

definition addRefs :: "nat \<Rightarrow> RKEConfigNode list \<Rightarrow> Cluster \<Rightarrow> Cluster" where
  "addRefs k ns c = c\<lparr>EtcdHosts := EtcdHosts c @ refsOf ETCDRole k ns, ControlPlaneHosts := ControlPlaneHosts c @ refsOf ControlRole k ns,
     WorkerHosts := WorkerHosts c @ refsOf WorkerRole k ns\<rparr>"

lemma invertRoles:
  "set roles \<subseteq> knownRoles \<Longrightarrow> foldIO (invertRole r) roles (h, c) =
     retIO (fold withRole roles h, c\<lparr>EtcdHosts := EtcdHosts c @ replicate (count_list roles ETCDRole) r,
       ControlPlaneHosts := ControlPlaneHosts c @ replicate (count_list roles ControlRole) r,
       WorkerHosts := WorkerHosts c @ replicate (count_list roles WorkerRole) r\<rparr>)"
  by (induction roles arbitrary: h c) (auto simp: invertRole_def knownRoles_def replicate_app_Cons_same)

lemma invertRoles_unknown:
  "\<not> set roles \<subseteq> knownRoles \<Longrightarrow> \<exists>e. foldIO (invertRole r) roles (h, c) = failIO e"
  by (induction roles arbitrary: h c) (auto simp: invertRole_def knownRoles_def)

lemma invertNode_known:
  assumes "set (Role n) \<subseteq> knownRoles"
  shows "invertNode n c w = (Ret (addRefs (length (hstore w)) [n] c),
     w\<lparr>hstore := hstore w @ [classified (cfg_IgnoreDockerVersion c) n]\<rparr>)"
  by (simp add: invertNode_def invertRoles[OF assms] bindIO_def getIO_def retIO_def thenIO_def newHost_def addRefs_def classified_def)

lemma invertNode_unknown:
  fixes w :: "('d, 'k, 'e) world"
  assumes "\<not> set (Role n) \<subseteq> knownRoles"
  shows "\<exists>e. invertNode n c w = (Fail e, w)"
  using invertRoles_unknown[where 'a = "('d, 'k, 'e) world", OF assms, of "length (hstore w)" "hostOf (cfg_IgnoreDockerVersion c) n" c]
  by (auto simp: invertNode_def bindIO_def getIO_def failIO_def)

lemma invertNodes:
  assumes "\<forall>n \<in> set ns. set (Role n) \<subseteq> knownRoles"
  shows "foldIO invertNode ns c w = (Ret (addRefs (length (hstore w)) ns c),
     w\<lparr>hstore := hstore w @ map (classified (cfg_IgnoreDockerVersion c)) ns\<rparr>)"
  using assms
proof (induction ns arbitrary: c w)
  case Nil
  then show ?case by (simp add: retIO_def addRefs_def)
next
  case (Cons n ns)
  then show ?case by (simp add: bindIO_def invertNode_known addRefs_def)
qed

lemma invertNodes_unknown:
  assumes "\<not> (\<forall>n \<in> set ns. set (Role n) \<subseteq> knownRoles)"
  shows "\<exists>e w'. foldIO invertNode ns c w = (Fail e, w')"
  using assms
proof (induction ns arbitrary: c w)
  case Nil
  then show ?case by simp
next
  case (Cons n ns)
  show ?case
  proof (cases "set (Role n) \<subseteq> knownRoles")
    case True
    with Cons.prems have "\<not> (\<forall>n \<in> set ns. set (Role n) \<subseteq> knownRoles)" by simp
    from Cons.IH[OF this] show ?thesis by (simp add: bindIO_def invertNode_known[OF True])
  next
    case False
    then obtain e where "invertNode n c w = (Fail e, w)" using invertNode_unknown by blast
    then show ?thesis by (simp add: bindIO_def)
  qed
qed

lemma refsOf_iff: "r \<in> set (refsOf role k ns) \<longleftrightarrow> (\<exists>i < length ns. r = k + i \<and> role \<in> set (Role (ns ! i)))"
proof (induction ns arbitrary: k)
  case Nil
  then show ?case by simp
next
  case (Cons n ns)
  have "r \<in> set (refsOf role k (n # ns)) \<longleftrightarrow>
      r = k \<and> role \<in> set (Role n) \<or> (\<exists>i < length ns. r = Suc k + i \<and> role \<in> set (Role (ns ! i)))"
    by (auto simp: Cons count_list_0_iff)
  also have "\<dots> \<longleftrightarrow> (\<exists>i < Suc (length ns). r = k + i \<and> role \<in> set (Role ((n # ns) ! i)))"
    by (auto simp: less_Suc_eq_0_disj ex_disj_distrib conj_disj_distribR)
  finally show ?case by simp
qed

lemma withRole_flags:
  "IsEtcd (fold withRole roles h) = (IsEtcd h \<or> ETCDRole \<in> set roles)"
  "IsControl (fold withRole roles h) = (IsControl h \<or> ControlRole \<in> set roles)"
  "IsWorker (fold withRole roles h) = (IsWorker h \<or> \<not> set roles \<subseteq> {ETCDRole, ControlRole})"
  "RKEConfigNode.truncate (fold withRole roles h) = RKEConfigNode.truncate h"
  "DClient (fold withRole roles h) = DClient h" "ToAddEtcdMember (fold withRole roles h) = ToAddEtcdMember h"
  "IgnoreDockerVersion (fold withRole roles h) = IgnoreDockerVersion h"
  "ToDelLabels (fold withRole roles h) = ToDelLabels h"
  by (induction roles arbitrary: h) (auto simp: RKEConfigNode.truncate_def)

lemma addLabels_role:
  "mget (ToAddLabels (fold withRole roles h)) etcdRoleLabel =
     (if ETCDRole \<in> set roles then Some ''true'' else mget (ToAddLabels h) etcdRoleLabel)"
  "mget (ToAddLabels (fold withRole roles h)) masterRoleLabel =
     (if ControlRole \<in> set roles then Some ''true'' else mget (ToAddLabels h) masterRoleLabel)"
  "mget (ToAddLabels (fold withRole roles h)) workerRoleLabel =
     (if set roles \<subseteq> {ETCDRole, ControlRole} then mget (ToAddLabels h) workerRoleLabel else Some ''true'')"
  by (induction roles arbitrary: h) auto

text \<open>
  The host made of a node: the node's own data, the flags of its roles, the labels of its roles to be set and those of all other
  roles to be taken away; not connected, and not waiting to join etcd.
\<close>

definition fits :: "RKEConfigNode \<Rightarrow> Host \<Rightarrow> bool" where
  "fits n h \<longleftrightarrow> RKEConfigNode.truncate h = n \<and>
     IsEtcd h = (ETCDRole \<in> set (Role n)) \<and> IsControl h = (ControlRole \<in> set (Role n)) \<and> IsWorker h = (WorkerRole \<in> set (Role n)) \<and>
     (IsEtcd h \<longrightarrow> mget (ToAddLabels h) etcdRoleLabel = Some ''true'') \<and>
     (IsControl h \<longrightarrow> mget (ToAddLabels h) masterRoleLabel = Some ''true'') \<and>
     (IsWorker h \<longrightarrow> mget (ToAddLabels h) workerRoleLabel = Some ''true'') \<and>
     mget (ToDelLabels h) etcdRoleLabel = (if IsEtcd h then None else Some ''true'') \<and>
     mget (ToDelLabels h) masterRoleLabel = (if IsControl h then None else Some ''true'') \<and>
     mget (ToDelLabels h) workerRoleLabel = (if IsWorker h then None else Some ''true'') \<and>
     DClient h = None \<and> \<not> ToAddEtcdMember h"

lemma delRoleLabels_sel:
  "RKEConfigNode.truncate (delRoleLabels h) = RKEConfigNode.truncate h" "IsEtcd (delRoleLabels h) = IsEtcd h"
  "IsControl (delRoleLabels h) = IsControl h" "IsWorker (delRoleLabels h) = IsWorker h" "DClient (delRoleLabels h) = DClient h"
  "ToAddLabels (delRoleLabels h) = ToAddLabels h" "ToAddEtcdMember (delRoleLabels h) = ToAddEtcdMember h"
  "mget (ToDelLabels (delRoleLabels h)) etcdRoleLabel = (if IsEtcd h then mget (ToDelLabels h) etcdRoleLabel else Some ''true'')"
  "mget (ToDelLabels (delRoleLabels h)) masterRoleLabel = (if IsControl h then mget (ToDelLabels h) masterRoleLabel else Some ''true'')"
  "mget (ToDelLabels (delRoleLabels h)) workerRoleLabel = (if IsWorker h then mget (ToDelLabels h) workerRoleLabel else Some ''true'')"
  by (simp_all add: delRoleLabels_def Let_def RKEConfigNode.truncate_def)

lemma hostOf_sel:
  "RKEConfigNode.truncate (hostOf b n) = n" "\<not> IsEtcd (hostOf b n)" "\<not> IsControl (hostOf b n)" "\<not> IsWorker (hostOf b n)"
  "DClient (hostOf b n) = None" "\<not> ToAddEtcdMember (hostOf b n)" "ToDelLabels (hostOf b n) = []"
  by (simp_all add: hostOf_def RKEConfigNode.defs)

lemma classified_fits:
  assumes "set (Role n) \<subseteq> knownRoles"
  shows "fits n (classified b n)"
proof -
  have w: "set (Role n) \<subseteq> {ETCDRole, ControlRole} \<longleftrightarrow> WorkerRole \<notin> set (Role n)"
    using assms by (auto simp: knownRoles_def)
  show ?thesis
    unfolding fits_def classified_def delRoleLabels_sel withRole_flags addLabels_role w by (simp add: hostOf_sel)
qed

text \<open>The references of a plane: hosts made by this classification that have the flag.\<close>

definition planeIs :: "Host list \<Rightarrow> nat \<Rightarrow> (Host \<Rightarrow> bool) \<Rightarrow> hostref list \<Rightarrow> bool" where
  "planeIs hs k flag rs \<longleftrightarrow> set rs = {r. k \<le> r \<and> r < length hs \<and> flag (hs ! r)}"

lemma planeIs_refsOf:
  assumes "\<And>i. i < length ns \<Longrightarrow> flag (f (ns ! i)) \<longleftrightarrow> role \<in> set (Role (ns ! i))"
  shows "planeIs (hs @ map f ns) (length hs) flag (refsOf role (length hs) ns)"
proof -
  have "r \<in> set (refsOf role (length hs) ns) \<longleftrightarrow>
      length hs \<le> r \<and> r < length (hs @ map f ns) \<and> flag ((hs @ map f ns) ! r)" for r
  proof (cases "length hs \<le> r")
    case True
    then obtain i where "r = length hs + i" by (metis le_add_diff_inverse)
    then show ?thesis using assms by (auto simp: refsOf_iff)
  qed (auto simp: refsOf_iff)
  then show ?thesis by (auto simp: planeIs_def)
qed

lemma planes_classified:
  assumes "\<forall>n \<in> set ns. set (Role n) \<subseteq> knownRoles"
  shows "planeIs (hs @ map (classified b) ns) (length hs) IsEtcd (refsOf ETCDRole (length hs) ns)"
    "planeIs (hs @ map (classified b) ns) (length hs) IsControl (refsOf ControlRole (length hs) ns)"
    "planeIs (hs @ map (classified b) ns) (length hs) IsWorker (refsOf WorkerRole (length hs) ns)"
  using assms classified_fits[of "ns ! i" b for i] by (auto intro!: planeIs_refsOf simp: fits_def all_set_conv_all_nth)

text \<open>
  C20: \<^verbatim>\<open>InvertIndexHosts\<close> fails exactly when a node has a role it does not know, and never panics.  Otherwise it makes one new
  host of each node, with the flags and labels of the node's roles, changes nothing else, and the three host lists of the
  cluster hold exactly the new hosts that have the role.
\<close>

theorem InvertIndexHosts_classifies:
  "case InvertIndexHosts c w of
     (Ret c', w') \<Rightarrow> list_all (\<lambda>n. set (Role n) \<subseteq> knownRoles) (Nodes c) \<and>
       (\<exists>new. w' = w\<lparr>hstore := hstore w @ new\<rparr> \<and> list_all2 fits (Nodes c) new) \<and>
       planeIs (hstore w') (length (hstore w)) IsEtcd (EtcdHosts c') \<and>
       planeIs (hstore w') (length (hstore w)) IsControl (ControlPlaneHosts c') \<and>
       planeIs (hstore w') (length (hstore w)) IsWorker (WorkerHosts c') \<and>
       c' = c\<lparr>EtcdHosts := EtcdHosts c', WorkerHosts := WorkerHosts c', ControlPlaneHosts := ControlPlaneHosts c'\<rparr>
   | (Fail e, w') \<Rightarrow> \<not> list_all (\<lambda>n. set (Role n) \<subseteq> knownRoles) (Nodes c)
   | (Panic s, w') \<Rightarrow> False"
proof (cases "\<forall>n \<in> set (Nodes c). set (Role n) \<subseteq> knownRoles")
  case True
  then have "list_all2 fits (Nodes c) (map (classified (cfg_IgnoreDockerVersion c)) (Nodes c))"
    by (auto simp: list_all2_conv_all_nth classified_fits)
  with True planes_classified[OF True, of "hstore w" "cfg_IgnoreDockerVersion c"] show ?thesis
    by (auto simp: InvertIndexHosts_def invertNodes list_all_iff addRefs_def)
next
  case False
  then have "\<not> list_all (\<lambda>n. set (Role n) \<subseteq> knownRoles) (Nodes c)" by (simp add: list_all_iff)
  with invertNodes_unknown[OF False, of "c\<lparr>EtcdHosts := [], WorkerHosts := [], ControlPlaneHosts := []\<rparr>" w]
  show ?thesis by (auto simp: InvertIndexHosts_def)
qed

section \<open>What is accepted, and what it becomes\<close>

subsection \<open>Defaults\<close>

text \<open>The image of the Kubernetes services for a configured image and version, unless a reference in it is malformed.\<close>

definition imageFor :: "'d docker_api \<Rightarrow> string \<Rightarrow> string \<Rightarrow> string option" where
  "imageFor api img version =
     (case ParseNormalizedNamed api img of
        Inl _ \<Rightarrow> None
      | Inr n \<Rightarrow> if version = [] then Some img
         else if valid_tag version then
           (let s = ref_String ((TrimNamed n)\<lparr>ref_tag := version\<rparr>) in case ParseNormalizedNamed api s of Inl _ \<Rightarrow> None | Inr _ \<Rightarrow> Some s)
         else None)"

definition withDefaults :: "string \<Rightarrow> Cluster \<Rightarrow> Cluster" where
  "withDefaults img c =
     (let c' = setClusterImageDefaults (setOwnDefaults c)
      in setClusterNetworkDefaults (setClusterServicesDefaults (c'\<lparr>SystemImages := (SystemImages c')\<lparr>img_Kubernetes := img\<rparr>\<rparr>)))"

definition configuredImage :: "RKESystemImages \<Rightarrow> string" where
  "configuredImage i = setDefaultIfEmpty (img_Kubernetes i) DefaultK8sImage"

lemma setClusterKubernetesImageVersion_run:
  "setClusterKubernetesImageVersion api c =
     (case imageFor api (img_Kubernetes (SystemImages c)) (Version c) of
        None \<Rightarrow> panicIO ''nil pointer dereference''
      | Some s \<Rightarrow> retIO (c\<lparr>SystemImages := (SystemImages c)\<lparr>img_Kubernetes := s\<rparr>\<rparr>))"
  by (auto simp: setClusterKubernetesImageVersion_def imageFor_def orNil_def WithTag_def Let_def split: sum.splits)

lemma setClusterDefaults_run:
  "setClusterDefaults api c =
     (case imageFor api (configuredImage (SystemImages c)) (Version c) of
        None \<Rightarrow> panicIO ''nil pointer dereference''
      | Some s \<Rightarrow> retIO (withDefaults s c))"
proof -
  have "img_Kubernetes (SystemImages (setClusterImageDefaults (setOwnDefaults c))) = configuredImage (SystemImages c)"
    "Version (setClusterImageDefaults (setOwnDefaults c)) = Version c"
    by (simp_all add: setClusterImageDefaults_def setOwnDefaults_def configuredImage_def Let_def)
  then show ?thesis
    by (simp add: setClusterDefaults_def setClusterKubernetesImageVersion_run withDefaults_def Let_def split: option.splits)
qed

lemma imageFor_nonempty: "imageFor api img v = Some s \<Longrightarrow> img \<noteq> [] \<Longrightarrow> s \<noteq> []"
  by (auto simp: imageFor_def ref_String_def Let_def split: sum.splits if_splits)

lemma setDefaultIfEmpty_nonempty [simp]: "setDefaultIfEmpty v d = [] \<longleftrightarrow> v = [] \<and> d = []"
  by (simp add: setDefaultIfEmpty_def)

lemmas default_defs = DefaultEtcdImage_def DefaultK8sImage_def DefaultInfraContainerImage_def DefaultServiceClusterIPRange_def
  DefaultClusterCIDR_def DefaultClusterDNSService_def DefaultClusterDomain_def DefaultAuthStrategy_def
  DefaultNetworkPlugin_def DefaultIngressController_def DefaultAuthorizationMode_def DefaultClusterSSHKeyPath_def

definition sshKey :: "Cluster \<Rightarrow> string" where
  "sshKey c = (if SSHKeyPath c = [] then DefaultClusterSSHKeyPath else SSHKeyPath c)"

lemma withDefaults_sel:
  "Nodes (withDefaults s c) = map (nodeDefaults (sshKey c)) (Nodes c)"
  "cfg_IgnoreDockerVersion (withDefaults s c) = cfg_IgnoreDockerVersion c"
  "cl_ConfigPath (withDefaults s c) = cl_ConfigPath c"
  "authn_Strategy (Authentication (withDefaults s c)) = setDefaultIfEmpty (authn_Strategy (Authentication c)) DefaultAuthStrategy"
  "net_Plugin (Network (withDefaults s c)) = setDefaultIfEmpty (net_Plugin (Network c)) DefaultNetworkPlugin"
  "net_Options (Network (withDefaults s c)) \<noteq> None"
  "ing_Provider (Ingress (withDefaults s c)) = setDefaultIfEmpty (ing_Provider (Ingress c)) DefaultIngressController"
  "authz_Mode (Authorization (withDefaults s c)) \<noteq> []"
  "api_PodSecurityPolicy (KubeAPI (Services (withDefaults s c))) \<Longrightarrow> authz_Mode (Authorization (withDefaults s c)) = RBACAuthorizationMode"
  "api_ServiceClusterIPRange (KubeAPI (Services (withDefaults s c))) =
     setDefaultIfEmpty (api_ServiceClusterIPRange (KubeAPI (Services c))) DefaultServiceClusterIPRange"
  by (auto simp: withDefaults_def setOwnDefaults_def setClusterImageDefaults_def setClusterServicesDefaults_def
      setClusterNetworkDefaults_def Let_def setDefaultIfEmpty_def sshKey_def default_defs)

lemma withDefaults_services:
  assumes "s \<noteq> []"
  shows "list_all (\<lambda>(k, v). v \<noteq> []) (servicesOptions (withDefaults s c))"
  using assms by (simp add: servicesOptions_def withDefaults_def setOwnDefaults_def setClusterImageDefaults_def
      setClusterServicesDefaults_def setClusterNetworkDefaults_def Let_def default_defs)

subsection \<open>Checks\<close>

text \<open>\<open>checks b m\<close>: \<open>m\<close> is a check, which passes when \<open>b\<close> and is an error otherwise.\<close>

definition checks :: "bool \<Rightarrow> ('w, unit) io \<Rightarrow> bool" where
  "checks b m \<longleftrightarrow> (if b then m = retIO () else \<exists>e. m = failIO e)"

lemma checks_if: "checks (\<not> b) (if b then failIO e else retIO ())"
  by (auto simp: checks_def)

lemma checks_then: "checks b m \<Longrightarrow> checks b' k \<Longrightarrow> checks (b \<and> b') (thenIO m k)"
  by (auto simp: checks_def thenIO_def split: if_splits)

lemma checks_fail: "checks b k \<Longrightarrow> checks (\<not> c \<and> b) (if c then failIO e else k)"
  by (auto simp: checks_def)

lemma checks_forIO: "checks (list_all (\<lambda>x. \<not> p x) xs) (forIO (\<lambda>x. if p x then failIO (e x) else retIO ()) xs)"
  by (induction xs) (auto simp: checks_def thenIO_def)

lemma checks_cong: "checks b m \<Longrightarrow> b = b' \<Longrightarrow> checks b' m"
  by simp

lemma checks_wrap: "checks b m \<Longrightarrow> checks b (wrapIO s m)"
  by (auto simp: checks_def wrapIO_def catchIO_def retIO_def failIO_def fun_eq_iff split: if_splits)

definition node_ok :: "RKEConfigNode \<Rightarrow> bool" where
  "node_ok n \<longleftrightarrow> Address n \<noteq> [] \<and> node_User n \<noteq> [] \<and> Role n \<noteq> [] \<and> set (Role n) \<subseteq> knownRoles"

lemma checks_roles: "checks (set roles \<subseteq> knownRoles) (validateRoles i roles)"
  by (induction roles) (auto simp: checks_def knownRoles_def)

lemma checks_nodes: "checks (list_all node_ok ns) (validateNodes i ns)"
proof (induction ns arbitrary: i)
  case Nil
  then show ?case by (simp add: checks_def)
next
  case (Cons n ns)
  show ?case
    unfolding validateNodes.simps
    by (rule checks_cong, (rule checks_fail checks_then checks_roles Cons.IH)+) (auto simp: node_ok_def)
qed

lemma checks_services: "checks (list_all (\<lambda>(k, v). v \<noteq> []) (servicesOptions c)) (validateServicesOptions c)"
  using checks_forIO[of "\<lambda>(k, v). v = []" "servicesOptions c" "\<lambda>p. errorf (join_with '' '' (split_on CHR ''_'' (fst p)) @ '' can't be empty'')"]
  by (simp add: validateServicesOptions_def case_prod_unfold)

definition options_ok :: "Cluster \<Rightarrow> bool" where
  "options_ok c \<longleftrightarrow> authn_Strategy (Authentication c) = DefaultAuthStrategy \<and>
     net_Plugin (Network c) \<in> {FlannelNetworkPlugin, CalicoNetworkPlugin, CanalNetworkPlugin, WeaveNetworkPlugin} \<and>
     ing_Provider (Ingress c) \<in> {DefaultIngressController, ''none''} \<and> list_all (\<lambda>(k, v). v \<noteq> []) (servicesOptions c)"

lemma checks_cluster:
  "checks (ControlPlaneHosts c \<noteq> [] \<and> EtcdHosts c \<noteq> [] \<and> list_all node_ok (Nodes c) \<and> options_ok c) (ValidateCluster c)"
  unfolding ValidateCluster_def validateHostsOptions_def validateAuthOptions_def validateNetworkOptions_def
    validateIngressOptions_def Let_def
  by (rule checks_cong[OF checks_fail[OF checks_fail[OF checks_then[OF checks_nodes checks_then[OF checks_if checks_then[OF checks_if
        checks_then[OF checks_if checks_services]]]]]]]) (auto simp: options_ok_def)

subsection \<open>Accepted configurations\<close>

definition config_ok :: "RancherKubernetesEngineConfig \<Rightarrow> bool" where
  "config_ok cfg \<longleftrightarrow> list_all node_ok (Nodes cfg) \<and>
     list_ex (\<lambda>n. ControlRole \<in> set (Role n)) (Nodes cfg) \<and> list_ex (\<lambda>n. ETCDRole \<in> set (Role n)) (Nodes cfg) \<and>
     authn_Strategy (Authentication cfg) \<in> {[], DefaultAuthStrategy} \<and>
     net_Plugin (Network cfg) \<in> {[], FlannelNetworkPlugin, CalicoNetworkPlugin, CanalNetworkPlugin, WeaveNetworkPlugin} \<and>
     ing_Provider (Ingress cfg) \<in> {[], DefaultIngressController, ''none''} \<and>
     (let range = api_ServiceClusterIPRange (KubeAPI (Services cfg)) in range = [] \<or> ParseCIDR range \<noteq> None)"

definition image_ok :: "'d docker_api \<Rightarrow> RancherKubernetesEngineConfig \<Rightarrow> bool" where
  "image_ok api cfg \<longleftrightarrow> imageFor api (configuredImage (SystemImages cfg)) (Version cfg) \<noteq> None"

text \<open>What every operation on a cluster may rely on.\<close>

definition host_wf :: "Host \<Rightarrow> bool" where
  "host_wf h \<longleftrightarrow> Address h \<noteq> [] \<and> InternalAddress h \<noteq> [] \<and> HostnameOverride h \<noteq> [] \<and> node_User h \<noteq> [] \<and> node_SSHKeyPath h \<noteq> []"

definition plane_wf :: "Host list \<Rightarrow> (Host \<Rightarrow> bool) \<Rightarrow> hostref list \<Rightarrow> bool" where
  "plane_wf hs flag rs \<longleftrightarrow> list_all (\<lambda>r. r < length hs \<and> flag (hs ! r) \<and> host_wf (hs ! r)) rs"

text \<open>Every system image, in the order of the type's fields.\<close>

definition imageFields :: "RKESystemImages \<Rightarrow> string list" where
  "imageFields i = [img_Etcd i, img_Alpine i, img_NginxProxy i, img_CertDownloader i, img_KubernetesServicesSidecar i,
     img_KubeDNS i, img_DNSmasq i, img_KubeDNSSidecar i, img_KubeDNSAutoscaler i, img_Kubernetes i,
     img_Flannel i, img_FlannelCNI i, img_CalicoNode i, img_CalicoCNI i, img_CalicoControllers i, img_CalicoCtl i,
     img_CanalNode i, img_CanalCNI i, img_CanalFlannel i, img_WeaveNode i, img_WeaveCNI i, img_PodInfraContainer i]"

definition images_ok :: "RKESystemImages \<Rightarrow> bool" where
  "images_ok i \<longleftrightarrow> list_all (\<lambda>s. s \<noteq> []) (imageFields i)"

definition cluster_wf :: "Host list \<Rightarrow> Cluster \<Rightarrow> bool" where
  "cluster_wf hs c \<longleftrightarrow> ControlPlaneHosts c \<noteq> [] \<and> EtcdHosts c \<noteq> [] \<and>
     plane_wf hs IsControl (ControlPlaneHosts c) \<and> plane_wf hs IsEtcd (EtcdHosts c) \<and> plane_wf hs IsWorker (WorkerHosts c) \<and>
     options_ok c \<and> images_ok (SystemImages c) \<and> net_Options (Network c) \<noteq> None \<and> KubernetesServiceIP c \<noteq> None \<and>
     authz_Mode (Authorization c) \<noteq> [] \<and>
     (api_PodSecurityPolicy (KubeAPI (Services c)) \<longrightarrow> authz_Mode (Authorization c) = RBACAuthorizationMode) \<and>
     ClusterDomain c \<noteq> [] \<and> ClusterCIDR c \<noteq> [] \<and> ClusterDNSServer c \<noteq> [] \<and> LocalKubeConfigPath c \<noteq> []"

lemmas image_defs = DefaultInfraContainerImage_def DefaultAplineImage_def DefaultNginxProxyImage_def
  DefaultCertDownloaderImage_def DefaultKubernetesServicesSidecarImage_def DefaultEtcdImage_def DefaultK8sImage_def
  DefaultFlannelImage_def DefaultFlannelCNIImage_def DefaultCalicoNodeImage_def DefaultCalicoCNIImage_def
  DefaultCalicoControllersImage_def DefaultCalicoctlImage_def DefaultWeaveImage_def DefaultWeaveCNIImage_def
  DefaultCanalNodeImage_def DefaultCanalCNIImage_def DefaultCanalFlannelImage_def DefaultKubeDNSImage_def DefaultDNSmasqImage_def
  DefaultKubeDNSSidecarImage_def DefaultKubeDNSAutoScalerImage_def

lemma images_defaults: "images_ok (SystemImages (setClusterImageDefaults c))"
  by (simp add: images_ok_def imageFields_def setClusterImageDefaults_def Let_def image_defs)

lemma images_ok_Kubernetes: "images_ok i \<Longrightarrow> s \<noteq> [] \<Longrightarrow> images_ok (i\<lparr>img_Kubernetes := s\<rparr>)"
  by (simp add: images_ok_def imageFields_def)

lemma withDefaults_images:
  assumes "s \<noteq> []"
  shows "images_ok (SystemImages (withDefaults s c))"
proof -
  let ?c = "setClusterImageDefaults (setOwnDefaults c)"
  have "SystemImages (withDefaults s c) = (SystemImages ?c)\<lparr>img_Kubernetes := s\<rparr>"
    by (simp add: withDefaults_def setClusterServicesDefaults_def setClusterNetworkDefaults_def Let_def)
  then show ?thesis using images_ok_Kubernetes[OF images_defaults assms] by simp
qed

lemma GetKubernetesServiceIP_cases:
  "if ParseCIDR s = None then \<exists>e. GetKubernetesServiceIP s = Inl e else \<exists>a. GetKubernetesServiceIP s = Inr (Some a)"
proof (cases "ParseCIDR s")
  case (Some p)
  then obtain ip mk where p: "ParseCIDR s = Some (ip, mk)" by (cases p) auto
  from p obtain bs where "Mask ip mk = Some (map2 (AND) bs mk)" by (rule Mask_ParseCIDR)
  with p show ?thesis by (simp add: GetKubernetesServiceIP_def)
qed (simp add: GetKubernetesServiceIP_def)

lemma default_range_parses: "ParseCIDR DefaultServiceClusterIPRange \<noteq> None"
proof -
  have four: "IPv4len = Suc (Suc (Suc (Suc 0)))" by (simp add: IPv4len_def)
  show ?thesis
    by (simp add: ParseCIDR_def DefaultServiceClusterIPRange_def parseIPv4_def four scan1_def digit_val_def big_def Let_def of_char_def)
qed

lemma nodeDefaults_sel [simp]:
  "Address (nodeDefaults k n) = Address n" "node_User (nodeDefaults k n) = node_User n" "Role (nodeDefaults k n) = Role n"
  by (simp_all add: nodeDefaults_def)

lemma node_ok_defaults [simp]: "node_ok (nodeDefaults k n) = node_ok n"
  by (simp add: node_ok_def)

lemma truncate_sel:
  assumes "RKEConfigNode.truncate h = n"
  shows "Address h = Address n" "InternalAddress h = InternalAddress n" "HostnameOverride h = HostnameOverride n"
    "node_User h = node_User n" "node_SSHKeyPath h = node_SSHKeyPath n" "node_Labels h = node_Labels n"
  using assms by (auto simp: RKEConfigNode.truncate_def)

lemma host_wf_classified:
  assumes "node_ok n" "k \<noteq> []"
  shows "host_wf (classified b (nodeDefaults k n))"
proof -
  have "fits (nodeDefaults k n) (classified b (nodeDefaults k n))"
    by (rule classified_fits) (use assms in \<open>simp add: node_ok_def\<close>)
  then have "RKEConfigNode.truncate (classified b (nodeDefaults k n)) = nodeDefaults k n" by (simp add: fits_def)
  from truncate_sel[OF this] show ?thesis
    using assms by (simp add: host_wf_def nodeDefaults_def node_ok_def)
qed

lemma plane_wf_classified:
  assumes "list_all node_ok ns" "k \<noteq> []" "planeIs (hs @ map (classified b) (map (nodeDefaults k) ns)) (length hs) flag rs"
  shows "plane_wf (hs @ map (classified b) (map (nodeDefaults k) ns)) flag rs"
  unfolding plane_wf_def list_all_iff
proof
  fix r
  assume "r \<in> set rs"
  with assms(3) have r: "length hs \<le> r" "r < length hs + length ns" "flag ((hs @ map (classified b) (map (nodeDefaults k) ns)) ! r)"
    by (auto simp: planeIs_def)
  then obtain i where i: "r = length hs + i" "i < length ns" by (metis le_add_diff_inverse nat_add_left_cancel_less)
  with assms(1) have "node_ok (ns ! i)" by (simp add: list_all_length)
  from host_wf_classified[OF this assms(2)] i r show "r < length (hs @ map (classified b) (map (nodeDefaults k) ns)) \<and>
      flag ((hs @ map (classified b) (map (nodeDefaults k) ns)) ! r) \<and> host_wf ((hs @ map (classified b) (map (nodeDefaults k) ns)) ! r)"
    by (simp add: nth_append)
qed

lemma clusterOf_sel [simp]:
  "Nodes (clusterOf cfg p f g) = Nodes cfg" "Version (clusterOf cfg p f g) = Version cfg"
  "SystemImages (clusterOf cfg p f g) = SystemImages cfg" "Authentication (clusterOf cfg p f g) = Authentication cfg"
  "Network (clusterOf cfg p f g) = Network cfg" "Ingress (clusterOf cfg p f g) = Ingress cfg"
  "Services (clusterOf cfg p f g) = Services cfg" "SSHKeyPath (clusterOf cfg p f g) = SSHKeyPath cfg"
  by (simp_all add: clusterOf_def RancherKubernetesEngineConfig.defs)

lemma sshKey_nonempty [simp]: "sshKey c \<noteq> []"
  by (simp add: sshKey_def DefaultClusterSSHKeyPath_def)

text \<open>The options a configuration leaves open are filled in, so that only those it sets can be refused.\<close>

lemma options_ok_defaults:
  assumes "s \<noteq> []"
  shows "options_ok (withDefaults s (clusterOf cfg p f g)) \<longleftrightarrow>
     authn_Strategy (Authentication cfg) \<in> {[], DefaultAuthStrategy} \<and>
     net_Plugin (Network cfg) \<in> {[], FlannelNetworkPlugin, CalicoNetworkPlugin, CanalNetworkPlugin, WeaveNetworkPlugin} \<and>
     ing_Provider (Ingress cfg) \<in> {[], DefaultIngressController, ''none''}"
  using withDefaults_services[OF assms]
  by (auto simp: options_ok_def withDefaults_sel setDefaultIfEmpty_def default_defs FlannelNetworkPlugin_def)

lemma refsOf_nonempty: "refsOf role k ns \<noteq> [] \<longleftrightarrow> list_ex (\<lambda>n. role \<in> set (Role n)) ns"
proof -
  have "refsOf role k ns \<noteq> [] \<longleftrightarrow> (\<exists>r. r \<in> set (refsOf role k ns))" by (metis list.set_intros(1) neq_Nil_conv not_in_set_insert empty_iff set_empty)
  also have "\<dots> \<longleftrightarrow> (\<exists>i < length ns. role \<in> set (Role (ns ! i)))" by (auto simp: refsOf_iff)
  finally show ?thesis by (auto simp: list_ex_length)
qed

lemma options_ok_addRefs [simp]: "options_ok (addRefs k ns c) = options_ok c"
  by (simp add: options_ok_def addRefs_def servicesOptions_def)

lemma options_ok_reset [simp]: "options_ok (c\<lparr>EtcdHosts := a, WorkerHosts := b, ControlPlaneHosts := d\<rparr>) = options_ok c"
  by (simp add: options_ok_def servicesOptions_def)

definition parsed :: "string \<Rightarrow> RancherKubernetesEngineConfig \<Rightarrow> string \<Rightarrow> DialerFactory option \<Rightarrow> DialerFactory option \<Rightarrow> nat \<Rightarrow> Cluster" where
  "parsed s cfg p f g k = (let c = withDefaults s (clusterOf cfg p f g)
     in addRefs k (Nodes c) (c\<lparr>EtcdHosts := [], WorkerHosts := [], ControlPlaneHosts := []\<rparr>))"

definition parsedHosts :: "string \<Rightarrow> RancherKubernetesEngineConfig \<Rightarrow> string \<Rightarrow> DialerFactory option \<Rightarrow> DialerFactory option \<Rightarrow> Host list" where
  "parsedHosts s cfg p f g = (let c = withDefaults s (clusterOf cfg p f g) in map (classified (cfg_IgnoreDockerVersion c)) (Nodes c))"

lemma parsed_config_ok:
  assumes "s \<noteq> []"
  shows "config_ok cfg \<longleftrightarrow> (let c = parsed s cfg p f g k in
     (ControlPlaneHosts c \<noteq> [] \<and> EtcdHosts c \<noteq> [] \<and> list_all node_ok (Nodes c) \<and> options_ok c) \<and>
     ParseCIDR (api_ServiceClusterIPRange (KubeAPI (Services c))) \<noteq> None)"
proof -
  let ?c = "withDefaults s (clusterOf cfg p f g)" and ?p = "parsed s cfg p f g k"
  have valid: "ControlPlaneHosts ?p \<noteq> [] \<and> EtcdHosts ?p \<noteq> [] \<and> list_all node_ok (Nodes ?p) \<and> options_ok ?p \<longleftrightarrow>
      list_ex (\<lambda>n. ControlRole \<in> set (Role n)) (Nodes cfg) \<and> list_ex (\<lambda>n. ETCDRole \<in> set (Role n)) (Nodes cfg) \<and>
      list_all node_ok (Nodes cfg) \<and> options_ok ?c"
    by (simp add: parsed_def addRefs_def refsOf_nonempty withDefaults_sel list_ex_iff list_all_iff options_ok_def servicesOptions_def Let_def)
  have range: "api_ServiceClusterIPRange (KubeAPI (Services ?p)) =
      setDefaultIfEmpty (api_ServiceClusterIPRange (KubeAPI (Services cfg))) DefaultServiceClusterIPRange"
    by (simp add: parsed_def addRefs_def Let_def withDefaults_sel)
  show ?thesis
    unfolding Let_def valid range options_ok_defaults[OF assms] config_ok_def
    using default_range_parses by (auto simp: setDefaultIfEmpty_def)
qed

text \<open>The three ways \<^verbatim>\<open>ParseCluster\<close> ends.\<close>

lemma ParseCluster_cases:
  fixes w :: "('d, 'k, 'e) world"
  shows "case imageFor (dockerAPI env) (configuredImage (SystemImages cfg)) (Version cfg) of
     None \<Rightarrow> \<exists>s. ParseCluster env cfg p d f g w = (Panic s, w)
   | Some s \<Rightarrow>
      if config_ok cfg
      then \<exists>ip. ParseCluster env cfg p d f g w =
             (Ret (finishCluster d (Some ip) (parsed s cfg p f g (length (hstore w))), callerConfig cfg (parsed s cfg p f g (length (hstore w)))),
              w\<lparr>hstore := hstore w @ parsedHosts s cfg p f g\<rparr>)
      else \<exists>e w'. ParseCluster env cfg p d f g w = (Fail e, w')"
proof (cases "imageFor (dockerAPI env) (configuredImage (SystemImages cfg)) (Version cfg)")
  case None
  then show ?thesis by (simp add: ParseCluster_def setClusterDefaults_run bindIO_def panicIO_def)
next
  case (Some s)
  have "configuredImage (SystemImages cfg) \<noteq> []" by (simp add: configuredImage_def DefaultK8sImage_def)
  with Some have s: "s \<noteq> []" by (rule imageFor_nonempty)
  let ?c = "withDefaults s (clusterOf cfg p f g)" and ?k = "length (hstore w)"
  let ?w = "w\<lparr>hstore := hstore w @ parsedHosts s cfg p f g\<rparr>" and ?p = "parsed s cfg p f g ?k"
  have ret: "setClusterDefaults (dockerAPI env) (clusterOf cfg p f g) w = (Ret ?c, w)"
    by (simp add: setClusterDefaults_run Some retIO_def)
  show ?thesis
  proof (cases "\<forall>n \<in> set (Nodes ?c). set (Role n) \<subseteq> knownRoles")
    case False
    then have no: "\<not> config_ok cfg" by (auto simp: config_ok_def withDefaults_sel list_all_iff node_ok_def)
    from invertNodes_unknown[OF False] obtain e w' where "InvertIndexHosts ?c w = (Fail e, w')"
      unfolding InvertIndexHosts_def by blast
    then show ?thesis using Some no ret by (simp add: ParseCluster_def bindIO_def wrapIO_run)
  next
    case True
    have inv: "InvertIndexHosts ?c w = (Ret ?p, ?w)"
      by (simp add: InvertIndexHosts_def invertNodes[OF True] parsed_def parsedHosts_def Let_def)
    let ?range = "api_ServiceClusterIPRange (KubeAPI (Services ?p))"
    note ok = parsed_config_ok[OF s, of cfg p f g ?k]
    note v = checks_wrap[OF checks_cluster[where 'a = "('d, 'k, 'e) world" and c = ?p], of "''Failed to validate cluster: ''"]
    note ip = GetKubernetesServiceIP_cases[of ?range]
    show ?thesis
      using Some ret inv v ip unfolding ok Let_def
      by (auto simp: ParseCluster_def bindIO_def thenIO_def wrapIO_run ofSum_def checks_def retIO_def failIO_def split: if_splits)
  qed
qed

lemma GetLocalKubeConfig_nonempty [simp]: "GetLocalKubeConfig a b \<noteq> []"
  by (simp add: GetLocalKubeConfig_def)

lemma parsed_wf:
  assumes "s \<noteq> []" "config_ok cfg"
  shows "cluster_wf (hs @ parsedHosts s cfg p f g) (finishCluster d (Some ip) (parsed s cfg p f g (length hs)))"
proof -
  let ?c = "withDefaults s (clusterOf cfg p f g)" and ?p = "parsed s cfg p f g (length hs)"
  let ?b = "cfg_IgnoreDockerVersion ?c" and ?ns = "map (nodeDefaults (sshKey (clusterOf cfg p f g))) (Nodes cfg)"
  have p: "ControlPlaneHosts ?p \<noteq> []" "EtcdHosts ?p \<noteq> []" "options_ok ?p" and nodes: "list_all node_ok (Nodes cfg)"
    using assms(2) parsed_config_ok[OF assms(1), of cfg p f g "length hs"] by (simp_all add: Let_def config_ok_def)
  from nodes have known: "\<forall>n \<in> set ?ns. set (Role n) \<subseteq> knownRoles" by (auto simp: list_all_iff node_ok_def)
  have hosts: "parsedHosts s cfg p f g = map (classified ?b) ?ns" by (simp add: parsedHosts_def withDefaults_sel Let_def)
  have refs: "EtcdHosts ?p = refsOf ETCDRole (length hs) ?ns" "ControlPlaneHosts ?p = refsOf ControlRole (length hs) ?ns"
    "WorkerHosts ?p = refsOf WorkerRole (length hs) ?ns"
    by (simp_all add: parsed_def addRefs_def Let_def withDefaults_sel)
  note planes = planes_classified[OF known, of hs ?b, THEN plane_wf_classified[OF nodes sshKey_nonempty]]
  have "options_ok (finishCluster d (Some ip) ?p)"
    using p(3) by (simp add: finishCluster_def options_ok_def servicesOptions_def Let_def)
  moreover have "let_ClusterDomain (Kubelet (Services ?p)) \<noteq> []" "ctl_ClusterCIDR (KubeController (Services ?p)) \<noteq> []"
    "let_ClusterDNSServer (Kubelet (Services ?p)) \<noteq> []"
    using p(3) by (simp_all add: options_ok_def servicesOptions_def Let_def)
  moreover have "net_Options (Network ?p) \<noteq> None" "authz_Mode (Authorization ?p) \<noteq> []"
    "api_PodSecurityPolicy (KubeAPI (Services ?p)) \<longrightarrow> authz_Mode (Authorization ?p) = RBACAuthorizationMode"
    using withDefaults_sel(6,8,9) by (simp_all add: parsed_def addRefs_def Let_def)
  moreover have "images_ok (SystemImages ?p)"
    using withDefaults_images[OF assms(1)] by (simp add: parsed_def addRefs_def Let_def)
  ultimately show ?thesis
    using p planes unfolding hosts refs cluster_wf_def by (simp add: finishCluster_def Let_def hosts refs)
qed

text \<open>
  C17: \<^verbatim>\<open>ParseCluster\<close> returns a cluster exactly for the configurations that are acceptable and whose Kubernetes image and version are
  well formed: every node has an address, a user and known roles, some node is a control host and some node runs etcd, and the
  authentication strategy, the network plugin, the ingress provider and the service range are unset or supported.  It refuses every other
  configuration with an error; a malformed image or version makes it panic instead.
\<close>

theorem ParseCluster_accepts:
  "case ParseCluster env cfg p d f g w of
     (Ret x, w') \<Rightarrow> image_ok (dockerAPI env) cfg \<and> config_ok cfg
   | (Fail e, w') \<Rightarrow> image_ok (dockerAPI env) cfg \<and> \<not> config_ok cfg
   | (Panic s, w') \<Rightarrow> \<not> image_ok (dockerAPI env) cfg"
  using ParseCluster_cases[of env cfg p d f g w] by (auto simp: image_ok_def split: option.splits if_splits)


end
