(* ===== verification/Go_Template.thy ===== *)
theory Go_Template
  imports RKE_Prelude "HOL-Library.Char_ord" "HOL-Library.List_Lexorder"
begin

text \<open>
  The part of \<^verbatim>\<open>text/template\<close> that the manifests of \<^verbatim>\<open>templates/\<close> use.  A template is given as the tree that
  \<^verbatim>\<open>template.Parse\<close> makes of it, with the white space next to a trim marker already removed; running it is \<open>execNodes\<close>, and
  \<^verbatim>\<open>templates.CompileTemplateFromMap\<close> is \<open>CompileTemplateFromMap\<close>.

  A template that names only fields which its data has, and ranges only over maps, runs without an error (\<open>exec_total\<close>) and prints
  no \<^verbatim>\<open><no value>\<close>.
\<close>

section \<open>Values and trees\<close>

datatype tval = TStr string | TMap "string gomap"

text \<open>Looking up a field of the data: a struct has no other fields than its own, a map gives no value for a missing key.\<close>

type_synonym tdata = "string \<Rightarrow> gerror + tval option"

type_synonym tvars = "(string \<times> tval option) list"

datatype texpr = TField string | TVar string

datatype tcond = TruthOf texpr | TEq texpr string | TNe texpr string

datatype tnode = TText string | TPrint texpr | TAssign string texpr
  | TIf tcond "tnode list" "tnode list"
  | TRange string string texpr "tnode list"

definition map_data :: "string gomap \<Rightarrow> tdata" where
  "map_data m f = Inr (map_option TStr (mget m f))"

definition no_field :: "string \<Rightarrow> gerror" where
  "no_field f = errorf (''template: compiled_template: can't evaluate field '' @ f)"

section \<open>Execution\<close>

fun evalExpr :: "tdata \<Rightarrow> tvars \<Rightarrow> texpr \<Rightarrow> gerror + tval option" where
  "evalExpr d vs (TField f) = d f"
| "evalExpr d vs (TVar x) = (case map_of vs x of None \<Rightarrow> Inl (errorf (''undefined variable: '' @ x)) | Some v \<Rightarrow> Inr v)"

fun isTrue :: "tval option \<Rightarrow> bool" where
  "isTrue None = False"
| "isTrue (Some (TStr s)) = (s \<noteq> [])"
| "isTrue (Some (TMap m)) = (m \<noteq> [])"

text \<open>\<open>eq\<close> compares values of basic kinds only.\<close>

fun eqString :: "tval option \<Rightarrow> string \<Rightarrow> gerror + bool" where
  "eqString (Some (TStr s)) t = Inr (s = t)"
| "eqString _ t = Inl (errorf ''template: compiled_template: error calling eq: invalid type for comparison'')"

fun evalCond :: "tdata \<Rightarrow> tvars \<Rightarrow> tcond \<Rightarrow> gerror + bool" where
  "evalCond d vs (TruthOf e) = (case evalExpr d vs e of Inl err \<Rightarrow> Inl err | Inr v \<Rightarrow> Inr (isTrue v))"
| "evalCond d vs (TEq e t) = (case evalExpr d vs e of Inl err \<Rightarrow> Inl err | Inr v \<Rightarrow> eqString v t)"
| "evalCond d vs (TNe e t) = (case evalExpr d vs e of Inl err \<Rightarrow> Inl err | Inr v \<Rightarrow>
     (case eqString v t of Inl err \<Rightarrow> Inl err | Inr b \<Rightarrow> Inr (\<not> b)))"

fun printVal :: "tval option \<Rightarrow> string" where
  "printVal None = ''<no value>''"
| "printVal (Some (TStr s)) = s"
| "printVal (Some (TMap m)) = ''map['' @ join_with '' '' (map (\<lambda>(k, v). k @ '':'' @ v) m) @ '']''"

text \<open>The pairs a range runs over, in the order of the keys; over no value it runs not at all.\<close>

fun rangeOver :: "tval option \<Rightarrow> gerror + (string \<times> string) list" where
  "rangeOver None = Inr []"
| "rangeOver (Some (TMap m)) = Inr (sort_key fst m)"
| "rangeOver (Some (TStr s)) = Inl (errorf (''template: compiled_template: range can't iterate over '' @ s))"

text \<open>
  A node gives the text it prints and the variables in scope after it; those declared in a branch or a range end with it.
  In a range the data is the value of the pair, a string, which has no fields.
\<close>

function (sequential) execNode :: "tdata \<Rightarrow> tvars \<Rightarrow> tnode \<Rightarrow> gerror + string \<times> tvars"
  and execNodes :: "tdata \<Rightarrow> tvars \<Rightarrow> tnode list \<Rightarrow> gerror + string"
  and execRange :: "tvars \<Rightarrow> string \<Rightarrow> string \<Rightarrow> tnode list \<Rightarrow> (string \<times> string) list \<Rightarrow> gerror + string" where
  "execNode d vs (TText s) = Inr (s, vs)"
| "execNode d vs (TPrint e) = (case evalExpr d vs e of Inl err \<Rightarrow> Inl err | Inr v \<Rightarrow> Inr (printVal v, vs))"
| "execNode d vs (TAssign x e) = (case evalExpr d vs e of Inl err \<Rightarrow> Inl err | Inr v \<Rightarrow> Inr ([], (x, v) # vs))"
| "execNode d vs (TIf c ns ms) = (case evalCond d vs c of Inl err \<Rightarrow> Inl err | Inr b \<Rightarrow>
     (case (if b then execNodes d vs ns else execNodes d vs ms) of Inl err \<Rightarrow> Inl err | Inr s \<Rightarrow> Inr (s, vs)))"
| "execNode d vs (TRange k v e ns) = (case evalExpr d vs e of Inl err \<Rightarrow> Inl err | Inr x \<Rightarrow>
     (case rangeOver x of Inl err \<Rightarrow> Inl err | Inr ps \<Rightarrow>
       (case execRange vs k v ns ps of Inl err \<Rightarrow> Inl err | Inr s \<Rightarrow> Inr (s, vs))))"
| "execNodes d vs [] = Inr []"
| "execNodes d vs (n # ns) = (case execNode d vs n of Inl err \<Rightarrow> Inl err | Inr (s, vs') \<Rightarrow>
     (case execNodes d vs' ns of Inl err \<Rightarrow> Inl err | Inr t \<Rightarrow> Inr (s @ t)))"
| "execRange vs k v ns [] = Inr []"
| "execRange vs k v ns ((key, val) # ps) =
     (case execNodes (\<lambda>f. Inl (no_field f)) ((v, Some (TStr val)) # (k, Some (TStr key)) # vs) ns of Inl err \<Rightarrow> Inl err | Inr s \<Rightarrow>
       (case execRange vs k v ns ps of Inl err \<Rightarrow> Inl err | Inr t \<Rightarrow> Inr (s @ t)))"
  by pat_completeness auto
termination
  by (relation "measures [\<lambda>x. case x of Inl (d, vs, n) \<Rightarrow> 2 * size n | Inr (Inl (d, vs, ns)) \<Rightarrow> 2 * size_list size ns
      | Inr (Inr (vs, k, v, ns, ps)) \<Rightarrow> Suc (2 * size_list size ns),
    \<lambda>x. case x of Inr (Inr (vs, k, v, ns, ps)) \<Rightarrow> length ps | _ \<Rightarrow> 0]") auto

definition CompileTemplateFromMap :: "tnode list \<Rightarrow> tdata \<Rightarrow> gerror + string" where
  "CompileTemplateFromMap tmplt configMap = execNodes configMap [] tmplt"

section \<open>Templates that fit their data\<close>

text \<open>
  \<open>fitsNodes ss ms vs ns\<close>: the nodes print and compare only the fields \<open>ss\<close> and variables declared before, and range only over the
  fields \<open>ms\<close>.  The data then has to have strings under \<open>ss\<close> and maps under \<open>ms\<close>.
\<close>

fun fitsExpr :: "string list \<Rightarrow> string list \<Rightarrow> texpr \<Rightarrow> bool" where
  "fitsExpr ss vs (TField f) = (f \<in> set ss)"
| "fitsExpr ss vs (TVar x) = (x \<in> set vs)"

fun fitsCond :: "string list \<Rightarrow> string list \<Rightarrow> tcond \<Rightarrow> bool" where
  "fitsCond ss vs (TruthOf e) = fitsExpr ss vs e"
| "fitsCond ss vs (TEq e t) = fitsExpr ss vs e"
| "fitsCond ss vs (TNe e t) = fitsExpr ss vs e"

fun fitsNodes :: "string list \<Rightarrow> string list \<Rightarrow> string list \<Rightarrow> tnode list \<Rightarrow> bool" where
  "fitsNodes ss ms vs [] = True"
| "fitsNodes ss ms vs (TText t # ns) = fitsNodes ss ms vs ns"
| "fitsNodes ss ms vs (TPrint e # ns) = (fitsExpr ss vs e \<and> fitsNodes ss ms vs ns)"
| "fitsNodes ss ms vs (TAssign x e # ns) = (fitsExpr ss vs e \<and> fitsNodes ss ms (x # vs) ns)"
| "fitsNodes ss ms vs (TIf c as bs # ns) = (fitsCond ss vs c \<and> fitsNodes ss ms vs as \<and> fitsNodes ss ms vs bs \<and> fitsNodes ss ms vs ns)"
| "fitsNodes ss ms vs (TRange k v (TField f) as # ns) = (f \<in> set ms \<and> fitsNodes [] [] (v # k # vs) as \<and> fitsNodes ss ms vs ns)"
| "fitsNodes ss ms vs (TRange k v (TVar x) as # ns) = False"

definition fitsData :: "string list \<Rightarrow> string list \<Rightarrow> tdata \<Rightarrow> bool" where
  "fitsData ss ms d \<longleftrightarrow> (\<forall>f \<in> set ss. \<exists>s. d f = Inr (Some (TStr s))) \<and> (\<forall>f \<in> set ms. \<exists>m. d f = Inr (Some (TMap m)))"

definition fitsVars :: "string list \<Rightarrow> tvars \<Rightarrow> bool" where
  "fitsVars vs env \<longleftrightarrow> (\<forall>x \<in> set vs. \<exists>s. map_of env x = Some (Some (TStr s)))"

lemma evalExpr_fits:
  assumes "fitsExpr ss vs e" "fitsData ss ms d" "fitsVars vs env"
  shows "\<exists>s. evalExpr d env e = Inr (Some (TStr s))"
  using assms by (cases e) (auto simp: fitsData_def fitsVars_def)

lemma evalCond_fits:
  assumes "fitsCond ss vs c" "fitsData ss ms d" "fitsVars vs env"
  shows "\<exists>b. evalCond d env c = Inr b"
  using assms by (cases c) (auto dest!: evalExpr_fits)

lemma exec_total:
  "fitsNodes ss ms vs ns \<Longrightarrow> fitsData ss ms d \<Longrightarrow> fitsVars vs env \<Longrightarrow> \<exists>s. execNodes d env ns = Inr s"
proof (induction ss ms vs ns arbitrary: d env rule: fitsNodes.induct)
  case (3 ss ms vs e ns)
  then obtain s where "evalExpr d env e = Inr (Some (TStr s))" using evalExpr_fits by (metis fitsNodes.simps(3))
  moreover obtain t where "execNodes d env ns = Inr t" using 3 by auto
  ultimately show ?case by simp
next
  case (4 ss ms vs x e ns)
  then obtain s where e: "evalExpr d env e = Inr (Some (TStr s))" using evalExpr_fits by (metis fitsNodes.simps(4))
  have "fitsVars (x # vs) ((x, Some (TStr s)) # env)" using 4 by (auto simp: fitsVars_def)
  with 4 obtain t where "execNodes d ((x, Some (TStr s)) # env) ns = Inr t" by auto
  with e show ?case by simp
next
  case (5 ss ms vs c as bs ns)
  then obtain b where "evalCond d env c = Inr b" using evalCond_fits by (metis fitsNodes.simps(5))
  moreover obtain t u v where "execNodes d env as = Inr t" "execNodes d env bs = Inr u" "execNodes d env ns = Inr v"
    using 5 by (metis fitsNodes.simps(5))
  ultimately show ?case by simp
next
  case (6 ss ms vs k v f as ns)
  then obtain m where m: "d f = Inr (Some (TMap m))" by (auto simp: fitsData_def)
  have "\<exists>s. execRange env k v as ps = Inr s" for ps
  proof (induction ps)
    case (Cons p ps)
    obtain key val where p: "p = (key, val)" by force
    have "fitsVars (v # k # vs) ((v, Some (TStr val)) # (k, Some (TStr key)) # env)" using 6 by (auto simp: fitsVars_def)
    then obtain s where "execNodes (\<lambda>f. Inl (no_field f)) ((v, Some (TStr val)) # (k, Some (TStr key)) # env) as = Inr s"
      using 6(1,3) by (fastforce simp: fitsData_def)
    with Cons show ?case by (auto simp: p)
  qed simp
  moreover obtain t where "execNodes d env ns = Inr t" using 6(2)[OF _ "6.prems"(2,3)] "6.prems"(1) by auto
  ultimately show ?case using m by (simp split: sum.splits) (metis Inr_inject sum.distinct(1))
next
  case (2 ss ms vs t ns)
  then obtain s where "execNodes d env ns = Inr s" by fastforce
  then show ?case by simp
qed auto

lemma compile_total: "fitsNodes ss ms [] t \<Longrightarrow> fitsData ss ms d \<Longrightarrow> \<exists>s. CompileTemplateFromMap t d = Inr s"
  unfolding CompileTemplateFromMap_def by (rule exec_total) (simp_all add: fitsVars_def)

lemma fitsData_map: "fitsData ss [] (map_data m) \<longleftrightarrow> (\<forall>f \<in> set ss. mget m f \<noteq> None)"
  by (auto simp: fitsData_def map_data_def)

section \<open>Missing values\<close>

text \<open>The same data with a missing key as an error, as under the option \<^verbatim>\<open>missingkey=error\<close>.\<close>

definition strict :: "tdata \<Rightarrow> tdata" where
  "strict d f = (case d f of Inr None \<Rightarrow> Inl (no_field f) | r \<Rightarrow> r)"

lemma fitsData_strict: "fitsData ss ms d \<Longrightarrow> fitsData ss ms (strict d)"
  by (fastforce simp: fitsData_def strict_def)

lemma evalExpr_strict: "evalExpr (strict d) vs e = Inr v \<Longrightarrow> evalExpr d vs e = Inr v"
  by (cases e) (auto simp: strict_def split: sum.splits option.splits)

lemma evalCond_strict: "evalCond (strict d) vs c = Inr b \<Longrightarrow> evalCond d vs c = Inr b"
  by (cases c) (auto split: sum.splits dest!: evalExpr_strict)

lemma exec_strict:
  "execNode (strict d) vs n = Inr x \<Longrightarrow> execNode d vs n = Inr x"
  "execNodes (strict d) vs ns = Inr s \<Longrightarrow> execNodes d vs ns = Inr s"
  "execRange vs k v rs ps = execRange vs k v rs ps"
proof (induction d vs n and d vs ns and vs k v rs ps arbitrary: x and s and x rule: execNode_execNodes_execRange.induct)
  case (4 d vs c ns ms)
  from "4.prems" obtain b t where b: "evalCond (strict d) vs c = Inr b" and x: "x = (t, vs)"
    and t: "(if b then execNodes (strict d) vs ns else execNodes (strict d) vs ms) = Inr t"
    by (auto split: sum.splits if_splits)
  have "(if b then execNodes d vs ns else execNodes d vs ms) = Inr t"
    using t "4.IH"(1)[OF evalCond_strict[OF b]] "4.IH"(2)[OF evalCond_strict[OF b]] by (cases b) auto
  with evalCond_strict[OF b] show ?case by (simp add: x)
next
  case (5 d vs k v e ns)
  then show ?case by (auto split: sum.splits dest!: evalExpr_strict)
next
  case (7 d vs n ns)
  then show ?case by (fastforce split: sum.splits prod.splits)
qed (auto split: sum.splits dest!: evalExpr_strict)

lemma compile_strict:
  assumes "fitsNodes ss ms [] t" "fitsData ss ms d"
  shows "\<exists>s. CompileTemplateFromMap t (strict d) = Inr s \<and> CompileTemplateFromMap t d = Inr s"
proof -
  obtain s where "CompileTemplateFromMap t (strict d) = Inr s"
    using compile_total[OF assms(1) fitsData_strict[OF assms(2)]] by blast
  with exec_strict(2)[of d "[]" t s] show ?thesis by (auto simp: CompileTemplateFromMap_def)
qed

end
