(* ===== verification/Cluster_Addons.thy ===== *)
theory Cluster_Addons
  imports Cluster_Config K8s Templates
begin

text \<open>
  What is deployed through the Kubernetes API: the authorization objects (\<^verbatim>\<open>authz/\<close>), the manifests made from templates
  (\<^verbatim>\<open>addons/\<close>, the first half of \<^verbatim>\<open>cluster/network.go\<close>) and the jobs that apply them (\<^verbatim>\<open>cluster/addons.go\<close>).
\<close>

section \<open>Authorization\<close>

definition ApplyJobDeployerServiceAccount :: "('d, 'k, 'e) env \<Rightarrow> string \<Rightarrow> ('d, 'k, 'e, unit) wio" where
  "ApplyJobDeployerServiceAccount env kubeConfigPath =
     bindIO (NewClient env kubeConfigPath) (\<lambda>client.
     thenIO (UpdateClusterRoleBindingFromYaml env client JobDeployerClusterRoleBinding)
       (UpdateServiceAccountFromYaml env client JobDeployerServiceAccount))"

definition ApplySystemNodeClusterRoleBinding :: "('d, 'k, 'e) env \<Rightarrow> string \<Rightarrow> ('d, 'k, 'e, unit) wio" where
  "ApplySystemNodeClusterRoleBinding env kubeConfigPath =
     bindIO (NewClient env kubeConfigPath) (\<lambda>client. UpdateClusterRoleBindingFromYaml env client SystemNodeClusterRoleBinding)"

definition ApplyDefaultPodSecurityPolicy :: "('d, 'k, 'e) env \<Rightarrow> string \<Rightarrow> ('d, 'k, 'e, unit) wio" where
  "ApplyDefaultPodSecurityPolicy env kubeConfigPath =
     bindIO (NewClient env kubeConfigPath) (\<lambda>client. UpdatePodSecurityPolicyFromYaml env client DefaultPodSecurityPolicy)"

definition ApplyDefaultPodSecurityPolicyRole :: "('d, 'k, 'e) env \<Rightarrow> string \<Rightarrow> ('d, 'k, 'e, unit) wio" where
  "ApplyDefaultPodSecurityPolicyRole env kubeConfigPath =
     bindIO (NewClient env kubeConfigPath) (\<lambda>client.
     thenIO (UpdateRoleFromYaml env client DefaultPodSecurityRole)
       (UpdateRoleBindingFromYaml env client DefaultPodSecurityRoleBinding))"

definition ApplyAuthzResources :: "('d, 'k, 'e) env \<Rightarrow> Cluster \<Rightarrow> ('d, 'k, 'e, unit) wio" where
  "ApplyAuthzResources env c =
     thenIO (wrapIO ''Failed to apply the ServiceAccount needed for job execution: ''
        (ApplyJobDeployerServiceAccount env (LocalKubeConfigPath c)))
    (if authz_Mode (Authorization c) = NoneAuthorizationMode then retIO ()
     else thenIO (if authz_Mode (Authorization c) = RBACAuthorizationMode
                  then wrapIO ''Failed to apply the ClusterRoleBinding needed for node authorization: ''
                         (ApplySystemNodeClusterRoleBinding env (LocalKubeConfigPath c))
                  else retIO ())
         (if authz_Mode (Authorization c) = RBACAuthorizationMode \<and> api_PodSecurityPolicy (KubeAPI (Services c))
          then thenIO (wrapIO ''Failed to apply default PodSecurityPolicy: '' (ApplyDefaultPodSecurityPolicy env (LocalKubeConfigPath c)))
                 (wrapIO ''Failed to apply default PodSecurityPolicy ClusterRole and ClusterRoleBinding: ''
                    (ApplyDefaultPodSecurityPolicyRole env (LocalKubeConfigPath c)))
          else retIO ()))"

section \<open>Jobs that apply manifests\<close>

definition KubeDNSAddonResourceName :: string where "KubeDNSAddonResourceName = ''rke-kubedns-addon''"
definition UserAddonResourceName :: string where "UserAddonResourceName = ''rke-user-addon''"
definition IngressAddonResourceName :: string where "IngressAddonResourceName = ''rke-ingress-controller''"
definition NetworkPluginResourceName :: string where "NetworkPluginResourceName = ''rke-network-plugin''"

definition jobConfig :: "string \<Rightarrow> string \<Rightarrow> string \<Rightarrow> string gomap" where
  "jobConfig addonName nodeName img = [(''AddonName'', addonName), (''NodeName'', nodeName), (''Image'', img)]"

definition GetAddonsExcuteJob :: "string \<Rightarrow> string \<Rightarrow> string \<Rightarrow> gerror + string" where
  "GetAddonsExcuteJob addonName nodeName img = CompileTemplateFromMap JobDeployerTemplate (map_data (jobConfig addonName nodeName img))"

text \<open>
  \<open>go func() { for { err := m; if err != nil { sleep; continue }; timeout <- true; break } }()\<close> and the \<open>select\<close> over the channel
  and a timer: \<open>m\<close> is tried until it succeeds or the timer fires, which is after \<open>n\<close> attempts.
\<close>

fun untilTimeout :: "nat \<Rightarrow> ('w, 'a) io \<Rightarrow> string \<Rightarrow> ('w, 'a) io" where
  "untilTimeout 0 m msg = failIO (errorf msg)"
| "untilTimeout (Suc n) m msg = tryIO m (\<lambda>_. untilTimeout n m msg) retIO"

definition StoreAddonConfigMap :: "('d, 'k, 'e) env \<Rightarrow> Cluster \<Rightarrow> string \<Rightarrow> string \<Rightarrow> ('d, 'k, 'e, unit) wio" where
  "StoreAddonConfigMap env c addonYaml addonName =
     bindIO (NewClient env (LocalKubeConfigPath c)) (\<lambda>kubeClient.
       untilTimeout (Attempts env) (UpdateConfigMap env kubeClient addonYaml addonName)
         ''[addons] Timeout waiting for kubernetes to be ready'')"

definition ApplySystemAddonExcuteJob :: "('d, 'k, 'e) env \<Rightarrow> Cluster \<Rightarrow> string \<Rightarrow> ('d, 'k, 'e, unit) wio" where
  "ApplySystemAddonExcuteJob env c addonJob = ApplyK8sSystemJob env addonJob (LocalKubeConfigPath c)"

text \<open>\<open>s[0]\<close> of a slice of hosts\<close>

definition firstHost :: "hostref list \<Rightarrow> ('d, 'k, 'e, Host) wio" where
  "firstHost rs = (case rs of [] \<Rightarrow> panicIO ''index out of range'' | r # _ \<Rightarrow> getHost r)"

definition doAddonDeploy :: "('d, 'k, 'e) env \<Rightarrow> Cluster \<Rightarrow> string \<Rightarrow> string \<Rightarrow> ('d, 'k, 'e, unit) wio" where
  "doAddonDeploy env c addonYaml resourceName =
     thenIO (wrapIO ''Failed to save addon ConfigMap: '' (StoreAddonConfigMap env c addonYaml resourceName))
    (bindIO (firstHost (ControlPlaneHosts c)) (\<lambda>h.
     bindIO (wrapIO ''Failed to deploy addon execute job: ''
        (ofSum (GetAddonsExcuteJob resourceName (HostnameOverride h) (svc_Image (KubeAPI (Services c)))))) (\<lambda>addonJob.
       wrapIO ''Failed to deploy addon execute job: '' (ApplySystemAddonExcuteJob env c addonJob))))"

section \<open>Addons\<close>

definition kubeDNSConfig :: "Cluster \<Rightarrow> string gomap" where
  "kubeDNSConfig c =
    [(''ClusterDNSServer'', ClusterDNSServer c), (''ClusterDomain'', ClusterDomain c), (''KubeDNSImage'', img_KubeDNS (SystemImages c)),
     (''DNSMasqImage'', img_DNSmasq (SystemImages c)), (''KubednsSidecarImage'', img_KubeDNSSidecar (SystemImages c)),
     (''KubeDNSAutoScalerImage'', img_KubeDNSAutoscaler (SystemImages c))]"

definition GetKubeDNSManifest :: "string gomap \<Rightarrow> gerror + string" where
  "GetKubeDNSManifest config = CompileTemplateFromMap KubeDNSTemplate (map_data config)"

definition deployKubeDNS :: "('d, 'k, 'e) env \<Rightarrow> Cluster \<Rightarrow> ('d, 'k, 'e, unit) wio" where
  "deployKubeDNS env c =
     bindIO (ofSum (GetKubeDNSManifest (kubeDNSConfig c))) (\<lambda>kubeDNSYaml. doAddonDeploy env c kubeDNSYaml KubeDNSAddonResourceName)"

record ingressOptions =
  opt_RBACConfig :: string
  opt_Options :: "string gomap"
  opt_NodeSelector :: "string gomap"

definition ingress_data :: "ingressOptions \<Rightarrow> tdata" where
  "ingress_data i f =
     (if f = ''RBACConfig'' then Inr (Some (TStr (opt_RBACConfig i)))
      else if f = ''Options'' then Inr (Some (TMap (opt_Options i)))
      else if f = ''NodeSelector'' then Inr (Some (TMap (opt_NodeSelector i)))
      else Inl (no_field f))"

definition GetNginxIngressManifest :: "ingressOptions \<Rightarrow> gerror + string" where
  "GetNginxIngressManifest config = CompileTemplateFromMap NginxIngressTemplate (ingress_data config)"

definition deployIngress :: "('d, 'k, 'e) env \<Rightarrow> Cluster \<Rightarrow> ('d, 'k, 'e, unit) wio" where
  "deployIngress env c =
     (if ing_Provider (Ingress c) = ''none'' then retIO ()
      else bindIO (ofSum (GetNginxIngressManifest \<lparr>opt_RBACConfig = authz_Mode (Authorization c), opt_Options = ing_Options (Ingress c),
                     opt_NodeSelector = ing_NodeSelector (Ingress c)\<rparr>)) (\<lambda>ingressYaml.
             doAddonDeploy env c ingressYaml IngressAddonResourceName))"

definition DeployK8sAddOns :: "('d, 'k, 'e) env \<Rightarrow> Cluster \<Rightarrow> ('d, 'k, 'e, unit) wio" where
  "DeployK8sAddOns env c = thenIO (deployKubeDNS env c) (deployIngress env c)"

definition DeployUserAddOns :: "('d, 'k, 'e) env \<Rightarrow> Cluster \<Rightarrow> ('d, 'k, 'e, unit) wio" where
  "DeployUserAddOns env c = (if Addons c = [] then retIO () else doAddonDeploy env c (Addons c) UserAddonResourceName)"

definition DeployAddons :: "('d, 'k, 'e) env \<Rightarrow> Cluster \<Rightarrow> ('d, 'k, 'e, unit) wio" where
  "DeployAddons env c = thenIO (DeployK8sAddOns env c) (DeployUserAddOns env c)"

section \<open>Network plugins\<close>

definition FlannelIface :: string where "FlannelIface = ''flannel_iface''"

text \<open>Reading a map that may be nil.\<close>

definition nets :: "Cluster \<Rightarrow> string \<Rightarrow> string" where
  "nets c k = (case net_Options (Network c) of None \<Rightarrow> [] | Some m \<Rightarrow> mgets m k)"

definition certOf :: "Cluster \<Rightarrow> string \<Rightarrow> CertificatePKI" where
  "certOf c n = (case Certificates c of None \<Rightarrow> CertificatePKI_zero | Some m \<Rightarrow> cert_get m n)"

text \<open>The keys of the maps that the templates of the network plugins are filled from.\<close>

definition EtcdEndpointsKey :: string where "EtcdEndpointsKey = ''EtcdEndpoints''"
definition APIRootKey :: string where "APIRootKey = ''APIRoot''"
definition ClientCertKey :: string where "ClientCertKey = ''ClientCert''"
definition ClientCertPathKey :: string where "ClientCertPathKey = ''ClientCertPath''"
definition ClientKeyKey :: string where "ClientKeyKey = ''ClientKey''"
definition ClientKeyPathKey :: string where "ClientKeyPathKey = ''ClientKeyPath''"
definition ClientCAKey :: string where "ClientCAKey = ''ClientCA''"
definition ClientCAPathKey :: string where "ClientCAPathKey = ''ClientCAPath''"
definition KubeCfgKey :: string where "KubeCfgKey = ''KubeCfg''"
definition ClusterCIDRKey :: string where "ClusterCIDRKey = ''ClusterCIDR''"
definition ImageKey :: string where "ImageKey = ''Image''"
definition CNIImageKey :: string where "CNIImageKey = ''CNIImage''"
definition NodeImageKey :: string where "NodeImageKey = ''NodeImage''"
definition ControllersImageKey :: string where "ControllersImageKey = ''ControllersImage''"
definition CanalFlannelImgKey :: string where "CanalFlannelImgKey = ''CanalFlannelImg''"
definition CalicoctlKey :: string where "CalicoctlKey = ''Calicoctl''"
definition FlannelInterfaceKey :: string where "FlannelInterfaceKey = ''FlannelInterface''"
definition CloudProviderKey :: string where "CloudProviderKey = ''CloudProvider''"
definition RBACConfigKey :: string where "RBACConfigKey = ''RBACConfig''"

lemmas network_key_defs =
  EtcdEndpointsKey_def APIRootKey_def ClientCertKey_def ClientCertPathKey_def ClientKeyKey_def ClientKeyPathKey_def
  ClientCAKey_def ClientCAPathKey_def KubeCfgKey_def ClusterCIDRKey_def ImageKey_def CNIImageKey_def NodeImageKey_def
  ControllersImageKey_def CanalFlannelImgKey_def CalicoctlKey_def FlannelInterfaceKey_def CloudProviderKey_def
  RBACConfigKey_def

definition flannelConfig :: "Cluster \<Rightarrow> string gomap" where
  "flannelConfig c =
    [(ClusterCIDRKey, ClusterCIDR c), (ImageKey, img_Flannel (SystemImages c)), (CNIImageKey, img_FlannelCNI (SystemImages c)),
     (FlannelInterfaceKey, nets c FlannelIface), (RBACConfigKey, authz_Mode (Authorization c))]"

definition calicoConfig :: "Cluster \<Rightarrow> Host list \<Rightarrow> string \<Rightarrow> string \<Rightarrow> string \<Rightarrow> string gomap" where
  "calicoConfig c etcdHosts clientCert clientkey caCert =
    [(EtcdEndpointsKey, GetEtcdConnString etcdHosts), (APIRootKey, ''https://127.0.0.1:6443''),
     (ClientCertKey, clientCert), (ClientCertPathKey, GetCertPath KubeNodeCertName),
     (ClientKeyKey, clientkey), (ClientKeyPathKey, GetKeyPath KubeNodeCertName),
     (ClientCAKey, caCert), (ClientCAPathKey, GetCertPath CACertName),
     (KubeCfgKey, GetConfigPath KubeNodeCertName), (ClusterCIDRKey, ClusterCIDR c),
     (CNIImageKey, img_CalicoCNI (SystemImages c)), (NodeImageKey, img_CalicoNode (SystemImages c)),
     (ControllersImageKey, img_CalicoControllers (SystemImages c)), (CalicoctlKey, img_CalicoCtl (SystemImages c)),
     (CloudProviderKey, nets c CalicoCloudProvider), (RBACConfigKey, authz_Mode (Authorization c))]"

definition canalConfig :: "Cluster \<Rightarrow> string gomap" where
  "canalConfig c =
    [(ClientCertPathKey, GetCertPath KubeNodeCertName), (APIRootKey, ''https://127.0.0.1:6443''),
     (ClientKeyPathKey, GetKeyPath KubeNodeCertName), (ClientCAPathKey, GetCertPath CACertName),
     (KubeCfgKey, GetConfigPath KubeNodeCertName), (ClusterCIDRKey, ClusterCIDR c),
     (NodeImageKey, img_CanalNode (SystemImages c)), (CNIImageKey, img_CanalCNI (SystemImages c)),
     (CanalFlannelImgKey, img_CanalFlannel (SystemImages c)), (RBACConfigKey, authz_Mode (Authorization c))]"

definition weaveConfig :: "Cluster \<Rightarrow> string gomap" where
  "weaveConfig c =
    [(ClusterCIDRKey, ClusterCIDR c), (ImageKey, img_WeaveNode (SystemImages c)), (CNIImageKey, img_WeaveCNI (SystemImages c)),
     (RBACConfigKey, authz_Mode (Authorization c))]"

definition unsupportedPlugin :: "string \<Rightarrow> gerror" where
  "unsupportedPlugin p = errorf (''[network] Unsupported network plugin: '' @ p)"

definition getNetworkPluginManifest :: "Cluster \<Rightarrow> string gomap \<Rightarrow> gerror + string" where
  "getNetworkPluginManifest c pluginConfig =
     (let p = net_Plugin (Network c) in
      if p = FlannelNetworkPlugin then CompileTemplateFromMap FlannelTemplate (map_data pluginConfig)
      else if p = CalicoNetworkPlugin then CompileTemplateFromMap CalicoTemplate (map_data pluginConfig)
      else if p = CanalNetworkPlugin then CompileTemplateFromMap CanalTemplate (map_data pluginConfig)
      else if p = WeaveNetworkPlugin then CompileTemplateFromMap WeaveTemplate (map_data pluginConfig)
      else Inl (unsupportedPlugin p))"

text \<open>The common end of the four deployments.\<close>

definition deployPlugin :: "('d, 'k, 'e) env \<Rightarrow> Cluster \<Rightarrow> string gomap \<Rightarrow> ('d, 'k, 'e, unit) wio" where
  "deployPlugin env c pluginConfig =
     bindIO (ofSum (getNetworkPluginManifest c pluginConfig)) (\<lambda>pluginYaml. doAddonDeploy env c pluginYaml NetworkPluginResourceName)"

definition doFlannelDeploy :: "('d, 'k, 'e) env \<Rightarrow> Cluster \<Rightarrow> ('d, 'k, 'e, unit) wio" where
  "doFlannelDeploy env c = deployPlugin env c (flannelConfig c)"

definition doCalicoDeploy :: "('d, 'k, 'e) env \<Rightarrow> Cluster \<Rightarrow> ('d, 'k, 'e, unit) wio" where
  "doCalicoDeploy env c =
     bindIO (EncodeCertPEM env (Certificate (certOf c KubeNodeCertName))) (\<lambda>clientCert.
     bindIO (EncodePrivateKeyPEM env (cert_Key (certOf c KubeNodeCertName))) (\<lambda>clientkey.
     bindIO (EncodeCertPEM env (Certificate (certOf c CACertName))) (\<lambda>caCert.
     bindIO (getHosts (EtcdHosts c)) (\<lambda>etcdHosts.
       deployPlugin env c (calicoConfig c etcdHosts (b64_encode b64_std clientCert) (b64_encode b64_std clientkey)
         (b64_encode b64_std caCert))))))"

definition doCanalDeploy :: "('d, 'k, 'e) env \<Rightarrow> Cluster \<Rightarrow> ('d, 'k, 'e, unit) wio" where
  "doCanalDeploy env c = deployPlugin env c (canalConfig c)"

definition doWeaveDeploy :: "('d, 'k, 'e) env \<Rightarrow> Cluster \<Rightarrow> ('d, 'k, 'e, unit) wio" where
  "doWeaveDeploy env c = deployPlugin env c (weaveConfig c)"

definition DeployNetworkPlugin :: "('d, 'k, 'e) env \<Rightarrow> Cluster \<Rightarrow> ('d, 'k, 'e, unit) wio" where
  "DeployNetworkPlugin env c =
     (let p = net_Plugin (Network c) in
      if p = FlannelNetworkPlugin then doFlannelDeploy env c
      else if p = CalicoNetworkPlugin then doCalicoDeploy env c
      else if p = CanalNetworkPlugin then doCanalDeploy env c
      else if p = WeaveNetworkPlugin then doWeaveDeploy env c
      else failIO (unsupportedPlugin p))"

section \<open>The manifests are complete\<close>

lemma manifest_fits:
  "fitsNodes (map fst (jobConfig a n i)) [] [] JobDeployerTemplate"
  "fitsNodes (map fst (kubeDNSConfig c)) [] [] KubeDNSTemplate"
  "fitsNodes [''RBACConfig''] [''Options'', ''NodeSelector''] [] NginxIngressTemplate"
  "fitsNodes (map fst (flannelConfig c)) [] [] FlannelTemplate"
  "fitsNodes (map fst (calicoConfig c hs x y z)) [] [] CalicoTemplate"
  "fitsNodes (map fst (canalConfig c)) [] [] CanalTemplate"
  "fitsNodes (map fst (weaveConfig c)) [] [] WeaveTemplate"
  by (simp_all add: network_key_defs jobConfig_def kubeDNSConfig_def flannelConfig_def calicoConfig_def canalConfig_def weaveConfig_def
      JobDeployerTemplate_def KubeDNSTemplate_def NginxIngressTemplate_def FlannelTemplate_def CalicoTemplate_def CanalTemplate_def
      WeaveTemplate_def)

lemma fitsData_keys: "fitsData (map fst m) [] (map_data m)"
  unfolding fitsData_map by (auto simp: map_of_eq_None_iff)

lemma fitsData_ingress: "fitsData [''RBACConfig''] [''Options'', ''NodeSelector''] (ingress_data i)"
  by (simp add: fitsData_def ingress_data_def)

text \<open>The configuration that the deployment of the cluster's network plugin hands to the template.\<close>

definition pluginConfigOf :: "Cluster \<Rightarrow> Host list \<Rightarrow> string \<Rightarrow> string \<Rightarrow> string \<Rightarrow> string gomap" where
  "pluginConfigOf c hs crt key ca =
     (let p = net_Plugin (Network c) in
      if p = FlannelNetworkPlugin then flannelConfig c else if p = CalicoNetworkPlugin then calicoConfig c hs crt key ca
      else if p = CanalNetworkPlugin then canalConfig c else weaveConfig c)"

definition pluginTemplate :: "Cluster \<Rightarrow> tnode list" where
  "pluginTemplate c =
     (let p = net_Plugin (Network c) in
      if p = FlannelNetworkPlugin then FlannelTemplate else if p = CalicoNetworkPlugin then CalicoTemplate
      else if p = CanalNetworkPlugin then CanalTemplate else WeaveTemplate)"

text \<open>
  C21: every manifest the program makes can be made: for any cluster with a supported network plugin the templates of the job, of the DNS
  service, of the ingress controller and of the plugin run without an error on the data they are given, and they would even if a key
  missing from that data were an error, so that no \<^verbatim>\<open><no value>\<close> ends up in a manifest.
\<close>

theorem manifests_complete:
  assumes "net_Plugin (Network c) \<in> {FlannelNetworkPlugin, CalicoNetworkPlugin, CanalNetworkPlugin, WeaveNetworkPlugin}"
  shows "(\<exists>s. GetAddonsExcuteJob a n i = Inr s \<and> CompileTemplateFromMap JobDeployerTemplate (strict (map_data (jobConfig a n i))) = Inr s) \<and>
     (\<exists>s. GetKubeDNSManifest (kubeDNSConfig c) = Inr s \<and> CompileTemplateFromMap KubeDNSTemplate (strict (map_data (kubeDNSConfig c))) = Inr s) \<and>
     (\<exists>s. GetNginxIngressManifest ing = Inr s \<and> CompileTemplateFromMap NginxIngressTemplate (strict (ingress_data ing)) = Inr s) \<and>
     (\<exists>s. getNetworkPluginManifest c (pluginConfigOf c hs crt key ca) = Inr s \<and>
        CompileTemplateFromMap (pluginTemplate c) (strict (map_data (pluginConfigOf c hs crt key ca))) = Inr s)"
proof -
  note keys = compile_strict[OF _ fitsData_keys]
  have "fitsNodes (map fst (pluginConfigOf c hs crt key ca)) [] [] (pluginTemplate c)"
    using assms manifest_fits(4-7) by (auto simp: pluginConfigOf_def pluginTemplate_def Let_def)
  from keys[OF this] assms
  have plugin: "\<exists>s. getNetworkPluginManifest c (pluginConfigOf c hs crt key ca) = Inr s \<and>
      CompileTemplateFromMap (pluginTemplate c) (strict (map_data (pluginConfigOf c hs crt key ca))) = Inr s"
    by (auto simp: getNetworkPluginManifest_def pluginTemplate_def Let_def FlannelNetworkPlugin_def CalicoNetworkPlugin_def
        CanalNetworkPlugin_def WeaveNetworkPlugin_def)
  show ?thesis
    using keys[OF manifest_fits(1), of a n i] keys[OF manifest_fits(2), of c] compile_strict[OF manifest_fits(3) fitsData_ingress[of ing]] plugin
    by (auto simp: GetAddonsExcuteJob_def GetKubeDNSManifest_def GetNginxIngressManifest_def)
qed

definition demo_cluster :: Cluster where
  "demo_cluster = (clusterOf GetLocalRKEConfig [] None None)\<lparr>Network := \<lparr>net_Plugin = CalicoNetworkPlugin, net_Options = None\<rparr>\<rparr>"

theorem manifests_complete_witness:
  "\<exists>s. getNetworkPluginManifest demo_cluster (calicoConfig demo_cluster [] [] [] []) = Inr s"
proof -
  have "net_Plugin (Network demo_cluster) = CalicoNetworkPlugin" "CalicoNetworkPlugin \<noteq> FlannelNetworkPlugin"
    by (simp_all add: demo_cluster_def CalicoNetworkPlugin_def FlannelNetworkPlugin_def)
  with manifests_complete[of demo_cluster "[]" "[]" "[]" "\<lparr>opt_RBACConfig = [], opt_Options = [], opt_NodeSelector = []\<rparr>" "[]" "[]" "[]" "[]"] show ?thesis
    by (auto simp: pluginConfigOf_def Let_def)
qed

end
