(* ===== verification/Planes.thy ===== *)
theory Planes
  imports Services
begin

text \<open>
  The control and worker planes (\<^verbatim>\<open>services/controlplane.go\<close>, \<^verbatim>\<open>services/workerplane.go\<close>): what is deployed on one host, the
  deployment over all hosts by an \<^verbatim>\<open>errgroup\<close>, and the teardown.

  The locale \<open>host_task\<close> is the contract of an operation on one host that a plane repeats on many: which containers it may
  touch, and what holds of that host when it returns.  Its lemmas lift the contract to a loop and to an error group
  over the hosts of a plane; it is interpreted on the operations of this theory and of \<open>Etcd\<close>.
\<close>

section \<open>Operations\<close>

definition doDeployControlHost ::
  "('d, 'k, 'e) env \<Rightarrow> hostref \<Rightarrow> hostref list \<Rightarrow> RKEConfigServices \<Rightarrow> string \<Rightarrow> string \<Rightarrow> DialerFactory option \<Rightarrow>
     PrivateRegistry gomap \<Rightarrow> ('d, 'k, 'e, unit) wio" where
  "doDeployControlHost env r etcdHosts controlServices sidekickImage authorizationMode df prsMap =
     bindIO (getHost r) (\<lambda>h.
     thenIO (if IsWorker h then removeNginxProxy env r else retIO ())
    (thenIO (runSidekick env r sidekickImage prsMap)
    (thenIO (runKubeAPI env r etcdHosts (KubeAPI controlServices) authorizationMode df prsMap)
    (thenIO (runKubeController env r (KubeController controlServices) authorizationMode df prsMap)
       (runScheduler env r (Scheduler controlServices) df prsMap)))))"

definition RunControlPlane ::
  "('d, 'k, 'e) env \<Rightarrow> hostref list \<Rightarrow> hostref list \<Rightarrow> RKEConfigServices \<Rightarrow> string \<Rightarrow> string \<Rightarrow> DialerFactory option \<Rightarrow>
     PrivateRegistry gomap \<Rightarrow> ('d, 'k, 'e, unit) wio" where
  "RunControlPlane env controlHosts etcdHosts controlServices sidekickImage authorizationMode df prsMap =
     errgroupIO (map (\<lambda>r. doDeployControlHost env r etcdHosts controlServices sidekickImage authorizationMode df prsMap) controlHosts)"

text \<open>
  The loop leaves with nil, not with the error, when the controller manager or the proxy cannot be removed.
\<close>

fun RemoveControlPlane :: "('d, 'k, 'e) env \<Rightarrow> hostref list \<Rightarrow> bool \<Rightarrow> ('d, 'k, 'e, unit) wio" where
  "RemoveControlPlane env [] force = retIO ()"
| "RemoveControlPlane env (r # rs) force =
     thenIO (removeKubeAPI env r)
    (tryIO (removeKubeController env r) (\<lambda>_. retIO ()) (\<lambda>_.
     thenIO (removeScheduler env r)
    (bindIO (getHost r) (\<lambda>h.
       if IsWorker h then RemoveControlPlane env rs force
       else thenIO (removeKubelet env r)
           (tryIO (removeKubeproxy env r) (\<lambda>_. retIO ()) (\<lambda>_.
            thenIO (removeSidekick env r) (RemoveControlPlane env rs force)))))))"

definition unschedulableEtcdTaint :: string where
  "unschedulableEtcdTaint = ''node-role.kubernetes.io/etcd=true:NoExecute''"

definition doDeployWorkerPlane ::
  "('d, 'k, 'e) env \<Rightarrow> hostref \<Rightarrow> RKEConfigServices \<Rightarrow> string \<Rightarrow> string \<Rightarrow> DialerFactory option \<Rightarrow> hostref list \<Rightarrow>
     PrivateRegistry gomap \<Rightarrow> ('d, 'k, 'e, unit) wio" where
  "doDeployWorkerPlane env r workerServices nginxProxyImage sidekickImage df controlHosts prsMap =
     bindIO (getHost r) (\<lambda>h.
     thenIO (if \<not> IsControl h then runNginxProxy env r controlHosts nginxProxyImage prsMap else retIO ())
    (thenIO (runSidekick env r sidekickImage prsMap)
    (thenIO (runKubelet env r (Kubelet workerServices) df prsMap)
       (runKubeproxy env r (Kubeproxy workerServices) df prsMap))))"

definition addEtcdTaint :: "hostref \<Rightarrow> ('d, 'k, 'e, unit) wio" where
  "addEtcdTaint r = bindIO (getHost r) (\<lambda>h.
     if \<not> IsControl h \<and> \<not> IsWorker h then setHost r (\<lambda>h. h\<lparr>ToAddTaints := ToAddTaints h @ [unschedulableEtcdTaint]\<rparr>)
     else retIO ())"

definition RunWorkerPlane ::
  "('d, 'k, 'e) env \<Rightarrow> hostref list \<Rightarrow> hostref list \<Rightarrow> hostref list \<Rightarrow> RKEConfigServices \<Rightarrow> string \<Rightarrow> string \<Rightarrow>
     DialerFactory option \<Rightarrow> PrivateRegistry gomap \<Rightarrow> ('d, 'k, 'e, unit) wio" where
  "RunWorkerPlane env controlHosts workerHosts etcdHosts workerServices nginxProxyImage sidekickImage df prsMap =
     (let deploy = (\<lambda>r. doDeployWorkerPlane env r workerServices nginxProxyImage sidekickImage df controlHosts prsMap) in
      thenIO (errgroupIO (map (\<lambda>r. thenIO (addEtcdTaint r) (deploy r)) etcdHosts))
     (thenIO (errgroupIO (map deploy controlHosts))
        (errgroupIO (map deploy workerHosts))))"

text \<open>The \<open>return nil\<close> at a control host leaves the loop, not the round.\<close>

fun RemoveWorkerPlane :: "('d, 'k, 'e) env \<Rightarrow> hostref list \<Rightarrow> bool \<Rightarrow> ('d, 'k, 'e, unit) wio" where
  "RemoveWorkerPlane env [] force = retIO ()"
| "RemoveWorkerPlane env (r # rs) force =
     bindIO (getHost r) (\<lambda>h.
       if IsControl h \<and> \<not> force then retIO ()
       else thenIO (removeKubelet env r)
           (thenIO (removeKubeproxy env r)
           (thenIO (removeNginxProxy env r)
           (thenIO (removeSidekick env r)
              (RemoveWorkerPlane env rs force)))))"

section \<open>Error groups\<close>

text \<open>An error group returns only if all its tasks did; each task starts in what the ones before it left.\<close>

lemma confined_errgroup:
  fixes t :: "('d, 'k, 'e, unit) wio"
  assumes "confined view S x t (\<lambda>_. R)" "\<And>x'. touched S x x' \<Longrightarrow> confined view S x' (errgroupIO ts) (\<lambda>_. Q x')"
    "\<And>x' x''. touched S x x' \<Longrightarrow> R x' \<Longrightarrow> Q x' x'' \<Longrightarrow> P x''"
  shows "confined view S x (errgroupIO (t # ts)) (\<lambda>_. P)"
  unfolding confined_def vtriple_def
proof (intro allI impI)
  fix w :: "('d, 'k, 'e) world"
  assume w: "world_view view w = x"
  obtain res w' where t: "t w = (res, w')" by fastforce
  note c = confined_world[OF assms(1)[folded w] t]
  obtain res2 w'' where ts: "errgroupIO ts w' = (res2, w'')" by fastforce
  note c2 = confined_world[OF assms(2)[OF c(1)[unfolded w]] ts]
  have tt: "touched S x (world_view view w'')" using touched_trans[OF c(1) c2(1)] w by simp
  show "case errgroupIO (t # ts) w of (Ret y, w') \<Rightarrow> touched S x (world_view view w') \<and> P (world_view view w')
      | (Fail e, w') \<Rightarrow> touched S x (world_view view w') | (Panic s, w') \<Rightarrow> False"
    using t ts c c2 tt assms(3)[of "world_view view w'"] w by (cases res; cases res2) auto
qed

section \<open>The contract of an operation on one host\<close>

locale host_task =
  fixes task :: "('d, 'k, 'e) env \<Rightarrow> hostref \<Rightarrow> ('d, 'k, 'e, unit) wio"
    and names :: "string list"
    and pre :: "wview \<Rightarrow> bool"
    and goal :: "wview \<Rightarrow> hostref \<Rightarrow> string \<Rightarrow> bool"
  assumes task_law: "docker_laws (dockerAPI env) view \<Longrightarrow> ext_answers (extAPI env) \<Longrightarrow> pre x \<Longrightarrow> ready x r a \<Longrightarrow>
      confined view (slots a names) x (task env r) (\<lambda>_ x'. goal x' r a)"
    and pre_stable: "pre x \<Longrightarrow> touched S x x' \<Longrightarrow> pre x'"
    and goal_local: "goal x r a \<Longrightarrow> ready x r a \<Longrightarrow> touched S x x' \<Longrightarrow> \<forall>m. (a, m) \<notin> S \<Longrightarrow> goal x' r a"
begin

text \<open>Whether the hosts are served in turn or by an error group, the hosts that were served last keep their goals.\<close>

lemma later_hosts:
  assumes "inj_on cl (set (r # rs))" "ready x r (cl r)" "goal x r (cl r)"
    "touched (\<Union>q \<in> set rs. slots (cl q) names) x x'" "\<forall>q \<in> set rs. goal x' q (cl q)" "q \<in> set (r # rs)"
  shows "goal x' q (cl q)"
proof (cases "q \<in> set rs")
  case False
  with assms(6) have q: "q = r" "r \<notin> set rs" by auto
  have "\<forall>m. (cl r, m) \<notin> (\<Union>p \<in> set rs. slots (cl p) names)"
  proof (intro allI notI)
    fix m
    assume "(cl r, m) \<in> (\<Union>p \<in> set rs. slots (cl p) names)"
    then obtain p where "p \<in> set rs" "cl p = cl r" by (auto simp: slots_simps)
    with assms(1) q(2) show False by (auto simp: inj_on_def)
  qed
  with goal_local[OF assms(3,2,4)] q show ?thesis by simp
qed (use assms(5) in simp)

lemma serve_each:
  assumes "docker_laws (dockerAPI env) view" "ext_answers (extAPI env)"
  shows "pre x \<Longrightarrow> \<forall>r \<in> set rs. ready x r (cl r) \<Longrightarrow> inj_on cl (set rs) \<Longrightarrow>
     confined view (\<Union>r \<in> set rs. slots (cl r) names) x (forIO (task env) rs) (\<lambda>_ x'. \<forall>r \<in> set rs. goal x' r (cl r))"
proof (induction rs arbitrary: x)
  case Nil
  then show ?case by (simp add: confined_ret)
next
  case (Cons r rs)
  let ?T = "\<Union>q \<in> set rs. slots (cl q) names" and ?S = "\<Union>q \<in> set (r # rs). slots (cl q) names"
  have rd: "ready x r (cl r)" using Cons.prems by simp
  have first: "confined view ?S x (task env r) (\<lambda>_ x'. goal x' r (cl r))"
    by (rule confined_conseq[OF task_law[OF assms Cons.prems(1) rd]]) auto
  show ?case
    unfolding forIO.simps
  proof (rule confined_then[OF first])
    fix y x'
    assume t: "touched ?S x x'" and g: "goal x' r (cl r)"
    have rd': "\<forall>q \<in> set (r # rs). ready x' q (cl q)" using Cons.prems(2) touched_ready[OF t] by blast
    have rest: "confined view ?T x' (forIO (task env) rs) (\<lambda>_ x''. \<forall>q \<in> set rs. goal x'' q (cl q))"
      by (rule Cons.IH) (use Cons.prems rd' pre_stable[OF _ t] in \<open>auto simp: inj_on_def\<close>)
    show "confined view ?S x' (forIO (task env) rs) (\<lambda>_ x''. \<forall>q \<in> set (r # rs). goal x'' q (cl q))"
      by (rule confined_conseq[OF rest]) (use later_hosts[OF Cons.prems(3) _ g] rd' in \<open>auto\<close>)
  qed
qed

lemma serve_all:
  assumes "docker_laws (dockerAPI env) view" "ext_answers (extAPI env)"
  shows "pre x \<Longrightarrow> \<forall>r \<in> set rs. ready x r (cl r) \<Longrightarrow> inj_on cl (set rs) \<Longrightarrow>
     confined view (\<Union>r \<in> set rs. slots (cl r) names) x (errgroupIO (map (task env) rs))
       (\<lambda>_ x'. \<forall>r \<in> set rs. goal x' r (cl r))"
proof (induction rs arbitrary: x)
  case Nil
  then show ?case by (simp add: confined_ret)
next
  case (Cons r rs)
  let ?T = "\<Union>q \<in> set rs. slots (cl q) names" and ?S = "\<Union>q \<in> set (r # rs). slots (cl q) names"
  have rd: "ready x r (cl r)" using Cons.prems by simp
  have first: "confined view ?S x (task env r) (\<lambda>_ x'. goal x' r (cl r))"
    by (rule confined_conseq[OF task_law[OF assms Cons.prems(1) rd]]) auto
  show ?case
    unfolding list.map
  proof (rule confined_errgroup[OF first, where Q = "\<lambda>x' x''. touched ?T x' x'' \<and> (\<forall>q \<in> set rs. goal x'' q (cl q))"])
    fix x'
    assume t: "touched ?S x x'"
    have rd': "\<forall>q \<in> set (r # rs). ready x' q (cl q)" using Cons.prems(2) touched_ready[OF t] by blast
    have rest: "confined view ?T x' (errgroupIO (map (task env) rs)) (\<lambda>_ x''. \<forall>q \<in> set rs. goal x'' q (cl q))"
      by (rule Cons.IH) (use Cons.prems rd' pre_stable[OF _ t] in \<open>auto simp: inj_on_def\<close>)
    show "confined view ?S x' (errgroupIO (map (task env) rs)) (\<lambda>_ x''. touched ?T x' x'' \<and> (\<forall>q \<in> set rs. goal x'' q (cl q)))"
      by (rule confined_conseq[OF rest]) auto
  next
    fix x' x''
    assume t: "touched ?S x x'" and g: "goal x' r (cl r)" and q: "touched ?T x' x'' \<and> (\<forall>q \<in> set rs. goal x'' q (cl q))"
    have "ready x' r (cl r)" using rd touched_ready[OF t] by blast
    with later_hosts[OF Cons.prems(3) _ g] q show "\<forall>q \<in> set (r # rs). goal x'' q (cl q)" by blast
  qed
qed

end

section \<open>One service at a time\<close>

text \<open>
  A host is served by steps, each of which works on the container of one name and establishes a condition \<open>p\<close> on it.
  If no name is another one or the name another one is set aside under, all conditions hold at the end.
\<close>

fun seqIO :: "('w, unit) io list \<Rightarrow> ('w, unit) io" where
  "seqIO [] = retIO ()"
| "seqIO [m] = m"
| "seqIO (m # m' # ms) = thenIO m (seqIO (m' # ms))"

definition apart :: "string list \<Rightarrow> bool" where
  "apart ns \<longleftrightarrow> distinct ns \<and> list_all (\<lambda>n. list_all (\<lambda>m. n \<noteq> old_name m) ns) ns"

definition is_up :: "cont option \<Rightarrow> bool" where
  "is_up c \<longleftrightarrow> (\<exists>c0. c = Some c0 \<and> c_up c0)"

lemma confined_seq:
  assumes "apart (map fst steps)" "set (map fst steps) \<subseteq> set ns"
    "\<forall>(n, m, p) \<in> set steps. \<forall>x'. touched (slots a ns) x x' \<longrightarrow>
        confined view (slots a [n]) x' m (\<lambda>_ x''. p (conts (wv_docker x'' a) n))"
  shows "confined view (slots a ns) x (seqIO (map (fst \<circ> snd) steps))
     (\<lambda>_ x'. touched (slots a (map fst steps)) x x' \<and> (\<forall>(n, m, p) \<in> set steps. p (conts (wv_docker x' a) n)))"
  using assms
proof (induction steps arbitrary: x)
  case Nil
  then show ?case by (simp add: confined_ret)
next
  case (Cons st steps)
  obtain n m p where st: "st = (n, m, p)" by (cases st)
  let ?rest = "seqIO (map (fst \<circ> snd) steps)" and ?rns = "map fst steps"
  have sub: "slots a [n] \<subseteq> slots a ns" using Cons.prems(2) st by (auto simp: slots_def)
  have all: "slots a [n] \<subseteq> slots a (map fst (st # steps))" "slots a ?rns \<subseteq> slots a (map fst (st # steps))"
    by (auto simp: slots_def st)
  have first: "confined view (slots a ns) x m (\<lambda>_ x'. touched (slots a [n]) x x' \<and> p (conts (wv_docker x' a) n))"
    by (rule confined_conseq[OF _ sub]) (use Cons.prems(3) st in auto)
  have free: "(a, n) \<notin> slots a ?rns"
    using Cons.prems(1) st by (auto simp: apart_def slots_simps list_all_iff)
  have whole: "confined view (slots a ns) x (thenIO m ?rest)
     (\<lambda>_ x'. touched (slots a (map fst (st # steps))) x x' \<and> (\<forall>(n, m, p) \<in> set (st # steps). p (conts (wv_docker x' a) n)))"
  proof (rule confined_then[OF first], elim conjE)
    fix x'
    assume t: "touched (slots a ns) x x'" and tn: "touched (slots a [n]) x x'" and p: "p (conts (wv_docker x' a) n)"
    have rest: "confined view (slots a ns) x' ?rest
        (\<lambda>_ x'. touched (slots a ?rns) x'' x' \<and> (\<forall>(n, m, p) \<in> set steps. p (conts (wv_docker x' a) n)))" if "x'' = x'" for x''
      unfolding that using Cons.prems touched_trans[OF t] by (intro Cons.IH) (auto simp: apart_def list_all_iff)
    show "confined view (slots a ns) x' ?rest
        (\<lambda>_ x'. touched (slots a (map fst (st # steps))) x x' \<and> (\<forall>(n, m, p) \<in> set (st # steps). p (conts (wv_docker x' a) n)))"
    proof (rule confined_conseq[OF rest[OF refl] subset_refl], elim conjE, intro conjI)
      fix x2
      assume t2: "touched (slots a ?rns) x' x2" and g: "\<forall>(n, m, p) \<in> set steps. p (conts (wv_docker x2 a) n)"
      show "touched (slots a (map fst (st # steps))) x x2"
        using touched_trans[OF touched_mono[OF tn all(1)] touched_mono[OF t2 all(2)]] .
      show "\<forall>(n, m, p) \<in> set (st # steps). p (conts (wv_docker x2 a) n)"
        using g p touched_cont[OF t2 free] st by auto
    qed
  qed
  show ?case
  proof (cases steps)
    case Nil
    then show ?thesis using confined_conseq[OF first subset_refl] st by auto
  next
    case (Cons st2 steps2)
    then have "seqIO (map (fst \<circ> snd) (st # steps)) = thenIO m ?rest" by (simp add: st)
    then show ?thesis using whole by (simp only:)
  qed
qed

lemma up_is_up: "up x a n \<longleftrightarrow> is_up (conts (wv_docker x a) n)"
  by (simp add: up_def is_up_def)

lemma touched_flags:
  assumes "touched S x x'" "r < length (wv_hosts x)"
  shows "IsWorker (wv_hosts x' ! r) = IsWorker (wv_hosts x ! r)" "IsControl (wv_hosts x' ! r) = IsControl (wv_hosts x ! r)"
  using touched_host[OF assms] conn_eq_sel(5,6) by blast+

lemma start_lemmas:
  assumes "docker_laws (dockerAPI env) view" "ext_answers (extAPI env)" "ready x r a"
  shows start_controller: "confined view (slots a [KubeControllerContainerName]) x (runKubeController env r cs am df prs)
        (\<lambda>_ x'. up x' a KubeControllerContainerName)"
    and start_scheduler: "confined view (slots a [SchedulerContainerName]) x (runScheduler env r ss df prs)
        (\<lambda>_ x'. up x' a SchedulerContainerName)"
    and start_kubelet: "confined view (slots a [KubeletContainerName]) x (runKubelet env r ks df prs)
        (\<lambda>_ x'. up x' a KubeletContainerName)"
    and start_kubeproxy: "confined view (slots a [KubeproxyContainerName]) x (runKubeproxy env r ps df prs)
        (\<lambda>_ x'. up x' a KubeproxyContainerName)"
  unfolding runKubeController_def runScheduler_def runKubelet_def runKubeproxy_def buildKubeControllerConfig_def
    buildSchedulerConfig_def buildKubeletConfig_def buildKubeproxyConfig_def Let_def prod.case
  by (rule confined_start[OF assms]; (rule refl)?; simp)+

lemma start_api:
  assumes "docker_laws (dockerAPI env) view" "ext_answers (extAPI env)" "ready x r a" "\<forall>q \<in> set ehs. q < length (wv_hosts x)"
  shows "confined view (slots a [KubeAPIContainerName]) x (runKubeAPI env r ehs ks am df prs) (\<lambda>_ x'. up x' a KubeAPIContainerName)"
  unfolding runKubeAPI_def buildKubeAPIConfig_def Let_def prod.case
  by (rule confined_bind[OF getHosts_ret[OF assms(4)]], elim conjE, hypsubst)
     (rule confined_start[OF assms(1-3)]; (rule refl)?; simp)

lemma start_nginx:
  assumes "docker_laws (dockerAPI env) view" "ready x r a" "\<forall>q \<in> set chs. q < length (wv_hosts x)"
  shows "confined view (slots a [NginxProxyContainerName]) x (runNginxProxy env r chs img prs) (\<lambda>_ x'. up x' a NginxProxyContainerName)"
proof -
  have r: "r < length (wv_hosts x)" and c: "DClient (wv_hosts x ! r) = Some a" using assms(2) by (simp_all add: ready_def)
  show ?thesis
    unfolding runNginxProxy_def buildNginxProxyConfig_def prod.case
    by (rule confined_bind[OF getHosts_ret[OF assms(3)]], elim conjE, hypsubst)
       (auto simp: r c intro!: confined_bind[OF confined_getHost[where Q = "\<lambda>h x'. x' = x \<and> h = wv_hosts x ! r"]] confined_run assms(1))
qed

lemmas removals = removeNginxProxy_def removeSidekick_def removeKubeAPI_def removeKubeController_def removeScheduler_def
  removeKubelet_def removeKubeproxy_def

section \<open>Control hosts\<close>

definition control_names :: "string list" where
  "control_names = [NginxProxyContainerName, SidekickContainerName, KubeAPIContainerName, KubeControllerContainerName, SchedulerContainerName]"

definition control_up :: "wview \<Rightarrow> hostref \<Rightarrow> string \<Rightarrow> bool" where
  "control_up x r a \<longleftrightarrow> up x a KubeAPIContainerName \<and> up x a KubeControllerContainerName \<and> up x a SchedulerContainerName \<and>
     \<not> absent x a SidekickContainerName \<and> (IsWorker (wv_hosts x ! r) \<longrightarrow> absent x a NginxProxyContainerName)"

lemma local_goals:
  assumes "touched S x x'" "\<forall>m. (a, m) \<notin> S"
  shows "up x' a n \<longleftrightarrow> up x a n" "absent x' a n \<longleftrightarrow> absent x a n"
  using assms by (simp_all add: touched_up touched_absent)

lemma control_host:
  assumes "docker_laws (dockerAPI env) view" "ext_answers (extAPI env)" "\<forall>q \<in> set ehs. q < length (wv_hosts x)" "ready x r a"
  shows "confined view (slots a control_names) x (doDeployControlHost env r ehs cs sk am df prs) (\<lambda>_ x'. control_up x' r a)"
proof -
  let ?h = "wv_hosts x ! r"
  have r: "r < length (wv_hosts x)" using assms(4) by (simp add: ready_def)
  have rd: "ready x' r a" and ehs: "\<forall>q \<in> set ehs. q < length (wv_hosts x')" if "touched S x x'" for S x'
    using assms(3,4) touched_host[OF that] touched_ready[OF that] by blast+
  define steps where "steps =
    [(NginxProxyContainerName, if IsWorker ?h then removeNginxProxy env r else retIO (), \<lambda>c. IsWorker ?h \<longrightarrow> c = None),
     (SidekickContainerName, runSidekick env r sk prs, \<lambda>c. c \<noteq> None),
     (KubeAPIContainerName, runKubeAPI env r ehs (KubeAPI cs) am df prs, is_up),
     (KubeControllerContainerName, runKubeController env r (KubeController cs) am df prs, is_up),
     (SchedulerContainerName, runScheduler env r (Scheduler cs) df prs, is_up)]"
  have "apart (map fst steps)" unfolding steps_def by simp code_simp
  moreover have ns: "map fst steps = control_names" by (simp add: steps_def control_names_def)
  moreover have "\<forall>(n, m, p) \<in> set steps. \<forall>x'. touched (slots a control_names) x x' \<longrightarrow>
        confined view (slots a [n]) x' m (\<lambda>_ x''. p (conts (wv_docker x'' a) n))"
    unfolding steps_def
    by (auto simp flip: up_is_up absent_def simp: removals simp del: not_None_eq
      intro!: start_lemmas start_api confined_runSidekick confined_remove confined_ret assms(1,2) rd ehs)
  ultimately have "confined view (slots a control_names) x (seqIO (map (fst \<circ> snd) steps))
     (\<lambda>_ x'. touched (slots a control_names) x x' \<and> (\<forall>(n, m, p) \<in> set steps. p (conts (wv_docker x' a) n)))"
    using confined_seq[of steps control_names a x view] by simp
  then have "confined view (slots a control_names) x (seqIO (map (fst \<circ> snd) steps)) (\<lambda>_ x'. control_up x' r a)"
  proof (rule confined_conseq)
    fix x'
    assume t: "touched (slots a control_names) x x'"
      and g: "touched (slots a control_names) x x' \<and> (\<forall>(n, m, p) \<in> set steps. p (conts (wv_docker x' a) n))"
    show "control_up x' r a"
      using g unfolding control_up_def touched_flags(1)[OF t r] by (auto simp: steps_def up_is_up absent_def)
  qed simp
  then show ?thesis
    unfolding doDeployControlHost_def
    by (intro confined_bind[OF confined_getHost[where Q = "\<lambda>h x'. x' = x \<and> h = ?h", OF r]]) (auto simp: steps_def)
qed

section \<open>Worker hosts\<close>

definition worker_names :: "string list" where
  "worker_names = [NginxProxyContainerName, SidekickContainerName, KubeletContainerName, KubeproxyContainerName]"

definition worker_up :: "wview \<Rightarrow> hostref \<Rightarrow> string \<Rightarrow> bool" where
  "worker_up x r a \<longleftrightarrow> up x a KubeletContainerName \<and> up x a KubeproxyContainerName \<and> \<not> absent x a SidekickContainerName \<and>
     (\<not> IsControl (wv_hosts x ! r) \<longrightarrow> up x a NginxProxyContainerName)"

lemma worker_host:
  assumes "docker_laws (dockerAPI env) view" "ext_answers (extAPI env)" "\<forall>q \<in> set chs. q < length (wv_hosts x)" "ready x r a"
  shows "confined view (slots a worker_names) x (doDeployWorkerPlane env r ws ng sk df chs prs) (\<lambda>_ x'. worker_up x' r a)"
proof -
  let ?h = "wv_hosts x ! r"
  have r: "r < length (wv_hosts x)" using assms(4) by (simp add: ready_def)
  have rd: "ready x' r a" and chs: "\<forall>q \<in> set chs. q < length (wv_hosts x')" if "touched S x x'" for S x'
    using assms(3,4) touched_host[OF that] touched_ready[OF that] by blast+
  define steps where "steps =
    [(NginxProxyContainerName, if \<not> IsControl ?h then runNginxProxy env r chs ng prs else retIO (), \<lambda>c. \<not> IsControl ?h \<longrightarrow> is_up c),
     (SidekickContainerName, runSidekick env r sk prs, \<lambda>c. c \<noteq> None),
     (KubeletContainerName, runKubelet env r (Kubelet ws) df prs, is_up),
     (KubeproxyContainerName, runKubeproxy env r (Kubeproxy ws) df prs, is_up)]"
  have "apart (map fst steps)" unfolding steps_def by simp code_simp
  moreover have ns: "map fst steps = worker_names" by (simp add: steps_def worker_names_def)
  moreover have "\<forall>(n, m, p) \<in> set steps. \<forall>x'. touched (slots a worker_names) x x' \<longrightarrow>
        confined view (slots a [n]) x' m (\<lambda>_ x''. p (conts (wv_docker x'' a) n))"
    unfolding steps_def
    by (auto simp flip: up_is_up absent_def simp del: not_None_eq
      intro!: start_lemmas start_nginx confined_runSidekick confined_ret assms(1,2) rd chs)
  ultimately have "confined view (slots a worker_names) x (seqIO (map (fst \<circ> snd) steps))
     (\<lambda>_ x'. touched (slots a worker_names) x x' \<and> (\<forall>(n, m, p) \<in> set steps. p (conts (wv_docker x' a) n)))"
    using confined_seq[of steps worker_names a x view] by simp
  then have "confined view (slots a worker_names) x (seqIO (map (fst \<circ> snd) steps)) (\<lambda>_ x'. worker_up x' r a)"
  proof (rule confined_conseq)
    fix x'
    assume t: "touched (slots a worker_names) x x'"
      and g: "touched (slots a worker_names) x x' \<and> (\<forall>(n, m, p) \<in> set steps. p (conts (wv_docker x' a) n))"
    show "worker_up x' r a"
      using g unfolding worker_up_def touched_flags(2)[OF t r] by (auto simp: steps_def up_is_up absent_def)
  qed simp
  then show ?thesis
    unfolding doDeployWorkerPlane_def
    by (intro confined_bind[OF confined_getHost[where Q = "\<lambda>h x'. x' = x \<and> h = ?h", OF r]]) (auto simp: steps_def)
qed

lemma confined_addEtcdTaint:
  assumes "r < length (wv_hosts x)"
  shows "confined view S x (addEtcdTaint r) (\<lambda>_ _. True)"
  unfolding addEtcdTaint_def
  by (rule confined_bind[OF confined_getHost[where Q = "\<lambda>h x'. x' = x"]])
     (use assms in \<open>auto intro!: confined_ret confined_conseq[OF confined_setHost] simp: conn_eq_def plain_host_def\<close>)

section \<open>The contracts hold\<close>

definition known :: "hostref list \<Rightarrow> wview \<Rightarrow> bool" where
  "known rs x \<longleftrightarrow> (\<forall>r \<in> set rs. r < length (wv_hosts x))"

lemma known_stable: "known rs x \<Longrightarrow> touched S x x' \<Longrightarrow> known rs x'"
  unfolding known_def using touched_host by blast

interpretation control: host_task "\<lambda>env r. doDeployControlHost env r ehs cs sk am df prs" control_names "known ehs" control_up
  for ehs cs sk am df prs
proof
  show "confined view (slots a control_names) x (doDeployControlHost env r ehs cs sk am df prs) (\<lambda>_ x'. control_up x' r a)"
    if "docker_laws (dockerAPI env) view" "ext_answers (extAPI env)" "known ehs x" "ready x r a"
    for env :: "('a, 'b, 'c) env" and view x r a
    by (rule control_host) (use that in \<open>auto simp: known_def\<close>)
  show "control_up x' r a" if "control_up x r a" "ready x r a" "touched S x x'" "\<forall>m. (a, m) \<notin> S" for x x' r a S
    using that local_goals[OF that(3,4)] by (simp add: control_up_def touched_flags ready_def)
qed (rule known_stable)

interpretation worker: host_task "\<lambda>env r. doDeployWorkerPlane env r ws ng sk df chs prs" worker_names "known chs" worker_up
  for ws ng sk df chs prs
proof
  show "confined view (slots a worker_names) x (doDeployWorkerPlane env r ws ng sk df chs prs) (\<lambda>_ x'. worker_up x' r a)"
    if "docker_laws (dockerAPI env) view" "ext_answers (extAPI env)" "known chs x" "ready x r a"
    for env :: "('a, 'b, 'c) env" and view x r a
    by (rule worker_host) (use that in \<open>auto simp: known_def\<close>)
  show "worker_up x' r a" if "worker_up x r a" "ready x r a" "touched S x x'" "\<forall>m. (a, m) \<notin> S" for x x' r a S
    using that local_goals[OF that(3,4)] by (simp add: worker_up_def touched_flags ready_def)
qed (rule known_stable)

interpretation tainted_worker: host_task "\<lambda>env r. thenIO (addEtcdTaint r) (doDeployWorkerPlane env r ws ng sk df chs prs)"
  worker_names "known chs" worker_up
  for ws ng sk df chs prs
proof
  show "confined view (slots a worker_names) x (thenIO (addEtcdTaint r) (doDeployWorkerPlane env r ws ng sk df chs prs))
      (\<lambda>_ x'. worker_up x' r a)"
    if "docker_laws (dockerAPI env) view" "ext_answers (extAPI env)" "known chs x" "ready x r a"
    for env :: "('a, 'b, 'c) env" and view x r a
    by (rule confined_then[OF confined_addEtcdTaint])
       (use that in \<open>auto simp: ready_def intro!: worker.task_law known_stable[OF that(3)] touched_ready[OF _ that(4)]\<close>)
qed (rule worker.pre_stable worker.goal_local; assumption)+

lemma confined_RunControlPlane:
  assumes "docker_laws (dockerAPI env) view" "ext_answers (extAPI env)" "\<forall>r \<in> set rs. ready x r (cl r)" "inj_on cl (set rs)"
    and "known ehs x"
  shows "confined view (\<Union>r \<in> set rs. slots (cl r) control_names) x (RunControlPlane env rs ehs cs sk am df prs)
     (\<lambda>_ x'. \<forall>r \<in> set rs. control_up x' r (cl r))"
  unfolding RunControlPlane_def by (rule control.serve_all[OF assms(1,2,5,3,4)])

lemma confined_RunWorkerPlane:
  fixes env :: "('a, 'b, 'c) env"
  assumes "docker_laws (dockerAPI env) view" "ext_answers (extAPI env)"
    and rd: "\<forall>r \<in> set (etcdHosts @ controlHosts @ workerHosts). ready x0 r (cl r)"
    and inj: "inj_on cl (set (etcdHosts @ controlHosts @ workerHosts))"
  shows "confined view (\<Union>r \<in> set (etcdHosts @ controlHosts @ workerHosts). slots (cl r) worker_names) x0
     (RunWorkerPlane env controlHosts workerHosts etcdHosts ws ng sk df prs)
     (\<lambda>_ x'. \<forall>r \<in> set (etcdHosts @ controlHosts @ workerHosts). worker_up x' r (cl r))"
proof -
  let ?rs = "etcdHosts @ controlHosts @ workerHosts" 
  let ?S = "\<lambda>rs. \<Union>r \<in> set rs. slots (cl r) worker_names"
  have kn: "known ?rs x0" using rd by (auto simp: known_def ready_def)
  have later: "\<forall>r \<in> set ?rs. ready x r (cl r)" "known controlHosts x" if "touched T x0 x" for T x
    using rd touched_ready[OF that] known_stable[OF kn that] by (auto simp: known_def)
  have keep: "worker_up x' r (cl r)"
    if "set rs \<subseteq> set ?rs" "touched (?S rs) x x'" "\<forall>q \<in> set rs. worker_up x' q (cl q)" "worker_up x r (cl r)"
      "r \<in> set ?rs" "ready x r (cl r)" for rs x x' r
  proof (cases "r \<in> set rs")
    case False
    have "inj_on cl (set (r # rs))" by (rule inj_on_subset[OF inj]) (use that(1,5) in auto)
    from worker.later_hosts[OF this that(6,4,2,3)] show ?thesis by simp
  qed (use that(3) in simp)
  have phase: "confined view (?S ?rs) x m (\<lambda>_ x'. touched (?S rs) x x' \<and> (\<forall>r \<in> set rs. worker_up x' r (cl r)))"
    if "confined view (?S rs) x m (\<lambda>_ x'. \<forall>r \<in> set rs. worker_up x' r (cl r))" "set rs \<subseteq> set ?rs"
    for rs x and m :: "('a, 'b, 'c, unit) wio"
    by (rule confined_conseq[OF that(1)]) (use that(2) in auto)
  have inj': "inj_on cl (set etcdHosts)" "inj_on cl (set controlHosts)" "inj_on cl (set workerHosts)"
    by (auto intro: inj_on_subset[OF inj])
  show "confined view (?S ?rs) x0 (RunWorkerPlane env controlHosts workerHosts etcdHosts ws ng sk df prs)
     (\<lambda>_ x'. \<forall>r \<in> set ?rs. worker_up x' r (cl r))"
    unfolding RunWorkerPlane_def Let_def
  proof (rule confined_then[OF phase[OF tainted_worker.serve_all[OF assms(1,2)]]])
    fix x1 assume t1: "touched (?S ?rs) x0 x1" and g1: "touched (?S etcdHosts) x0 x1 \<and> (\<forall>r \<in> set etcdHosts. worker_up x1 r (cl r))"
    show "confined view (?S ?rs) x1 (thenIO (errgroupIO (map (\<lambda>r. doDeployWorkerPlane env r ws ng sk df controlHosts prs) controlHosts))
        (errgroupIO (map (\<lambda>r. doDeployWorkerPlane env r ws ng sk df controlHosts prs) workerHosts)))
      (\<lambda>_ x'. \<forall>r \<in> set ?rs. worker_up x' r (cl r))"
    proof (rule confined_then[OF phase[OF worker.serve_all[OF assms(1,2)]]])
      fix x2 assume t2: "touched (?S ?rs) x1 x2" and g2: "touched (?S controlHosts) x1 x2 \<and> (\<forall>r \<in> set controlHosts. worker_up x2 r (cl r))"
      have g2': "\<forall>r \<in> set (etcdHosts @ controlHosts). worker_up x2 r (cl r)"
        using keep[of controlHosts x1 x2] g1 g2 later(1)[OF t1] by auto
      show "confined view (?S ?rs) x2 (errgroupIO (map (\<lambda>r. doDeployWorkerPlane env r ws ng sk df controlHosts prs) workerHosts))
        (\<lambda>_ x'. \<forall>r \<in> set ?rs. worker_up x' r (cl r))"
      proof (rule confined_conseq[OF phase[OF worker.serve_all[OF assms(1,2)]]])
        fix x3 assume g3: "touched (?S workerHosts) x2 x3 \<and> (\<forall>r \<in> set workerHosts. worker_up x3 r (cl r))"
        show "\<forall>r \<in> set ?rs. worker_up x3 r (cl r)"
          using keep[of workerHosts x2 x3] g2' g3 later(1)[OF touched_trans[OF t1 t2]] by auto
      qed (use later[OF touched_trans[OF t1 t2]] inj' in auto)
    qed (use later[OF t1] inj' in auto)
  qed (use later[OF touched_refl] inj' in auto)
qed

section \<open>Teardown against daemons in service\<close>

lemma do_remove_total:
  assumes "docker_laws api view" "docker_reliable api view" "proper_name n"
  shows "vtriple view v (DoRemoveContainer api n h) (\<lambda>_ v'. v' = set_cont n None v) (\<lambda>_ _. False)"
proof -
  have "vtriple view v (DoRemoveContainer api n h) (\<lambda>_ _. True) (\<lambda>_ _. False)"
    unfolding DoRemoveContainer_def
  proof (rule vtriple_try[OF vtriple_conj[OF inspect_triple[OF assms(1,3)] inspect_total[OF assms(2,3)]]])
    fix j v1
    assume "(v1 = v \<and> (\<exists>c. conts v n = Some c \<and> ID j = c_id c \<and> json_Image j = c_image c \<and> json_Cmd j = c_cmd c \<and>
        (Running j \<longrightarrow> c_up c))) \<and> True"
    then obtain c where v1: "v1 = v" and c: "conts v n = Some c" by blast
    show "vtriple view v1 (thenIO (StopContainer api h n) (RemoveContainer api h n)) (\<lambda>_ _. True) (\<lambda>_ _. False)"
      unfolding v1
      by (rule vtriple_then[OF vtriple_total[OF stop_triple[OF assms(1,3)] stop_total[OF assms(2,3) c]]])
         (auto intro!: remove_total[OF assms(2,3)])
  qed (auto intro: vtriple_ret)
  with do_remove_triple[OF assms(1,3)] show ?thesis by (rule vtriple_total)
qed

text \<open>Exactly the containers of \<open>R\<close> are gone.\<close>

definition removed :: "(string \<times> string) set \<Rightarrow> wview \<Rightarrow> wview \<Rightarrow> bool" where
  "removed R x x' \<longleftrightarrow> wv_hosts x' = wv_hosts x \<and>
     (\<forall>a m. conts (wv_docker x' a) m = (if (a, m) \<in> R then None else conts (wv_docker x a) m))"

definition clears :: "('d \<Rightarrow> dview) \<Rightarrow> (string \<times> string) set \<Rightarrow> wview \<Rightarrow> ('d, 'k, 'e, unit) wio \<Rightarrow> bool" where
  "clears view R x m \<longleftrightarrow> vtriple (world_view view) x m (\<lambda>_ x'. removed R x x') (\<lambda>_ _. False)"

lemma clears_nothing: "clears view {} x (retIO ())"
  by (simp add: clears_def vtriple_ret removed_def)

lemma clears_then:
  assumes "clears view R x m" "\<And>x'. wv_hosts x' = wv_hosts x \<Longrightarrow> clears view R' x' k"
  shows "clears view (R \<union> R') x (thenIO m k)"
  unfolding clears_def
  by (rule vtriple_then[OF assms(1)[unfolded clears_def]])
     (rule vtriple_conseq[OF assms(2)[unfolded clears_def]], auto simp: removed_def)

lemma clears_try:
  assumes "clears view R x m" "\<And>x'. wv_hosts x' = wv_hosts x \<Longrightarrow> clears view R' x' k"
  shows "clears view (R \<union> R') x (tryIO m h (\<lambda>_. k))"
  unfolding clears_def
  by (rule vtriple_try[OF assms(1)[unfolded clears_def]], simp)
     (rule vtriple_conseq[OF assms(2)[unfolded clears_def]], auto simp: removed_def)

lemma clears_getHost:
  "r < length (wv_hosts x) \<Longrightarrow> clears view R x (k (wv_hosts x ! r)) \<Longrightarrow> clears view R x (bindIO (getHost r) k)"
  unfolding clears_def by (rule vtriple_bind[OF vtriple_conseq[OF getHost_triple]]) auto

lemma clears_remove:
  assumes "docker_laws (dockerAPI env) view" "docker_reliable (dockerAPI env) view" "ready x r a" "proper_name n"
  shows "clears view {(a, n)} x (removeContainerOf env r n)"
proof -
  have r: "r < length (wv_hosts x)" and c: "DClient (wv_hosts x ! r) = Some a" using assms(3) by (simp_all add: ready_def)
  show ?thesis
    unfolding removeContainerOf_def
    by (rule clears_getHost[OF r], unfold clears_def)
       (rule vtriple_conseq[OF viaClient_triple[OF c do_remove_total[OF assms(1,2,4)]]], auto simp: removed_def)
qed

lemma same_hosts_ready: "wv_hosts x' = wv_hosts x \<Longrightarrow> ready x' r a \<longleftrightarrow> ready x r a"
  by (simp add: ready_def)

definition control_leaves :: "Host \<Rightarrow> string set" where
  "control_leaves h = {KubeAPIContainerName, KubeControllerContainerName, SchedulerContainerName} \<union>
     (if IsWorker h then {} else {KubeletContainerName, KubeproxyContainerName, SidekickContainerName})"

definition worker_leaves :: "string set" where
  "worker_leaves = {KubeletContainerName, KubeproxyContainerName, NginxProxyContainerName, SidekickContainerName}"

lemma clears_RemoveControlPlane:
  assumes "docker_laws (dockerAPI env) view" "docker_reliable (dockerAPI env) view"
  shows "\<forall>r \<in> set rs. ready x r (cl r) \<Longrightarrow>
     clears view (\<Union>r \<in> set rs. {cl r} \<times> control_leaves (wv_hosts x ! r)) x (RemoveControlPlane env rs force)"
proof (induction rs arbitrary: x)
  case Nil
  then show ?case by (simp add: clears_nothing)
next
  case (Cons r rs)
  let ?h = "wv_hosts x ! r" and ?R = "\<Union>r \<in> set rs. {cl r} \<times> control_leaves (wv_hosts x ! r)"
  have r: "r < length (wv_hosts x)" using Cons.prems by (simp add: ready_def)
  have one: "clears view {(cl r, n)} x' (removeContainerOf env r n)" if "wv_hosts x' = wv_hosts x" "proper_name n" for x' n
    by (rule clears_remove[OF assms]) (use that Cons.prems same_hosts_ready[OF that(1)] in auto)
  have rest: "clears view ?R x' (RemoveControlPlane env rs force)" if "wv_hosts x' = wv_hosts x" for x'
    using Cons.IH[of x'] Cons.prems same_hosts_ready[OF that] that by simp
  let ?W = "(if IsWorker ?h then {} else {(cl r, KubeletContainerName)} \<union> ({(cl r, KubeproxyContainerName)} \<union> {(cl r, SidekickContainerName)}))"
  have tail: "clears view (?W \<union> ?R) x' (if IsWorker ?h then RemoveControlPlane env rs force
       else thenIO (removeKubelet env r) (tryIO (removeKubeproxy env r) (\<lambda>_. retIO ()) (\<lambda>_.
            thenIO (removeSidekick env r) (RemoveControlPlane env rs force))))" if "wv_hosts x' = wv_hosts x" for x'
  proof (cases "IsWorker ?h")
    case True
    with rest[OF that] show ?thesis by simp
  next
    case False
    have "clears view ({(cl r, KubeletContainerName)} \<union> ({(cl r, KubeproxyContainerName)} \<union> ({(cl r, SidekickContainerName)} \<union> ?R))) x'
        (thenIO (removeKubelet env r) (tryIO (removeKubeproxy env r) (\<lambda>_. retIO ()) (\<lambda>_.
            thenIO (removeSidekick env r) (RemoveControlPlane env rs force))))"
      unfolding removals by (intro clears_then clears_try one rest; simp add: that)
    with False show ?thesis by (simp add: Un_assoc)
  qed
  have host_tail: "clears view (?W \<union> ?R) x' (bindIO (getHost r) (\<lambda>h. if IsWorker h then RemoveControlPlane env rs force
       else thenIO (removeKubelet env r) (tryIO (removeKubeproxy env r) (\<lambda>_. retIO ()) (\<lambda>_.
            thenIO (removeSidekick env r) (RemoveControlPlane env rs force)))))" if "wv_hosts x' = wv_hosts x" for x'
    by (rule clears_getHost) (simp_all only: that r tail[OF that])
  have "clears view ({(cl r, KubeAPIContainerName)} \<union> ({(cl r, KubeControllerContainerName)} \<union>
      ({(cl r, SchedulerContainerName)} \<union> (?W \<union> ?R)))) x (RemoveControlPlane env (r # rs) force)"
    unfolding RemoveControlPlane.simps removeKubeAPI_def removeKubeController_def removeScheduler_def
    by (intro clears_then clears_try one host_tail; simp)
  moreover have "{(cl r, KubeAPIContainerName)} \<union> ({(cl r, KubeControllerContainerName)} \<union> ({(cl r, SchedulerContainerName)} \<union> (?W \<union> ?R))) =
      (\<Union>r \<in> set (r # rs). {cl r} \<times> control_leaves (wv_hosts x ! r))"
    by (auto simp: control_leaves_def)
  ultimately show ?case by simp
qed

lemma clears_RemoveWorkerPlane:
  assumes "docker_laws (dockerAPI env) view" "docker_reliable (dockerAPI env) view"
  shows "\<forall>r \<in> set rs. ready x r (cl r) \<Longrightarrow> \<forall>r \<in> set rs. force \<or> \<not> IsControl (wv_hosts x ! r) \<Longrightarrow>
     clears view (cl ` set rs \<times> worker_leaves) x (RemoveWorkerPlane env rs force)"
proof (induction rs arbitrary: x)
  case Nil
  then show ?case by (simp add: clears_nothing)
next
  case (Cons r rs)
  let ?R = "cl ` set rs \<times> worker_leaves"
  have r: "r < length (wv_hosts x)" and f: "\<not> (IsControl (wv_hosts x ! r) \<and> \<not> force)" using Cons.prems by (auto simp: ready_def)
  have one: "clears view {(cl r, n)} x' (removeContainerOf env r n)" if "wv_hosts x' = wv_hosts x" "proper_name n" for x' n
    by (rule clears_remove[OF assms]) (use that Cons.prems same_hosts_ready[OF that(1)] in auto)
  have rest: "clears view ?R x' (RemoveWorkerPlane env rs force)" if "wv_hosts x' = wv_hosts x" for x'
    using Cons.IH[of x'] Cons.prems same_hosts_ready[OF that] that by simp
  have "clears view ({(cl r, KubeletContainerName)} \<union> ({(cl r, KubeproxyContainerName)} \<union> ({(cl r, NginxProxyContainerName)} \<union>
      ({(cl r, SidekickContainerName)} \<union> ?R)))) x (RemoveWorkerPlane env (r # rs) force)"
    unfolding RemoveWorkerPlane.simps removals
    by (rule clears_getHost[OF r], subst if_not_P[OF f]) (intro clears_then one rest; simp)
  moreover have "{(cl r, KubeletContainerName)} \<union> ({(cl r, KubeproxyContainerName)} \<union> ({(cl r, NginxProxyContainerName)} \<union>
      ({(cl r, SidekickContainerName)} \<union> ?R))) = cl ` set (r # rs) \<times> worker_leaves"
    by (auto simp: worker_leaves_def)
  ultimately show ?case by simp
qed

section \<open>Properties of the planes\<close>

text \<open>The daemon each host of the world is connected to; hosts that serve different machines have different daemons.\<close>

definition plane_ready :: "('d, 'k, 'e) world \<Rightarrow> hostref list \<Rightarrow> bool" where
  "plane_ready w rs \<longleftrightarrow> (\<forall>r \<in> set rs. r < length (hstore w) \<and> DClient (hstore w ! r) \<noteq> None \<and> key_ok (hstore w ! r)) \<and>
     inj_on (\<lambda>r. DClient (hstore w ! r)) (set rs)"

definition daemon_of :: "('d, 'k, 'e) world \<Rightarrow> hostref \<Rightarrow> string" where
  "daemon_of w r = the (DClient (hstore w ! r))"

lemma plane_ready_lemmas:
  assumes "plane_ready w rs"
  shows "\<forall>r \<in> set rs. ready (world_view view w) r (daemon_of w r)" "inj_on (daemon_of w) (set rs)" "known rs (world_view view w)"
proof -
  show "\<forall>r \<in> set rs. ready (world_view view w) r (daemon_of w r)" "known rs (world_view view w)"
    using assms by (auto simp: plane_ready_def ready_def daemon_of_def world_view_def known_def)
  show "inj_on (daemon_of w) (set rs)"
    using assms unfolding plane_ready_def daemon_of_def inj_on_def by (metis option.collapse)
qed

definition started :: "('d \<Rightarrow> dview) \<Rightarrow> ('d, 'k, 'e) world \<Rightarrow> string \<Rightarrow> string \<Rightarrow> bool" where
  "started view w a n \<longleftrightarrow> (\<exists>c. conts (view (daemons w a)) n = Some c \<and> c_up c)"

lemma up_world: "up (world_view view w) a n = started view w a n"
  by (simp add: up_def started_def world_view_def)

lemma absent_world: "absent (world_view view w) a n \<longleftrightarrow> conts (view (daemons w a)) n = None"
  by (simp add: absent_def world_view_def)

lemma hosts_world [simp]: "wv_hosts (world_view view w) = hstore w"
  by (simp add: world_view_def)

text \<open>
  C15: \<^verbatim>\<open>RunControlPlane\<close> on connected hosts with daemons of their own never panics.  If it returns, then on each control host
  the API server, the controller manager and the scheduler have been started and the sidekick exists, and on a
  control host that is also a worker the proxy to the API servers is gone; and whatever it returns, no container but
  these (and the names they are set aside under) on these hosts has changed.
\<close>

theorem RunControlPlane_starts:
  assumes "docker_laws (dockerAPI env) view" and "ext_answers (extAPI env)"
    and "plane_ready w controlHosts" and "\<forall>r \<in> set etcdHosts. r < length (hstore w)"
  shows "case RunControlPlane env controlHosts etcdHosts cs sk am df prs w of (res, w') \<Rightarrow>
     (\<forall>s. res \<noteq> Panic s) \<and>
     (res = Ret () \<longrightarrow> (\<forall>r \<in> set controlHosts. let a = daemon_of w r in
        started view w' a KubeAPIContainerName \<and> started view w' a KubeControllerContainerName \<and>
        started view w' a SchedulerContainerName \<and> conts (view (daemons w' a)) SidekickContainerName \<noteq> None \<and>
        (IsWorker (hstore w ! r) \<longrightarrow> conts (view (daemons w' a)) NginxProxyContainerName = None))) \<and>
     (\<forall>a m. (\<forall>r \<in> set controlHosts. (a, m) \<notin> slots (daemon_of w r) control_names) \<longrightarrow>
        conts (view (daemons w' a)) m = conts (view (daemons w a)) m)"
proof -
  have "known etcdHosts (world_view view w)" using assms(4) by (simp add: known_def world_view_def)
  note c = confined_world[OF confined_RunControlPlane[OF assms(1,2) plane_ready_lemmas(1,2)[OF assms(3)] this]]
  obtain res w' where run: "RunControlPlane env controlHosts etcdHosts cs sk am df prs w = (res, w')" by fastforce
  note c = c[OF run]
  have fl: "IsWorker (hstore w' ! r) = IsWorker (hstore w ! r)" if "r \<in> set controlHosts" for r
    using touched_flags(1)[OF c(1), of r] that assms(3) by (simp add: plane_ready_def)
  show ?thesis
    using c(1,2) c(3)[of "()"] fl by (auto simp: run touched_world control_up_def up_world absent_world Let_def)
qed

definition demo_hosts :: "(sim, sim_kube, sim_ext) world" where
  "demo_hosts = sim_world [sim_host ''10.0.0.1'', (sim_host ''10.0.0.2'')\<lparr>IsWorker := True\<rparr>]"

lemma demo_hosts_ready: "plane_ready demo_hosts [0, 1]"
  by (simp add: plane_ready_def demo_hosts_def sim_world_def sim_host_def key_ok_def inj_on_def)

definition demo_services :: RKEConfigServices where
  "demo_services = \<lparr>Etcd = \<lparr>svc_Image = ''etcd'', svc_ExtraArgs = []\<rparr>,
     KubeAPI = \<lparr>svc_Image = ''k8s'', svc_ExtraArgs = [], api_ServiceClusterIPRange = ''10.43.0.0/16'', api_PodSecurityPolicy = False\<rparr>,
     KubeController = \<lparr>svc_Image = ''k8s'', svc_ExtraArgs = [], ctl_ClusterCIDR = ''10.42.0.0/16'', ctl_ServiceClusterIPRange = ''10.43.0.0/16''\<rparr>,
     Scheduler = \<lparr>svc_Image = ''k8s'', svc_ExtraArgs = []\<rparr>, Kubelet = demo_kubelet_service,
     Kubeproxy = \<lparr>svc_Image = ''k8s'', svc_ExtraArgs = []\<rparr>\<rparr>"

theorem RunControlPlane_starts_witness:
  "case RunControlPlane sim_env [0, 1] [0] demo_services ''sidecar'' ''rbac'' None [] demo_hosts of (res, w') \<Rightarrow>
     (\<forall>s. res \<noteq> Panic s) \<and> (res = Ret () \<longrightarrow> started sim_view w' ''10.0.0.2'' SchedulerContainerName) \<and>
     conts (sim_view (daemons w' ''10.0.0.9'')) = Map.empty"
proof -
  obtain res w' where run: "RunControlPlane sim_env [0, 1] [0] demo_services ''sidecar'' ''rbac'' None [] demo_hosts = (res, w')" by fastforce
  have d: "daemon_of demo_hosts 0 = ''10.0.0.1''" "daemon_of demo_hosts 1 = ''10.0.0.2''"
    by (simp_all add: daemon_of_def demo_hosts_def sim_world_def sim_host_def)
  have e: "conts (sim_view (daemons demo_hosts a)) = Map.empty" for a
    by (simp add: demo_hosts_def sim_world_def sim_view_def norm_def)
  have "\<forall>r \<in> set [0]. r < length (hstore demo_hosts)" by (simp add: demo_hosts_def sim_world_def)
  from RunControlPlane_starts[OF _ _ demo_hosts_ready this, of sim_env sim_view demo_services "''sidecar''" "''rbac''" None "[]"]
  show ?thesis
    by (auto simp: sim_docker_laws sim_ext_answers run Let_def d[unfolded One_nat_def] e slots_simps fun_eq_iff)
qed

text \<open>
  C16: \<^verbatim>\<open>RunWorkerPlane\<close> on connected hosts with daemons of their own never panics.  If it returns, then on each etcd, control
  and worker host, however the roles overlap, the kubelet and the proxy have been started, the sidekick exists, and
  unless the host is a control host the proxy to the API servers has been started; and whatever it returns, no
  container but these (and the names they are set aside under) on these hosts has changed.
\<close>

theorem RunWorkerPlane_starts:
  assumes "docker_laws (dockerAPI env) view" and "ext_answers (extAPI env)"
    and "plane_ready w (etcdHosts @ controlHosts @ workerHosts)"
  shows "case RunWorkerPlane env controlHosts workerHosts etcdHosts ws ng sk df prs w of (res, w') \<Rightarrow>
     (\<forall>s. res \<noteq> Panic s) \<and>
     (res = Ret () \<longrightarrow> (\<forall>r \<in> set (etcdHosts @ controlHosts @ workerHosts). let a = daemon_of w r in
        started view w' a KubeletContainerName \<and> started view w' a KubeproxyContainerName \<and>
        conts (view (daemons w' a)) SidekickContainerName \<noteq> None \<and>
        (\<not> IsControl (hstore w ! r) \<longrightarrow> started view w' a NginxProxyContainerName))) \<and>
     (\<forall>a m. (\<forall>r \<in> set (etcdHosts @ controlHosts @ workerHosts). (a, m) \<notin> slots (daemon_of w r) worker_names) \<longrightarrow>
        conts (view (daemons w' a)) m = conts (view (daemons w a)) m)"
proof -
  let ?rs = "etcdHosts @ controlHosts @ workerHosts"
  note c = confined_world[OF confined_RunWorkerPlane[OF assms(1,2) plane_ready_lemmas(1,2)[OF assms(3)]]]
  obtain res w' where run: "RunWorkerPlane env controlHosts workerHosts etcdHosts ws ng sk df prs w = (res, w')" by fastforce
  note c = c[OF run]
  have fl: "IsControl (hstore w' ! r) = IsControl (hstore w ! r)" if "r \<in> set ?rs" for r
    using touched_flags(2)[OF c(1), of r] that assms(3) by (simp add: plane_ready_def)
  show ?thesis
    using c(1,2) c(3)[of "()"] fl by (auto simp: run touched_world worker_up_def up_world absent_world Let_def)
qed

theorem RunWorkerPlane_starts_witness:
  "case RunWorkerPlane sim_env [0] [1] [0] demo_services ''proxy'' ''sidecar'' None [] demo_hosts of (res, w') \<Rightarrow>
     (\<forall>s. res \<noteq> Panic s) \<and> (res = Ret () \<longrightarrow> started sim_view w' ''10.0.0.2'' KubeletContainerName)"
proof -
  obtain res w' where run: "RunWorkerPlane sim_env [0] [1] [0] demo_services ''proxy'' ''sidecar'' None [] demo_hosts = (res, w')" by fastforce
  have d: "daemon_of demo_hosts 1 = ''10.0.0.2''" by (simp add: daemon_of_def demo_hosts_def sim_world_def sim_host_def)
  have "plane_ready demo_hosts ([0] @ [0] @ [1])" using demo_hosts_ready by (auto simp: plane_ready_def)
  from RunWorkerPlane_starts[OF _ _ this, of sim_env sim_view demo_services "''proxy''" "''sidecar''" None "[]"]
  show ?thesis
    by (auto simp: sim_docker_laws sim_ext_answers run Let_def d[unfolded One_nat_def])
qed

text \<open>
  C28: against daemons in service, \<^verbatim>\<open>RemoveControlPlane\<close> returns and removes from each control host exactly the API server,
  the controller manager, the scheduler and, unless the host is also a worker, the kubelet, the proxy and the
  sidekick; every other container of every daemon stays as it was.
\<close>

theorem RemoveControlPlane_removes:
  assumes "docker_laws (dockerAPI env) view" and "docker_reliable (dockerAPI env) view"
    and "\<forall>r \<in> set rs. ready (world_view view w) r (daemon_of w r)"
  shows "\<exists>w'. RemoveControlPlane env rs force w = (Ret (), w') \<and> hstore w' = hstore w \<and>
     (\<forall>a m. conts (view (daemons w' a)) m =
        (if \<exists>r \<in> set rs. a = daemon_of w r \<and> m \<in> control_leaves (hstore w ! r) then None else conts (view (daemons w a)) m))"
  using vtriple_returns[OF clears_RemoveControlPlane[OF assms, unfolded clears_def]]
  by (fastforce simp: removed_def world_view_def)

lemma demo_ready: "r < 2 \<Longrightarrow> ready (world_view sim_view demo_hosts) r (daemon_of demo_hosts r)"
  using plane_ready_lemmas(1)[OF demo_hosts_ready] less_2_cases by fastforce

theorem RemoveControlPlane_removes_witness:
  "\<exists>w'. RemoveControlPlane sim_env [0, 1] False demo_hosts = (Ret (), w') \<and>
     conts (sim_view (daemons w' ''10.0.0.1'')) KubeAPIContainerName = None"
proof -
  have "\<forall>r \<in> set [0, 1]. ready (world_view sim_view demo_hosts) r (daemon_of demo_hosts r)" using demo_ready by auto
  from RemoveControlPlane_removes[OF _ _ this, of sim_env False] obtain w' where
    "RemoveControlPlane sim_env [0, 1] False demo_hosts = (Ret (), w')"
    "\<forall>a m. conts (sim_view (daemons w' a)) m = (if \<exists>r \<in> set [0, 1]. a = daemon_of demo_hosts r \<and>
        m \<in> control_leaves (hstore demo_hosts ! r) then None else conts (sim_view (daemons demo_hosts a)) m)"
    by (auto simp: sim_docker_laws sim_docker_reliable)
  moreover have "daemon_of demo_hosts 0 = ''10.0.0.1''" by (simp add: daemon_of_def demo_hosts_def sim_world_def sim_host_def)
  ultimately show ?thesis by (intro exI[of _ w']) (simp add: control_leaves_def)
qed

text \<open>
  C29: against daemons in service, \<^verbatim>\<open>RemoveWorkerPlane\<close> with \<open>force\<close>, or on hosts none of which is a control host, returns and
  removes from each host exactly the kubelet, the proxy, the proxy to the API servers and the sidekick.
\<close>

theorem RemoveWorkerPlane_removes:
  assumes "docker_laws (dockerAPI env) view" and "docker_reliable (dockerAPI env) view"
    and "\<forall>r \<in> set rs. ready (world_view view w) r (daemon_of w r)" and "\<forall>r \<in> set rs. force \<or> \<not> IsControl (hstore w ! r)"
  shows "\<exists>w'. RemoveWorkerPlane env rs force w = (Ret (), w') \<and> hstore w' = hstore w \<and>
     (\<forall>a m. conts (view (daemons w' a)) m =
        (if a \<in> daemon_of w ` set rs \<and> m \<in> worker_leaves then None else conts (view (daemons w a)) m))"
proof -
  have "\<forall>r \<in> set rs. force \<or> \<not> IsControl (wv_hosts (world_view view w) ! r)" using assms(4) by simp
  from vtriple_returns[OF clears_RemoveWorkerPlane[OF assms(1-3) this, unfolded clears_def]]
  show ?thesis by (fastforce simp: removed_def world_view_def)
qed

theorem RemoveWorkerPlane_removes_witness:
  "\<exists>w'. RemoveWorkerPlane sim_env [0, 1] True demo_hosts = (Ret (), w') \<and>
     conts (sim_view (daemons w' ''10.0.0.1'')) KubeletContainerName = None"
proof -
  have "\<forall>r \<in> set [0, 1]. ready (world_view sim_view demo_hosts) r (daemon_of demo_hosts r)" using demo_ready by auto
  from RemoveWorkerPlane_removes[OF _ _ this, of sim_env True] obtain w' where
    "RemoveWorkerPlane sim_env [0, 1] True demo_hosts = (Ret (), w')"
    "\<forall>a m. conts (sim_view (daemons w' a)) m = (if a \<in> daemon_of demo_hosts ` set [0, 1] \<and> m \<in> worker_leaves
        then None else conts (sim_view (daemons demo_hosts a)) m)"
    by (auto simp: sim_docker_laws sim_docker_reliable)
  moreover have "daemon_of demo_hosts 0 = ''10.0.0.1''" by (simp add: daemon_of_def demo_hosts_def sim_world_def sim_host_def)
  ultimately show ?thesis by (intro exI[of _ w']) (simp add: worker_leaves_def)
qed

text \<open>
  Without \<open>force\<close>, \<^verbatim>\<open>RemoveWorkerPlane\<close> leaves its loop at the first control host: it returns without an error and
  without touching anything on that host or on the hosts after it.
\<close>

theorem RemoveWorkerPlane_stops_at_control_host:
  assumes "r < length (hstore w)" and "IsControl (hstore w ! r)"
  shows "RemoveWorkerPlane env (r # rs) False w = (Ret (), w)"
  using assms by (simp add: bindIO_def getHost_def retIO_def)

theorem RemoveWorkerPlane_stops_at_control_host_witness:
  "RemoveWorkerPlane sim_env [0, 1] False (sim_world [(sim_host ''10.0.0.1'')\<lparr>IsControl := True\<rparr>, sim_host ''10.0.0.2'']) =
     (Ret (), sim_world [(sim_host ''10.0.0.1'')\<lparr>IsControl := True\<rparr>, sim_host ''10.0.0.2''])"
  by (rule RemoveWorkerPlane_stops_at_control_host) (simp_all add: sim_world_def)

text \<open>A daemon that cannot stop the controller manager.\<close>

definition stuck_env :: "(sim, sim_kube, sim_ext) env" where
  "stuck_env = sim_env\<lparr>dockerAPI := sim_docker\<lparr>ContainerStop := (\<lambda>r.
     if r = KubeControllerContainerName then failIO (errorf ''timeout'') else ContainerStop sim_docker r)\<rparr>\<rparr>"

definition stuck_world :: "(sim, sim_kube, sim_ext) world" where
  "stuck_world = (sim_world [sim_host ''10.0.0.1''])\<lparr>daemons := (\<lambda>a.
     ([(''kube-controller'', \<lparr>c_id = ''ab'', c_up = True, c_image = ''k8s'', c_cmd = None\<rparr>),
       (''scheduler'', \<lparr>c_id = ''cd'', c_up = True, c_image = ''k8s'', c_cmd = None\<rparr>)], []))\<rparr>"

text \<open>
  \<^verbatim>\<open>RemoveControlPlane\<close> hides a failure: on a host whose daemon cannot stop the controller manager it returns without an
  error although the controller manager and the scheduler are still running.
\<close>

theorem RemoveControlPlane_hides_failure:
  "\<exists>w'. RemoveControlPlane stuck_env [0] True stuck_world = (Ret (), w') \<and>
     started sim_view w' ''10.0.0.1'' KubeControllerContainerName \<and> started sim_view w' ''10.0.0.1'' SchedulerContainerName"
proof -
  let ?r = "RemoveControlPlane stuck_env [0] True stuck_world"
  let ?up = "\<lambda>n. case conts (sim_view (daemons (snd ?r) ''10.0.0.1'')) n of None \<Rightarrow> False | Some c \<Rightarrow> c_up c"
  have "fst ?r = Ret ()" by code_simp
  moreover have "?up KubeControllerContainerName" "?up SchedulerContainerName" by code_simp+
  ultimately show ?thesis
    by (intro exI[of _ "snd ?r"]) (auto simp: started_def prod_eq_iff split: option.splits)
qed

end
