(* ===== verification/Pki_Deploy.thy ===== *)
theory Pki_Deploy
  imports Planes "HOL-Library.While_Combinator"
begin

text \<open>
  Certificates on hosts (\<^verbatim>\<open>pki/deploy.go\<close>): the container that writes certificates to a host, the files of the local
  administrator, and fetching certificates back from a host.
\<close>

section \<open>Waiting for a container\<close>

text \<open>
  \<open>for { running, err := m; if err != nil { return err }; if running { sleep; continue }; return k }\<close>.  The loop has no bound;
  one that never ends is an outcome of its own, after which, as after a panic, nothing of the program runs.
\<close>

definition pollLoop :: "('w, bool) io \<Rightarrow> ('w, unit) io \<Rightarrow> ('w, unit) io" where
  "pollLoop m k w =
     (case while_option (\<lambda>(r, w). r = Ret True) (\<lambda>(r, w). m w) (m w) of
        None \<Rightarrow> (Panic ''does not return'', w)
      | Some (Ret _, w') \<Rightarrow> k w'
      | Some (Fail e, w') \<Rightarrow> (Fail e, w')
      | Some (Panic s, w') \<Rightarrow> (Panic s, w'))"

text \<open>The polls end: after finitely many of them one says something else than that the container runs.\<close>

inductive settles :: "('w, bool) io \<Rightarrow> 'w \<Rightarrow> bool" for m where
  settled: "m w = (r, w') \<Longrightarrow> r \<noteq> Ret True \<Longrightarrow> settles m w"
| again: "m w = (Ret True, w') \<Longrightarrow> settles m w' \<Longrightarrow> settles m w"

section \<open>Deploying\<close>

text \<open>\<^verbatim>\<open>doRunDeployer\<close> after \<open>host.DClient\<close> and \<open>host.Address\<close> are read: everything in it is a call of that client.\<close>

definition runDeployer ::
  "'d docker_api \<Rightarrow> string \<Rightarrow> string list \<Rightarrow> string \<Rightarrow> PrivateRegistry gomap \<Rightarrow> ('d, unit) io" where
  "runDeployer api address containerEnv certDownloaderImage prsMap =
     bindIO (IsContainerRunning api address CrtDownloaderContainer True) (\<lambda>isRunning.
     thenIO (if isRunning then RemoveContainer api address CrtDownloaderContainer else retIO ())
    (thenIO (UseLocalOrPull api address certDownloaderImage prsMap)
    (bindIO (wrapIO (''Failed to create Certificates deployer container on host ['' @ address @ '']: '')
        (ContainerCreate api (ContainerConfig_zero\<lparr>Image := certDownloaderImage, Env := containerEnv\<rparr>)
           (HostConfig_zero\<lparr>Binds := [''/etc/kubernetes:/etc/kubernetes''], Privileged := True\<rparr>) CrtDownloaderContainer)) (\<lambda>id.
     thenIO (wrapIO (''Failed to start Certificates deployer container on host ['' @ address @ '']: '') (ContainerStart api id))
       (pollLoop (IsContainerRunning api address CrtDownloaderContainer False)
          (wrapIO (''Failed to delete Certificates deployer container on host ['' @ address @ '']: '') (ContainerRemove api id)))))))"

definition doRunDeployer ::
  "('d, 'k, 'e) env \<Rightarrow> hostref \<Rightarrow> string list \<Rightarrow> string \<Rightarrow> PrivateRegistry gomap \<Rightarrow> ('d, 'k, 'e, unit) wio" where
  "doRunDeployer env r containerEnv certDownloaderImage prsMap =
     bindIO (getHost r) (\<lambda>h. viaClient h (runDeployer (dockerAPI env) (Address h) containerEnv certDownloaderImage prsMap))"

text \<open>\<open>for _, crtName := range certList { c := crtMap[crtName]; env = append(env, c.ToEnv()...) }\<close>\<close>

definition certsEnv :: "('d, 'k, 'e) env \<Rightarrow> CertificatePKI gomap \<Rightarrow> string list \<Rightarrow> string list \<Rightarrow> ('w, string list) io" where
  "certsEnv env crtMap certList acc =
     foldIO (\<lambda>crtName acc. bindIO (ToEnv env (cert_get crtMap crtName)) (\<lambda>e. retIO (acc @ e))) certList acc"

definition planeCertList :: "Host \<Rightarrow> Host list \<Rightarrow> string list" where
  "planeCertList host etcdHosts =
     (if IsControl host
      then [CACertName, KubeAPICertName, KubeControllerCertName, KubeSchedulerCertName, KubeProxyCertName, KubeNodeCertName]
      else [CACertName, KubeProxyCertName, KubeNodeCertName]) @
     (if IsEtcd host then map (\<lambda>h. GetEtcdCrtName (InternalAddress h)) etcdHosts else [])"

definition DeployCertificatesOnPlaneHost ::
  "('d, 'k, 'e) env \<Rightarrow> hostref \<Rightarrow> hostref list \<Rightarrow> CertificatePKI gomap \<Rightarrow> string \<Rightarrow> PrivateRegistry gomap \<Rightarrow> ('d, 'k, 'e, unit) wio" where
  "DeployCertificatesOnPlaneHost env r etcdHosts crtMap certDownloaderImage prsMap =
     bindIO (getHost r) (\<lambda>h.
     bindIO (getHosts etcdHosts) (\<lambda>ehs.
     bindIO (certsEnv env crtMap (planeCertList h ehs) []) (\<lambda>e.
       doRunDeployer env r e certDownloaderImage prsMap)))"

definition hostCertList :: "Host list \<Rightarrow> string list" where
  "hostCertList extraHosts =
     [CACertName, KubeAPICertName, KubeControllerCertName, KubeSchedulerCertName, KubeProxyCertName, KubeNodeCertName, KubeAdminCertName] @
     map (\<lambda>h. GetEtcdCrtName (InternalAddress h)) extraHosts"

definition DeployCertificatesOnHost ::
  "('d, 'k, 'e) env \<Rightarrow> hostref list \<Rightarrow> hostref \<Rightarrow> CertificatePKI gomap \<Rightarrow> string \<Rightarrow> string \<Rightarrow> PrivateRegistry gomap \<Rightarrow>
     ('d, 'k, 'e, unit) wio" where
  "DeployCertificatesOnHost env extraHosts r crtMap certDownloaderImage certPath prsMap =
     bindIO (getHosts extraHosts) (\<lambda>ehs.
     bindIO (certsEnv env crtMap (hostCertList ehs) [''CRTS_DEPLOY_PATH='' @ certPath]) (\<lambda>e.
       doRunDeployer env r e certDownloaderImage prsMap))"

definition DeployAdminConfig :: "('d, 'k, 'e) env \<Rightarrow> string \<Rightarrow> string \<Rightarrow> ('d, 'k, 'e, unit) wio" where
  "DeployAdminConfig env kubeConfig localConfigPath =
     wrapIO ''Failed to create local admin kubeconfig file: '' (writeFile env localConfigPath kubeConfig)"

definition RemoveAdminConfig :: "('d, 'k, 'e) env \<Rightarrow> string \<Rightarrow> ('d, 'k, 'e, unit) wio" where
  "RemoveAdminConfig env localConfigPath = tryIO (removeFile env localConfigPath) (\<lambda>_. retIO ()) (\<lambda>_. retIO ())"

section \<open>Fetching\<close>

definition fetchFile :: "'d docker_api \<Rightarrow> string \<Rightarrow> string \<Rightarrow> string \<Rightarrow> PrivateRegistry gomap \<Rightarrow> ('d, string) io" where
  "fetchFile api address filePath fetchImage prsMap =
     bindIO (IsContainerRunning api address CertFetcherContainer True) (\<lambda>isRunning.
     thenIO (if \<not> isRunning
             then DoRunContainer api (ContainerConfig_zero\<lparr>Image := fetchImage\<rparr>)
                    (HostConfig_zero\<lparr>Binds := [''/etc/kubernetes:/etc/kubernetes''], Privileged := True\<rparr>)
                    CertFetcherContainer address prsMap
             else retIO ())
       (ReadFileFromContainer api address CertFetcherContainer filePath))"

definition fetchFileFromHost :: "('d, 'k, 'e) env \<Rightarrow> string \<Rightarrow> string \<Rightarrow> hostref \<Rightarrow> PrivateRegistry gomap \<Rightarrow> ('d, 'k, 'e, string) wio" where
  "fetchFileFromHost env filePath fetchImage r prsMap =
     bindIO (getHost r) (\<lambda>h. viaClient h (fetchFile (dockerAPI env) (Address h) filePath fetchImage prsMap))"

text \<open>The certificates to fetch, and for which of them a configuration is fetched too.\<close>

definition fetchList :: "Host list \<Rightarrow> bool gomap" where
  "fetchList extraHosts =
     fold (\<lambda>h. mput (GetEtcdCrtName (InternalAddress h)) False) extraHosts
       [(CACertName, False), (KubeAPICertName, False), (KubeControllerCertName, True), (KubeSchedulerCertName, True),
        (KubeProxyCertName, True), (KubeNodeCertName, True), (KubeAdminCertName, True)]"

text \<open>
  \<open>parsedCert[0]\<close> panics on an empty list and \<open>parsedKey.(*rsa.PrivateKey)\<close> on another kind of key.  The error of fetching
  the key is dropped: the key is then empty.
\<close>

definition parseCertificate :: "('d, 'k, 'e) env \<Rightarrow> string \<Rightarrow> string \<Rightarrow> string \<Rightarrow> ('w, CertificatePKI) io" where
  "parseCertificate env crt key config =
     bindIO (ofSum (ParseCertsPEM env crt)) (\<lambda>parsedCert.
     bindIO (ofSum (ParsePrivateKeyPEM env key)) (\<lambda>parsedKey.
       case parsedCert of
         [] \<Rightarrow> panicIO ''index out of range''
       | c # _ \<Rightarrow> (case parsedKey of
             AnyECDSA _ \<Rightarrow> panicIO ''interface conversion''
           | AnyRSA k \<Rightarrow> retIO (CertificatePKI_zero\<lparr>cert_Config := config, Certificate := Some c, cert_Key := Some k\<rparr>))))"

definition notFoundMsg :: "gerror \<Rightarrow> bool" where
  "notFoundMsg err \<longleftrightarrow> contains ''no such file or directory'' (emsg err) \<or> contains ''Could not find the file'' (emsg err)"

text \<open>The loop over the list; \<open>None\<close> is the \<open>return nil, nil\<close> for a certificate that is not on the host.\<close>

fun fetchCerts ::
  "('d, 'k, 'e) env \<Rightarrow> hostref \<Rightarrow> string \<Rightarrow> PrivateRegistry gomap \<Rightarrow> bool gomap \<Rightarrow> CertificatePKI gomap \<Rightarrow>
     ('d, 'k, 'e, CertificatePKI gomap option) wio" where
  "fetchCerts env r fetchImage prsMap [] tmpCerts = retIO (Some tmpCerts)"
| "fetchCerts env r fetchImage prsMap ((certName, config) # rest) tmpCerts =
     tryIO (fetchFileFromHost env (GetCertTempPath certName) fetchImage r prsMap)
       (\<lambda>err. if notFoundMsg err then retIO None else failIO err)
       (\<lambda>crt.
         bindIO (catchIO (fetchFileFromHost env (GetKeyTempPath certName) fetchImage r prsMap) (\<lambda>_. retIO [])) (\<lambda>key.
         bindIO (if config then fetchFileFromHost env (GetConfigTempPath certName) fetchImage r prsMap else retIO []) (\<lambda>cfg.
         bindIO (parseCertificate env crt key cfg) (\<lambda>certificate.
           fetchCerts env r fetchImage prsMap rest (mput certName certificate tmpCerts)))))"

definition fetched :: "CertificatePKI gomap \<Rightarrow> string \<Rightarrow> string \<Rightarrow> string \<Rightarrow> CertificatePKI" where
  "fetched tmpCerts name commonName ouName =
     ToCertObject name commonName ouName (Certificate (cert_get tmpCerts name)) (cert_Key (cert_get tmpCerts name))"

definition populateCertMap :: "CertificatePKI gomap \<Rightarrow> string \<Rightarrow> Host list \<Rightarrow> CertificatePKI gomap" where
  "populateCertMap tmpCerts localConfigPath extraHosts =
     (let put = (\<lambda>name cn ou. mput name (fetched tmpCerts name cn ou));
          base = put KubeNodeCertName KubeNodeCommonName KubeNodeOrganizationName
            (put KubeProxyCertName [] [] (put KubeSchedulerCertName [] [] (put KubeControllerCertName [] []
            (put KubeAPICertName [] [] (put CACertName [] [] [])))));
          admin = (fetched tmpCerts KubeAdminCertName KubeAdminCertName KubeAdminOrganizationName)\<lparr>
            cert_Config := cert_Config (cert_get tmpCerts KubeAdminCertName), ConfigPath := localConfigPath\<rparr>
      in fold (\<lambda>h. put (GetEtcdCrtName (InternalAddress h)) [] []) extraHosts (mput KubeAdminCertName admin base))"

definition FetchCertificatesFromHost ::
  "('d, 'k, 'e) env \<Rightarrow> hostref list \<Rightarrow> hostref \<Rightarrow> string \<Rightarrow> string \<Rightarrow> PrivateRegistry gomap \<Rightarrow>
     ('d, 'k, 'e, CertificatePKI gomap option) wio" where
  "FetchCertificatesFromHost env extraHosts r fetchImage localConfigPath prsMap =
     bindIO (getHosts extraHosts) (\<lambda>ehs.
     bindIO (fetchCerts env r fetchImage prsMap (fetchList ehs) []) (\<lambda>res.
       case res of
         None \<Rightarrow> retIO None
       | Some tmpCerts \<Rightarrow>
           bindIO (getHost r) (\<lambda>h.
           thenIO (viaClient h (RemoveContainer (dockerAPI env) (Address h) CertFetcherContainer))
             (retIO (Some (populateCertMap tmpCerts localConfigPath ehs))))))"

definition getTempPath :: "string \<Rightarrow> string" where
  "getTempPath s = TempCertPath @ path_Base s"

section \<open>The deployer leaves nothing behind\<close>

lemma settles_while:
  assumes "settles m w" "\<And>w. vtriple view (view w) m (\<lambda>b v'. v' = view w) (\<lambda>_ v'. v' = view w)"
  shows "\<exists>r w'. while_option (\<lambda>(r, w). r = Ret True) (\<lambda>(r, w). m w) (m w) = Some (r, w') \<and>
     r \<noteq> Ret True \<and> (\<forall>s. r \<noteq> Panic s) \<and> view w' = view w"
  using assms(1)
proof induction
  case (settled w r w')
  then have "view w' = view w \<and> (\<forall>s. r \<noteq> Panic s)"
    using assms(2)[of w] by (cases r) (auto dest: vtriple_Ret vtriple_Fail vtriple_no_panic)
  with settled show ?case by (subst while_option_unfold) auto
next
  case (again w w')
  then have "view w' = view w" using vtriple_Ret[OF assms(2)] by blast
  with again show ?case by (subst while_option_unfold) auto
qed

lemma pollLoop_triple:
  assumes "\<And>v. vtriple view v m (\<lambda>b v'. v' = v) (\<lambda>_ v'. v' = v)" "\<And>w. settles m w"
    "vtriple view v k Q E" "\<And>e. E e v"
  shows "vtriple view v (pollLoop m k) Q E"
  unfolding vtriple_def
proof (intro allI impI)
  fix w
  assume w: "view w = v"
  obtain r w' where l: "while_option (\<lambda>(r, w). r = Ret True) (\<lambda>(r, w). m w) (m w) = Some (r, w')"
    "\<forall>s. r \<noteq> Panic s" "view w' = view w"
    using settles_while[OF assms(2) assms(1)] by blast
  with w assms(3,4) show "case pollLoop m k w of (Ret x, w') \<Rightarrow> Q x (view w') | (Fail e, w') \<Rightarrow> E e (view w') | (Panic s, w') \<Rightarrow> False"
    by (cases r) (auto simp: pollLoop_def vtriple_def)
qed

lemma deployer_finish:
  assumes l: "docker_laws api view" and s: "\<And>d. settles (IsContainerRunning api h n False) d"
    and v2: "conts v2 = (conts v)(n \<mapsto> c)"
  shows "vtriple view v2 (thenIO (wrapIO s1 (ContainerStart api (c_id c)))
      (pollLoop (IsContainerRunning api h n False) (wrapIO s2 (ContainerRemove api (c_id c)))))
     (\<lambda>_ v'. conts v' = (conts v)(n := None)) (\<lambda>_ v'. \<forall>m. m \<noteq> n \<longrightarrow> conts v' m = conts v m)"
    (is "vtriple view v2 _ ?Q ?E")
proof (rule vtriple_thenE)
  have c: "conts v2 n = Some c" using v2 by simp
  show "vtriple view v2 (wrapIO s1 (ContainerStart api (c_id c))) (\<lambda>_ v'. v' = set_cont n (Some (c\<lparr>c_up := True\<rparr>)) v2)
      (\<lambda>_ v'. \<forall>m. m \<noteq> n \<longrightarrow> conts v' m = conts v2 m)"
    by (rule vtriple_wrap) (rule vtriple_conseq[OF start_id_triple[OF l c]], auto)
  fix v3 :: dview
  assume v3: "v3 = set_cont n (Some (c\<lparr>c_up := True\<rparr>)) v2"
  have "conts v3 n = Some (c\<lparr>c_up := True\<rparr>)" by (simp add: v3)
  from remove_id_triple[OF l this]
  have "vtriple view v3 (ContainerRemove api (c_id c)) (\<lambda>x v'. v' = set_cont n None v3) (\<lambda>e v'. v' = v3 \<or> v' = set_cont n None v3)"
    by simp
  then have rm: "vtriple view v3 (wrapIO s2 (ContainerRemove api (c_id c))) ?Q ?E"
    by (intro vtriple_wrap) (erule vtriple_conseq, auto simp: v3 v2 set_cont_def)
  have poll: "vtriple view v (IsContainerRunning api h n False) (\<lambda>b v'. v' = v) (\<lambda>_ v'. v' = v)" for v
    by (rule vtriple_conseq[OF running_triple[OF l]]) auto
  show "vtriple view v3 (pollLoop (IsContainerRunning api h n False) (wrapIO s2 (ContainerRemove api (c_id c)))) ?Q ?E"
    by (rule pollLoop_triple[OF poll s rm]) (simp add: v3 v2)
qed (simp add: v2)

lemma deployer_create:
  assumes l: "docker_laws api view" and s: "\<And>d. settles (IsContainerRunning api h n False) d"
    and p: "proper_name n" and v1: "\<forall>m. m \<noteq> n \<longrightarrow> conts v1 m = conts v m"
  shows "vtriple view v1 (thenIO (UseLocalOrPull api h img prs)
     (bindIO (wrapIO s0 (ContainerCreate api cfg hcfg n)) (\<lambda>i. thenIO (wrapIO s1 (ContainerStart api i))
      (pollLoop (IsContainerRunning api h n False) (wrapIO s2 (ContainerRemove api i))))))
     (\<lambda>_ v'. conts v' = (conts v)(n := None)) (\<lambda>_ v'. \<forall>m. m \<noteq> n \<longrightarrow> conts v' m = conts v m)"
    (is "vtriple view v1 _ ?Q ?E")
proof (rule vtriple_thenE[OF use_or_pull_triple[OF l]])
  fix v2 :: dview
  assume v2: "conts v2 = conts v1"
  show "vtriple view v2 (bindIO (wrapIO s0 (ContainerCreate api cfg hcfg n)) (\<lambda>i. thenIO (wrapIO s1 (ContainerStart api i))
    (pollLoop (IsContainerRunning api h n False) (wrapIO s2 (ContainerRemove api i))))) ?Q ?E"
  proof (rule vtriple_bindE[OF vtriple_wrap[OF create_triple[OF l p, of v2 cfg hcfg]]])
    fix i and v3 :: dview
    assume "create_rel cfg n i v2 v3"
    then obtain c where c: "c_id c = i" "v3 = set_cont n (Some c) v2" by (rule create_relE)
    have "conts v3 = (conts v)(n \<mapsto> c)" using c(2) v1 v2 by auto
    from deployer_finish[OF l s this] c(1) show "vtriple view v3 (thenIO (wrapIO s1 (ContainerStart api i))
      (pollLoop (IsContainerRunning api h n False) (wrapIO s2 (ContainerRemove api i)))) ?Q ?E" by simp
  qed (use v1 v2 in \<open>auto elim!: create_relE\<close>)
qed (use v1 in auto)

lemma deployer_triple:
  assumes "docker_laws api view" "\<And>d. settles (IsContainerRunning api h CrtDownloaderContainer False) d"
  shows "vtriple view v (runDeployer api h cenv img prs)
     (\<lambda>_ v'. conts v' = (conts v)(CrtDownloaderContainer := None))
     (\<lambda>_ v'. \<forall>m. m \<noteq> CrtDownloaderContainer \<longrightarrow> conts v' m = conts v m)"
    (is "vtriple _ _ _ _ ?E")
  unfolding runDeployer_def
proof (rule vtriple_bindE[OF running_triple[OF assms(1)]])
  let ?n = CrtDownloaderContainer
  have p: "proper_name ?n" by code_simp
  fix b and v1 :: dview
  assume "v1 = v \<and> (b \<longrightarrow> (\<exists>c. conts v ?n = Some c \<and> (True \<or> c_up c))) \<and> (True \<longrightarrow> conts v ?n \<noteq> None \<longrightarrow> b)"
  then have v1: "v1 = v" by blast
  have "vtriple view v (if b then RemoveContainer api h ?n else retIO ()) (\<lambda>_ v'. \<forall>m. m \<noteq> ?n \<longrightarrow> conts v' m = conts v m) ?E"
    by (cases b) (auto intro!: vtriple_ret vtriple_conseq[OF remove_triple[OF assms(1) p]])
  from vtriple_then[OF this deployer_create[OF assms p]]
  show "vtriple view v1 (thenIO (if b then RemoveContainer api h ?n else retIO ())
    (thenIO (UseLocalOrPull api h img prs)
   (bindIO (wrapIO (''Failed to create Certificates deployer container on host ['' @ h @ '']: '')
      (ContainerCreate api (ContainerConfig_zero\<lparr>Image := img, Env := cenv\<rparr>)
         (HostConfig_zero\<lparr>Binds := [''/etc/kubernetes:/etc/kubernetes''], Privileged := True\<rparr>) ?n)) (\<lambda>id.
   thenIO (wrapIO (''Failed to start Certificates deployer container on host ['' @ h @ '']: '') (ContainerStart api id))
     (pollLoop (IsContainerRunning api h ?n False)
        (wrapIO (''Failed to delete Certificates deployer container on host ['' @ h @ '']: '') (ContainerRemove api id)))))))
   (\<lambda>_ v'. conts v' = (conts v)(?n := None)) ?E"
    unfolding v1 .
qed simp

subsection \<open>What is deployed\<close>

definition whole :: "CertificatePKI gomap \<Rightarrow> string \<Rightarrow> bool" where
  "whole m n \<longleftrightarrow> Certificate (cert_get m n) \<noteq> None \<and> cert_Key (cert_get m n) \<noteq> None"

definition envOf :: "('d, 'k, 'e) env \<Rightarrow> CertificatePKI \<Rightarrow> string list" where
  "envOf env c = [EnvName c @ ''='' @ EncodeCert env (the (Certificate c)), KeyEnvName c @ ''='' @ EncodeKey env (the (cert_Key c))] @
     (if cert_Config c \<noteq> [] then [ConfigEnvName c @ ''='' @ cert_Config c] else [])"

lemma certsEnv_ret:
  assumes "\<forall>n \<in> set names. whole m n"
  shows "(certsEnv env m names acc :: ('w, string list) io) = retIO (acc @ concat (map (\<lambda>n. envOf env (cert_get m n)) names))"
  using assms
proof (induction names arbitrary: acc)
  case Nil
  then show ?case by (simp add: certsEnv_def)
next
  case (Cons n names)
  then obtain c k where "Certificate (cert_get m n) = Some c" "cert_Key (cert_get m n) = Some k" by (auto simp: whole_def)
  then have "(ToEnv env (cert_get m n) :: ('w, string list) io) = retIO (envOf env (cert_get m n))"
    by (simp add: ToEnv_def CertToEnv_def KeyToEnv_def ConfigToEnv_def EncodeCertPEM_def EncodePrivateKeyPEM_def envOf_def)
  with Cons show ?case by (simp add: certsEnv_def)
qed

text \<open>
  C24: \<^verbatim>\<open>DeployCertificatesOnPlaneHost\<close> on a connected host, with whole certificates for all of the host's roles at hand and a
  deployer that comes to an end, never panics and does not wait forever; when it returns without an error, the deployer is gone; and
  whether it returns or fails, no other container has changed.  A failure may leave the deployer behind.
\<close>

theorem DeployCertificatesOnPlaneHost_leaves_no_deployer:
  fixes w :: "('d, 'k, 'e) world"
  assumes "docker_laws (dockerAPI env) view"
    and "\<forall>h d. settles (IsContainerRunning (dockerAPI env) h CrtDownloaderContainer False) d"
    and "r < length (hstore w)" and "DClient (hstore w ! r) = Some a" and "\<forall>q \<in> set etcdHosts. q < length (hstore w)"
    and "\<forall>n \<in> set (planeCertList (hstore w ! r) (map ((!) (hstore w)) etcdHosts)). whole crtMap n"
  shows "case DeployCertificatesOnPlaneHost env r etcdHosts crtMap img prs w of (res, w') \<Rightarrow>
     (\<forall>s. res \<noteq> Panic s) \<and> hstore w' = hstore w \<and>
     (res = Ret () \<longrightarrow> conts (view (daemons w' a)) CrtDownloaderContainer = None) \<and>
     (\<forall>b m. b \<noteq> a \<or> m \<noteq> CrtDownloaderContainer \<longrightarrow> conts (view (daemons w' b)) m = conts (view (daemons w b)) m)"
proof -
  let ?h = "hstore w ! r" and ?n = CrtDownloaderContainer
  let ?e = "concat (map (\<lambda>n. envOf env (cert_get crtMap n)) (planeCertList ?h (map ((!) (hstore w)) etcdHosts)))"
  have hosts: "getHosts rs w = (Ret (map ((!) (hstore w)) rs), w)" if "\<forall>q \<in> set rs. q < length (hstore w)" for rs
    using that by (induction rs) (auto simp: bindIO_def getHost_def retIO_def)
  have run: "DeployCertificatesOnPlaneHost env r etcdHosts crtMap img prs w =
      onDaemon a (runDeployer (dockerAPI env) (Address ?h) ?e img prs) w"
    using assms(3,4) hosts[OF assms(5)] certsEnv_ret[where 'w = "('d, 'k, 'e) world", OF assms(6), of env "[]"]
    by (simp add: DeployCertificatesOnPlaneHost_def doRunDeployer_def bindIO_def getHost_def retIO_def viaClient_def)
  obtain res d where d: "runDeployer (dockerAPI env) (Address ?h) ?e img prs (daemons w a) = (res, d)" by fastforce
  have t: "vtriple view (view (daemons w a)) (runDeployer (dockerAPI env) (Address ?h) ?e img prs)
     (\<lambda>_ v'. conts v' = (conts (view (daemons w a)))(?n := None)) (\<lambda>_ v'. \<forall>m. m \<noteq> ?n \<longrightarrow> conts v' m = conts (view (daemons w a)) m)"
    by (rule deployer_triple[OF assms(1)]) (use assms(2) in blast)
  have "(\<forall>s. res \<noteq> Panic s) \<and> (res = Ret () \<longrightarrow> conts (view d) ?n = None) \<and> (\<forall>m. m \<noteq> ?n \<longrightarrow> conts (view d) m = conts (view (daemons w a)) m)"
    using vtriple_Ret[OF t, of _ d] vtriple_Fail[OF t, of _ d] vtriple_no_panic[OF t, of _ d] d by (cases res) auto
  then show ?thesis by (auto simp: run onDaemon_def d)
qed

text \<open>A daemon on which every container exits as soon as it is started.\<close>

definition exit_docker :: "sim docker_api" where
  "exit_docker = sim_docker\<lparr>ContainerList := (\<lambda>all d. if all then ContainerList sim_docker True d else (Ret [], norm d))\<rparr>"

lemma exit_docker_laws: "docker_laws exit_docker sim_view"
proof -
  have l: "vtriple sim_view v (ContainerList exit_docker all)
        (\<lambda>ls v'. v' = v \<and> (\<forall>names \<in> set ls. names \<noteq> []) \<and>
           (\<forall>n. listed n ls \<longrightarrow> (\<exists>c. conts v n = Some c \<and> (all \<or> c_up c))) \<and>
           (\<forall>n c. all \<longrightarrow> conts v n = Some c \<longrightarrow> listed n ls))
        (\<lambda>_ v'. v' = v)" for all v
    using list_triple[OF sim_docker_laws, of v True]
    by (cases all) (auto simp: exit_docker_def vtriple_def listed_def)
  have eqs: "ContainerInspect exit_docker = ContainerInspect sim_docker" "ContainerCreate exit_docker = ContainerCreate sim_docker"
    "ContainerStart exit_docker = ContainerStart sim_docker" "ContainerStop exit_docker = ContainerStop sim_docker"
    "ContainerRename exit_docker = ContainerRename sim_docker" "ContainerRemove exit_docker = ContainerRemove sim_docker"
    "ContainerWait exit_docker = ContainerWait sim_docker" "ImageInspect exit_docker = ImageInspect sim_docker"
    "ImagePull exit_docker = ImagePull sim_docker" "CopyFromContainer exit_docker = CopyFromContainer sim_docker"
    "ContainerLogs exit_docker = ContainerLogs sim_docker" "Info exit_docker = Info sim_docker"
    by (simp_all add: exit_docker_def)
  from sim_docker_laws show ?thesis
    unfolding docker_laws_def eqs by - (elim conjE, ((intro conjI)?; (assumption | (intro allI, rule l))))
qed

lemma exit_docker_settles: "settles (IsContainerRunning exit_docker h n False) d"
  by (rule settled) (auto simp: IsContainerRunning_def exit_docker_def bindIO_def wrapIO_def catchIO_def)

text \<open>
  Daemons on which every container exits by itself and may then be removed, with no certificates kept from an earlier run.
\<close>

definition job_docker :: "sim docker_api" where
  "job_docker = exit_docker\<lparr>ContainerRemove := (\<lambda>r. sim_on r (\<lambda>m c (cs, ims). (Ret (), (AList.delete m cs, ims)))),
     CopyFromContainer := (\<lambda>r path. failIO (errorf ''no such file or directory''))\<rparr>"

lemma job_remove: "vtriple sim_view v (ContainerRemove job_docker r) (\<lambda>x v'. remove_rel r x v v') (\<lambda>e v'. v' = v \<and> unresolved r v)"
proof -
  have eq: "ContainerRemove job_docker r = sim_on r (\<lambda>m c (cs, ims). (Ret (), (AList.delete m cs, ims)))"
    by (simp add: job_docker_def)
  show ?thesis
    unfolding eq
  proof (rule sim_on_triple)
    fix m c cs ims
    assume wf: "sim_wf (cs, ims)" and v: "v = sim_view (cs, ims)" and r: "resolves v r m c" and mo: "map_of cs m = Some c"
    from r have "remove_rel r () v (set_cont m None v)" by (auto simp: remove_rel_def)
    then show "case (case (cs, ims) of (cs, ims) \<Rightarrow> (Ret (), AList.delete m cs, ims)) of
        (Ret x, d') \<Rightarrow> remove_rel r x v (sim_view d') | (Fail e, d') \<Rightarrow> sim_view d' = v \<and> unresolved r v | (Panic s, d') \<Rightarrow> False"
      by (simp add: v sim_view_wf wf wf_delete set_cont_def)
  qed simp
qed

lemma job_docker_laws: "docker_laws job_docker sim_view"
proof -
  have eqs: "ContainerInspect job_docker = ContainerInspect exit_docker" "ContainerCreate job_docker = ContainerCreate exit_docker"
    "ContainerStart job_docker = ContainerStart exit_docker" "ContainerStop job_docker = ContainerStop exit_docker"
    "ContainerRename job_docker = ContainerRename exit_docker" "ContainerList job_docker = ContainerList exit_docker"
    "ContainerWait job_docker = ContainerWait exit_docker" "ImageInspect job_docker = ImageInspect exit_docker"
    "ImagePull job_docker = ImagePull exit_docker" "ContainerLogs job_docker = ContainerLogs exit_docker" "Info job_docker = Info exit_docker"
    by (simp_all add: job_docker_def)
  have copy: "vtriple sim_view v (CopyFromContainer job_docker r path) (\<lambda>_ v'. v' = v) (\<lambda>_ v'. v' = v)" for r path v
    by (simp add: job_docker_def vtriple_fail)
  have remove: "atomic_call sim_view v (ContainerRemove job_docker r) (remove_rel r)" for v r
    unfolding atomic_call_def by (rule vtriple_conseq[OF job_remove]) auto
  from exit_docker_laws show ?thesis
    unfolding docker_laws_def eqs
    by - (elim conjE, ((intro conjI)?; (assumption | (intro allI impI, rule remove) | (intro allI, rule copy))))
qed

lemma job_docker_settles: "settles (IsContainerRunning job_docker h n False) d"
proof -
  have "IsContainerRunning job_docker h n False = IsContainerRunning exit_docker h n False"
    by (simp add: IsContainerRunning_def job_docker_def)
  then show ?thesis using exit_docker_settles by simp
qed

definition demo_certs :: "CertificatePKI gomap" where
  "demo_certs = map (\<lambda>n. (n, CertificatePKI_zero\<lparr>Certificate := Some \<lparr>SubjectCN = n, SubjectOrg = [], cert_AltNames = AltNames_zero,
     cert_Usages = [], IsCA = False, PublicKey = RSAKey 1, SignedBy = RSAKey 0, IssuerCN = ''kube-ca''\<rparr>, cert_Key := Some (RSAKey 1)\<rparr>))
     [CACertName, KubeProxyCertName, KubeNodeCertName]"

theorem DeployCertificatesOnPlaneHost_leaves_no_deployer_witness:
  "\<exists>w'. DeployCertificatesOnPlaneHost (sim_env\<lparr>dockerAPI := job_docker\<rparr>) 0 [1] demo_certs ''deployer'' [] demo_hosts = (Ret (), w') \<and>
     conts (sim_view (daemons w' ''10.0.0.1'')) CrtDownloaderContainer = None"
proof -
  let ?env = "sim_env\<lparr>dockerAPI := job_docker\<rparr>"
  let ?r = "DeployCertificatesOnPlaneHost ?env 0 [1] demo_certs ''deployer'' [] demo_hosts"
  have "fst ?r = Ret ()" by code_simp
  then have r: "?r = (Ret (), snd ?r)" by (metis prod.collapse)
  have laws: "docker_laws (dockerAPI ?env) sim_view"
    "\<forall>h d. settles (IsContainerRunning (dockerAPI ?env) h CrtDownloaderContainer False) d"
    by (simp_all add: job_docker_laws job_docker_settles)
  have hosts: "0 < length (hstore demo_hosts)" "DClient (hstore demo_hosts ! 0) = Some ''10.0.0.1''" "\<forall>q \<in> set [1]. q < length (hstore demo_hosts)"
    by (simp_all add: demo_hosts_def sim_world_def sim_host_def)
  have "\<forall>n \<in> set (planeCertList (hstore demo_hosts ! 0) (map ((!) (hstore demo_hosts)) [1])). whole demo_certs n"
    by (simp add: planeCertList_def demo_hosts_def sim_world_def sim_host_def Host_zero_def whole_def demo_certs_def cert_get_def)
  from DeployCertificatesOnPlaneHost_leaves_no_deployer[OF laws hosts this, of "''deployer''" "[]"]
  have "conts (sim_view (daemons (snd ?r) ''10.0.0.1'')) CrtDownloaderContainer = None" by (subst (asm) r) simp
  with r show ?thesis by metis
qed

section \<open>Fetching loses no certificate\<close>

lemma fold_put_get:
  "mget (fold (\<lambda>h. mput (f h) (g (f h))) hs m) n = (if n \<in> f ` set hs then Some (g n) else mget m n)"
  by (induction hs arbitrary: m) auto

lemma fetched_sel [simp]:
  "cert_Name (fetched m n cn ou) = n" "Certificate (fetched m n cn ou) = Certificate (cert_get m n)"
  "cert_Key (fetched m n cn ou) = cert_Key (cert_get m n)"
  by (simp_all add: fetched_def ToCertObject_sel)

text \<open>
  C35: \<^verbatim>\<open>populateCertMap\<close> makes of the fetched certificates a full map: every certificate of the cluster is in it, under its own
  name, with the certificate and the key that were fetched under that name; and it holds nothing else.
\<close>

theorem populateCertMap_keeps_certificates:
  "case mget (populateCertMap tmpCerts path ehs) n of
     None \<Rightarrow> n \<notin> set (hostCertList ehs)
   | Some c \<Rightarrow> n \<in> set (hostCertList ehs) \<and> cert_Name c = n \<and> Certificate c = Certificate (cert_get tmpCerts n) \<and>
       cert_Key c = cert_Key (cert_get tmpCerts n)"
  unfolding populateCertMap_def Let_def fold_put_get[where g = "\<lambda>n. fetched tmpCerts n [] []"]
  by (simp add: hostCertList_def image_iff)

end
