(* ===== verification/Cluster_State.thy ===== *)
theory Cluster_State
  imports Cluster_Addons Pki_Deploy
begin

text \<open>
  The state of a cluster that outlives a run: its certificates and configuration, kept in Kubernetes (\<^verbatim>\<open>cluster/certificates.go\<close>,
  \<^verbatim>\<open>cluster/state.go\<close>), and the local administrator's configuration (\<^verbatim>\<open>cluster/cluster.go\<close>).

  Methods that write to the cluster they are called on return it updated.  The certificates of a cluster are a map, which two clusters
  share after \<^verbatim>\<open>SetUpAuthentication\<close>; the operations that write to it return the map.
\<close>

section \<open>The local administrator's configuration\<close>

definition GetK8sVersion :: "('d, 'k, 'e) env \<Rightarrow> string \<Rightarrow> ('d, 'k, 'e, string) wio" where
  "GetK8sVersion env localConfigPath =
     bindIO (wrapIO ''Failed to create Kubernetes Client: '' (NewClient env localConfigPath)) (\<lambda>client.
       wrapIO ''Failed to get Kubernetes server version: '' (onKube (ServerVersion (kubeAPI env) client)))"

definition isLocalConfigWorking :: "('d, 'k, 'e) env \<Rightarrow> string \<Rightarrow> ('d, 'k, 'e, bool) wio" where
  "isLocalConfigWorking env localKubeConfigPath =
     tryIO (GetK8sVersion env localKubeConfigPath) (\<lambda>_. retIO False) (\<lambda>_. retIO True)"

text \<open>\<^verbatim>\<open>clientcmd.BuildConfigFromFlags("", path)\<close>\<close>

definition buildConfig :: "('d, 'k, 'e) env \<Rightarrow> string \<Rightarrow> ('d, 'k, 'e, RestConfig) wio" where
  "buildConfig env path = bindIO (getIO (\<lambda>w. files w path)) (\<lambda>f. ofSum (BuildConfig env f))"

definition getLocalConfigAddress :: "('d, 'k, 'e) env \<Rightarrow> string \<Rightarrow> ('d, 'k, 'e, string) wio" where
  "getLocalConfigAddress env localConfigPath =
     bindIO (buildConfig env localConfigPath) (\<lambda>config.
       case split_on CHR '':'' (rest_Host config) of
         _ # address # _ \<Rightarrow> if length address < 2 then panicIO ''slice bounds out of range'' else retIO (drop 2 address)
       | _ \<Rightarrow> panicIO ''index out of range'')"

text \<open>The error is dropped; the nil configuration it comes with is written to.\<close>

definition getLocalAdminConfigWithNewAddress :: "('d, 'k, 'e) env \<Rightarrow> string \<Rightarrow> string \<Rightarrow> ('d, 'k, 'e, string) wio" where
  "getLocalAdminConfigWithNewAddress env localConfigPath cpAddress =
     tryIO (buildConfig env localConfigPath) (\<lambda>_. panicIO ''nil pointer dereference'') (\<lambda>config.
       retIO (GetKubeConfigX509WithData (''https://'' @ cpAddress @ '':6443'') KubeAdminCertName
         (CAData config) (CertData config) (KeyData config)))"

text \<open>
  The loop over the control hosts, until one answers: the certificates, which are made anew where the cluster has no
  administrator's certificate, and the last configuration written.
\<close>

fun rebuildLoop ::
  "('d, 'k, 'e) env \<Rightarrow> string \<Rightarrow> CertificatePKI \<Rightarrow> x509_cert option \<Rightarrow> hostref list \<Rightarrow> CertificatePKI gomap option \<Rightarrow> string \<Rightarrow>
     ('d, 'k, 'e, CertificatePKI gomap option \<times> string) wio" where
  "rebuildLoop env path admin caCrt [] certs workingConfig = retIO (certs, workingConfig)"
| "rebuildLoop env path admin caCrt (r # rs) certs workingConfig =
     bindIO (getHost r) (\<lambda>cpHost.
     bindIO (if admin = CertificatePKI_zero then getLocalAdminConfigWithNewAddress env path (Address cpHost)
             else bindIO (EncodeCertPEM env caCrt) (\<lambda>caData.
                  bindIO (EncodeCertPEM env (Certificate admin)) (\<lambda>crtData.
                  bindIO (EncodePrivateKeyPEM env (cert_Key admin)) (\<lambda>keyData.
                    retIO (GetKubeConfigX509WithData (''https://'' @ Address cpHost @ '':6443'') KubeAdminCertName caData crtData keyData)))))
       (\<lambda>newConfig.
         let certs' = (if admin = CertificatePKI_zero then Some [] else certs) in
         tryIO (DeployAdminConfig env newConfig path)
           (\<lambda>_. failIO (errorf ''Failed to redeploy local admin config with new host''))
           (\<lambda>_. tryIO (GetK8sVersion env path)
              (\<lambda>_. rebuildLoop env path admin caCrt rs certs' newConfig)
              (\<lambda>_. retIO (certs', newConfig)))))"

definition rebuildLocalAdminConfig :: "('d, 'k, 'e) env \<Rightarrow> Cluster \<Rightarrow> ('d, 'k, 'e, Cluster) wio" where
  "rebuildLocalAdminConfig env kubeCluster =
     (let currentKubeConfig = certOf kubeCluster KubeAdminCertName; caCrt = Certificate (certOf kubeCluster CACertName) in
      bindIO (rebuildLoop env (LocalKubeConfigPath kubeCluster) currentKubeConfig caCrt (ControlPlaneHosts kubeCluster)
                (Certificates kubeCluster) []) (\<lambda>(certs, workingConfig).
        case certs of
          None \<Rightarrow> panicIO ''assignment to entry in nil map''
        | Some m \<Rightarrow> retIO (kubeCluster\<lparr>Certificates :=
              Some (mput KubeAdminCertName (currentKubeConfig\<lparr>cert_Config := workingConfig\<rparr>) m)\<rparr>)))"

section \<open>Certificates\<close>

definition certificateData :: "('d, 'k, 'e) env \<Rightarrow> CertificatePKI \<Rightarrow> ('w, string gomap) io" where
  "certificateData env crt =
     bindIO (EncodeCertPEM env (Certificate crt)) (\<lambda>c.
     bindIO (EncodePrivateKeyPEM env (cert_Key crt)) (\<lambda>k.
       let secretData = [(''Certificate'', c), (''Key'', k), (''EnvName'', EnvName crt), (''KeyEnvName'', KeyEnvName crt)]
       in retIO (if cert_Config crt \<noteq> []
                 then mput ''Config'' (cert_Config crt) (mput ''ConfigEnvName'' (ConfigEnvName crt) secretData) else secretData)))"

definition saveCertToKubernetes :: "('d, 'k, 'e) env \<Rightarrow> RestConfig \<Rightarrow> string \<Rightarrow> CertificatePKI \<Rightarrow> ('d, 'k, 'e, unit) wio" where
  "saveCertToKubernetes env kubeClient crtName crt =
     bindIO (certificateData env crt) (\<lambda>secretData.
       untilTimeout (Attempts env) (UpdateSecret env kubeClient secretData crtName)
         ''[certificates] Timeout waiting for kubernetes to be ready'')"

definition saveClusterCerts :: "('d, 'k, 'e) env \<Rightarrow> RestConfig \<Rightarrow> CertificatePKI gomap \<Rightarrow> ('d, 'k, 'e, unit) wio" where
  "saveClusterCerts env kubeClient crts = errgroupIO (map (\<lambda>(name, crt). saveCertToKubernetes env kubeClient name crt) crts)"

definition clusterCertNames :: "Host list \<Rightarrow> string list" where
  "clusterCertNames etcdHosts =
     [CACertName, KubeAPICertName, KubeNodeCertName, KubeProxyCertName, KubeControllerCertName, KubeSchedulerCertName, KubeAdminCertName] @
     map (\<lambda>h. GetEtcdCrtName (InternalAddress h)) etcdHosts"

text \<open>The errors of the parsers are dropped; \<open>secretCert[0]\<close> and the conversion of a nil key panic.\<close>

definition certOfSecret :: "('d, 'k, 'e) env \<Rightarrow> K8sObject \<Rightarrow> ('w, CertificatePKI) io" where
  "certOfSecret env secret =
     (let d = obj_Data secret in
      case ParseCertsPEM env (mgets d ''Certificate'') of
        Inr (c # _) \<Rightarrow>
          (case ParsePrivateKeyPEM env (mgets d ''Key'') of
             Inr (AnyRSA k) \<Rightarrow> retIO (CertificatePKI_zero\<lparr>Certificate := Some c, cert_Key := Some k, cert_Config := mgets d ''Config'',
                EnvName := mgets d ''EnvName'', ConfigEnvName := mgets d ''ConfigEnvName'', KeyEnvName := mgets d ''KeyEnvName''\<rparr>)
           | _ \<Rightarrow> panicIO ''interface conversion'')
      | _ \<Rightarrow> panicIO ''index out of range'')"

definition getClusterCerts :: "('d, 'k, 'e) env \<Rightarrow> RestConfig \<Rightarrow> hostref list \<Rightarrow> ('d, 'k, 'e, CertificatePKI gomap) wio" where
  "getClusterCerts env kubeClient etcdHosts =
     bindIO (getHosts etcdHosts) (\<lambda>ehs.
       foldIO (\<lambda>certName certMap.
         bindIO (GetSecret env kubeClient certName) (\<lambda>secret.
         bindIO (certOfSecret env secret) (\<lambda>c. retIO (mput certName c certMap)))) (clusterCertNames ehs) [])"

definition regenerateAPICertificate ::
  "('d, 'k, 'e) env \<Rightarrow> Cluster \<Rightarrow> CertificatePKI gomap \<Rightarrow> ('d, 'k, 'e, CertificatePKI gomap) wio" where
  "regenerateAPICertificate env c certificates =
     bindIO (getHosts (ControlPlaneHosts c)) (\<lambda>cpHosts.
       let ca = cert_get certificates CACertName; kubeAPIKey = cert_Key (cert_get certificates KubeAPICertName) in
       bindIO (GenerateSignedCertAndKey env (Certificate ca) (cert_Key ca) True KubeAPICertName
                 (Some (GetAltNames cpHosts (ClusterDomain c) (KubernetesServiceIP c))) kubeAPIKey []) (\<lambda>(kubeAPICert, _).
         retIO (mput KubeAPICertName (ToCertObject KubeAPICertName [] [] (Some kubeAPICert) kubeAPIKey) certificates)))"

definition SetUpAuthentication :: "('d, 'k, 'e) env \<Rightarrow> Cluster \<Rightarrow> Cluster option \<Rightarrow> ('d, 'k, 'e, Cluster) wio" where
  "SetUpAuthentication env kubeCluster currentCluster =
     (if authn_Strategy (Authentication kubeCluster) \<noteq> X509AuthenticationProvider then retIO kubeCluster
      else case currentCluster of
        Some cur \<Rightarrow> retIO (kubeCluster\<lparr>Certificates := Certificates cur\<rparr>)
      | None \<Rightarrow>
         (case EtcdHosts kubeCluster of
            [] \<Rightarrow> panicIO ''index out of range''
          | r # _ \<Rightarrow>
              bindIO (FetchCertificatesFromHost env (EtcdHosts kubeCluster) r (img_Alpine (SystemImages kubeCluster))
                        (LocalKubeConfigPath kubeCluster) (PrivateRegistriesMap kubeCluster)) (\<lambda>fetched.
                case fetched of
                  Some certs \<Rightarrow> retIO (kubeCluster\<lparr>Certificates := Some certs\<rparr>)
                | None \<Rightarrow>
                    bindIO (getHosts (ControlPlaneHosts kubeCluster)) (\<lambda>cpHosts.
                    bindIO (getHosts (EtcdHosts kubeCluster)) (\<lambda>etcdHosts.
                    bindIO (wrapIO ''Failed to generate Kubernetes certificates: ''
                       (StartCertificatesGeneration env cpHosts etcdHosts (ClusterDomain kubeCluster) (LocalKubeConfigPath kubeCluster)
                          (KubernetesServiceIP kubeCluster))) (\<lambda>certs.
                    thenIO (DeployCertificatesOnHost env (EtcdHosts kubeCluster) r certs (img_CertDownloader (SystemImages kubeCluster))
                              TempCertPath (PrivateRegistriesMap kubeCluster))
                      (retIO (kubeCluster\<lparr>Certificates := Some certs\<rparr>))))))))"

section \<open>Saving and fetching the state\<close>

definition saveStateToKubernetes ::
  "('d, 'k, 'e) env \<Rightarrow> RestConfig \<Rightarrow> RancherKubernetesEngineConfig \<Rightarrow> ('d, 'k, 'e, unit) wio" where
  "saveStateToKubernetes env kubeClient rkeConfig =
     bindIO (ofSum (YamlMarshal env rkeConfig)) (\<lambda>clusterFile.
       untilTimeout (Attempts env) (UpdateConfigMap env kubeClient clusterFile StateConfigMapName)
         ''[state] Timeout waiting for kubernetes to be ready'')"

definition certsOf :: "Cluster \<Rightarrow> CertificatePKI gomap" where
  "certsOf c = (case Certificates c of None \<Rightarrow> [] | Some m \<Rightarrow> m)"

definition SaveClusterState :: "('d, 'k, 'e) env \<Rightarrow> Cluster \<Rightarrow> RancherKubernetesEngineConfig \<Rightarrow> ('d, 'k, 'e, unit) wio" where
  "SaveClusterState env c rkeConfig =
     bindIO (wrapIO ''Failed to re-initialize Kubernetes Client: '' (NewClient env (LocalKubeConfigPath c))) (\<lambda>client.
     thenIO (wrapIO ''[certificates] Failed to Save Kubernetes certificates: '' (saveClusterCerts env client (certsOf c)))
       (wrapIO ''[state] Failed to save configuration state: '' (saveStateToKubernetes env client rkeConfig)))"

definition getStateFromKubernetes :: "('d, 'k, 'e) env \<Rightarrow> RestConfig \<Rightarrow> ('d, 'k, 'e, Cluster option) wio" where
  "getStateFromKubernetes env kubeClient =
     tryIO (untilTimeout (Attempts env) (GetConfigMap env kubeClient StateConfigMapName) ''timeout'')
       (\<lambda>_. retIO None)
       (\<lambda>cfgMap. case YamlUnmarshal env (mgets (obj_Data cfgMap) StateConfigMapName) of
          Inl _ \<Rightarrow> retIO None
        | Inr cfg \<Rightarrow> retIO (Some (clusterOf cfg [] None None)))"

text \<open>
  The cluster that is there, as it was saved, and the cluster it is called on, whose certificates change when the local
  configuration has to be rebuilt.
\<close>

definition fetchedCluster :: "('d, 'k, 'e) env \<Rightarrow> Cluster \<Rightarrow> RestConfig \<Rightarrow> Cluster \<Rightarrow> ('d, 'k, 'e, Cluster) wio" where
  "fetchedCluster env c client saved =
     bindIO (wrapIO ''Failed to classify hosts from fetched cluster: '' (InvertIndexHosts saved)) (\<lambda>cur.
     bindIO (wrapIO ''Failed to Get Kubernetes certificates: '' (getClusterCerts env client (EtcdHosts cur))) (\<lambda>certs.
     bindIO (setClusterDefaults (dockerAPI env) (cur\<lparr>Certificates := Some certs, DockerDialerFactory := DockerDialerFactory c,
               LocalConnDialerFactory := LocalConnDialerFactory c\<rparr>)) (\<lambda>cur'.
     bindIO (wrapIO ''Failed to regenerate KubeAPI certificate '' (regenerateAPICertificate env c certs)) (\<lambda>certs'.
       retIO (cur'\<lparr>Certificates := Some certs'\<rparr>)))))"

definition GetClusterState :: "('d, 'k, 'e) env \<Rightarrow> Cluster \<Rightarrow> ('d, 'k, 'e, Cluster option \<times> Cluster) wio" where
  "GetClusterState env c =
     bindIO (getIO (\<lambda>w. files w (LocalKubeConfigPath c))) (\<lambda>f.
       if f = None then retIO (None, c)
       else bindIO (isLocalConfigWorking env (LocalKubeConfigPath c)) (\<lambda>working.
            bindIO (if working then retIO c else rebuildLocalAdminConfig env c) (\<lambda>c'.
            tryIO (NewClient env (LocalKubeConfigPath c')) (\<lambda>_. retIO (None, c')) (\<lambda>client.
            bindIO (getStateFromKubernetes env client) (\<lambda>saved.
              case saved of
                None \<Rightarrow> retIO (None, c')
              | Some s \<Rightarrow> bindIO (fetchedCluster env c' client s) (\<lambda>cur. retIO (Some cur, c')))))))"

section \<open>Certificates that are saved come back\<close>

lemma untilTimeout_triple:
  assumes "\<And>v. P v \<Longrightarrow> vtriple view v m Q (\<lambda>e. P)" "P v"
  shows "vtriple view v (untilTimeout n m s) Q (\<lambda>e. P)"
  using assms(2)
proof (induction n arbitrary: v)
  case 0
  then show ?case by (simp add: vtriple_fail)
next
  case (Suc n)
  show ?case unfolding untilTimeout.simps
    by (rule vtriple_try[OF assms(1)[OF Suc.prems]]) (auto intro: Suc.IH vtriple_ret)
qed

text \<open>A certificate with a key, whose encodings the parsers read.\<close>

definition readable :: "('d, 'k, 'e) env \<Rightarrow> CertificatePKI \<Rightarrow> bool" where
  "readable env c \<longleftrightarrow> (\<exists>crt key. Certificate c = Some crt \<and> cert_Key c = Some key \<and>
     ParseCertsPEM env (EncodeCert env crt) = Inr [crt] \<and> ParsePrivateKeyPEM env (EncodeKey env key) = Inr (AnyRSA key))"

text \<open>What a secret keeps of a certificate object: not its name, its subject and its paths.\<close>

definition kept :: "CertificatePKI \<Rightarrow> CertificatePKI" where
  "kept c = CertificatePKI_zero\<lparr>Certificate := Certificate c, cert_Key := cert_Key c, cert_Config := cert_Config c, EnvName := EnvName c,
     ConfigEnvName := if cert_Config c = [] then [] else ConfigEnvName c, KeyEnvName := KeyEnvName c\<rparr>"

definition secretOf :: "('d, 'k, 'e) env \<Rightarrow> string \<Rightarrow> CertificatePKI \<Rightarrow> K8sObject" where
  "secretOf env n c = \<lparr>obj_Name = n, obj_Namespace = NamespaceSystem, obj_Data =
     (let d = [(''Certificate'', EncodeCert env (the (Certificate c))), (''Key'', EncodeKey env (the (cert_Key c))),
               (''EnvName'', EnvName c), (''KeyEnvName'', KeyEnvName c)]
      in if cert_Config c \<noteq> [] then mput ''Config'' (cert_Config c) (mput ''ConfigEnvName'' (ConfigEnvName c) d) else d)\<rparr>"

definition complete :: "CertificatePKI \<Rightarrow> bool" where
  "complete c \<longleftrightarrow> Certificate c \<noteq> None \<and> cert_Key c \<noteq> None"

lemma readable_complete: "readable env c \<Longrightarrow> complete c"
  by (auto simp: readable_def complete_def)

lemma certificateData_ret:
  assumes "complete c"
  shows "(certificateData env c :: ('w, string gomap) io) = retIO (obj_Data (secretOf env n c))"
  using assms by (auto simp: complete_def certificateData_def secretOf_def EncodeCertPEM_def EncodePrivateKeyPEM_def Let_def)

lemma certOfSecret_ret:
  assumes "readable env c"
  shows "(certOfSecret env (secretOf env n c) :: ('w, CertificatePKI) io) = retIO (kept c)"
  using assms by (auto simp: readable_def certOfSecret_def secretOf_def kept_def mgets_def Let_def)

lemma set_obj_twice [simp]: "set_obj k x (set_obj k y v) = set_obj k x v"
  by (simp add: set_obj_def)

abbreviation secretKey :: "string \<Rightarrow> k8s_kind \<times> string \<times> string" where
  "secretKey n \<equiv> (KSecret, NamespaceSystem, n)"

lemma saveCert_triple:
  fixes env :: "('d, 'k, 'e) env"
  assumes "kube_laws (kubeAPI env) kv" "complete c"
  shows "vtriple (kw kv) v (saveCertToKubernetes env client n c)
     (\<lambda>_ v'. v' = set_obj (secretKey n) (Some (secretOf env n c)) v) (\<lambda>_ v'. v' = v \<or> v' = set_obj (secretKey n) (Some (secretOf env n c)) v)"
proof -
  let ?s = "secretOf env n c"
  have s: "\<lparr>obj_Name = n, obj_Namespace = NamespaceSystem, obj_Data = obj_Data ?s\<rparr> = ?s" "obj_Name ?s = n" by (simp_all add: secretOf_def)
  have "vtriple (kw kv) v1 (UpdateSecret env client (obj_Data ?s) n) (\<lambda>_ v'. v' = set_obj (secretKey n) (Some ?s) v)
      (\<lambda>_ v'. v' = v \<or> v' = set_obj (secretKey n) (Some ?s) v)" if "v1 = v \<or> v1 = set_obj (secretKey n) (Some ?s) v" for v1
    unfolding UpdateSecret_def s(1)
    by (rule vtriple_conseq[OF createOrUpdate_triple[OF assms(1)]]) (use that in \<open>auto simp: s(2)\<close>)
  then show ?thesis
    unfolding saveCertToKubernetes_def certificateData_ret[OF assms(2), where n = n] bindIO_ret
    by (rule untilTimeout_triple[where P = "\<lambda>v1. v1 = v \<or> v1 = set_obj (secretKey n) (Some ?s) v"]) simp_all
qed

text \<open>A certificate that lacks its half makes the encoding panic.\<close>

lemma saveCert_complete: "saveCertToKubernetes env client n c w = (Ret x, w') \<Longrightarrow> complete c"
  by (auto simp: saveCertToKubernetes_def certificateData_def bindIO_Ret_iff EncodeCertPEM_def EncodePrivateKeyPEM_def complete_def panicIO_def
      split: option.splits)

text \<open>The secrets of a list of certificates, stored one after the other.\<close>

definition storeAll :: "('d, 'k, 'e) env \<Rightarrow> CertificatePKI gomap \<Rightarrow> kview \<Rightarrow> kview" where
  "storeAll env = fold (\<lambda>(n, c). set_obj (secretKey n) (Some (secretOf env n c)))"

lemma saveClusterCerts_stores:
  fixes w :: "('d, 'k, 'e) world"
  assumes "kube_laws (kubeAPI env) kv" "saveClusterCerts env client crts w = (Ret (), w1)"
  shows "kw kv w1 = storeAll env crts (kw kv w)"
proof -
  have "forIO (\<lambda>t. t) (map (\<lambda>(n, c). saveCertToKubernetes env client n c) crts) w = (Ret (), w1)"
    using assms(2) by (simp add: saveClusterCerts_def errgroup_Ret_iff_forIO)
  then show ?thesis
  proof (induction crts arbitrary: w)
    case Nil
    then show ?case by (simp add: storeAll_def)
  next
    case (Cons p crts)
    obtain n c where p: "p = (n, c)" by force
    from Cons.prems obtain x w2 where w2: "saveCertToKubernetes env client n c w = (Ret x, w2)"
      "forIO (\<lambda>t. t) (map (\<lambda>(n, c). saveCertToKubernetes env client n c) crts) w2 = (Ret (), w1)"
      by (auto simp: p thenIO_Ret_iff)
    from vtriple_Ret[OF saveCert_triple[OF assms(1) saveCert_complete[OF w2(1)]] w2(1)] Cons.IH[OF w2(2)] show ?case
      by (simp add: storeAll_def p)
  qed
qed

lemma storeAll_get:
  "distinct (map fst crts) \<Longrightarrow> kv_objs (storeAll env crts v) (secretKey n) =
     (case mget crts n of Some c \<Rightarrow> Some (secretOf env n c) | None \<Rightarrow> kv_objs v (secretKey n))"
proof (induction crts arbitrary: v)
  case Nil
  then show ?case by (simp add: storeAll_def)
next
  case (Cons p crts)
  then show ?case by (cases p) (auto simp: storeAll_def map_of_eq_None_iff[THEN iffD2] split: option.splits)
qed

text \<open>The API server answers a request for an object that it has.\<close>

definition gets_answered :: "'k kube_api \<Rightarrow> ('k \<Rightarrow> kview) \<Rightarrow> bool" where
  "gets_answered api kv \<longleftrightarrow> (\<forall>c t ns n k. kv_objs (kv k) (t, ns, n) \<noteq> None \<longrightarrow> (\<exists>x k'. ObjGet api c t ns n k = (Ret x, k')))"

lemma GetSecret_returns:
  assumes "kube_laws (kubeAPI env) kv" "gets_answered (kubeAPI env) kv" "kv_objs v (secretKey n) = Some x"
  shows "vtriple (kw kv) v (GetSecret env client n) (\<lambda>y v'. v' = v \<and> y = x) (\<lambda>_ _. False)"
proof -
  have "vtriple kv v (ObjGet (kubeAPI env) client KSecret NamespaceSystem n) (\<lambda>y v'. v' = v \<and> kv_objs v (secretKey n) = Some y)
      (\<lambda>e v'. v' = v \<and> (ekind e = EK8sNotFound \<longrightarrow> kv_objs v (secretKey n) = None))"
    using assms(1) by (simp add: kube_laws_def)
  note t = this
  have "vtriple kv v (ObjGet (kubeAPI env) client KSecret NamespaceSystem n) (\<lambda>y v'. v' = v \<and> y = x) (\<lambda>_ _. False)"
    unfolding vtriple_def
  proof (intro allI impI)
    fix k
    assume k: "kv k = v"
    with assms(2,3) obtain y k' where y: "ObjGet (kubeAPI env) client KSecret NamespaceSystem n k = (Ret y, k')"
      unfolding gets_answered_def by (metis option.distinct(1))
    from vtriple_Ret[OF t[folded k] this] k assms(3)
    show "case ObjGet (kubeAPI env) client KSecret NamespaceSystem n k of (Ret y, w') \<Rightarrow> kv w' = v \<and> y = x | (Fail e, w') \<Rightarrow> False
        | (Panic s, w') \<Rightarrow> False" by (auto simp: y)
  qed
  then show ?thesis unfolding GetSecret_def by (rule onKube_view)
qed

lemma fetchAll_triple:
  fixes env :: "('d, 'k, 'e) env"
  assumes "kube_laws (kubeAPI env) kv" "gets_answered (kubeAPI env) kv"
    "\<forall>n \<in> set names. kv_objs v (secretKey n) = Some (secretOf env n (f n)) \<and> readable env (f n)"
  shows "vtriple (kw kv) v (foldIO (\<lambda>certName certMap. bindIO (GetSecret env client certName) (\<lambda>secret.
         bindIO (certOfSecret env secret) (\<lambda>c. retIO (mput certName c certMap)))) names acc)
     (\<lambda>m v'. v' = v \<and> (\<forall>n. mget m n = (if n \<in> set names then Some (kept (f n)) else mget acc n))) (\<lambda>_ _. False)"
  using assms(3)
proof (induction names arbitrary: acc)
  case Nil
  then show ?case by (auto intro: vtriple_ret)
next
  case (Cons n names)
  then have n: "kv_objs v (secretKey n) = Some (secretOf env n (f n))" "readable env (f n)" by simp_all
  have one: "vtriple (kw kv) v (bindIO (GetSecret env client n) (\<lambda>secret. bindIO (certOfSecret env secret) (\<lambda>c. retIO (mput n c acc))))
      (\<lambda>m v'. v' = v \<and> m = mput n (kept (f n)) acc) (\<lambda>_ _. False)"
    by (rule vtriple_bind[OF GetSecret_returns[OF assms(1,2) n(1)]]) (simp add: certOfSecret_ret[OF n(2)] vtriple_ret)
  show ?case
    unfolding foldIO.simps
  proof (rule vtriple_bind[OF one])
    fix m v'
    assume "v' = v \<and> m = mput n (kept (f n)) acc"
    with Cons.IH[of "mput n (kept (f n)) acc"] Cons.prems
    show "vtriple (kw kv) v' (foldIO (\<lambda>certName certMap. bindIO (GetSecret env client certName) (\<lambda>secret.
         bindIO (certOfSecret env secret) (\<lambda>c. retIO (mput certName c certMap)))) names m)
        (\<lambda>m v'. v' = v \<and> (\<forall>na. mget m na = (if na \<in> set (n # names) then Some (kept (f na)) else mget acc na))) (\<lambda>_ _. False)"
      by (auto elim!: vtriple_conseq)
  qed
qed

text \<open>The secrets of readable certificates are read back as the certificates.\<close>

lemma stored_certs_come_back:
  fixes w :: "('d, 'k, 'e) world"
  assumes "kube_laws (kubeAPI env) kv" "gets_answered (kubeAPI env) kv" "\<forall>r \<in> set etcdHosts. r < length (hstore w)"
    and "\<forall>n \<in> set (clusterCertNames (map ((!) (hstore w)) etcdHosts)).
       kv_objs (kw kv w) (secretKey n) = Some (secretOf env n (f n)) \<and> readable env (f n)"
  shows "\<exists>m w'. getClusterCerts env client etcdHosts w = (Ret m, w') \<and>
     (\<forall>n. mget m n = (if n \<in> set (clusterCertNames (map ((!) (hstore w)) etcdHosts)) then Some (kept (f n)) else None))"
  using vtriple_returns[OF fetchAll_triple[OF assms(1,2,4), of client "[]"]]
  by (auto simp: getClusterCerts_def bindIO_def getHosts_run[OF assms(3)])

text \<open>An environment in which the certificates of the example can be encoded and read again.\<close>

definition demo_crt :: "string \<Rightarrow> x509_cert" where
  "demo_crt n = \<lparr>SubjectCN = n, SubjectOrg = [], cert_AltNames = AltNames_zero, cert_Usages = [], IsCA = False, PublicKey = RSAKey 1,
     SignedBy = RSAKey 0, IssuerCN = ''kube-ca''\<rparr>"

definition pem_env :: "(sim, sim_kube, sim_ext) env" where
  "pem_env = sim_env\<lparr>ParseCertsPEM := (\<lambda>s. Inr [demo_crt s])\<rparr>"

definition demo_saved :: "CertificatePKI gomap" where
  "demo_saved = map (\<lambda>n. (n, (ToCertObject n [] [] (Some (demo_crt n)) (Some (RSAKey 1)))))
     (clusterCertNames [sim_host ''10.0.0.1''])"

lemma sim_gets_answered: "gets_answered sim_kube_api sim_kview"
  by (auto simp: gets_answered_def sim_kube_api_def sim_kview_def split: option.splits)

lemma sim_createOrUpdate: "\<exists>k. createOrUpdate pem_env c t ns x w = (Ret (), w\<lparr>kube := k\<rparr>)"
  by (cases "map_of (sk_objs (kube w)) (t, ns, obj_Name x)")
    (auto simp: createOrUpdate_def tryIO_def onKube_def pem_env_def sim_kube_api_def retIO_def)

lemma demo_readable: "\<forall>(n, c) \<in> set demo_saved. readable pem_env c"
  by (simp add: demo_saved_def readable_def pem_env_def sim_env_def demo_crt_def split_beta)

lemma demo_saves: "\<exists>w1. saveClusterCerts pem_env client demo_saved w = (Ret (), w1) \<and> hstore w1 = hstore w"
proof -
  have "\<exists>w1. t w0 = (Ret (), w1) \<and> hstore w1 = hstore w"
    if "t \<in> set (map (\<lambda>(n, c). saveCertToKubernetes pem_env client n c) demo_saved)" "hstore w0 = hstore w" for t w0
  proof -
    from that(1) obtain n c where t: "t = saveCertToKubernetes pem_env client n c" and "complete c"
      using demo_readable readable_complete by fastforce
    moreover have six: "untilTimeout (Attempts pem_env) m s = tryIO m (\<lambda>_. untilTimeout 5 m s) retIO"
      for m :: "(sim, sim_kube, sim_ext, unit) wio" and s
      using untilTimeout.simps(2)[of 5 m s] by (simp add: pem_env_def sim_env_def)
    moreover obtain k where "UpdateSecret pem_env client (obj_Data (secretOf pem_env n c)) n w0 = (Ret (), w0\<lparr>kube := k\<rparr>)"
      unfolding UpdateSecret_def using sim_createOrUpdate by blast
    ultimately show ?thesis using that(2) by (simp add: saveCertToKubernetes_def certificateData_ret[where n = n] six) (simp add: tryIO_run)
  qed
  then have "\<exists>w1. forIO (\<lambda>t. t) (map (\<lambda>(n, c). saveCertToKubernetes pem_env client n c) demo_saved) w = (Ret (), w1) \<and> hstore w1 = hstore w"
    by (intro forIO_all_ret[where I = "\<lambda>w0. hstore w0 = hstore w"]) auto
  then show ?thesis by (simp add: saveClusterCerts_def errgroup_Ret_iff_forIO)
qed

text \<open>On them the state of a cluster is saved.\<close>

definition demo_saver :: "Cluster \<Rightarrow> Cluster" where
  "demo_saver c = c\<lparr>LocalKubeConfigPath := ''kube_config'', Certificates := Some demo_saved\<rparr>"

definition demo_saver_world :: "(sim, sim_kube, sim_ext) world" where
  "demo_saver_world = demo_hosts\<lparr>files := [''kube_config'' \<mapsto> ''config'']\<rparr>"

lemma demo_state_saves:
  "\<exists>w1. SaveClusterState pem_env (demo_saver c) cfg demo_saver_world = (Ret (), w1) \<and> hstore w1 = hstore demo_hosts"
proof -
  have client: "NewClient pem_env ''kube_config'' demo_saver_world =
      (Ret \<lparr>rest_Host = ''https://10.0.0.1:6443'', CAData = [], CertData = [], KeyData = []\<rparr>, demo_saver_world)" (is "_ = (Ret ?cl, _)")
    by (simp add: NewClient_def pem_env_def sim_env_def demo_saver_world_def bindIO_def thenIO_def getIO_def ofSum_def retIO_def)
  obtain w1 where w1: "saveClusterCerts pem_env ?cl demo_saved demo_saver_world = (Ret (), w1)" "hstore w1 = hstore demo_hosts"
    using demo_saves[of ?cl demo_saver_world] by (auto simp: demo_saver_world_def)
  obtain k where k: "UpdateConfigMap pem_env ?cl ''nodes'' StateConfigMapName w1 = (Ret (), w1\<lparr>kube := k\<rparr>)"
    unfolding UpdateConfigMap_def using sim_createOrUpdate by blast
  have six: "untilTimeout (Attempts pem_env) m s = tryIO m (\<lambda>_. untilTimeout 5 m s) retIO"
    for m :: "(sim, sim_kube, sim_ext, unit) wio" and s
    using untilTimeout.simps(2)[of 5 m s] by (simp add: pem_env_def sim_env_def)
  have marshal: "YamlMarshal pem_env cfg = Inr ''nodes''" by (simp add: pem_env_def sim_env_def)
  have "saveStateToKubernetes pem_env ?cl cfg w1 = (Ret (), w1\<lparr>kube := k\<rparr>)"
    unfolding saveStateToKubernetes_def six marshal using k by (simp add: ofSum_def bindIO_def retIO_def tryIO_run)
  with client w1 show ?thesis
    by (auto simp: SaveClusterState_def demo_saver_def certsOf_def bindIO_def thenIO_def wrapIO_run)
qed

end
