(* ===== verification/Etcd.thy ===== *)
theory Etcd
  imports Planes
begin

text \<open>
  The etcd plane (\<^verbatim>\<open>services/etcd.go\<close>, \<^verbatim>\<open>services/etcd_util.go\<close>): deploying, removing and reloading the etcd containers, the
  health check through a dialer, and adding and removing members of the running etcd cluster.
\<close>

section \<open>Clients and health\<close>

definition getEtcdDialer :: "('d, 'k, 'e) env \<Rightarrow> DialerFactory option \<Rightarrow> hostref \<Rightarrow> ('d, 'k, 'e, dialer) wio" where
  "getEtcdDialer env localConnDialerFactory r =
     thenIO (setHost r (\<lambda>h. h\<lparr>LocalConnPort := 2379\<rparr>))
       (runFactory env (case localConnDialerFactory of None \<Rightarrow> LocalConnFactory | Some f \<Rightarrow> f) r)"

definition getEtcdTLSConfig :: "('d, 'k, 'e) env \<Rightarrow> string \<Rightarrow> string \<Rightarrow> gerror + unit" where
  "getEtcdTLSConfig env certificate key = X509KeyPair env certificate key"

text \<open>
  The client for the constant endpoint \<^verbatim>\<open>https://127.0.0.1:2379\<close>, which always parses; requests go through the dialer.
\<close>

definition getEtcdClient :: "('d, 'k, 'e) env \<Rightarrow> hostref \<Rightarrow> DialerFactory option \<Rightarrow> string \<Rightarrow> string \<Rightarrow> ('d, 'k, 'e, dialer) wio" where
  "getEtcdClient env r df cert key =
     bindIO (getHost r) (\<lambda>h.
     bindIO (wrapIO (''Failed to create a dialer for host ['' @ Address h @ '']: '') (getEtcdDialer env df r)) (\<lambda>d.
     thenIO (ofSum (getEtcdTLSConfig env cert key)) (retIO d)))"

definition getHealthEtcd :: "('d, 'k, 'e) env \<Rightarrow> dialer \<Rightarrow> hostref \<Rightarrow> ('d, 'k, 'e, string) wio" where
  "getHealthEtcd env hc r = bindIO (getHost r) (\<lambda>h.
     wrapIO (''Failed to get /health for host ['' @ Address h @ '']: '') (onExt (EtcdHealthGet (extAPI env) hc (Address h))))"

text \<open>\<open>healthTries n\<close>: the loop with \<open>n\<close> rounds left.\<close>

fun healthTries :: "('d, 'k, 'e) env \<Rightarrow> DialerFactory option \<Rightarrow> hostref \<Rightarrow> string \<Rightarrow> string \<Rightarrow> nat \<Rightarrow> ('d, 'k, 'e, bool) wio" where
  "healthTries env df r cert key 0 = retIO False"
| "healthTries env df r cert key (Suc n) =
     tryIO (getEtcdDialer env df r) (\<lambda>_. retIO False) (\<lambda>d.
       case getEtcdTLSConfig env cert key of
         Inl _ \<Rightarrow> retIO False
       | Inr _ \<Rightarrow> tryIO (getHealthEtcd env d r)
           (\<lambda>_. healthTries env df r cert key n)
           (\<lambda>healthy. if healthy = ''true'' then retIO True else healthTries env df r cert key n))"

definition isEtcdHealthy :: "('d, 'k, 'e) env \<Rightarrow> DialerFactory option \<Rightarrow> hostref \<Rightarrow> string \<Rightarrow> string \<Rightarrow> ('d, 'k, 'e, bool) wio" where
  "isEtcdHealthy env df r cert key = healthTries env df r cert key 3"

section \<open>The etcd containers\<close>

definition buildEtcdConfig :: "Host \<Rightarrow> ETCDService \<Rightarrow> string \<Rightarrow> string \<Rightarrow> ContainerConfig \<times> HostConfig" where
  "buildEtcdConfig host etcdService initCluster nodeName =
     (let clusterState = (if ExistingEtcdCluster host then ''existing'' else ''new'');
          imageCfg = ContainerConfig_zero\<lparr>Image := svc_Image etcdService,
            Cmd := Some [''/usr/local/bin/etcd'',
              ''--name=etcd-'' @ HostnameOverride host,
              ''--data-dir=/etcd-data'',
              ''--advertise-client-urls=https://'' @ InternalAddress host @ '':2379,https://'' @ InternalAddress host @ '':4001'',
              ''--listen-client-urls=https://0.0.0.0:2379'',
              ''--initial-advertise-peer-urls=https://'' @ InternalAddress host @ '':2380'',
              ''--listen-peer-urls=https://0.0.0.0:2380'',
              ''--initial-cluster-token=etcd-cluster-1'',
              ''--initial-cluster='' @ initCluster,
              ''--initial-cluster-state='' @ clusterState,
              ''--peer-client-cert-auth'',
              ''--client-cert-auth'',
              ''--trusted-ca-file='' @ GetCertPath CACertName,
              ''--peer-trusted-ca-file='' @ GetCertPath CACertName,
              ''--cert-file='' @ GetCertPath nodeName,
              ''--key-file='' @ GetKeyPath nodeName,
              ''--peer-cert-file='' @ GetCertPath nodeName,
              ''--peer-key-file='' @ GetKeyPath nodeName]\<rparr>
      in (imageCfg\<lparr>Entrypoint := slice_append (Entrypoint imageCfg) (extraArgs (svc_ExtraArgs etcdService))\<rparr>,
          HostConfig_zero\<lparr>RestartPolicyName := ''always'',
            Binds := [''/var/lib/etcd:/etcd-data:z'', ''/etc/kubernetes:/etc/kubernetes:z''], NetworkMode := ''host''\<rparr>))"

text \<open>One round of the loops that start etcd.\<close>

definition runEtcd :: "('d, 'k, 'e) env \<Rightarrow> ETCDService \<Rightarrow> string \<Rightarrow> PrivateRegistry gomap \<Rightarrow> hostref \<Rightarrow> ('d, 'k, 'e, unit) wio" where
  "runEtcd env etcdService initCluster prsMap r =
     bindIO (getHost r) (\<lambda>h.
       case buildEtcdConfig h etcdService initCluster (GetEtcdCrtName (InternalAddress h)) of (imageCfg, hostCfg) \<Rightarrow>
       viaClient h (DoRunContainer (dockerAPI env) imageCfg hostCfg EtcdContainerName (Address h) prsMap))"

definition RunEtcdPlane :: "('d, 'k, 'e) env \<Rightarrow> hostref list \<Rightarrow> ETCDService \<Rightarrow> PrivateRegistry gomap \<Rightarrow> ('d, 'k, 'e, unit) wio" where
  "RunEtcdPlane env etcdHosts etcdService prsMap =
     bindIO (getHosts etcdHosts) (\<lambda>hs. forIO (runEtcd env etcdService (getEtcdInitialCluster hs) prsMap) etcdHosts)"

definition removeEtcdHost :: "('d, 'k, 'e) env \<Rightarrow> bool \<Rightarrow> hostref \<Rightarrow> ('d, 'k, 'e, unit) wio" where
  "removeEtcdHost env force r =
     thenIO (removeContainerOf env r EtcdContainerName)
    (bindIO (getHost r) (\<lambda>h.
       if \<not> IsWorker h \<or> \<not> IsControl h \<or> force then
         thenIO (removeKubelet env r)
        (thenIO (removeKubeproxy env r)
        (thenIO (removeNginxProxy env r)
           (removeSidekick env r)))
       else retIO ()))"

definition RemoveEtcdPlane :: "('d, 'k, 'e) env \<Rightarrow> hostref list \<Rightarrow> bool \<Rightarrow> ('d, 'k, 'e, unit) wio" where
  "RemoveEtcdPlane env etcdHosts force = forIO (removeEtcdHost env force) etcdHosts"

section \<open>Members of the etcd cluster\<close>

text \<open>The loops try one host after the other until a call succeeds; the result says whether one did.\<close>

fun addMemberLoop ::
  "('d, 'k, 'e) env \<Rightarrow> string \<Rightarrow> DialerFactory option \<Rightarrow> string \<Rightarrow> string \<Rightarrow> hostref list \<Rightarrow> ('d, 'k, 'e, bool) wio" where
  "addMemberLoop env peerURL df cert key [] = retIO False"
| "addMemberLoop env peerURL df cert key (r # rs) =
     tryIO (getEtcdClient env r df cert key) (\<lambda>_. addMemberLoop env peerURL df cert key rs) (\<lambda>_.
     bindIO (getHost r) (\<lambda>h.
     tryIO (onExt (EtcdMemberAdd (extAPI env) (Address h) peerURL)) (\<lambda>_. addMemberLoop env peerURL df cert key rs)
       (\<lambda>_. retIO True)))"

definition AddEtcdMember ::
  "('d, 'k, 'e) env \<Rightarrow> hostref \<Rightarrow> hostref list \<Rightarrow> DialerFactory option \<Rightarrow> string \<Rightarrow> string \<Rightarrow> ('d, 'k, 'e, unit) wio" where
  "AddEtcdMember env etcdHost etcdHosts df cert key =
     bindIO (getHost etcdHost) (\<lambda>eh.
     bindIO (addMemberLoop env (''https://'' @ InternalAddress eh @ '':2380'') df cert key etcdHosts) (\<lambda>added.
       if \<not> added then failIO (errorf (''Failed to add etcd member [etcd-'' @ HostnameOverride eh @ ''] from etcd cluster''))
       else retIO ()))"

definition memberID :: "EtcdMember list \<Rightarrow> string \<Rightarrow> string \<Rightarrow> string" where
  "memberID members name mID = (case List.find (\<lambda>m. mem_Name m = name) members of None \<Rightarrow> mID | Some m \<Rightarrow> mem_ID m)"

text \<open>The identifier found on one host stays in \<open>mID\<close> for the next; it is empty until a member of that name is found.\<close>

fun removeMemberLoop ::
  "('d, 'k, 'e) env \<Rightarrow> string \<Rightarrow> DialerFactory option \<Rightarrow> string \<Rightarrow> string \<Rightarrow> hostref list \<Rightarrow> string \<Rightarrow> ('d, 'k, 'e, bool) wio" where
  "removeMemberLoop env name df cert key [] mID = retIO False"
| "removeMemberLoop env name df cert key (r # rs) mID =
     tryIO (getEtcdClient env r df cert key) (\<lambda>_. removeMemberLoop env name df cert key rs mID) (\<lambda>_.
     bindIO (getHost r) (\<lambda>h.
     tryIO (onExt (EtcdMemberList (extAPI env) (Address h))) (\<lambda>_. removeMemberLoop env name df cert key rs mID) (\<lambda>members.
       let mID' = memberID members name mID in
       tryIO (onExt (EtcdMemberRemove (extAPI env) (Address h) mID')) (\<lambda>_. removeMemberLoop env name df cert key rs mID')
         (\<lambda>_. retIO True))))"

definition RemoveEtcdMember ::
  "('d, 'k, 'e) env \<Rightarrow> hostref \<Rightarrow> hostref list \<Rightarrow> DialerFactory option \<Rightarrow> string \<Rightarrow> string \<Rightarrow> ('d, 'k, 'e, unit) wio" where
  "RemoveEtcdMember env etcdHost etcdHosts df cert key =
     bindIO (getHost etcdHost) (\<lambda>eh.
     bindIO (removeMemberLoop env (''etcd-'' @ HostnameOverride eh) df cert key etcdHosts []) (\<lambda>removed.
       if \<not> removed then failIO (errorf (''Failed to delete etcd member [etcd-'' @ HostnameOverride eh @ ''] from etcd cluster''))
       else retIO ()))"

section \<open>Reloading\<close>

fun readyEtcd :: "hostref list \<Rightarrow> ('d, 'k, 'e, hostref list) wio" where
  "readyEtcd [] = retIO []"
| "readyEtcd (r # rs) =
     bindIO (getHost r) (\<lambda>h.
       if \<not> ToAddEtcdMember h then
         thenIO (setHost r (\<lambda>h. h\<lparr>ExistingEtcdCluster := True\<rparr>)) (bindIO (readyEtcd rs) (\<lambda>qs. retIO (r # qs)))
       else readyEtcd rs)"

fun anyHealthy :: "('d, 'k, 'e) env \<Rightarrow> DialerFactory option \<Rightarrow> string \<Rightarrow> string \<Rightarrow> hostref list \<Rightarrow> ('d, 'k, 'e, bool) wio" where
  "anyHealthy env df cert key [] = retIO False"
| "anyHealthy env df cert key (r # rs) =
     bindIO (isEtcdHealthy env df r cert key) (\<lambda>healthy. if healthy then retIO True else anyHealthy env df cert key rs)"

definition ReloadEtcdCluster ::
  "('d, 'k, 'e) env \<Rightarrow> hostref list \<Rightarrow> ETCDService \<Rightarrow> DialerFactory option \<Rightarrow> string \<Rightarrow> string \<Rightarrow> PrivateRegistry gomap \<Rightarrow>
     ('d, 'k, 'e, unit) wio" where
  "ReloadEtcdCluster env etcdHosts etcdService df cert key prsMap =
     bindIO (readyEtcd etcdHosts) (\<lambda>readyEtcdHosts.
     bindIO (getHosts readyEtcdHosts) (\<lambda>hs.
     thenIO (forIO (runEtcd env etcdService (getEtcdInitialCluster hs) prsMap) readyEtcdHosts)
    (bindIO (anyHealthy env df cert key readyEtcdHosts) (\<lambda>healthy.
       if \<not> healthy then failIO (errorf ''[etcd] Etcd Cluster is not healthy'') else retIO ()))))"

section \<open>What the operations touch\<close>

definition etcd_up :: "wview \<Rightarrow> hostref \<Rightarrow> string \<Rightarrow> bool" where
  "etcd_up x r a \<longleftrightarrow> up x a EtcdContainerName"

lemma etcd_host:
  assumes "docker_laws (dockerAPI env) view" "ready x r a"
  shows "confined view (slots a [EtcdContainerName]) x (runEtcd env svc ic prs r) (\<lambda>_ x'. etcd_up x' r a)"
proof -
  have r: "r < length (wv_hosts x)" and c: "DClient (wv_hosts x ! r) = Some a" using assms(2) by (simp_all add: ready_def)
  show ?thesis
    unfolding runEtcd_def buildEtcdConfig_def Let_def prod.case etcd_up_def
    by (rule confined_bind[OF confined_getHost[where Q = "\<lambda>h x'. x' = x \<and> h = wv_hosts x ! r", OF r]], simp, elim conjE, hypsubst)
       (rule confined_run[OF assms(1) c], simp_all)
qed

interpretation etcd: host_task "\<lambda>env. runEtcd env svc ic prs" "[EtcdContainerName]" "\<lambda>_. True" etcd_up
  for svc ic prs
proof
  show "etcd_up x' r a" if "etcd_up x r a" "ready x r a" "touched S x x'" "\<forall>m. (a, m) \<notin> S" for x x' r a S
    using that(1) local_goals[OF that(3,4)] by (simp add: etcd_up_def)
qed (auto intro: etcd_host)

lemma confined_RunEtcdPlane:
  assumes "docker_laws (dockerAPI env) view" "ext_answers (extAPI env)" "\<forall>r \<in> set rs. ready x r (cl r)" "inj_on cl (set rs)"
  shows "confined view (\<Union>r \<in> set rs. slots (cl r) [EtcdContainerName]) x (RunEtcdPlane env rs svc prs)
     (\<lambda>_ x'. \<forall>r \<in> set rs. etcd_up x' r (cl r))"
  unfolding RunEtcdPlane_def
  by (rule confined_bind[OF getHosts_ret], use assms(3) in \<open>simp add: ready_def\<close>, elim conjE, hypsubst)
     (rule etcd.serve_each[OF assms(1,2) _ assms(3,4)], simp)

lemma confined_getEtcdDialer:
  assumes "ext_answers (extAPI env)" "r < length (wv_hosts x)" "key_ok (wv_hosts x ! r)"
  shows "confined view S x (getEtcdDialer env df r) (\<lambda>_ _. True)"
  unfolding getEtcdDialer_def
  by (rule confined_then[OF confined_setHost])
     (use assms in \<open>auto simp: conn_eq_def plain_host_def key_ok_def intro!: confined_runFactory\<close>)

lemma confined_isEtcdHealthy:
  assumes "ext_answers (extAPI env)" "ready x r a"
  shows "confined view S x (isEtcdHealthy env df r cert key) (\<lambda>_ _. True)"
proof -
  have health: "confined view S x (getHealthEtcd env d r) (\<lambda>_ _. True)" if "ready x r a" for d x
    unfolding getHealthEtcd_def
    by (rule confined_bind[OF confined_getHost[where Q = "\<lambda>_ _. True"]])
       (use that in \<open>auto simp: ready_def intro!: confined_wrap confined_conseq[OF confined_onExt[OF ext_answersD(4)[OF assms(1)]]]\<close>)
  have "confined view S x (healthTries env df r cert key n) (\<lambda>_ _. True)" if "ready x r a" for n x
    using that
  proof (induction n arbitrary: x)
    case 0
    then show ?case by (simp add: confined_ret)
  next
    case (Suc n)
    show ?case
      unfolding healthTries.simps
    proof (rule confined_try[OF confined_getEtcdDialer[OF assms(1)]])
      fix d x1 assume "touched S x x1"
      from touched_ready[OF this Suc.prems] have rd: "ready x1 r a" .
      show "confined view S x1 (case getEtcdTLSConfig env cert key of Inl _ \<Rightarrow> retIO False
         | Inr _ \<Rightarrow> tryIO (getHealthEtcd env d r) (\<lambda>_. healthTries env df r cert key n)
           (\<lambda>healthy. if healthy = ''true'' then retIO True else healthTries env df r cert key n)) (\<lambda>_ _. True)"
        by (auto intro!: confined_ret confined_try[OF health[OF rd]] Suc.IH intro: touched_ready[OF _ rd] split: sum.splits)
    qed (use Suc.prems in \<open>auto simp: ready_def intro: confined_ret\<close>)
  qed
  from this[OF assms(2)] show ?thesis unfolding isEtcdHealthy_def .
qed

lemma confined_anyHealthy:
  assumes "ext_answers (extAPI env)"
  shows "\<forall>r \<in> set rs. ready x r (cl r) \<Longrightarrow> confined view S x (anyHealthy env df cert key rs) (\<lambda>_ _. True)"
proof (induction rs arbitrary: x)
  case Nil
  then show ?case by (simp add: confined_ret)
next
  case (Cons r rs)
  then have rd: "ready x r (cl r)" by simp
  show ?case
    unfolding anyHealthy.simps
    by (rule confined_bind[OF confined_isEtcdHealthy[OF assms rd]])
       (use Cons.prems in \<open>auto intro!: confined_ret Cons.IH intro: touched_ready\<close>)
qed

lemma confined_readyEtcd:
  "\<forall>r \<in> set rs. r < length (wv_hosts x) \<Longrightarrow>
     confined view S x (readyEtcd rs :: ('d, 'k, 'e, hostref list) wio) (\<lambda>qs _. qs = filter (\<lambda>r. \<not> ToAddEtcdMember (wv_hosts x ! r)) rs)"
proof (induction rs arbitrary: x)
  case Nil
  then show ?case by (simp add: confined_ret)
next
  case (Cons r rs)
  let ?h = "wv_hosts x ! r"
  have r: "r < length (wv_hosts x)" using Cons.prems by simp
  have rest: "confined view S x' (readyEtcd rs :: ('d, 'k, 'e, hostref list) wio) (\<lambda>qs _. qs = filter (\<lambda>r. \<not> ToAddEtcdMember (wv_hosts x ! r)) rs)"
    if "touched S x x'" for x'
  proof -
    have "\<forall>r \<in> set rs. r < length (wv_hosts x') \<and> ToAddEtcdMember (wv_hosts x' ! r) = ToAddEtcdMember (wv_hosts x ! r)"
      using Cons.prems touched_host[OF that] conn_eq_sel(9) by fastforce
    then have "filter (\<lambda>r. \<not> ToAddEtcdMember (wv_hosts x' ! r)) rs = filter (\<lambda>r. \<not> ToAddEtcdMember (wv_hosts x ! r)) rs"
      and "\<forall>r \<in> set rs. r < length (wv_hosts x')" by (auto intro: filter_cong)
    with Cons.IH[of x'] show ?thesis by simp
  qed
  show ?case
    unfolding readyEtcd.simps
    by (rule confined_bind[OF confined_getHost[where Q = "\<lambda>h x'. x' = x \<and> h = ?h", OF r]], simp, elim conjE, hypsubst)
       (auto intro!: rest confined_then[OF confined_setHost[OF r]] confined_bind[OF rest] confined_ret simp: conn_eq_def plain_host_def)
qed

lemma confined_ReloadEtcdCluster:
  assumes "docker_laws (dockerAPI env) view" "ext_answers (extAPI env)" "\<forall>r \<in> set rs. ready x r (cl r)" "inj_on cl (set rs)"
  defines "qs \<equiv> filter (\<lambda>r. \<not> ToAddEtcdMember (wv_hosts x ! r)) rs"
  shows "confined view (\<Union>r \<in> set qs. slots (cl r) [EtcdContainerName]) x (ReloadEtcdCluster env rs svc df cert key prs)
     (\<lambda>_ x'. \<forall>r \<in> set qs. etcd_up x' r (cl r))"
  unfolding ReloadEtcdCluster_def
proof (rule confined_bind[OF confined_readyEtcd])
  let ?S = "\<Union>r \<in> set qs. slots (cl r) [EtcdContainerName]"
  show "\<forall>r \<in> set rs. r < length (wv_hosts x)" using assms(3) by (simp add: ready_def)
  fix qs' x1
  assume t1: "touched ?S x x1" and "qs' = filter (\<lambda>r. \<not> ToAddEtcdMember (wv_hosts x ! r)) rs"
  then have q: "qs' = qs" by (simp add: qs_def)
  have rd1: "\<forall>r \<in> set qs. ready x1 r (cl r)" using assms(3) touched_ready[OF t1] by (auto simp: qs_def)
  have inj: "inj_on cl (set qs)" by (rule inj_on_subset[OF assms(4)]) (auto simp: qs_def)
  have health: "confined view ?S x2 (bindIO (anyHealthy env df cert key qs) (\<lambda>healthy.
       if \<not> healthy then failIO (errorf ''[etcd] Etcd Cluster is not healthy'') else retIO ())) (\<lambda>_ x'. \<forall>r \<in> set qs. etcd_up x' r (cl r))"
    if t2: "touched ?S x1 x2" and g: "\<forall>r \<in> set qs. etcd_up x2 r (cl r)" for x2
  proof -
    have "confined view {} x2 (anyHealthy env df cert key qs) (\<lambda>_ _. True)"
      by (rule confined_anyHealthy[OF assms(2)]) (use rd1 touched_ready[OF t2] in auto)
    then have "confined view ?S x2 (anyHealthy env df cert key qs) (\<lambda>_ x'. \<forall>r \<in> set qs. etcd_up x' r (cl r))"
      by (rule confined_conseq) (use g in \<open>auto simp: etcd_up_def touched_up\<close>)
    then show ?thesis by (rule confined_bind) (auto intro: confined_fail confined_ret)
  qed
  show "confined view ?S x1 (bindIO (getHosts qs') (\<lambda>hs.
     thenIO (forIO (runEtcd env svc (getEtcdInitialCluster hs) prs) qs')
    (bindIO (anyHealthy env df cert key qs') (\<lambda>healthy.
       if \<not> healthy then failIO (errorf ''[etcd] Etcd Cluster is not healthy'') else retIO ()))))
     (\<lambda>_ x'. \<forall>r \<in> set qs. etcd_up x' r (cl r))"
    unfolding q
    by (rule confined_bind[OF getHosts_ret], use rd1 in \<open>simp add: ready_def\<close>, elim conjE, hypsubst)
       (rule confined_then[OF etcd.serve_each[OF assms(1,2) _ rd1 inj]], auto intro: health)
qed

subsection \<open>The members are restarted with the new cluster\<close>

text \<open>
  The container of \<open>h\<close> on its daemon is the one of the configuration \<open>cfg\<close>, if the daemon's containers do not exit by themselves and
  none of that name was stopped before.
\<close>

definition etcd_runs :: "bool \<Rightarrow> ContainerConfig \<Rightarrow> wview \<Rightarrow> wview \<Rightarrow> string \<Rightarrow> bool" where
  "etcd_runs S cfg x x' a \<longleftrightarrow> (\<exists>c. conts (wv_docker x' a) EtcdContainerName = Some c \<and> c_up c \<and>
     (S \<longrightarrow> (\<forall>c0. conts (wv_docker x a) EtcdContainerName = Some c0 \<longrightarrow> c_up c0) \<longrightarrow> matches cfg c))"

definition etcdConfig :: "ETCDService \<Rightarrow> string \<Rightarrow> Host \<Rightarrow> ContainerConfig" where
  "etcdConfig svc ic h = fst (buildEtcdConfig h svc ic (GetEtcdCrtName (InternalAddress h)))"

lemma runEtcd_runs:
  assumes "docker_laws (dockerAPI env) view" "S \<longrightarrow> docker_steady (dockerAPI env) view" "ready x r a"
  shows "confined view (slots a [EtcdContainerName]) x (runEtcd env svc ic prs r)
     (\<lambda>_ x'. wv_hosts x' = wv_hosts x \<and> etcd_runs S (etcdConfig svc ic (wv_hosts x ! r)) x x' a)"
proof -
  have r: "r < length (wv_hosts x)" and c: "DClient (wv_hosts x ! r) = Some a" using assms(3) by (simp_all add: ready_def)
  let ?h = "wv_hosts x ! r"
  have run: "confined view (slots a [EtcdContainerName]) x
      (viaClient ?h (DoRunContainer (dockerAPI env) (etcdConfig svc ic ?h) hcfg EtcdContainerName (Address ?h) prs))
      (\<lambda>_ x'. wv_hosts x' = wv_hosts x \<and> etcd_runs S (etcdConfig svc ic ?h) x x' a)" for hcfg
    unfolding confined_def
    by (rule vtriple_conseq[OF viaClient_triple[OF c run_triple[OF assms(1) proper_service_names(6) mp[OF assms(2)]]]])
       (auto simp: run_post_def etcd_runs_def set_daemon_def split: option.splits intro!: only_named_touched[unfolded set_daemon_def])
  show ?thesis
    unfolding runEtcd_def
    by (rule confined_bind[OF confined_getHost[where Q = "\<lambda>h x'. x' = x \<and> h = ?h", OF r]], simp, elim conjE, hypsubst)
       (simp add: case_prod_beta run[unfolded etcdConfig_def] etcdConfig_def)
qed

lemma runEtcd_each:
  assumes "docker_laws (dockerAPI env) view" "S \<longrightarrow> docker_steady (dockerAPI env) view"
  shows "\<forall>r \<in> set rs. ready x r (cl r) \<Longrightarrow> inj_on cl (set rs) \<Longrightarrow>
     confined view (\<Union>r \<in> set rs. slots (cl r) [EtcdContainerName]) x (forIO (runEtcd env svc ic prs) rs)
       (\<lambda>_ x'. wv_hosts x' = wv_hosts x \<and> (\<forall>r \<in> set rs. etcd_runs S (etcdConfig svc ic (wv_hosts x ! r)) x x' (cl r)))"
proof (induction rs arbitrary: x)
  case Nil
  then show ?case by (simp add: confined_ret)
next
  case (Cons r rs)
  let ?T = "\<Union>q \<in> set rs. slots (cl q) [EtcdContainerName]" and ?S = "\<Union>q \<in> set (r # rs). slots (cl q) [EtcdContainerName]"
  let ?cfg = "\<lambda>q. etcdConfig svc ic (wv_hosts x ! q)"
  have rd: "ready x r (cl r)" and inj: "inj_on cl (set rs)" using Cons.prems by auto
  let ?F = "\<lambda>x1. wv_hosts x1 = wv_hosts x \<and> etcd_runs S (?cfg r) x x1 (cl r) \<and> touched (slots (cl r) [EtcdContainerName]) x x1"
  have first: "confined view ?S x (runEtcd env svc ic prs r) (\<lambda>_. ?F)"
    by (rule confined_conseq[OF runEtcd_runs[OF assms rd]]) auto
  show ?case
    unfolding forIO.simps
  proof (rule confined_then[OF first])
    fix y x1
    assume t: "touched ?S x x1" and F: "?F x1"
    have "\<forall>q \<in> set rs. ready x1 q (cl q)" using Cons.prems(1) touched_ready[OF t] by auto
    note rest = Cons.IH[OF this inj]
    have "etcd_runs S (?cfg q) x x2 (cl q)"
      if t2: "touched ?T x1 x2" and g: "\<forall>q \<in> set rs. etcd_runs S (?cfg q) x1 x2 (cl q)" and q: "q \<in> set (r # rs)" for q x2
    proof -
      have slot: "(cl q, EtcdContainerName) \<in> slots (cl p) [EtcdContainerName] \<Longrightarrow> p \<in> set (r # rs) \<Longrightarrow> p = q" for p
        using Cons.prems(2) q by (auto simp: slots_simps inj_on_def)
      show ?thesis
      proof (cases "q \<in> set rs")
        case True
        with g have g2: "etcd_runs S (?cfg q) x1 x2 (cl q)" by blast
        show ?thesis
        proof (cases "q = r")
          case True
          with F g2 show ?thesis by (auto simp: etcd_runs_def)
        next
          case False
          then have "(cl q, EtcdContainerName) \<notin> slots (cl r) [EtcdContainerName]" using slot[of r] by auto
          with F have "conts (wv_docker x1 (cl q)) EtcdContainerName = conts (wv_docker x (cl q)) EtcdContainerName"
            by (blast intro: touched_cont)
          with g2 show ?thesis by (simp add: etcd_runs_def)
        qed
      next
        case False
        then have "(cl q, EtcdContainerName) \<notin> ?T" using slot by auto
        from touched_cont[OF t2 this] False q F show ?thesis by (auto simp: etcd_runs_def)
      qed
    qed
    then show "confined view ?S x1 (forIO (runEtcd env svc ic prs) rs)
       (\<lambda>_ x2. wv_hosts x2 = wv_hosts x \<and> (\<forall>q \<in> set (r # rs). etcd_runs S (?cfg q) x x2 (cl q)))"
      using F by (intro confined_conseq[OF rest]) auto
  qed
qed

lemma readyEtcd_run:
  fixes w :: "('d, 'k, 'e) world"
  assumes "\<forall>r \<in> set rs. r < length (hstore w)"
  shows "\<exists>w1. readyEtcd rs w = (Ret (filter (\<lambda>r. \<not> ToAddEtcdMember (hstore w ! r)) rs), w1) \<and> daemons w1 = daemons w \<and>
     length (hstore w1) = length (hstore w) \<and>
     (\<forall>r < length (hstore w). hstore w1 ! r =
        (if r \<in> set rs \<and> \<not> ToAddEtcdMember (hstore w ! r) then (hstore w ! r)\<lparr>ExistingEtcdCluster := True\<rparr> else hstore w ! r))"
  using assms
proof (induction rs arbitrary: w)
  case Nil
  then show ?case by (simp add: retIO_def)
next
  case (Cons r rs)
  let ?w = "if ToAddEtcdMember (hstore w ! r) then w
    else w\<lparr>hstore := (hstore w)[r := (hstore w ! r)\<lparr>ExistingEtcdCluster := True\<rparr>]\<rparr>"
  have keep: "ToAddEtcdMember (hstore ?w ! q) = ToAddEtcdMember (hstore w ! q)" for q
    by (cases "q = r"; cases "q < length (hstore w)") (simp_all add: list_update_beyond)
  have "\<forall>q \<in> set rs. q < length (hstore ?w)" using Cons.prems by auto
  from Cons.IH[OF this] obtain w1 where run: "readyEtcd rs ?w = (Ret (filter (\<lambda>q. \<not> ToAddEtcdMember (hstore w ! q)) rs), w1)"
    "daemons w1 = daemons ?w" "length (hstore w1) = length (hstore ?w)"
    "\<forall>q < length (hstore ?w). hstore w1 ! q = (if q \<in> set rs \<and> \<not> ToAddEtcdMember (hstore w ! q)
       then (hstore ?w ! q)\<lparr>ExistingEtcdCluster := True\<rparr> else hstore ?w ! q)"
    unfolding keep by blast
  have r: "r < length (hstore w)" using Cons.prems by simp
  have "readyEtcd (r # rs) w = (Ret (filter (\<lambda>q. \<not> ToAddEtcdMember (hstore w ! q)) (r # rs)), w1)"
    using run(1) r by (cases "ToAddEtcdMember (hstore w ! r)") (simp_all add: bindIO_def thenIO_def getHost_def setHost_def retIO_def)
  moreover have "hstore w1 ! q = (if q \<in> set (r # rs) \<and> \<not> ToAddEtcdMember (hstore w ! q)
      then (hstore w ! q)\<lparr>ExistingEtcdCluster := True\<rparr> else hstore w ! q)" if q: "q < length (hstore w)" for q
    using run(4)[rule_format, of q] q by (cases "q = r"; cases "ToAddEtcdMember (hstore w ! r)") simp_all
  ultimately show ?case using run(2,3) by (intro exI[of _ w1]) simp
qed

section \<open>Members\<close>

text \<open>
  What the documentation of etcd's members API promises, for a view \<open>mv\<close> of the cluster's members: listing gives them and
  changes none; after a removal that succeeds there is no member of that identifier, also if there was none before (the client takes
  410 Gone for a success), and the other members are as they were; a removal that fails, by a timeout say, may or may not have taken
  effect, but concerns no other member; and the program's other calls outside do not concern the members.
\<close>

definition keeps_members :: "('e \<Rightarrow> EtcdMember list) \<Rightarrow> ('e, 'a) io \<Rightarrow> bool" where
  "keeps_members mv m \<longleftrightarrow> (\<forall>e. mv (snd (m e)) = mv e)"

definition etcd_laws :: "'e ext_api \<Rightarrow> ('e \<Rightarrow> EtcdMember list) \<Rightarrow> bool" where
  "etcd_laws x mv \<longleftrightarrow> keeps_members mv (ReadPassword x) \<and> (\<forall>n b. keeps_members mv (CustomFactoryCall x n b)) \<and>
     (\<forall>a e r e'. EtcdMemberList x a e = (r, e') \<longrightarrow> mv e' = mv e \<and> (\<forall>ms. r = Ret ms \<longrightarrow> ms = mv e)) \<and>
     (\<forall>a i e r e'. EtcdMemberRemove x a i e = (r, e') \<longrightarrow>
        mv e' = filter (\<lambda>m. mem_ID m \<noteq> i) (mv e) \<or> r \<noteq> Ret () \<and> mv e' = mv e)"

definition members_are :: "('e \<Rightarrow> EtcdMember list) \<Rightarrow> EtcdMember list \<Rightarrow> ('d, 'k, 'e) world \<Rightarrow> bool" where
  "members_are mv ms w \<longleftrightarrow> mv (ext w) = ms"

lemma keeps_members_onExt: "keeps_members mv m \<Longrightarrow> keeps (members_are mv ms) (onExt m)"
proof (rule keepsI)
  fix w
  assume "keeps_members mv m" "members_are mv ms w"
  then show "members_are mv ms (snd (onExt m w))"
    by (cases "m (ext w)") (auto simp: keeps_members_def onExt_def members_are_def dest!: spec[of _ "ext w"])
qed

lemma keeps_members_setHost: "keeps (members_are mv ms) (setHost r f)"
  by (rule keepsI) (simp add: setHost_def members_are_def)

lemma keeps_members_getEtcdClient:
  assumes "etcd_laws (extAPI env) mv"
  shows "keeps (members_are mv ms) (getEtcdClient env r df cert key)"
proof -
  have ext: "keeps_members mv (ReadPassword (extAPI env))" "\<And>n b. keeps_members mv (CustomFactoryCall (extAPI env) n b)"
    using assms by (simp_all add: etcd_laws_def)
  have key: "keeps (members_are mv ms) (checkEncryptedKey env r)"
    unfolding checkEncryptedKey_def
    by (auto intro!: keeps_intros keeps_getHost keeps_keyText keeps_members_onExt ext keeps_members_setHost keeps_ofSum split: sum.splits)
  have "keeps (members_are mv ms) (runFactory env f r)" for f
    by (cases f) (auto simp: runSSHFactory_def runLocalConnFactory_def runLocalHealthcheckFactory_def
        intro!: keeps_intros key keeps_getHost keeps_members_onExt ext)
  then show ?thesis
    unfolding getEtcdClient_def getEtcdDialer_def
    by (intro keeps_intros keeps_getHost keeps_members_setHost keeps_ofSum)
qed

lemma memberID_in:
  assumes "\<exists>m \<in> set ms. mem_Name m = name" "\<forall>m \<in> set ms. mem_Name m = name \<longrightarrow> mem_ID m = i"
  shows "memberID ms name j = i"
  using assms by (induction ms) (auto simp: memberID_def)

lemma memberID_none: "\<forall>m \<in> set ms. mem_Name m \<noteq> name \<Longrightarrow> memberID ms name j = j"
  by (induction ms) (auto simp: memberID_def)

text \<open>
  While the loop runs, either all the members are there, or the one to remove has gone and its identifier is the one in hand.
\<close>

lemma removeMemberLoop_members:
  assumes laws: "etcd_laws (extAPI env) mv" and member: "\<exists>m \<in> set ms. mem_Name m = name" "\<forall>m \<in> set ms. mem_Name m = name \<longrightarrow> mem_ID m = i"
  defines "rest \<equiv> filter (\<lambda>m. mem_ID m \<noteq> i) ms"
  shows "mv (ext w) = ms \<or> mv (ext w) = rest \<and> j = i \<Longrightarrow> removeMemberLoop env name df cert key rs j w = (res, w') \<Longrightarrow>
     mv (ext w') = rest \<or> res \<noteq> Ret True \<and> mv (ext w') = ms"
proof (induction rs arbitrary: j w)
  case Nil
  then show ?case by (auto simp: retIO_def)
next
  case (Cons r rs)
  obtain cr w1 where c: "getEtcdClient env r df cert key w = (cr, w1)" by fastforce
  have "mv (ext w1) = mv (ext w)"
    using keepsD[OF keeps_members_getEtcdClient[OF laws] _ c] by (simp add: members_are_def)
  with Cons.prems(1) have m1: "mv (ext w1) = ms \<or> mv (ext w1) = rest \<and> j = i" by simp
  show ?case
  proof (cases "\<exists>d. cr = Ret d \<and> r < length (hstore w1)")
    case False
    show ?thesis using Cons.prems(2) Cons.IH[OF m1] c m1 False
      by (cases cr) (auto simp: tryIO_def bindIO_def getHost_def)
  next
    case True
    let ?a = "Address (hstore w1 ! r)"
    obtain lr e2 where l: "EtcdMemberList (extAPI env) ?a (ext w1) = (lr, e2)" by fastforce
    have e2: "mv e2 = mv (ext w1)" and xs: "\<And>xs. lr = Ret xs \<Longrightarrow> xs = mv (ext w1)"
      using laws l unfolding etcd_laws_def by blast+
    with m1 have m2: "mv (ext (w1\<lparr>ext := e2\<rparr>)) = ms \<or> mv (ext (w1\<lparr>ext := e2\<rparr>)) = rest \<and> j = i" by simp
    show ?thesis
    proof (cases lr)
      case (Ret xs)
      have id: "memberID xs name j = i"
      proof (cases "xs = ms")
        case True
        then show ?thesis using memberID_in[OF member] by simp
      next
        case False
        with m1 \<open>lr = Ret xs\<close> \<open>\<And>xs. lr = Ret xs \<Longrightarrow> xs = mv (ext w1)\<close> have "xs = rest" "j = i" by auto
        moreover have "\<forall>m \<in> set rest. mem_Name m \<noteq> name" using member(2) by (auto simp: rest_def)
        ultimately show ?thesis by (simp add: memberID_none)
      qed
      obtain rr e3 where rm: "EtcdMemberRemove (extAPI env) ?a i e2 = (rr, e3)" by fastforce
      from laws rm have "mv e3 = filter (\<lambda>m. mem_ID m \<noteq> i) (mv e2) \<or> rr \<noteq> Ret () \<and> mv e3 = mv e2"
        unfolding etcd_laws_def by blast
      moreover have "filter (\<lambda>m. mem_ID m \<noteq> i) (mv e2) = rest" using m2 by (auto simp: rest_def)
      ultimately have m3: "mv e3 = rest \<or> rr \<noteq> Ret () \<and> mv e3 = ms" using m2 by auto
      then have "mv (ext (w1\<lparr>ext := e3\<rparr>)) = ms \<or> mv (ext (w1\<lparr>ext := e3\<rparr>)) = rest \<and> i = i" by auto
      note IH = Cons.IH[OF this]
      show ?thesis using Cons.prems(2) c True l Ret id rm m3 IH
        by (cases rr) (auto simp: tryIO_def bindIO_def getHost_def onExt_def Let_def retIO_def)
    next
      case (Fail e)
      with Cons.prems(2) c True l Cons.IH[OF m2] show ?thesis
        by (auto simp: tryIO_def bindIO_def getHost_def onExt_def)
    next
      case (Panic s)
      with Cons.prems(2) c True l m2 show ?thesis
        by (auto simp: tryIO_def bindIO_def getHost_def onExt_def)
    qed
  qed
qed

section \<open>Properties of the etcd plane\<close>

text \<open>
  C25: \<^verbatim>\<open>RunEtcdPlane\<close> on connected hosts with daemons of their own never panics; if it returns, etcd has been started on each
  of them; and whatever it returns, no other container has changed.
\<close>

theorem RunEtcdPlane_starts:
  assumes "docker_laws (dockerAPI env) view" and "ext_answers (extAPI env)" and "plane_ready w etcdHosts"
  shows "case RunEtcdPlane env etcdHosts svc prs w of (res, w') \<Rightarrow>
     (\<forall>s. res \<noteq> Panic s) \<and>
     (res = Ret () \<longrightarrow> (\<forall>r \<in> set etcdHosts. started view w' (daemon_of w r) EtcdContainerName)) \<and>
     (\<forall>a m. a \<notin> daemon_of w ` set etcdHosts \<or> m \<noteq> EtcdContainerName \<and> m \<noteq> old_name EtcdContainerName \<longrightarrow>
        conts (view (daemons w' a)) m = conts (view (daemons w a)) m)"
proof -
  note c = confined_world[OF confined_RunEtcdPlane[OF assms(1,2) plane_ready_lemmas(1,2)[OF assms(3)]]]
  obtain res w' where run: "RunEtcdPlane env etcdHosts svc prs w = (res, w')" by fastforce
  show ?thesis
    using c(1,2)[OF run] c(3)[OF run, of "()"] by (auto simp: run touched_world etcd_up_def up_world slots_simps) blast
qed

theorem RunEtcdPlane_starts_witness:
  "case RunEtcdPlane sim_env [0, 1] (Etcd demo_services) [] demo_hosts of (res, w') \<Rightarrow>
     (\<forall>s. res \<noteq> Panic s) \<and> (res = Ret () \<longrightarrow> started sim_view w' ''10.0.0.2'' EtcdContainerName)"
proof -
  have d: "daemon_of demo_hosts 1 = ''10.0.0.2''" by (simp add: daemon_of_def demo_hosts_def sim_world_def sim_host_def)
  from RunEtcdPlane_starts[OF _ _ demo_hosts_ready, of sim_env sim_view "Etcd demo_services" "[]"] show ?thesis
    by (auto simp: sim_docker_laws sim_ext_answers d[unfolded One_nat_def] split: prod.splits)
qed

text \<open>
  C31: what etcd checks of its own configuration holds: the name and the peer address each etcd host is started with appear
  together as an entry of the initial cluster, when the cluster is made from a list of hosts that holds this one
  and whose names and addresses have no commas.
\<close>

theorem buildEtcdConfig_consistent:
  assumes "h \<in> set hs" and "\<forall>h \<in> set hs. CHR '','' \<notin> set (InternalAddress h) \<and> CHR '','' \<notin> set (HostnameOverride h)"
  shows "\<exists>cmd name url ic. Cmd (fst (buildEtcdConfig h svc (getEtcdInitialCluster hs) nodeName)) = Some cmd \<and>
     ''--name='' @ name \<in> set cmd \<and> ''--initial-advertise-peer-urls='' @ url \<in> set cmd \<and> ''--initial-cluster='' @ ic \<in> set cmd \<and>
     name @ ''='' @ url \<in> set (split_on CHR '','' ic)"
proof -
  let ?name = "''etcd-'' @ HostnameOverride h" and ?url = "''https://'' @ InternalAddress h @ '':2380''"
  have "split_on CHR '','' (getEtcdInitialCluster hs) =
      map (\<lambda>h. ''etcd-'' @ HostnameOverride h @ ''=https://'' @ InternalAddress h @ '':2380'') hs"
    unfolding conn_strings using assms by (intro split_join) auto
  then have "?name @ ''='' @ ?url \<in> set (split_on CHR '','' (getEtcdInitialCluster hs))" using assms(1) by auto
  then show ?thesis
    by (intro exI[of _ "the (Cmd (fst (buildEtcdConfig h svc (getEtcdInitialCluster hs) nodeName)))"] exI[of _ ?name] exI[of _ ?url]
          exI[of _ "getEtcdInitialCluster hs"])
       (simp add: buildEtcdConfig_def Let_def)
qed

theorem buildEtcdConfig_consistent_witness:
  "\<exists>cmd name url ic. Cmd (fst (buildEtcdConfig (sim_host ''10.0.0.2'') (Etcd demo_services)
       (getEtcdInitialCluster [sim_host ''10.0.0.1'', sim_host ''10.0.0.2'']) ''kube-etcd-10-0-0-2'')) = Some cmd \<and>
     ''--name='' @ name \<in> set cmd \<and> ''--initial-advertise-peer-urls='' @ url \<in> set cmd \<and> ''--initial-cluster='' @ ic \<in> set cmd \<and>
     name @ ''='' @ url \<in> set (split_on CHR '','' ic)"
  by (rule buildEtcdConfig_consistent) (simp_all add: sim_host_def)

text \<open>
  extra arguments of etcd do not reach it: the etcd binary is the first word of the command, but the extra arguments are
  put into the otherwise empty entry point, whose first word the container then runs as its program.
\<close>

theorem buildEtcdConfig_extra_arguments:
  assumes "svc_ExtraArgs svc = (arg, value) # args"
  shows "\<exists>cmd entry. Cmd (fst (buildEtcdConfig h svc ic nodeName)) = Some (''/usr/local/bin/etcd'' # cmd) \<and>
     Entrypoint (fst (buildEtcdConfig h svc ic nodeName)) = Some ((''--'' @ arg @ ''='' @ value) # entry)"
  using assms by (simp add: buildEtcdConfig_def Let_def slice_append_def extraArgs_def ContainerConfig_zero_def)

theorem buildEtcdConfig_extra_arguments_witness:
  "\<exists>cmd entry. Cmd (fst (buildEtcdConfig (sim_host ''10.0.0.1'')
       \<lparr>svc_Image = ''etcd'', svc_ExtraArgs = [(''heartbeat-interval'', ''500'')]\<rparr> [] [])) = Some (''/usr/local/bin/etcd'' # cmd) \<and>
     Entrypoint (fst (buildEtcdConfig (sim_host ''10.0.0.1'')
       \<lparr>svc_Image = ''etcd'', svc_ExtraArgs = [(''heartbeat-interval'', ''500'')]\<rparr> [] [])) = Some ((''--'' @ ''heartbeat-interval'' @ ''='' @ ''500'') # entry)"
  by (rule buildEtcdConfig_extra_arguments) simp

text \<open>The configuration that a member is to run with: the cluster exists, and its initial members are the hosts that are not waiting.\<close>

definition reloadConfig :: "Host list \<Rightarrow> hostref list \<Rightarrow> ETCDService \<Rightarrow> Host \<Rightarrow> ContainerConfig" where
  "reloadConfig hs rs svc h = etcdConfig svc (getEtcdInitialCluster (filter (\<lambda>h. \<not> ToAddEtcdMember h) (map ((!) hs) rs)))
     (h\<lparr>ExistingEtcdCluster := True\<rparr>)"

lemma getEtcdInitialCluster_existing:
  "getEtcdInitialCluster (map (\<lambda>h. h\<lparr>ExistingEtcdCluster := True\<rparr>) hs) = getEtcdInitialCluster hs"
  by (simp add: conn_strings comp_def)

lemma ReloadEtcdCluster_runs:
  assumes "docker_laws (dockerAPI env) view" "ext_answers (extAPI env)" "plane_ready w rs"
    and run: "ReloadEtcdCluster env rs svc df cert key prs w = (Ret (), w')" and r: "r \<in> set rs" "\<not> ToAddEtcdMember (hstore w ! r)"
  shows "etcd_runs (docker_steady (dockerAPI env) view) (reloadConfig (hstore w) rs svc (hstore w ! r))
     (world_view view w) (world_view view w') (daemon_of w r)"
proof -
  let ?S = "docker_steady (dockerAPI env) view"
  define qs where "qs = filter (\<lambda>r. \<not> ToAddEtcdMember (hstore w ! r)) rs"
  have known: "\<forall>r \<in> set rs. r < length (hstore w)" using assms(3) by (simp add: plane_ready_def)
  from readyEtcd_run[OF this] obtain w1 where w1: "readyEtcd rs w = (Ret qs, w1)" "daemons w1 = daemons w"
    "length (hstore w1) = length (hstore w)" "\<forall>r < length (hstore w). hstore w1 ! r =
        (if r \<in> set rs \<and> \<not> ToAddEtcdMember (hstore w ! r) then (hstore w ! r)\<lparr>ExistingEtcdCluster := True\<rparr> else hstore w ! r)"
    unfolding qs_def by blast
  have q: "q < length (hstore w) \<and> hstore w1 ! q = (hstore w ! q)\<lparr>ExistingEtcdCluster := True\<rparr>" if "q \<in> set qs" for q
    using that known w1(4) by (auto simp: qs_def)
  have hs: "map ((!) (hstore w1)) qs = map (\<lambda>h. h\<lparr>ExistingEtcdCluster := True\<rparr>) (map ((!) (hstore w)) qs)" using q by simp
  have "filter (\<lambda>h. \<not> ToAddEtcdMember h) (map ((!) (hstore w)) rs) = map ((!) (hstore w)) qs" by (simp add: qs_def filter_map comp_def)
  then have ic: "getEtcdInitialCluster (map ((!) (hstore w1)) qs) =
      getEtcdInitialCluster (filter (\<lambda>h. \<not> ToAddEtcdMember h) (map ((!) (hstore w)) rs))" (is "_ = ?ic")
    unfolding hs getEtcdInitialCluster_existing by simp
  have rd: "\<forall>q \<in> set qs. ready (world_view view w1) q (daemon_of w q)"
    using plane_ready_lemmas(1)[OF assms(3), of view] w1(3) q by (auto simp: ready_def world_view_def key_ok_def qs_def)
  have inj: "inj_on (daemon_of w) (set qs)" by (rule inj_on_subset[OF plane_ready_lemmas(2)[OF assms(3)]]) (auto simp: qs_def)
  have "\<forall>q \<in> set qs. q < length (hstore w1)" using q w1(3) by simp
  note gets = getHosts_run[OF this]
  from run obtain w2 where each: "forIO (runEtcd env svc ?ic prs) qs w1 = (Ret (), w2)" and healthy: "anyHealthy env df cert key qs w2 = (Ret True, w')"
    by (auto simp: ReloadEtcdCluster_def bindIO_Ret_iff thenIO_Ret_iff w1(1) gets ic split: if_splits)
  note c = confined_world[OF runEtcd_each[where S = ?S, OF assms(1) imp_refl rd inj] each]
  from r have rq: "r \<in> set qs" by (simp add: qs_def)
  have "etcd_runs ?S (etcdConfig svc ?ic (hstore w1 ! r)) (world_view view w1) (world_view view w2) (daemon_of w r)"
    using c(3)[of "()"] rq by simp
  moreover have "etcdConfig svc ?ic (hstore w1 ! r) = reloadConfig (hstore w) rs svc (hstore w ! r)"
    using q[OF rq] by (simp add: reloadConfig_def)
  moreover have "touched {} (world_view view w2) (world_view view w')"
  proof (rule confined_world(1)[OF confined_anyHealthy[OF assms(2)] healthy])
    show "\<forall>q \<in> set qs. ready (world_view view w2) q (daemon_of w q)" using rd touched_ready[OF c(1)] by blast
  qed
  ultimately show ?thesis using w1(2) by (simp add: etcd_runs_def touched_def world_view_def)
qed



definition etcd_leaves :: "bool \<Rightarrow> Host \<Rightarrow> string set" where
  "etcd_leaves force h = insert EtcdContainerName (if IsWorker h \<and> IsControl h \<and> \<not> force then {} else worker_leaves)"

lemma clears_removeEtcdHost:
  assumes "docker_laws (dockerAPI env) view" "docker_reliable (dockerAPI env) view" "ready x r a"
  shows "clears view ({a} \<times> etcd_leaves force (wv_hosts x ! r)) x (removeEtcdHost env force r)"
proof -
  let ?h = "wv_hosts x ! r"
  have r: "r < length (wv_hosts x)" using assms(3) by (simp add: ready_def)
  have one: "clears view {(a, n)} x' (removeContainerOf env r n)" if "wv_hosts x' = wv_hosts x" "proper_name n" for x' n
    by (rule clears_remove[OF assms(1,2)]) (use that assms(3) same_hosts_ready[OF that(1)] in auto)
  let ?W = "if \<not> IsWorker ?h \<or> \<not> IsControl ?h \<or> force then {(a, KubeletContainerName)} \<union> ({(a, KubeproxyContainerName)} \<union>
      ({(a, NginxProxyContainerName)} \<union> {(a, SidekickContainerName)})) else {}"
  have tail: "clears view ?W x' (if \<not> IsWorker ?h \<or> \<not> IsControl ?h \<or> force then
         thenIO (removeKubelet env r) (thenIO (removeKubeproxy env r) (thenIO (removeNginxProxy env r) (removeSidekick env r)))
       else retIO ())" if "wv_hosts x' = wv_hosts x" for x'
  proof (cases "\<not> IsWorker ?h \<or> \<not> IsControl ?h \<or> force")
    case True
    have "clears view ({(a, KubeletContainerName)} \<union> ({(a, KubeproxyContainerName)} \<union> ({(a, NginxProxyContainerName)} \<union> {(a, SidekickContainerName)}))) x'
        (thenIO (removeKubelet env r) (thenIO (removeKubeproxy env r) (thenIO (removeNginxProxy env r) (removeSidekick env r))))"
      unfolding removals by (intro clears_then one; simp add: that)
    with True show ?thesis by simp
  qed (simp add: clears_nothing)
  have "clears view ({(a, EtcdContainerName)} \<union> ?W) x (removeEtcdHost env force r)"
    unfolding removeEtcdHost_def
  proof (rule clears_then[OF one])
    fix x' :: wview assume h: "wv_hosts x' = wv_hosts x"
    show "clears view ?W x' (bindIO (getHost r) (\<lambda>h. if \<not> IsWorker h \<or> \<not> IsControl h \<or> force then
         thenIO (removeKubelet env r) (thenIO (removeKubeproxy env r) (thenIO (removeNginxProxy env r) (removeSidekick env r)))
       else retIO ()))"
      by (rule clears_getHost) (simp_all only: h r tail[OF h])
  qed simp_all
  moreover have "{(a, EtcdContainerName)} \<union> ?W = {a} \<times> etcd_leaves force ?h"
    by (auto simp: etcd_leaves_def worker_leaves_def)
  ultimately show ?thesis by simp
qed

lemma clears_RemoveEtcdPlane:
  assumes "docker_laws (dockerAPI env) view" "docker_reliable (dockerAPI env) view"
  shows "\<forall>r \<in> set rs. ready x r (cl r) \<Longrightarrow>
     clears view (\<Union>r \<in> set rs. {cl r} \<times> etcd_leaves force (wv_hosts x ! r)) x (RemoveEtcdPlane env rs force)"
proof (induction rs arbitrary: x)
  case Nil
  then show ?case by (simp add: RemoveEtcdPlane_def clears_nothing)
next
  case (Cons r rs)
  have "ready x r (cl r)" using Cons.prems by simp
  note first = clears_removeEtcdHost[OF assms this, of force]
  have rest: "clears view (\<Union>r \<in> set rs. {cl r} \<times> etcd_leaves force (wv_hosts x ! r)) x' (RemoveEtcdPlane env rs force)"
    if "wv_hosts x' = wv_hosts x" for x'
    using Cons.IH[of x'] Cons.prems same_hosts_ready[OF that] that by simp
  from clears_then[OF first rest] show ?case by (simp add: RemoveEtcdPlane_def)
qed

text \<open>
  C30: against daemons in service, \<^verbatim>\<open>RemoveEtcdPlane\<close> returns and removes from each host exactly etcd and, unless the host is
  both a worker and a control host and \<open>force\<close> is off, the kubelet, the proxy, the proxy to the API servers and the
  sidekick.  So a host that stays a worker but is not a control host loses its kubelet with its etcd role.
\<close>

theorem RemoveEtcdPlane_removes:
  assumes "docker_laws (dockerAPI env) view" and "docker_reliable (dockerAPI env) view"
    and "\<forall>r \<in> set rs. ready (world_view view w) r (daemon_of w r)"
  shows "\<exists>w'. RemoveEtcdPlane env rs force w = (Ret (), w') \<and> hstore w' = hstore w \<and>
     (\<forall>a m. conts (view (daemons w' a)) m =
        (if \<exists>r \<in> set rs. a = daemon_of w r \<and> m \<in> etcd_leaves force (hstore w ! r) then None else conts (view (daemons w a)) m))"
  using vtriple_returns[OF clears_RemoveEtcdPlane[OF assms, unfolded clears_def]]
  by (fastforce simp: removed_def world_view_def)

theorem RemoveEtcdPlane_removes_witness:
  "\<exists>w'. RemoveEtcdPlane sim_env [1] False demo_hosts = (Ret (), w') \<and> IsWorker (hstore demo_hosts ! 1) \<and>
     conts (sim_view (daemons w' ''10.0.0.2'')) KubeletContainerName = None"
proof -
  have "\<forall>r \<in> set [1]. ready (world_view sim_view demo_hosts) r (daemon_of demo_hosts r)" using demo_ready by auto
  from RemoveEtcdPlane_removes[OF _ _ this, of sim_env False] obtain w' where
    "RemoveEtcdPlane sim_env [1] False demo_hosts = (Ret (), w')"
    "\<forall>a m. conts (sim_view (daemons w' a)) m = (if \<exists>r \<in> set [1]. a = daemon_of demo_hosts r \<and>
        m \<in> etcd_leaves False (hstore demo_hosts ! r) then None else conts (sim_view (daemons demo_hosts a)) m)"
    by (auto simp: sim_docker_laws sim_docker_reliable)
  moreover have "daemon_of demo_hosts 1 = ''10.0.0.2''" "IsWorker (hstore demo_hosts ! 1)" "\<not> IsControl (hstore demo_hosts ! 1)"
    by (simp_all add: daemon_of_def demo_hosts_def sim_world_def sim_host_def Host_zero_def)
  ultimately show ?thesis by (intro exI[of _ w']) (simp add: etcd_leaves_def worker_leaves_def)
qed

text \<open>
  C27: when the cluster has a member named after the host, and no two members of different identifiers have that name, then
  \<^verbatim>\<open>RemoveEtcdMember\<close> that returns has removed that member, by its identifier, and no other, also when a call to one of the hosts has
  failed after it had taken effect; if it fails or panics, at most that member is gone.
\<close>

theorem RemoveEtcdMember_removes:
  assumes "etcd_laws (extAPI env) mv" and "m \<in> set (mv (ext w))" and "mem_Name m = ''etcd-'' @ HostnameOverride (hstore w ! r)"
    and "\<forall>m' \<in> set (mv (ext w)). mem_Name m' = mem_Name m \<longrightarrow> mem_ID m' = mem_ID m"
    and "RemoveEtcdMember env r etcdHosts df cert key w = (res, w')"
  shows "mv (ext w') = filter (\<lambda>m'. mem_ID m' \<noteq> mem_ID m) (mv (ext w)) \<or> res \<noteq> Ret () \<and> mv (ext w') = mv (ext w)"
proof (cases "r < length (hstore w)")
  case False
  with assms(5) show ?thesis by (auto simp: RemoveEtcdMember_def bindIO_def getHost_def)
next
  case True
  let ?n = "''etcd-'' @ HostnameOverride (hstore w ! r)"
  obtain lr w1 where l: "removeMemberLoop env ?n df cert key etcdHosts [] w = (lr, w1)" by fastforce
  have "\<exists>m \<in> set (mv (ext w)). mem_Name m = ?n" using assms(2,3) by blast
  from removeMemberLoop_members[OF assms(1) this assms(4)[unfolded assms(3)] _ l] assms(5) l True show ?thesis
    by (cases lr) (auto simp: RemoveEtcdMember_def bindIO_def getHost_def retIO_def failIO_def split: if_splits)
qed

text \<open>Servers of which the first to be asked removes the member, but does not answer in time.\<close>

definition sim_etcd_api :: "sim_ext ext_api" where
  "sim_etcd_api = sim_ext_api\<lparr>EtcdMemberRemove := (\<lambda>a i e.
     (if sx_next e = 0 then Fail (errorf ''etcdserver: request timed out'') else Ret (),
      e\<lparr>sx_next := 1, sx_members := filter (\<lambda>m. mem_ID m \<noteq> i) (sx_members e)\<rparr>))\<rparr>"

lemma sim_etcd_laws: "etcd_laws sim_etcd_api sx_members"
  by (auto simp: etcd_laws_def keeps_members_def sim_etcd_api_def sim_ext_api_def retIO_def split: if_splits)

definition demo_members :: "(sim, sim_kube, sim_ext) world" where
  "demo_members = demo_hosts\<lparr>ext := \<lparr>sx_next = 0, sx_members = [\<lparr>mem_ID = ''a1'', mem_Name = ''etcd-10.0.0.1''\<rparr>,
     \<lparr>mem_ID = ''b2'', mem_Name = ''etcd-10.0.0.2''\<rparr>], sx_lines = []\<rparr>\<rparr>"

theorem RemoveEtcdMember_removes_witness:
  "\<exists>w'. RemoveEtcdMember (sim_env\<lparr>extAPI := sim_etcd_api\<rparr>) 1 [0, 1] None [] [] demo_members = (Ret (), w') \<and>
     sx_members (ext w') = [\<lparr>mem_ID = ''a1'', mem_Name = ''etcd-10.0.0.1''\<rparr>]"
proof -
  let ?env = "sim_env\<lparr>extAPI := sim_etcd_api\<rparr>"
  let ?r = "RemoveEtcdMember ?env 1 [0, 1] None [] [] demo_members"
  have "fst ?r = Ret ()" by code_simp
  then have r: "?r = (Ret (), snd ?r)" by (metis prod.collapse)
  have l: "etcd_laws (extAPI ?env) sx_members" by (simp add: sim_etcd_laws)
  have m: "sx_members (ext demo_members) = [\<lparr>mem_ID = ''a1'', mem_Name = ''etcd-10.0.0.1''\<rparr>, \<lparr>mem_ID = ''b2'', mem_Name = ''etcd-10.0.0.2''\<rparr>]"
    "HostnameOverride (hstore demo_members ! 1) = ''10.0.0.2''"
    by (simp_all add: demo_members_def demo_hosts_def sim_world_def sim_host_def)
  let ?m = "\<lparr>mem_ID = ''b2'', mem_Name = ''etcd-10.0.0.2''\<rparr>"
  have "?m \<in> set (sx_members (ext demo_members))" "mem_Name ?m = ''etcd-'' @ HostnameOverride (hstore demo_members ! 1)"
    "\<forall>m' \<in> set (sx_members (ext demo_members)). mem_Name m' = mem_Name ?m \<longrightarrow> mem_ID m' = mem_ID ?m"
    unfolding m by simp_all
  from RemoveEtcdMember_removes[OF l this r]
  have "sx_members (ext (snd ?r)) = filter (\<lambda>m'. mem_ID m' \<noteq> mem_ID ?m) (sx_members (ext demo_members))" by blast
  then have "sx_members (ext (snd ?r)) = [\<lparr>mem_ID = ''a1'', mem_Name = ''etcd-10.0.0.1''\<rparr>]" unfolding m by simp
  with r show ?thesis by metis
qed

end
