(* ===== verification/Cluster_Ops.thy ===== *)
theory Cluster_Ops
  imports Cluster_State Etcd
begin

text \<open>
  The operations on all hosts of a cluster: connecting to them, deploying certificates and the planes (\<^verbatim>\<open>cluster/hosts.go\<close>,
  \<^verbatim>\<open>cluster/cluster.go\<close>), checking that they reach each other (the second half of \<^verbatim>\<open>cluster/network.go\<close>) and removing the cluster
  (\<^verbatim>\<open>cluster/remove.go\<close>).
\<close>

section \<open>Hosts\<close>

text \<open>The keys of a map from hosts: each host once, in an order that is the map's.\<close>

definition getUniqueHostList :: "Cluster \<Rightarrow> hostref list" where
  "getUniqueHostList c = remdups (EtcdHosts c @ ControlPlaneHosts c @ WorkerHosts c)"

definition tunnelAll :: "('d, 'k, 'e) env \<Rightarrow> DialerFactory option \<Rightarrow> string \<Rightarrow> hostref list \<Rightarrow> ('d, 'k, 'e, unit) wio" where
  "tunnelAll env df kind = forIO (\<lambda>r.
     catchIO (TunnelUp env r df) (\<lambda>err. bindIO (getHost r) (\<lambda>h.
       failIO (errorf (''Failed to set up SSH tunneling for '' @ kind @ '' host ['' @ Address h @ '']: '' @ emsg err)))))"

definition TunnelHosts :: "('d, 'k, 'e) env \<Rightarrow> Cluster \<Rightarrow> bool \<Rightarrow> ('d, 'k, 'e, unit) wio" where
  "TunnelHosts env c local =
     (if local then
        (case EtcdHosts c of
           [] \<Rightarrow> panicIO ''index out of range''
         | r # _ \<Rightarrow> catchIO (TunnelUpLocal env r) (\<lambda>err. bindIO (getHost r) (\<lambda>h.
             failIO (errorf (''Failed to connect to docker for local host ['' @ Address h @ '']: '' @ emsg err)))))
      else thenIO (tunnelAll env (DockerDialerFactory c) ''Etcd'' (EtcdHosts c))
          (thenIO (tunnelAll env (DockerDialerFactory c) ''Control'' (ControlPlaneHosts c))
             (tunnelAll env (DockerDialerFactory c) ''Worker'' (WorkerHosts c))))"

definition SetUpHosts :: "('d, 'k, 'e) env \<Rightarrow> Cluster \<Rightarrow> ('d, 'k, 'e, unit) wio" where
  "SetUpHosts env c =
     (if authn_Strategy (Authentication c) = X509AuthenticationProvider
      then thenIO (errgroupIO (map (\<lambda>r. DeployCertificatesOnPlaneHost env r (EtcdHosts c) (certsOf c)
                     (img_CertDownloader (SystemImages c)) (PrivateRegistriesMap c)) (getUniqueHostList c)))
             (DeployAdminConfig env (cert_Config (certOf c KubeAdminCertName)) (LocalKubeConfigPath c))
      else retIO ())"

definition CheckEtcdHostsChanged :: "Cluster \<Rightarrow> Cluster option \<Rightarrow> ('d, 'k, 'e, unit) wio" where
  "CheckEtcdHostsChanged kubeCluster currentCluster =
     (case currentCluster of
        None \<Rightarrow> retIO ()
      | Some cur \<Rightarrow> bindIO (getIO hstore) (\<lambda>hs.
          if IsHostListChanged hs (EtcdHosts cur) (EtcdHosts kubeCluster)
          then failIO (errorf ''Adding or removing Etcd nodes is not supported'') else retIO ()))"

section \<open>Planes\<close>

definition DeployControlPlane :: "('d, 'k, 'e) env \<Rightarrow> Cluster \<Rightarrow> ('d, 'k, 'e, unit) wio" where
  "DeployControlPlane env c =
     thenIO (wrapIO ''[etcd] Failed to bring up Etcd Plane: ''
        (RunEtcdPlane env (EtcdHosts c) (Etcd (Services c)) (PrivateRegistriesMap c)))
    (thenIO (wrapIO ''[controlPlane] Failed to bring up Control Plane: ''
        (RunControlPlane env (ControlPlaneHosts c) (EtcdHosts c) (Services c) (img_KubernetesServicesSidecar (SystemImages c))
           (authz_Mode (Authorization c)) (LocalConnDialerFactory c) (PrivateRegistriesMap c)))
       (wrapIO ''[auths] Failed to apply RBAC resources: '' (ApplyAuthzResources env c)))"

definition DeployWorkerPlane :: "('d, 'k, 'e) env \<Rightarrow> Cluster \<Rightarrow> ('d, 'k, 'e, unit) wio" where
  "DeployWorkerPlane env c =
     wrapIO ''[workerPlane] Failed to bring up Worker Plane: ''
       (RunWorkerPlane env (ControlPlaneHosts c) (WorkerHosts c) (EtcdHosts c) (Services c) (img_NginxProxy (SystemImages c))
          (img_KubernetesServicesSidecar (SystemImages c)) (LocalConnDialerFactory c) (PrivateRegistriesMap c))"

definition syncHost :: "('d, 'k, 'e) env \<Rightarrow> RestConfig \<Rightarrow> hostref \<Rightarrow> ('d, 'k, 'e, unit) wio" where
  "syncHost env client r = bindIO (getHost r) (\<lambda>h.
     thenIO (SyncLabels env client (HostnameOverride h) (ToAddLabels h) (ToDelLabels h))
       (SyncTaints env client (HostnameOverride h) (ToAddTaints h) (ToDelTaints h)))"

definition SyncLabelsAndTaints :: "('d, 'k, 'e) env \<Rightarrow> Cluster \<Rightarrow> ('d, 'k, 'e, unit) wio" where
  "SyncLabelsAndTaints env c =
     bindIO (wrapIO ''Failed to initialize new kubernetes client: '' (NewClient env (LocalKubeConfigPath c))) (\<lambda>client.
       forIO (syncHost env client) (getUniqueHostList c))"

definition pullTask :: "('d, 'k, 'e) env \<Rightarrow> Cluster \<Rightarrow> hostref \<Rightarrow> ('d, 'k, 'e, unit) wio" where
  "pullTask env c r = bindIO (getHost r) (\<lambda>h.
     viaClient h (UseLocalOrPull (dockerAPI env) (Address h) (img_Kubernetes (SystemImages c)) (PrivateRegistriesMap c)))"

definition PrePullK8sImages :: "('d, 'k, 'e) env \<Rightarrow> Cluster \<Rightarrow> ('d, 'k, 'e, unit) wio" where
  "PrePullK8sImages env c = errgroupIO (map (pullTask env c) (getUniqueHostList c))"

section \<open>Ports\<close>

definition PortCheckContainer :: string where "PortCheckContainer = ''rke-port-checker''"
definition EtcdPortListenContainer :: string where "EtcdPortListenContainer = ''rke-etcd-port-listener''"
definition CPPortListenContainer :: string where "CPPortListenContainer = ''rke-cp-port-listener''"
definition WorkerPortListenContainer :: string where "WorkerPortListenContainer = ''rke-worker-port-listener''"

definition KubeAPIPort :: string where "KubeAPIPort = ''6443''"
definition EtcdPort1 :: string where "EtcdPort1 = ''2379''"
definition EtcdPort2 :: string where "EtcdPort2 = ''2380''"
definition KubeletPort :: string where "KubeletPort = ''10250''"

definition etcdPortList :: "string list" where "etcdPortList = [EtcdPort1, EtcdPort2]"
definition controlPlanePortList :: "string list" where "controlPlanePortList = [KubeAPIPort]"
definition workerPortList :: "string list" where "workerPortList = [KubeletPort]"

text \<open>What \<^verbatim>\<open>nat.ParsePortSpec\<close> makes of an IP address, a decimal port number and \<^verbatim>\<open>1337/tcp\<close>.\<close>

definition getPortBindings :: "string \<Rightarrow> string list \<Rightarrow> PortBinding list" where
  "getPortBindings hostAddress portList = map (\<lambda>portNumber. \<lparr>HostIP = hostAddress, HostPort = portNumber\<rparr>) portList"

definition listenerConfig :: "string \<Rightarrow> string list \<Rightarrow> ContainerConfig \<times> HostConfig" where
  "listenerConfig img portList =
     (ContainerConfig_zero\<lparr>Image := img, Cmd := Some [''nc'', ''-kl'', ''-p'', ''1337'', ''-e'', ''echo''], ExposedPorts := [''1337/tcp'']\<rparr>,
      HostConfig_zero\<lparr>PortBindings := [(''1337/tcp'', getPortBindings ''0.0.0.0'' portList)]\<rparr>)"

definition deployListener :: "('d, 'k, 'e) env \<Rightarrow> Cluster \<Rightarrow> string list \<Rightarrow> string \<Rightarrow> hostref \<Rightarrow> ('d, 'k, 'e, unit) wio" where
  "deployListener env c portList containerName r =
     bindIO (getHost r) (\<lambda>h. case listenerConfig (img_Alpine (SystemImages c)) portList of (imageCfg, hostCfg) \<Rightarrow>
       catchIO (viaClient h (DoRunContainer (dockerAPI env) imageCfg hostCfg containerName (Address h) (PrivateRegistriesMap c)))
         (\<lambda>err. if contains ''bind: address already in use'' (emsg err) then retIO () else failIO err))"

definition deployListenerOnPlane ::
  "('d, 'k, 'e) env \<Rightarrow> Cluster \<Rightarrow> string list \<Rightarrow> hostref list \<Rightarrow> string \<Rightarrow> ('d, 'k, 'e, unit) wio" where
  "deployListenerOnPlane env c portList hostPlane containerName = errgroupIO (map (deployListener env c portList containerName) hostPlane)"

definition newHosts :: "(Cluster \<Rightarrow> hostref list) \<Rightarrow> Cluster \<Rightarrow> Cluster option \<Rightarrow> Host list \<Rightarrow> hostref list" where
  "newHosts plane c currentCluster hs = (case currentCluster of None \<Rightarrow> plane c | Some cur \<Rightarrow> GetToAddHosts hs (plane cur) (plane c))"

definition deployTCPPortListeners :: "('d, 'k, 'e) env \<Rightarrow> Cluster \<Rightarrow> Cluster option \<Rightarrow> ('d, 'k, 'e, unit) wio" where
  "deployTCPPortListeners env c currentCluster =
     bindIO (getIO hstore) (\<lambda>hs.
     thenIO (deployListenerOnPlane env c etcdPortList (newHosts EtcdHosts c currentCluster hs) EtcdPortListenContainer)
    (thenIO (deployListenerOnPlane env c controlPlanePortList (newHosts ControlPlaneHosts c currentCluster hs) CPPortListenContainer)
       (deployListenerOnPlane env c workerPortList (newHosts WorkerHosts c currentCluster hs) WorkerPortListenContainer)))"

definition removeListenerFromPlane :: "('d, 'k, 'e) env \<Rightarrow> hostref list \<Rightarrow> string \<Rightarrow> ('d, 'k, 'e, unit) wio" where
  "removeListenerFromPlane env hostPlane containerName = errgroupIO (map (\<lambda>r. removeContainerOf env r containerName) hostPlane)"

definition removeTCPPortListeners :: "('d, 'k, 'e) env \<Rightarrow> Cluster \<Rightarrow> ('d, 'k, 'e, unit) wio" where
  "removeTCPPortListeners env c =
     thenIO (removeListenerFromPlane env (EtcdHosts c) EtcdPortListenContainer)
    (thenIO (removeListenerFromPlane env (ControlPlaneHosts c) CPPortListenContainer)
       (removeListenerFromPlane env (WorkerHosts c) WorkerPortListenContainer))"

text \<open>
  \<^verbatim>\<open>bufio.Scanner\<close>: lines without their end, the last one only if it is not empty; a line that does not fit into the buffer of
  64 KiB ends the scan with an error.  \<open>logLine[1]\<close> panics on a line without a space.
\<close>

definition logLines :: "string \<Rightarrow> string list" where
  "logLines s = (let ls = split_on CHR 0x0A s in if ls \<noteq> [] \<and> last ls = [] then butlast ls else ls)"

definition dropCR :: "string \<Rightarrow> string" where
  "dropCR l = (if l \<noteq> [] \<and> last l = CHR 0x0D then butlast l else l)"

fun portCheckLines :: "string list \<Rightarrow> string list outcome" where
  "portCheckLines [] = Ret []"
| "portCheckLines (l # ls) =
     (if length l \<ge> 65536 then Fail (errorf ''bufio.Scanner: token too long'')
      else case split_on CHR '' '' (dropCR l) of
          host # port # _ \<Rightarrow> (case portCheckLines ls of Ret rest \<Rightarrow> Ret ((host @ '':'' @ port) # rest) | r \<Rightarrow> r)
        | _ \<Rightarrow> Panic ''index out of range'')"

definition getPortCheckLogs :: "string \<Rightarrow> ('w, string list) io" where
  "getPortCheckLogs logs w = (portCheckLines (logLines logs), w)"

definition portCheckConfig :: "string \<Rightarrow> string list \<Rightarrow> string list \<Rightarrow> ContainerConfig \<times> HostConfig" where
  "portCheckConfig img hosts portList =
     (ContainerConfig_zero\<lparr>Image := img, Tty := True,
        Env := [''HOSTS='' @ join_with '' '' hosts, ''PORTS='' @ join_with '' '' portList],
        Cmd := Some [''sh'', ''-c'',
          ''for host in $HOSTS; do for port in $PORTS ; do nc -z $host $port > /dev/null || echo $host $port ; done; done'']\<rparr>,
      HostConfig_zero\<lparr>NetworkMode := ''host''\<rparr>)"

definition checkPorts ::
  "'d docker_api \<Rightarrow> string \<Rightarrow> string list \<Rightarrow> string list \<Rightarrow> string \<Rightarrow> PrivateRegistry gomap \<Rightarrow> ('d, unit) io" where
  "checkPorts api address portList hosts img prsMap =
     (case portCheckConfig img hosts portList of (imageCfg, hostCfg) \<Rightarrow>
      thenIO (DoRemoveContainer api PortCheckContainer address)
     (thenIO (DoRunContainer api imageCfg hostCfg PortCheckContainer address prsMap)
     (thenIO (WaitForContainer api PortCheckContainer)
     (bindIO (ReadContainerLogs api PortCheckContainer) (\<lambda>logs.
      thenIO (RemoveContainer api address PortCheckContainer)
     (bindIO (getPortCheckLogs logs) (\<lambda>portCheckLogs.
        if portCheckLogs \<noteq> []
        then failIO (errorf (''[network] Port check for ports: ['' @ join_with '', '' portCheckLogs @ ''] failed on host: ['' @ address @ '']''))
        else retIO ())))))))"

definition checkPlaneTCPPortsFromHost ::
  "('d, 'k, 'e) env \<Rightarrow> string list \<Rightarrow> hostref list \<Rightarrow> string \<Rightarrow> PrivateRegistry gomap \<Rightarrow> hostref \<Rightarrow> ('d, 'k, 'e, unit) wio" where
  "checkPlaneTCPPortsFromHost env portList planeHosts img prsMap r =
     bindIO (getHosts planeHosts) (\<lambda>hs.
     bindIO (getHost r) (\<lambda>h.
       viaClient h (checkPorts (dockerAPI env) (Address h) portList (map InternalAddress hs) img prsMap)))"

definition runServicePortChecks :: "('d, 'k, 'e) env \<Rightarrow> Cluster \<Rightarrow> ('d, 'k, 'e, unit) wio" where
  "runServicePortChecks env c =
     (let check = (\<lambda>portList plane. checkPlaneTCPPortsFromHost env portList plane (img_Alpine (SystemImages c)) (PrivateRegistriesMap c))
      in thenIO (if length (EtcdHosts c) > 1 then errgroupIO (map (check etcdPortList (EtcdHosts c)) (EtcdHosts c)) else retIO ())
        (thenIO (errgroupIO (map (check etcdPortList (EtcdHosts c)) (ControlPlaneHosts c)))
        (thenIO (errgroupIO (map (check etcdPortList (EtcdHosts c)) (WorkerHosts c)))
        (thenIO (errgroupIO (map (check workerPortList (WorkerHosts c)) (ControlPlaneHosts c)))
           (errgroupIO (map (check controlPlanePortList (ControlPlaneHosts c)) (WorkerHosts c)))))))"

definition checkKubeAPIPort :: "('d, 'k, 'e) env \<Rightarrow> Cluster \<Rightarrow> ('d, 'k, 'e, unit) wio" where
  "checkKubeAPIPort env c = forIO (\<lambda>r. bindIO (getHost r) (\<lambda>h.
     tryIO (onExt (NetDial (extAPI env) (Address h @ '':'' @ KubeAPIPort)))
       (\<lambda>_. failIO (errorf (''[network] Can't access KubeAPI port ['' @ KubeAPIPort @ ''] on Control Plane host: '' @ Address h)))
       (\<lambda>_. retIO ()))) (ControlPlaneHosts c)"

definition CheckClusterPorts :: "('d, 'k, 'e) env \<Rightarrow> Cluster \<Rightarrow> Cluster option \<Rightarrow> ('d, 'k, 'e, unit) wio" where
  "CheckClusterPorts env c currentCluster =
     bindIO (getIO hstore) (\<lambda>hs.
       if currentCluster \<noteq> None \<and> newHosts EtcdHosts c currentCluster hs = [] \<and> newHosts WorkerHosts c currentCluster hs = [] \<and>
          newHosts ControlPlaneHosts c currentCluster hs = []
       then retIO ()
       else thenIO (deployTCPPortListeners env c currentCluster)
           (thenIO (runServicePortChecks env c)
           (thenIO (checkKubeAPIPort env c)
              (removeTCPPortListeners env c))))"

section \<open>Removing a cluster\<close>

definition cleanUpHosts ::
  "('d, 'k, 'e) env \<Rightarrow> hostref list \<Rightarrow> hostref list \<Rightarrow> hostref list \<Rightarrow> string \<Rightarrow> PrivateRegistry gomap \<Rightarrow> ('d, 'k, 'e, unit) wio" where
  "cleanUpHosts env cpHosts workerHosts etcdHosts cleanerImage prsMap =
     forIO (\<lambda>r. CleanUpAll env r cleanerImage prsMap) (cpHosts @ workerHosts @ etcdHosts)"

definition ClusterRemove :: "('d, 'k, 'e) env \<Rightarrow> Cluster \<Rightarrow> ('d, 'k, 'e, unit) wio" where
  "ClusterRemove env c =
     thenIO (RemoveWorkerPlane env (WorkerHosts c) True)
    (thenIO (RemoveControlPlane env (ControlPlaneHosts c) True)
    (thenIO (RemoveEtcdPlane env (EtcdHosts c) True)
    (thenIO (cleanUpHosts env (ControlPlaneHosts c) (WorkerHosts c) (EtcdHosts c) (img_Alpine (SystemImages c)) (PrivateRegistriesMap c))
       (RemoveAdminConfig env (LocalKubeConfigPath c)))))"

end
