(* ===== verification/Cluster_Reconcile.thy ===== *)
theory Cluster_Reconcile
  imports Cluster_Ops
begin

text \<open>
  Bringing the cluster that is there (\<open>currentCluster\<close>) in line with the configured one (\<open>kubeCluster\<close>): \<^verbatim>\<open>cluster/reconcile.go\<close>.

  The two clusters share the map of certificates (\<^verbatim>\<open>SetUpAuthentication\<close> assigns it), so that the certificates that \<open>reconcileEtcd\<close>
  writes to the current cluster are the configured cluster's too.
\<close>

section \<open>Labels\<close>

definition delOldLabels :: "Host \<Rightarrow> Host \<Rightarrow> Host" where
  "delOldLabels current h =
     h\<lparr>ToDelLabels := fold (\<lambda>(k, v) d. if mget (node_Labels h) k = None then mput k v d else d) (node_Labels current) (ToDelLabels h)\<rparr>"

definition syncLabelsOf :: "hostref list \<Rightarrow> hostref \<Rightarrow> ('d, 'k, 'e, unit) wio" where
  "syncLabelsOf currentHosts r =
     bindIO (getHost r) (\<lambda>h.
     bindIO (getHosts currentHosts) (\<lambda>curs.
       case List.find (\<lambda>cur. Address h = Address cur) curs of
         None \<Rightarrow> retIO ()
       | Some cur \<Rightarrow> setHost r (delOldLabels cur)))"

definition syncLabels :: "Cluster \<Rightarrow> Cluster \<Rightarrow> ('d, 'k, 'e, unit) wio" where
  "syncLabels currentCluster kubeCluster = forIO (syncLabelsOf (getUniqueHostList currentCluster)) (getUniqueHostList kubeCluster)"

section \<open>Hosts that leave\<close>

definition reconcileHost ::
  "('d, 'k, 'e) env \<Rightarrow> hostref \<Rightarrow> bool \<Rightarrow> bool \<Rightarrow> string \<Rightarrow> DialerFactory option \<Rightarrow> PrivateRegistry gomap \<Rightarrow> ('d, 'k, 'e, unit) wio" where
  "reconcileHost env r worker etcd cleanerImage dialerFactory prsMap =
     thenIO (wrapIO ''Not able to reach the host: '' (TunnelUp env r dialerFactory))
    (if worker then
       thenIO (wrapIO ''Couldn't remove worker plane: '' (RemoveWorkerPlane env [r] False))
         (wrapIO ''Not able to clean the host: '' (CleanUpWorkerHost env r cleanerImage prsMap))
     else if etcd then
       thenIO (wrapIO ''Couldn't remove etcd plane: '' (RemoveEtcdPlane env [r] False))
         (wrapIO ''Not able to clean the host: '' (CleanUpEtcdHost env r cleanerImage prsMap))
     else
       thenIO (wrapIO ''Couldn't remove control plane: '' (RemoveControlPlane env [r] False))
         (wrapIO ''Not able to clean the host: '' (CleanUpControlHost env r cleanerImage prsMap)))"

text \<open>\<open>if err := m; err != nil { log.Warnf(...) }\<close>\<close>

definition warnOnly :: "('w, unit) io \<Rightarrow> ('w, unit) io" where
  "warnOnly m = catchIO m (\<lambda>_. retIO ())"

definition dropTaint :: "hostref \<Rightarrow> ('d, 'k, 'e, unit) wio" where
  "dropTaint r = bindIO (getHost r) (\<lambda>h.
     if IsEtcd h then setHost r (\<lambda>h. h\<lparr>ToDelTaints := ToDelTaints h @ [unschedulableEtcdTaint]\<rparr>) else retIO ())"

definition reconcileHostOf :: "('d, 'k, 'e) env \<Rightarrow> Cluster \<Rightarrow> bool \<Rightarrow> bool \<Rightarrow> hostref \<Rightarrow> ('d, 'k, 'e, unit) wio" where
  "reconcileHostOf env cur worker etcd r =
     reconcileHost env r worker etcd (img_Alpine (SystemImages cur)) (DockerDialerFactory cur) (PrivateRegistriesMap cur)"

definition deleteWorker :: "('d, 'k, 'e) env \<Rightarrow> Cluster \<Rightarrow> RestConfig \<Rightarrow> hostref \<Rightarrow> ('d, 'k, 'e, unit) wio" where
  "deleteWorker env cur kubeClient r =
     thenIO (setHost r (\<lambda>h. h\<lparr>IsWorker := False\<rparr>))
    (bindIO (getHost r) (\<lambda>h.
     thenIO (catchIO (DeleteNode env r kubeClient (IsControl h))
               (\<lambda>_. failIO (errorf (''Failed to delete worker node '' @ Address h @ '' from cluster''))))
       (warnOnly (reconcileHostOf env cur True False r))))"

definition reconcileWorker :: "('d, 'k, 'e) env \<Rightarrow> Cluster \<Rightarrow> Cluster \<Rightarrow> RestConfig \<Rightarrow> ('d, 'k, 'e, unit) wio" where
  "reconcileWorker env cur kubeCluster kubeClient =
     bindIO (getIO (\<lambda>w. GetToDeleteHosts (hstore w) (WorkerHosts cur) (WorkerHosts kubeCluster))) (\<lambda>wpToDelete.
     thenIO (forIO (deleteWorker env cur kubeClient) wpToDelete)
    (bindIO (getIO (\<lambda>w. GetToAddHosts (hstore w) (WorkerHosts cur) (WorkerHosts kubeCluster))) (\<lambda>toAddHosts.
       forIO dropTaint toAddHosts)))"

text \<open>
  The loop that moves the host of the local configuration to the end writes to the array it runs over: after the host at
  position \<open>i\<close> has moved, the next position holds the host after the next.
\<close>

fun moveLoop :: "(hostref \<Rightarrow> bool) \<Rightarrow> nat \<Rightarrow> nat \<Rightarrow> hostref list \<Rightarrow> hostref list" where
  "moveLoop self i 0 xs = xs"
| "moveLoop self i (Suc n) xs =
     moveLoop self (Suc i) n (if self (xs ! i) then take i xs @ drop (Suc i) xs @ [xs ! i] else xs)"

definition deleteControl :: "('d, 'k, 'e) env \<Rightarrow> Cluster \<Rightarrow> Cluster \<Rightarrow> hostref \<Rightarrow> ('d, 'k, 'e, unit) wio" where
  "deleteControl env cur kubeCluster r =
     bindIO (wrapIO ''Failed to initialize new kubernetes client: '' (NewClient env (LocalKubeConfigPath kubeCluster))) (\<lambda>kubeClient.
     bindIO (getHost r) (\<lambda>h.
     thenIO (catchIO (DeleteNode env r kubeClient (IsWorker h))
               (\<lambda>_. failIO (errorf (''Failed to delete controlplane node '' @ Address h @ '' from cluster''))))
       (warnOnly (reconcileHostOf env cur False False r))))"

definition reconcileControl :: "('d, 'k, 'e) env \<Rightarrow> Cluster \<Rightarrow> Cluster \<Rightarrow> ('d, 'k, 'e, Cluster) wio" where
  "reconcileControl env cur kubeCluster =
     bindIO (getLocalConfigAddress env (LocalKubeConfigPath kubeCluster)) (\<lambda>selfDeleteAddress.
     bindIO (getIO hstore) (\<lambda>hs.
       let toDelete = GetToDeleteHosts hs (ControlPlaneHosts cur) (ControlPlaneHosts kubeCluster);
           cpToDelete = moveLoop (\<lambda>r. addr hs r = selfDeleteAddress) 0 (length toDelete) toDelete
       in thenIO (forIO (deleteControl env cur kubeCluster) cpToDelete)
         (bindIO (rebuildLocalAdminConfig env kubeCluster) (\<lambda>kubeCluster'.
          bindIO (getIO (\<lambda>w. GetToAddHosts (hstore w) (ControlPlaneHosts cur) (ControlPlaneHosts kubeCluster'))) (\<lambda>toAddHosts.
          thenIO (forIO dropTaint toAddHosts) (retIO kubeCluster'))))))"

section \<open>The etcd cluster\<close>

definition deleteEtcd ::
  "('d, 'k, 'e) env \<Rightarrow> Cluster \<Rightarrow> Cluster \<Rightarrow> RestConfig \<Rightarrow> string \<Rightarrow> string \<Rightarrow> hostref \<Rightarrow> ('d, 'k, 'e, unit) wio" where
  "deleteEtcd env cur kubeCluster kubeClient clientCert clientkey r =
     tryIO (RemoveEtcdMember env r (EtcdHosts kubeCluster) (LocalConnDialerFactory cur) clientCert clientkey) (\<lambda>_. retIO ()) (\<lambda>_.
     bindIO (getHost r) (\<lambda>h.
     tryIO (DeleteNode env r kubeClient (IsControl h)) (\<lambda>_. retIO ()) (\<lambda>_.
       warnOnly (reconcileHostOf env cur False True r))))"

definition newEtcdCert ::
  "('d, 'k, 'e) env \<Rightarrow> Cluster \<Rightarrow> hostref \<Rightarrow> CertificatePKI gomap \<Rightarrow> ('d, 'k, 'e, CertificatePKI gomap) wio" where
  "newEtcdCert env kubeCluster r crtMap =
     thenIO (setHost r (\<lambda>h. h\<lparr>ToAddEtcdMember := True\<rparr>))
    (bindIO (getHost r) (\<lambda>etcdHost.
     bindIO (getHosts (EtcdHosts kubeCluster)) (\<lambda>etcdHosts.
       RegenerateEtcdCertificate env crtMap etcdHost etcdHosts (ClusterDomain kubeCluster) (KubernetesServiceIP kubeCluster))))"

definition addEtcdHost ::
  "('d, 'k, 'e) env \<Rightarrow> Cluster \<Rightarrow> Cluster \<Rightarrow> CertificatePKI gomap \<Rightarrow> string \<Rightarrow> string \<Rightarrow> hostref \<Rightarrow> ('d, 'k, 'e, unit) wio" where
  "addEtcdHost env cur kubeCluster crtMap clientCert clientkey r =
     thenIO (DeployCertificatesOnHost env (EtcdHosts kubeCluster) r crtMap (img_CertDownloader (SystemImages kubeCluster))
               CertPathPrefix (PrivateRegistriesMap kubeCluster))
    (thenIO (AddEtcdMember env r (EtcdHosts kubeCluster) (LocalConnDialerFactory cur) clientCert clientkey)
    (thenIO (setHost r (\<lambda>h. h\<lparr>ToAddEtcdMember := False\<rparr>))
       (ReloadEtcdCluster env (EtcdHosts kubeCluster) (Etcd (Services kubeCluster)) (LocalConnDialerFactory cur) clientCert clientkey
          (PrivateRegistriesMap cur))))"

text \<open>The certificates afterwards.\<close>

definition reconcileEtcd ::
  "('d, 'k, 'e) env \<Rightarrow> Cluster \<Rightarrow> Cluster \<Rightarrow> RestConfig \<Rightarrow> ('d, 'k, 'e, CertificatePKI gomap) wio" where
  "reconcileEtcd env cur kubeCluster kubeClient =
     bindIO (EncodeCertPEM env (Certificate (certOf cur KubeNodeCertName))) (\<lambda>clientCert.
     bindIO (EncodePrivateKeyPEM env (cert_Key (certOf cur KubeNodeCertName))) (\<lambda>clientkey.
     bindIO (getIO (\<lambda>w. GetToDeleteHosts (hstore w) (EtcdHosts cur) (EtcdHosts kubeCluster))) (\<lambda>etcdToDelete.
     thenIO (forIO (deleteEtcd env cur kubeCluster kubeClient clientCert clientkey) etcdToDelete)
    (bindIO (getIO (\<lambda>w. GetToAddHosts (hstore w) (EtcdHosts cur) (EtcdHosts kubeCluster))) (\<lambda>etcdToAdd.
     bindIO (foldIO (newEtcdCert env kubeCluster) etcdToAdd (certsOf cur)) (\<lambda>crtMap.
     thenIO (forIO (addEtcdHost env cur kubeCluster crtMap clientCert clientkey) etcdToAdd) (retIO crtMap)))))))"

definition ReconcileCluster :: "('d, 'k, 'e) env \<Rightarrow> Cluster \<Rightarrow> Cluster option \<Rightarrow> ('d, 'k, 'e, Cluster) wio" where
  "ReconcileCluster env kubeCluster currentCluster =
     (case currentCluster of
        None \<Rightarrow> retIO kubeCluster
      | Some cur \<Rightarrow>
          bindIO (wrapIO ''Failed to initialize new kubernetes client: '' (NewClient env (LocalKubeConfigPath kubeCluster))) (\<lambda>kubeClient.
          thenIO (syncLabels cur kubeCluster)
         (bindIO (wrapIO ''Failed to reconcile etcd plane: '' (reconcileEtcd env cur kubeCluster kubeClient)) (\<lambda>crtMap.
            let cur' = cur\<lparr>Certificates := Some crtMap\<rparr>; kubeCluster' = kubeCluster\<lparr>Certificates := Some crtMap\<rparr> in
            thenIO (reconcileWorker env cur' kubeCluster' kubeClient) (reconcileControl env cur' kubeCluster')))))"

end
