(* ===== verification/World_Frames.thy ===== *)
theory World_Frames
  imports Cluster_Reconcile
begin

text \<open>
  What the operations on a cluster leave alone, as interfaces over an invariant \<open>I\<close> of the state: operations that talk to Kubernetes only
  (\<open>kube_frame\<close>, \<open>api_frame\<close>), that also write to hosts and files (\<open>store_frame\<close>), that make new hosts and call the daemons in the ways the
  steps before the planes do (\<open>client_frame\<close>), and that do anything to the daemons (\<open>daemon_frame\<close>).  A host keeps the fields of its node, the
  socket of its daemon apart, and the roles that decide where the control plane and etcd run; it is connected at most once.
\<close>

section \<open>Rules for case distinctions\<close>

lemma keeps_option [keeps_intros]:
  "(x = None \<Longrightarrow> keeps I m) \<Longrightarrow> (\<And>y. x = Some y \<Longrightarrow> keeps I (k y)) \<Longrightarrow> keeps I (case x of None \<Rightarrow> m | Some y \<Rightarrow> k y)"
  by (cases x) simp_all

lemma keeps_sum [keeps_intros]:
  "(\<And>y. x = Inl y \<Longrightarrow> keeps I (m y)) \<Longrightarrow> (\<And>y. x = Inr y \<Longrightarrow> keeps I (k y)) \<Longrightarrow> keeps I (case x of Inl y \<Rightarrow> m y | Inr y \<Rightarrow> k y)"
  by (cases x) simp_all

lemma keeps_list [keeps_intros]:
  "(x = [] \<Longrightarrow> keeps I m) \<Longrightarrow> (\<And>y ys. x = y # ys \<Longrightarrow> keeps I (k y ys)) \<Longrightarrow> keeps I (case x of [] \<Rightarrow> m | y # ys \<Rightarrow> k y ys)"
  by (cases x) simp_all

lemma keeps_prod [keeps_intros]: "(\<And>a b. keeps I (k a b)) \<Longrightarrow> keeps I (case p of (a, b) \<Rightarrow> k a b)"
  by (cases p) simp

lemma keeps_key [keeps_intros]:
  "(\<And>y. x = AnyRSA y \<Longrightarrow> keeps I (m y)) \<Longrightarrow> (\<And>y. x = AnyECDSA y \<Longrightarrow> keeps I (k y)) \<Longrightarrow>
     keeps I (case x of AnyRSA y \<Rightarrow> m y | AnyECDSA y \<Rightarrow> k y)"
  by (cases x) simp_all

lemma keeps_pure [keeps_intros]: "keeps I (\<lambda>w. (x, w))"
  by (simp add: keeps_def)

lemma keeps_tasks: "(\<And>x. x \<in> set xs \<Longrightarrow> keeps I (f x)) \<Longrightarrow> keeps I (errgroupIO (map f xs))"
  by (rule keeps_errgroup) auto

lemma keeps_hosts: "keeps I (getHosts rs)"
  by (induction rs) (auto intro!: keeps_intros keeps_getHost)

lemma keeps_encode: "keeps I (EncodeCertPEM env c)" "keeps I (EncodePrivateKeyPEM env k)"
  unfolding EncodeCertPEM_def EncodePrivateKeyPEM_def by (intro keeps_intros)+

lemmas keeps_reads [keeps_intros] = keeps_for keeps_fold keeps_tasks keeps_hosts keeps_getHost keeps_ofSum keeps_encode keeps_keyText

lemma keeps_certsEnv [keeps_intros]: "keeps I (certsEnv env crts names acc)"
  unfolding certsEnv_def ToEnv_def CertToEnv_def KeyToEnv_def by (intro keeps_intros)

lemma keeps_retryLoop [keeps_intros]: "keeps I m \<Longrightarrow> keeps I (retryLoop n e m)"
  by (induction n arbitrary: e) (auto intro!: keeps_intros)

lemma keeps_untilTimeout [keeps_intros]: "keeps I m \<Longrightarrow> keeps I (untilTimeout n m s)"
  by (induction n) (auto intro!: keeps_intros)

lemma keeps_healthLoop [keeps_intros]: "keeps I m \<Longrightarrow> keeps I (healthLoop m n e)"
  by (induction n arbitrary: e) (auto intro!: keeps_intros)

lemma keeps_NewClient [keeps_intros]: "keeps I (NewClient env path)"
  unfolding NewClient_def by (intro keeps_intros)

lemma keeps_configAddress [keeps_intros]: "keeps I (getLocalConfigAddress env path)"
  unfolding getLocalConfigAddress_def buildConfig_def Let_def by (intro keeps_intros)

lemma keeps_bind_get: "(\<And>w. I w \<Longrightarrow> keeps I (k (f w))) \<Longrightarrow> keeps I (bindIO (getIO f) k)"
  by (auto simp: keeps_def bindIO_def getIO_def)

text \<open>The administrator's configuration is rebuilt by asking the API server under each address in turn.\<close>

lemma keeps_rebuild:
  assumes "\<And>path. keeps I (GetK8sVersion env path)" "\<And>s path. keeps I (DeployAdminConfig env s path)"
  shows "keeps I (rebuildLocalAdminConfig env c)"
proof -
  have "keeps I (rebuildLoop env path admin ca rs certs cfg)" for path admin ca rs certs cfg
    by (induction rs arbitrary: certs cfg)
       (auto simp: getLocalAdminConfigWithNewAddress_def buildConfig_def Let_def intro!: keeps_intros assms)
  then show ?thesis unfolding rebuildLocalAdminConfig_def Let_def by (intro keeps_intros)
qed

section \<open>Operations that talk to services outside\<close>

locale ext_frame =
  fixes I :: "('d, 'k, 'e) world \<Rightarrow> bool"
  assumes ext_free: "I w \<Longrightarrow> I (w\<lparr>ext := e\<rparr>)"
begin

lemma keeps_onExt [keeps_intros]: "keeps I (onExt m)"
  by (rule keepsI) (auto simp: onExt_def ext_free split: prod.splits)

lemma keeps_signing [keeps_intros]:
  "keeps I (GenerateSignedCertAndKey env ca ck b n alt k orgs)" "keeps I (generateCACertAndKey env)"
  unfolding GenerateSignedCertAndKey_def NewSignedCert_def generateCACertAndKey_def NewSelfSignedCACert_def Let_def
  by (intro keeps_intros)+

end

section \<open>Operations that talk to Kubernetes\<close>

text \<open>The calls of the API server, except those that write secrets.\<close>

locale api_frame = ext_frame I
  for I :: "('d, 'k, 'e) world \<Rightarrow> bool" +
  fixes env :: "('d, 'k, 'e) env"
  assumes node_calls: "keeps I (onKube (NodesGet (kubeAPI env) cl n))" "keeps I (onKube (NodesList (kubeAPI env) cl))"
      "keeps I (onKube (NodesUpdate (kubeAPI env) cl x))" "keeps I (onKube (NodesDelete (kubeAPI env) cl n))"
    and reads: "keeps I (onKube (ObjGet (kubeAPI env) cl t ns n))" "keeps I (onKube (JobGet (kubeAPI env) cl ns n))"
      "keeps I (onKube (ServerVersion (kubeAPI env) cl))"
    and writes: "t \<noteq> KSecret \<Longrightarrow> keeps I (onKube (ObjCreate (kubeAPI env) cl t ns y))"
      "t \<noteq> KSecret \<Longrightarrow> keeps I (onKube (ObjUpdate (kubeAPI env) cl t ns y))"
begin

lemmas keeps_calls [keeps_intros] = node_calls reads

lemma keeps_createOrUpdate: "t \<noteq> KSecret \<Longrightarrow> keeps I (createOrUpdate env cl t ns x)"
  unfolding createOrUpdate_def by (intro keeps_intros writes)

lemma keeps_objects [keeps_intros]:
  "keeps I (GetNode env cl n)" "keeps I (k8s_DeleteNode env cl n)" "keeps I (GetSecret env cl n)"
  "keeps I (GetConfigMap env cl n)" "keeps I (UpdateConfigMap env cl s n)"
  "keeps I (UpdatePodSecurityPolicyFromYaml env cl s)" "keeps I (UpdateServiceAccountFromYaml env cl s)"
  "keeps I (UpdateRoleFromYaml env cl s)" "keeps I (UpdateRoleBindingFromYaml env cl s)"
  "keeps I (UpdateClusterRoleBindingFromYaml env cl s)" "keeps I (ApplyK8sSystemJob env s path)"
  unfolding GetNode_def k8s_DeleteNode_def GetSecret_def GetConfigMap_def UpdateConfigMap_def
    UpdatePodSecurityPolicyFromYaml_def UpdateServiceAccountFromYaml_def UpdateRoleFromYaml_def UpdateRoleBindingFromYaml_def
    UpdateClusterRoleBindingFromYaml_def ApplyK8sSystemJob_def ensureJobCompleted_def decodeYamlResource_def retryTo_def
    updatePodSecurityPolicy_def updateServiceAccount_def updateRole_def updateRoleBinding_def updateClusterRoleBinding_def Let_def
  by (intro keeps_intros keeps_createOrUpdate writes; simp)+

lemma keeps_CordonUncordon [keeps_intros]: "keeps I (CordonUncordon env cl n b)"
proof -
  have "keeps I (cordonLoop k u env cl n b)" for k u
    by (induction k arbitrary: u) (auto intro!: keeps_intros)
  then show ?thesis by (simp add: CordonUncordon_def)
qed

lemma keeps_sync [keeps_intros]:
  "keeps I (SyncLabels env cl n adds dels)" "keeps I (SyncTaints env cl n addt delt)" "keeps I (DeleteNode env r cl b)"
  unfolding SyncLabels_def SyncTaints_def doSyncLabels_def doSyncTaints_def DeleteNode_def by (intro keeps_intros)+

lemma keeps_ApplyAuthzResources [keeps_intros]: "keeps I (ApplyAuthzResources env c)"
  unfolding ApplyAuthzResources_def ApplyJobDeployerServiceAccount_def ApplySystemNodeClusterRoleBinding_def
    ApplyDefaultPodSecurityPolicy_def ApplyDefaultPodSecurityPolicyRole_def
  by (intro keeps_intros)

lemma keeps_doAddonDeploy [keeps_intros]: "keeps I (doAddonDeploy env c s n)"
  unfolding doAddonDeploy_def StoreAddonConfigMap_def ApplySystemAddonExcuteJob_def firstHost_def by (intro keeps_intros)

lemma keeps_deployments [keeps_intros]: "keeps I (DeployNetworkPlugin env c)" "keeps I (DeployAddons env c)"
  unfolding DeployNetworkPlugin_def doFlannelDeploy_def doCalicoDeploy_def doCanalDeploy_def doWeaveDeploy_def deployPlugin_def
    DeployAddons_def DeployK8sAddOns_def DeployUserAddOns_def deployKubeDNS_def deployIngress_def Let_def
  by (intro keeps_intros)+

lemma keeps_SyncLabelsAndTaints [keeps_intros]: "keeps I (SyncLabelsAndTaints env c)"
  unfolding SyncLabelsAndTaints_def syncHost_def by (intro keeps_intros)

lemma keeps_certs [keeps_intros]:
  "keeps I (GetK8sVersion env path)" "keeps I (isLocalConfigWorking env path)" "keeps I (getClusterCerts env cl rs)"
  "keeps I (getStateFromKubernetes env cl)"
  unfolding GetK8sVersion_def isLocalConfigWorking_def getClusterCerts_def certOfSecret_def getStateFromKubernetes_def Let_def
  by (intro keeps_intros)+

end

text \<open>Everything that Kubernetes may do.\<close>

locale kube_frame = ext_frame I
  for I :: "('d, 'k, 'e) world \<Rightarrow> bool" +
  assumes kube_free: "I w \<Longrightarrow> I (w\<lparr>kube := k\<rparr>)"
begin

lemma keeps_onKube [keeps_intros]: "keeps I (onKube m)"
  by (rule keepsI) (auto simp: onKube_def kube_free split: prod.splits)

end

sublocale kube_frame \<subseteq> api?: api_frame I env for env
  by unfold_locales (rule keeps_onKube)+

context kube_frame
begin

lemma keeps_UpdateSecret [keeps_intros]: "keeps I (UpdateSecret env cl d n)"
  unfolding UpdateSecret_def createOrUpdate_def by (intro keeps_intros)

lemma keeps_SaveClusterState [keeps_intros]: "keeps I (SaveClusterState env c cfg)"
  unfolding SaveClusterState_def saveClusterCerts_def saveCertToKubernetes_def certificateData_def saveStateToKubernetes_def Let_def
  by (intro keeps_intros)

end

section \<open>Operations that also work on hosts\<close>

text \<open>
  What no step of a command changes of a host: the fields of its node (all but the socket of its daemon, which the dialer fills in), its
  control and etcd roles, and the client it has; a host that is no worker does not become one.
\<close>

definition same_machine :: "Host \<Rightarrow> Host \<Rightarrow> bool" where
  "same_machine h h' \<longleftrightarrow> MachineName h' = MachineName h \<and> Address h' = Address h \<and> InternalAddress h' = InternalAddress h \<and>
     Role h' = Role h \<and> HostnameOverride h' = HostnameOverride h \<and> node_User h' = node_User h \<and>
     SSHKey h' = SSHKey h \<and> node_SSHKeyPath h' = node_SSHKeyPath h \<and> node_Labels h' = node_Labels h \<and>
     IgnoreDockerVersion h' = IgnoreDockerVersion h \<and>
     IsControl h' = IsControl h \<and> IsEtcd h' = IsEtcd h \<and> (IsWorker h' \<longrightarrow> IsWorker h) \<and>
     (DClient h \<noteq> None \<longrightarrow> DClient h' = DClient h)"

text \<open>The same, and a client that it did not have is the one that \<^verbatim>\<open>TunnelUp\<close> makes for its address.\<close>

definition host_kept :: "Host \<Rightarrow> Host \<Rightarrow> bool" where
  "host_kept h h' \<longleftrightarrow> same_machine h h' \<and> (DClient h' = DClient h \<or> DClient h' = Some (Address h))"

lemma host_kept_refl: "host_kept h h"
  by (simp add: host_kept_def same_machine_def)

lemma same_machine_trans: "same_machine h h' \<Longrightarrow> same_machine h' h'' \<Longrightarrow> same_machine h h''"
  by (simp add: same_machine_def)

lemma host_kept_trans: "host_kept h h' \<Longrightarrow> host_kept h' h'' \<Longrightarrow> host_kept h h''"
  by (auto simp: host_kept_def intro: same_machine_trans) (auto simp: same_machine_def)

lemma host_kept_sel:
  assumes "host_kept h h'"
  shows "Address h' = Address h" "HostnameOverride h' = HostnameOverride h" "SSHKey h' = SSHKey h" "node_SSHKeyPath h' = node_SSHKeyPath h"
    "IsControl h' = IsControl h" "IsEtcd h' = IsEtcd h" "IsWorker h' \<Longrightarrow> IsWorker h"
    "DClient h' = DClient h \<or> DClient h = None \<and> DClient h' = Some (Address h)"
  using assms by (auto simp: host_kept_def same_machine_def)

text \<open>From a state with \<open>J\<close> to one with \<open>I\<close>, whatever is returned.\<close>

definition moves :: "('w \<Rightarrow> bool) \<Rightarrow> ('w \<Rightarrow> bool) \<Rightarrow> ('w, 'a) io \<Rightarrow> bool" where
  "moves J I m \<longleftrightarrow> (\<forall>w. J w \<longrightarrow> I (snd (m w)))"

lemma moves_keeps: "keeps I m \<Longrightarrow> (\<And>w. J w \<Longrightarrow> I w) \<Longrightarrow> moves J I m"
  by (simp add: moves_def keeps_def)

lemma moves_bind: "keeps J m \<Longrightarrow> (\<And>w. J w \<Longrightarrow> I w) \<Longrightarrow> (\<And>x. moves J I (k x)) \<Longrightarrow> moves J I (bindIO m k)"
  unfolding moves_def keeps_def bindIO_def by (auto split: prod.splits outcome.splits)

lemma moves_then: "keeps J m \<Longrightarrow> (\<And>w. J w \<Longrightarrow> I w) \<Longrightarrow> moves J I k \<Longrightarrow> moves J I (thenIO m k)"
  unfolding thenIO_def by (rule moves_bind)

lemma moves_set: "moves J I m \<Longrightarrow> keeps I k \<Longrightarrow> moves J I (thenIO m k)"
  unfolding moves_def keeps_def thenIO_def bindIO_def by (auto split: prod.splits outcome.splits)

text \<open>The state has \<open>I\<close>, and the host \<open>r\<close> is not connected.\<close>

definition unconnected :: "hostref \<Rightarrow> (('d, 'k, 'e) world \<Rightarrow> bool) \<Rightarrow> ('d, 'k, 'e) world \<Rightarrow> bool" where
  "unconnected r I w \<longleftrightarrow> I w \<and> (r < length (hstore w) \<longrightarrow> DClient (hstore w ! r) = None)"

lemma unconnectedD: "unconnected r I w \<Longrightarrow> I w"
  by (simp add: unconnected_def)

text \<open>A host is connected only if it has no client.\<close>

lemma keeps_connecting:
  assumes "moves (unconnected r I) I m"
  shows "keeps I (bindIO (getHost r) (\<lambda>h. if DClient h \<noteq> None then retIO () else m))"
proof (rule keepsI)
  fix w
  assume "I w"
  with assms show "I (snd (bindIO (getHost r) (\<lambda>h. if DClient h \<noteq> None then retIO () else m) w))"
    by (auto simp: bindIO_def getHost_def retIO_def moves_def unconnected_def)
qed

locale store_frame = ext_frame I
  for I :: "('d, 'k, 'e) world \<Rightarrow> bool" +
  assumes file_free: "I w \<Longrightarrow> I (w\<lparr>files := f\<rparr>)"
    and host_set: "I w \<Longrightarrow> r < length (hstore w) \<Longrightarrow> host_kept (hstore w ! r) h \<Longrightarrow> I (w\<lparr>hstore := (hstore w)[r := h]\<rparr>)"
begin

lemma keeps_setHost: "(\<And>h. host_kept h (f h)) \<Longrightarrow> keeps I (setHost r f)"
  by (rule keepsI) (simp add: setHost_def host_set)

lemma keeps_fields [keeps_intros]:
  "keeps I (setHost r (\<lambda>h. h\<lparr>SavedKeyPhrase := p\<rparr>))" "keeps I (setHost r (\<lambda>h. h\<lparr>LocalConnPort := port\<rparr>))"
  "keeps I (setHost r (\<lambda>h. h\<lparr>IsWorker := False\<rparr>))"
  "keeps I (setHost r (\<lambda>h. h\<lparr>ToAddEtcdMember := b\<rparr>))" "keeps I (setHost r (\<lambda>h. h\<lparr>ExistingEtcdCluster := b\<rparr>))"
  "keeps I (setHost r (\<lambda>h. h\<lparr>ToDelTaints := ToDelTaints h @ ts\<rparr>))" "keeps I (setHost r (\<lambda>h. h\<lparr>ToAddTaints := ToAddTaints h @ ts\<rparr>))"
  "keeps I (setHost r (delOldLabels cur))"
  by (rule keeps_setHost, simp add: host_kept_def same_machine_def delOldLabels_def)+

lemma keeps_DeployAdminConfig [keeps_intros]: "keeps I (DeployAdminConfig env s path)"
proof -
  have "keeps I (writeFile env path s)" by (rule keepsI) (simp add: writeFile_def file_free)
  then show ?thesis unfolding DeployAdminConfig_def by (intro keeps_intros)
qed

lemma keeps_factory [keeps_intros]: "keeps I (runFactory env f r)"
  by (cases f) (simp_all add: runSSHFactory_def runLocalConnFactory_def runLocalHealthcheckFactory_def checkEncryptedKey_def,
    (intro keeps_intros)+)

lemma keeps_setClusterDefaults [keeps_intros]: "keeps I (setClusterDefaults api c)"
  unfolding setClusterDefaults_def setClusterKubernetesImageVersion_def orNil_def Let_def by (intro keeps_intros)

lemma keeps_etcdClient [keeps_intros]: "keeps I (getEtcdClient env r df cert key)" "keeps I (getEtcdDialer env df r)"
  unfolding getEtcdClient_def getEtcdDialer_def by (intro keeps_intros)+

lemma keeps_members [keeps_intros]:
  "keeps I (RemoveEtcdMember env r rs df cert key)" "keeps I (AddEtcdMember env r rs df cert key)"
proof -
  have "keeps I (removeMemberLoop env name df cert key rs mID)" for name mID
    by (induction rs arbitrary: mID) (auto simp: Let_def intro!: keeps_intros)
  then show "keeps I (RemoveEtcdMember env r rs df cert key)" unfolding RemoveEtcdMember_def by (intro keeps_intros)
  have "keeps I (addMemberLoop env url df cert key rs)" for url
    by (induction rs) (auto intro!: keeps_intros)
  then show "keeps I (AddEtcdMember env r rs df cert key)" unfolding AddEtcdMember_def by (intro keeps_intros)
qed

lemma keeps_reconcile_steps [keeps_intros]:
  "keeps I (syncLabels cur c)" "keeps I (newEtcdCert env c r crts)" "keeps I (dropTaint r)"
  unfolding syncLabels_def syncLabelsOf_def newEtcdCert_def RegenerateEtcdCertificate_def dropTaint_def Let_def
  by (intro keeps_intros)+

end

text \<open>
  What the steps before the planes do on the daemons: they ask and pull images, run containers of their own (the helpers), remove
  containers, and start etcd on hosts of \<open>R\<close>.
\<close>

definition helper_names :: "string list" where
  "helper_names = [CleanerContainerName, CertFetcherContainer, EtcdPortListenContainer, CPPortListenContainer, WorkerPortListenContainer]"

locale client_frame = store_frame I
  for I :: "('d, 'k, 'e) world \<Rightarrow> bool" +
  fixes env :: "('d, 'k, 'e) env" and R :: "hostref set"
  assumes host_new: "I w \<Longrightarrow> I (w\<lparr>hstore := hstore w @ [h]\<rparr>)"
    and asks: "keeps I (viaClient h (Info (dockerAPI env)))" "keeps I (viaClient h (UseLocalOrPull (dockerAPI env) a img prs))"
      "keeps I (viaClient h (WaitForContainer (dockerAPI env) n))"
    and helpers: "n \<in> set helper_names \<Longrightarrow> keeps I (viaClient h (DoRunContainer (dockerAPI env) cfg hcfg n a prs))"
      "n \<in> set helper_names \<Longrightarrow> keeps I (viaClient h (RemoveContainer (dockerAPI env) a n))"
      "keeps I (viaClient h (checkPorts (dockerAPI env) a ports adrs img prs))"
      "keeps I (viaClient h (runDeployer (dockerAPI env) a vars img prs))" "keeps I (viaClient h (fetchFile (dockerAPI env) a path img prs))"
    and removes: "proper_name n \<Longrightarrow> keeps I (viaClient h (DoRemoveContainer (dockerAPI env) n a))"
    and runs_etcd: "r \<in> R \<Longrightarrow> keeps I (runEtcd env svc ic prs r)"
begin

lemmas keeps_client_calls [keeps_intros] = asks helpers(3-5) removes

lemma keeps_cleaner [keeps_intros]: "keeps I (CleanUp env r paths img prs)"
proof -
  have "CleanerContainerName \<in> set helper_names" by (simp add: helper_names_def)
  from helpers(1,2)[OF this] show ?thesis
    unfolding CleanUp_def buildCleanerConfig_def prod.case by (intro keeps_intros)
qed

lemma keeps_removal [keeps_intros]: "proper_name n \<Longrightarrow> keeps I (removeContainerOf env r n)"
  unfolding removeContainerOf_def by (intro keeps_intros)

lemma keeps_newHost [keeps_intros]: "keeps I (newHost h)"
  by (rule keepsI) (simp add: newHost_def host_new)

lemma keeps_factory_unconnected: "keeps (unconnected r I) (runFactory env f r)"
proof -
  have phrase: "keeps (unconnected r I) (setHost r (\<lambda>h. h\<lparr>SavedKeyPhrase := p\<rparr>))" for p
  proof (rule keepsI)
    fix w
    assume w: "unconnected r I w"
    show "unconnected r I (snd (setHost r (\<lambda>h. h\<lparr>SavedKeyPhrase := p\<rparr>) w))"
      using w keepsD[OF keeps_fields(1) unconnectedD[OF w], of r p] by (auto simp: unconnected_def setHost_def)
  qed
  have ext: "keeps (unconnected r I) (onExt m)" for m :: "('e, 'x) io"
    by (rule keepsI) (auto simp: unconnected_def onExt_def ext_free split: prod.splits)
  show ?thesis
    by (cases f) (simp_all add: runSSHFactory_def runLocalConnFactory_def runLocalHealthcheckFactory_def checkEncryptedKey_def,
      (intro keeps_intros phrase ext)+)
qed

lemma keeps_checkDockerVersion [keeps_intros]: "keeps I (checkDockerVersion env r)"
  unfolding checkDockerVersion_def by (intro keeps_intros)

lemma keeps_TunnelUp [keeps_intros]: "keeps I (TunnelUp env r df)"
proof -
  have ext: "keeps (unconnected r I) (onExt m)" for m :: "('e, 'x) io"
    by (rule keepsI) (auto simp: unconnected_def onExt_def ext_free split: prod.splits)
  have set: "moves (unconnected r I) I (setHost r (\<lambda>h. h\<lparr>DClient := Some (Address h)\<rparr>))"
    by (auto simp: moves_def unconnected_def setHost_def intro!: host_set) (simp add: host_kept_def same_machine_def)
  show ?thesis
    unfolding TunnelUp_def newHTTPClient_def
    by (rule keeps_connecting)
       (intro moves_bind moves_then moves_set set keeps_wrap keeps_factory_unconnected ext keeps_checkDockerVersion; erule unconnectedD)
qed

lemma keeps_tunnelAll [keeps_intros]: "keeps I (tunnelAll env df kind rs)"
  unfolding tunnelAll_def by (intro keeps_intros)

lemma keeps_InvertIndexHosts [keeps_intros]: "keeps I (InvertIndexHosts c)"
  unfolding InvertIndexHosts_def invertNode_def invertRole_def by (intro keeps_intros)

lemma keeps_ParseCluster [keeps_intros]: "keeps I (ParseCluster env cfg p d f g)"
proof -
  have "keeps I (validateRoles i rs)" for i rs
    by (induction rs) (auto intro!: keeps_intros)
  then have "keeps I (validateNodes i ns)" for i ns
    by (induction ns arbitrary: i) (auto intro!: keeps_intros)
  then have "keeps I (ValidateCluster c)" for c
    unfolding ValidateCluster_def validateHostsOptions_def validateAuthOptions_def validateNetworkOptions_def validateIngressOptions_def
      validateServicesOptions_def Let_def by (intro keeps_intros)
  then show ?thesis unfolding ParseCluster_def Let_def by (intro keeps_intros)
qed

lemma keeps_CheckClusterPorts [keeps_intros]: "keeps I (CheckClusterPorts env c cur)"
proof -
  let ?ns = "[EtcdPortListenContainer, CPPortListenContainer, WorkerPortListenContainer]"
  have names: "n \<in> set helper_names" "proper_name n" if "n \<in> set ?ns" for n
  proof -
    have "list_all (\<lambda>n. n \<in> set helper_names \<and> proper_name n) ?ns" by code_simp
    with that show "n \<in> set helper_names" "proper_name n" by (simp_all only: list_all_iff)
  qed
  have deploy: "keeps I (deployListenerOnPlane env c ports rs n)" if "n \<in> set ?ns" for ports rs n
    unfolding deployListenerOnPlane_def deployListener_def listenerConfig_def prod.case
    by (intro keeps_intros helpers(1) names(1)[OF that])
  have remove: "keeps I (removeListenerFromPlane env rs n)" if "n \<in> set ?ns" for rs n
    unfolding removeListenerFromPlane_def by (intro keeps_intros names(2)[OF that])
  show ?thesis
    unfolding CheckClusterPorts_def deployTCPPortListeners_def runServicePortChecks_def checkPlaneTCPPortsFromHost_def checkKubeAPIPort_def
      removeTCPPortListeners_def Let_def
    by (intro keeps_intros deploy remove) simp_all
qed

lemma keeps_DeployCertificates [keeps_intros]:
  "keeps I (DeployCertificatesOnPlaneHost env r ehs crts img prs)" "keeps I (DeployCertificatesOnHost env ehs r crts img path prs)"
  unfolding DeployCertificatesOnPlaneHost_def DeployCertificatesOnHost_def doRunDeployer_def by (intro keeps_intros)+

lemma keeps_FetchCertificates [keeps_intros]: "keeps I (FetchCertificatesFromHost env ehs r img path prs)"
proof -
  have "keeps I (fetchCerts env r img prs names certs)" for names certs
  proof (induction names arbitrary: certs)
    case (Cons a names)
    then show ?case
      by (cases a) (auto simp: fetchFileFromHost_def parseCertificate_def intro!: keeps_bind keeps_try keeps_catch keeps_intros)
  qed (simp add: keeps_ret)
  moreover have "keeps I (viaClient h (RemoveContainer (dockerAPI env) a CertFetcherContainer))" for h a
    by (rule helpers(2)) (simp add: helper_names_def)
  ultimately show ?thesis unfolding FetchCertificatesFromHost_def by (intro keeps_intros)
qed

lemma keeps_generateCerts [keeps_intros]: "keeps I (StartCertificatesGeneration env cps ets dn path ip)"
  unfolding StartCertificatesGeneration_def generateCerts_def addSigned_def addAdmin_def addEtcd_def Let_def by (intro keeps_intros)

lemma keeps_SetUpAuthentication [keeps_intros]: "keeps I (SetUpAuthentication env c cur)"
  unfolding SetUpAuthentication_def by (intro keeps_intros)

lemma keeps_removals [keeps_intros]:
  "keeps I (RemoveWorkerPlane env rs b)" "keeps I (RemoveEtcdPlane env rs b)" "keeps I (RemoveControlPlane env rs b)"
proof -
  show "keeps I (RemoveWorkerPlane env rs b)" by (induction rs) (auto simp: removals intro!: keeps_intros)
  show "keeps I (RemoveControlPlane env rs b)" by (induction rs) (auto simp: removals intro!: keeps_intros)
  show "keeps I (RemoveEtcdPlane env rs b)" unfolding RemoveEtcdPlane_def removeEtcdHost_def removals by (intro keeps_intros) simp_all
qed

lemma keeps_reconcileHost [keeps_intros]: "keeps I (reconcileHost env r b1 b2 img df prs)"
  unfolding reconcileHost_def CleanUpWorkerHost_def CleanUpEtcdHost_def CleanUpControlHost_def by (intro keeps_intros)

lemma keeps_ReloadEtcdCluster [keeps_intros]:
  assumes "set rs \<subseteq> R"
  shows "keeps I (ReloadEtcdCluster env rs svc df cert key prs)"
proof -
  have ready: "keeps I (bindIO (readyEtcd rs) k)" if "\<And>qs. set qs \<subseteq> set rs \<Longrightarrow> keeps I (k qs)" for k :: "hostref list \<Rightarrow> ('d, 'k, 'e, unit) wio"
    using that
  proof (induction rs arbitrary: k)
    case (Cons r rs)
    have "keeps I (bindIO (readyEtcd rs) (\<lambda>qs. k (r # qs)))" "keeps I (bindIO (readyEtcd rs) k)"
      by (rule Cons.IH, rule Cons.prems, auto)+
    moreover have "bindIO (readyEtcd (r # rs)) k = bindIO (getHost r) (\<lambda>h. if \<not> ToAddEtcdMember h
        then thenIO (setHost r (\<lambda>h. h\<lparr>ExistingEtcdCluster := True\<rparr>)) (bindIO (readyEtcd rs) (\<lambda>qs. k (r # qs)))
        else bindIO (readyEtcd rs) k)"
      by (simp add: thenIO_def bindIO_assoc if_distrib[of "\<lambda>m. bindIO m k"] cong: if_cong)
    ultimately show ?case by (auto intro!: keeps_bind[OF keeps_getHost] keeps_if keeps_then keeps_fields)
  qed simp
  have "keeps I (healthTries env df r cert key n)" for r n
    by (induction n) (auto simp: getHealthEtcd_def intro!: keeps_intros)
  then have healthy: "keeps I (anyHealthy env df cert key qs)" for qs
    by (induction qs) (auto simp: isEtcdHealthy_def intro!: keeps_intros)
  show ?thesis unfolding ReloadEtcdCluster_def by (rule ready) (intro keeps_intros runs_etcd healthy; use assms in auto)
qed

lemma keeps_SetUpHosts [keeps_intros]: "keeps I (SetUpHosts env c)"
  unfolding SetUpHosts_def by (intro keeps_intros)

lemma keeps_health [keeps_intros]: "keeps I (runHealthcheck env r port tls sn df)"
  unfolding runHealthcheck_def getHealthCheckHTTPClient_def getHealthz_def Let_def by (intro keeps_intros)

lemma keeps_ClusterRemove_steps [keeps_intros]: "keeps I (cleanUpHosts env cps ws es img prs)"
  unfolding cleanUpHosts_def CleanUpAll_def by (intro keeps_intros)

lemma keeps_PrePullK8sImages [keeps_intros]: "keeps I (PrePullK8sImages env c)"
  unfolding PrePullK8sImages_def pullTask_def by (intro keeps_intros)

end

section \<open>The order in which control hosts leave\<close>

lemma set_moveLoop: "i + n = length xs \<Longrightarrow> set (moveLoop self i n xs) = set xs"
proof (induction n arbitrary: i xs)
  case (Suc n)
  let ?ys = "take i xs @ drop (Suc i) xs @ [xs ! i]"
  have "set ?ys = set (take i xs @ xs ! i # drop (Suc i) xs)" by auto
  also have "take i xs @ xs ! i # drop (Suc i) xs = xs" using Suc.prems by (simp add: id_take_nth_drop[symmetric])
  finally have "set ?ys = set xs" .
  with Suc.IH[of "Suc i" ?ys] Suc.IH[of "Suc i" xs] Suc.prems show ?case by simp
qed simp

section \<open>Reconciliation\<close>

text \<open>
  Between two clusters reconciliation reads the version of the API server and deletes the nodes of hosts that leave a plane
  (all of them in \<open>D\<close>); an invariant that tolerates both is kept by it, even one that speaks of the cluster's nodes.
\<close>

locale node_frame = client_frame I env R
  for I :: "('d, 'k, 'e) world \<Rightarrow> bool" and env R +
  fixes D :: "hostref set" and cur c :: Cluster
  assumes members: "set (EtcdHosts c) \<subseteq> R"
    and version: "keeps I (GetK8sVersion env path)"
    and deletes: "r \<in> D \<Longrightarrow> keeps I (DeleteNode env r cl b)"
    and leaving: "I w \<Longrightarrow> plane \<in> {EtcdHosts, ControlPlaneHosts, WorkerHosts} \<Longrightarrow>
      set (GetToDeleteHosts (hstore w) (plane cur) (plane c)) \<subseteq> D"
begin

lemma keeps_rebuildConfig [keeps_intros]: "keeps I (rebuildLocalAdminConfig env k)"
  by (rule keeps_rebuild) (intro version keeps_DeployAdminConfig)+

lemma keeps_leaving [keeps_intros]:
  "r \<in> D \<Longrightarrow> keeps I (deleteEtcd env k l cl cert key r)" "r \<in> D \<Longrightarrow> keeps I (deleteWorker env k cl r)"
  "r \<in> D \<Longrightarrow> keeps I (deleteControl env k l r)"
  "set (EtcdHosts l) \<subseteq> R \<Longrightarrow> keeps I (addEtcdHost env k l crts cert key r)"
  unfolding deleteEtcd_def deleteWorker_def deleteControl_def addEtcdHost_def reconcileHostOf_def warnOnly_def
  by (intro keeps_intros deletes; assumption)+

lemma keeps_reconcileEtcd: "keeps I (reconcileEtcd env cur c cl)"
  unfolding reconcileEtcd_def by (intro keeps_bind_get keeps_intros) (use leaving[of _ EtcdHosts] members in auto)

lemma keeps_reconcileWorker: "keeps I (reconcileWorker env (cur\<lparr>Certificates := m\<rparr>) (c\<lparr>Certificates := m\<rparr>) cl)"
  unfolding reconcileWorker_def by (intro keeps_bind_get keeps_intros) (use leaving[of _ WorkerHosts] in auto)

lemma keeps_reconcileControl: "keeps I (reconcileControl env (cur\<lparr>Certificates := m\<rparr>) (c\<lparr>Certificates := m\<rparr>))"
  unfolding reconcileControl_def Let_def
  by (intro keeps_bind_get keeps_intros) (use leaving[of _ ControlPlaneHosts] in \<open>auto simp: set_moveLoop\<close>)

lemma keeps_reconciliation: "keeps I (ReconcileCluster env c (Some cur))"
  unfolding ReconcileCluster_def option.case Let_def
  by (intro keeps_intros keeps_reconcileEtcd keeps_reconcileWorker keeps_reconcileControl)

end

section \<open>The steps before the planes\<close>

locale up_frame = client_frame I env R + api_frame I env
  for I :: "('d, 'k, 'e) world \<Rightarrow> bool" and env R
begin

lemma keeps_rebuildConfig [keeps_intros]: "keeps I (rebuildLocalAdminConfig env k)"
  by (rule keeps_rebuild) (intro keeps_intros)+

lemma keeps_GetClusterState [keeps_intros]: "keeps I (GetClusterState env c)"
  unfolding GetClusterState_def fetchedCluster_def regenerateAPICertificate_def Let_def by (intro keeps_intros)

lemma keeps_ReconcileCluster [keeps_intros]:
  assumes "set (EtcdHosts c) \<subseteq> R"
  shows "keeps I (ReconcileCluster env c cur)"
proof (cases cur)
  case None
  then show ?thesis by (simp add: ReconcileCluster_def keeps_ret)
next
  case (Some k)
  have "node_frame I env R UNIV k c" by unfold_locales (use assms in \<open>auto intro: keeps_intros\<close>)
  then show ?thesis unfolding Some by (rule node_frame.keeps_reconciliation)
qed

end

section \<open>Whatever the daemons do\<close>

locale daemon_frame = store_frame I
  for I :: "('d, 'k, 'e) world \<Rightarrow> bool" +
  assumes daemon_free: "I w \<Longrightarrow> I (w\<lparr>daemons := (daemons w)(a := d)\<rparr>)"
    and host_append: "I w \<Longrightarrow> I (w\<lparr>hstore := hstore w @ [h]\<rparr>)"
begin

lemma keeps_viaClient [keeps_intros]: "keeps I (viaClient h m)"
  unfolding viaClient_def
  by (intro keeps_intros keepsI) (auto simp: onDaemon_def daemon_free split: prod.splits)

end

sublocale daemon_frame \<subseteq> client?: client_frame I env UNIV for env
  by unfold_locales (auto simp: runEtcd_def intro: host_append keeps_intros)

section \<open>All operations but saving the certificates\<close>

locale saved_frame = daemon_frame I + api_frame I env
  for I :: "('d, 'k, 'e) world \<Rightarrow> bool" and env

sublocale saved_frame \<subseteq> up?: up_frame I env UNIV
  by unfold_locales

sublocale saved_frame \<subseteq> nodes: node_frame I env UNIV UNIV cur c for cur c
  by unfold_locales (auto intro: keeps_intros)

context saved_frame
begin

lemmas keeps_reconciliation [keeps_intros] = keeps_ReconcileCluster[OF subset_UNIV]

lemma keeps_planes [keeps_intros]: "keeps I (DeployControlPlane env c)" "keeps I (DeployWorkerPlane env c)"
  unfolding DeployControlPlane_def RunEtcdPlane_def runEtcd_def RunControlPlane_def doDeployControlHost_def runSidekick_def runKubeAPI_def
    runKubeController_def runScheduler_def removals removeContainerOf_def DeployWorkerPlane_def RunWorkerPlane_def doDeployWorkerPlane_def
    addEtcdTaint_def runNginxProxy_def runKubelet_def runKubeproxy_def Let_def
  by (intro keeps_intros)+

end

section \<open>All operations\<close>

locale host_frame = daemon_frame I + kube_frame I
  for I :: "('d, 'k, 'e) world \<Rightarrow> bool"

sublocale host_frame \<subseteq> saved?: saved_frame I env for env
  by unfold_locales

end
