(* ===== verification/Docker_Frames.thy ===== *)
theory Docker_Frames
  imports Cluster_Ops
begin

text \<open>
  What the operations leave alone on one daemon, whatever their outcome: those that work with the containers of one name, the check of
  the ports, and the containers that deploy and fetch certificates.
\<close>

section \<open>Containers of one name\<close>

text \<open>On one daemon: the containers but those of one name (and of the name it is set aside under).\<close>

definition others :: "('d \<Rightarrow> dview) \<Rightarrow> string \<Rightarrow> dview \<Rightarrow> 'd \<Rightarrow> bool" where
  "others view n v d \<longleftrightarrow> only_named n v (view d)"

text \<open>A triple with the same condition for a result and an error is kept.\<close>

lemma vtriple_left:
  assumes "vtriple view (view d) m (\<lambda>_. P) (\<lambda>_. P)"
  shows "P (view (snd (m d)))"
proof -
  obtain res d' where "m d = (res, d')" by fastforce
  with assms show ?thesis by (cases res) (auto simp: vtriple_def dest!: spec[of _ d])
qed

lemma keeps_vtriple:
  assumes "\<And>v. P v \<Longrightarrow> vtriple view v m (\<lambda>_. P) (\<lambda>_. P)"
  shows "keeps (\<lambda>d. P (view d)) m"
  using vtriple_left[OF assms] by (auto intro: keepsI)

lemma keeps_triple:
  assumes "\<And>v. vtriple view v m (\<lambda>_ v'. only_named n v v') (\<lambda>_ v'. only_named n v v')"
  shows "keeps (others view n v) m"
  unfolding others_def
  by (rule keeps_vtriple, rule vtriple_conseq[OF assms]) (auto simp: only_named_def)

lemma only_named_simps [simp]:
  "only_named n v v" "only_named n v (set_cont n x v)" "conts v' = conts v \<Longrightarrow> only_named n v v'"
  "\<forall>m. m \<noteq> n \<longrightarrow> conts v' m = conts v m \<Longrightarrow> only_named n v v'"
  by (simp_all add: only_named_def)

lemma others_calls:
  assumes "docker_laws api view" "proper_name n"
  shows "keeps (others view n v) (DoRemoveContainer api n h)" "keeps (others view n v) (DoRunContainer api cfg hcfg n h prs)"
    "keeps (others view n v) (RemoveContainer api h n)" "keeps (others view n v) (CreateContiner api h n cfg hcfg)"
proof -
  show "keeps (others view n v) (DoRemoveContainer api n h)"
    by (rule keeps_triple, rule vtriple_conseq[OF do_remove_triple[OF assms]]) auto
  show "keeps (others view n v) (DoRunContainer api cfg hcfg n h prs)"
    by (rule keeps_triple, rule vtriple_conseq[OF run_triple[OF assms, of False]]) (auto simp: run_post_def)
  show "keeps (others view n v) (RemoveContainer api h n)"
    by (rule keeps_triple, rule vtriple_conseq[OF remove_triple[OF assms]]) auto
  show "keeps (others view n v) (CreateContiner api h n cfg hcfg)"
    unfolding CreateContiner_def
    by (rule keeps_triple, rule vtriple_wrap, rule vtriple_conseq[OF create_triple[OF assms]]) (auto elim!: create_relE)
qed

lemma others_asks:
  assumes "docker_laws api view"
  shows "keeps (others view n v) (WaitForContainer api m)" "keeps (others view n v) (ReadContainerLogs api m)"
    "keeps (others view n v) (Info api)" "keeps (others view n v) (UseLocalOrPull api h img prs)"
    "keeps (others view n v) (IsContainerRunning api h m all)" "keeps (others view n v) (ReadFileFromContainer api h m path)"
proof -
  show "keeps (others view n v) (WaitForContainer api m)"
    by (rule keeps_triple, rule vtriple_conseq[OF wait_triple[OF assms]]) auto
  show "keeps (others view n v) (UseLocalOrPull api h img prs)"
    by (rule keeps_triple, rule vtriple_conseq[OF use_or_pull_triple[OF assms]]) auto
  show "keeps (others view n v) (IsContainerRunning api h m all)"
    by (rule keeps_triple, rule vtriple_conseq[OF running_triple[OF assms]]) auto
  have reads: "vtriple view v (ContainerLogs api m) (\<lambda>_ v'. v' = v) (\<lambda>_ v'. v' = v)"
    "vtriple view v (Info api) (\<lambda>_ v'. v' = v) (\<lambda>_ v'. v' = v)"
    "vtriple view v (CopyFromContainer api m path) (\<lambda>_ v'. v' = v) (\<lambda>_ v'. v' = v)" for v
    using assms by (simp_all add: docker_laws_def)
  show "keeps (others view n v) (ReadContainerLogs api m)"
    unfolding ReadContainerLogs_def by (rule keeps_triple, rule vtriple_conseq[OF reads(1)]) auto
  show "keeps (others view n v) (Info api)"
    by (rule keeps_triple, rule vtriple_conseq[OF reads(2)]) auto
  have "keeps (others view n v) (CopyFromContainer api m path)"
    by (rule keeps_triple, rule vtriple_conseq[OF reads(3)]) auto
  then have copy: "keeps (others view n v) (bindIO (wrapIO s (CopyFromContainer api m path)) k)"
    if "\<And>x. keeps (others view n v) (k x)" for s and k :: "_ \<Rightarrow> ('a, string) io"
    using that by (intro keeps_bind keeps_wrap)
  show "keeps (others view n v) (ReadFileFromContainer api h m path)"
    unfolding ReadFileFromContainer_def
    by (rule copy) (auto intro: keeps_fail keeps_ret split: list.splits sum.splits)
qed

lemma others_checkPorts:
  assumes "docker_laws api view"
  shows "keeps (others view PortCheckContainer v) (checkPorts api address portList hosts img prs)"
proof -
  have p: "proper_name PortCheckContainer" by code_simp
  have logs: "keeps I (getPortCheckLogs l)" for I :: "'a \<Rightarrow> bool" and l
    by (simp add: keeps_def getPortCheckLogs_def)
  show ?thesis
    unfolding checkPorts_def portCheckConfig_def prod.case
    by (intro keeps_intros others_calls[OF assms p] others_asks[OF assms] logs)
qed

section \<open>Containers that carry certificates\<close>

lemma others_fetchFile:
  assumes "docker_laws api view"
  shows "keeps (others view CertFetcherContainer v) (fetchFile api address path img prs)"
proof -
  have p: "proper_name CertFetcherContainer" by code_simp
  show ?thesis
    unfolding fetchFile_def by (intro keeps_intros others_calls[OF assms p] others_asks[OF assms])
qed

text \<open>The container of the name \<open>n\<close> has the identifier \<open>i\<close>, or no container has it.\<close>

definition holds_id :: "string \<Rightarrow> string \<Rightarrow> dview \<Rightarrow> dview \<Rightarrow> bool" where
  "holds_id n i v v' \<longleftrightarrow> only_named n v v' \<and> (\<exists>c. conts v' n = Some c \<and> c_id c = i)"

lemma keeps_pollLoop:
  assumes "keeps J m" "\<And>w. J w \<Longrightarrow> I w" "\<And>w. J w \<Longrightarrow> I (snd (k w))" "J w"
  shows "I (snd (pollLoop m k w))"
proof (cases "while_option (\<lambda>(r, w). r = Ret True) (\<lambda>(r, w). m w) (m w)")
  case None
  with assms(2,4) show ?thesis by (simp add: pollLoop_def)
next
  case (Some s)
  have "J (snd s)"
    by (rule while_option_rule[OF _ Some, of "\<lambda>s. J (snd s)"]) (use assms(1,4) in \<open>auto simp: keeps_def\<close>)
  with Some assms(2,3) show ?thesis by (cases s; cases "fst s") (auto simp: pollLoop_def)
qed

lemma others_deployer:
  assumes "docker_laws api view"
  shows "keeps (others view CrtDownloaderContainer v) (runDeployer api address vars img prs)"
proof -
  let ?n = CrtDownloaderContainer
  let ?I = "others view ?n v" and ?J = "\<lambda>i d. holds_id ?n i v (view d)"
  have p: "proper_name ?n" by code_simp
  have start: "keeps (?J i) (wrapIO s (ContainerStart api i))" for i s
  proof (rule keeps_vtriple[where P = "holds_id ?n i v" and view = view])
    fix v'
    assume h: "holds_id ?n i v v'"
    then obtain c where c: "conts v' ?n = Some c" "c_id c = i" by (auto simp: holds_id_def)
    show "vtriple view v' (wrapIO s (ContainerStart api i)) (\<lambda>_. holds_id ?n i v) (\<lambda>_. holds_id ?n i v)"
      by (rule vtriple_wrap, rule vtriple_conseq[OF start_id_triple[OF assms c(1), unfolded c(2)]])
         (use h c(2) in \<open>auto simp: holds_id_def only_named_def\<close>)
  qed
  have poll: "keeps (?J i) (IsContainerRunning api address ?n False)" for i
    by (rule keeps_vtriple[where view = view], rule vtriple_conseq[OF running_triple[OF assms]]) auto
  have remove: "?I (snd (wrapIO s (ContainerRemove api i) d))" if "?J i d" for s i d
  proof -
    from that obtain c where c: "conts (view d) ?n = Some c" "c_id c = i" by (auto simp: holds_id_def)
    have "vtriple view (view d) (wrapIO s (ContainerRemove api i)) (\<lambda>_ v'. only_named ?n v v') (\<lambda>_ v'. only_named ?n v v')"
      by (rule vtriple_wrap, rule vtriple_conseq[OF remove_id_triple[OF assms c(1), unfolded c(2)]])
         (use that in \<open>auto simp: holds_id_def only_named_def\<close>)
    from vtriple_left[OF this] show ?thesis by (simp add: others_def)
  qed
  have rest: "?I (snd (thenIO (wrapIO s (ContainerStart api i)) (pollLoop (IsContainerRunning api address ?n False)
      (wrapIO s' (ContainerRemove api i))) d))" if J: "?J i d" for i d s s'
  proof -
    obtain res d' where d': "wrapIO s (ContainerStart api i) d = (res, d')" by fastforce
    from keepsD[OF start J d'] have J': "?J i d'" .
    have "?I (snd (pollLoop (IsContainerRunning api address ?n False) (wrapIO s' (ContainerRemove api i)) d'))"
      by (rule keeps_pollLoop[where J = "?J i" and I = ?I, OF poll _ remove J']) (simp_all add: holds_id_def others_def)
    moreover have "?I d'" using J' by (simp add: holds_id_def others_def)
    ultimately show ?thesis unfolding thenIO_def bindIO_def d' by (cases res) simp_all
  qed
  have create: "keeps ?I (bindIO (wrapIO s (ContainerCreate api cfg hcfg ?n)) (\<lambda>i. thenIO (wrapIO s1 (ContainerStart api i))
      (pollLoop (IsContainerRunning api address ?n False) (wrapIO s2 (ContainerRemove api i)))))" for s s1 s2 cfg hcfg
  proof (rule keepsI)
    fix d
    assume I: "?I d"
    have t: "vtriple view (view d) (wrapIO s (ContainerCreate api cfg hcfg ?n)) (\<lambda>i v'. holds_id ?n i v v') (\<lambda>_ v'. only_named ?n v v')"
      by (rule vtriple_wrap, rule vtriple_conseq[OF create_triple[OF assms p]])
         (use I in \<open>auto simp: others_def holds_id_def only_named_def elim!: create_relE\<close>)
    obtain res d' where d': "wrapIO s (ContainerCreate api cfg hcfg ?n) d = (res, d')" by fastforce
    note post = vtriple_Ret[OF t, of _ d'] vtriple_Fail[OF t, of _ d'] vtriple_no_panic[OF t, of _ d']
    show "?I (snd (bindIO (wrapIO s (ContainerCreate api cfg hcfg ?n)) (\<lambda>i. thenIO (wrapIO s1 (ContainerStart api i))
        (pollLoop (IsContainerRunning api address ?n False) (wrapIO s2 (ContainerRemove api i)))) d))"
      using post d' rest unfolding bindIO_def d' by (cases res) (auto simp: others_def)
  qed
  show ?thesis
    unfolding runDeployer_def by (intro keeps_bind keeps_then keeps_if keeps_ret others_calls[OF assms p] others_asks[OF assms] create)
qed

end
