(* ===== verification/Service_Frames.thy ===== *)
theory Service_Frames
  imports World_Frames Docker_Frames
begin

text \<open>
  Which services the steps of a command may start.  The locale \<open>docker_server\<close> is the contract of the Docker daemons; a state in which the
  hosts are those they were and no service has been started but those of a set \<open>E\<close> is kept by every step before the planes, and by the
  planes of a cluster whose hosts ask for no more than \<open>E\<close>, whatever is returned.
\<close>

section \<open>Hosts stay what they are\<close>

definition linked :: "Host list \<Rightarrow> ('d, 'k, 'e) world \<Rightarrow> bool" where
  "linked hs w \<longleftrightarrow> length hs \<le> length (hstore w) \<and> (\<forall>r < length hs. host_kept (hs ! r) (hstore w ! r))"

lemma linked_refl: "linked (hstore w) w"
  by (simp add: linked_def host_kept_refl)

lemma linked_trans: "linked hs w \<Longrightarrow> linked (hstore w) w' \<Longrightarrow> linked hs w'"
  by (auto simp: linked_def intro: host_kept_trans)

interpretation linked: host_frame "linked hs" for hs
proof
  show "linked hs (w\<lparr>hstore := hstore w @ [h]\<rparr>)" if "linked hs w" for w :: "('a, 'b, 'c) world" and h
    using that by (auto simp: linked_def nth_append)
  show "linked hs (w\<lparr>hstore := (hstore w)[r := h]\<rparr>)" if "linked hs w" "r < length (hstore w)" "host_kept (hstore w ! r) h"
    for w :: "('a, 'b, 'c) world" and r h
    using that by (auto simp: linked_def nth_list_update intro: host_kept_trans)
qed (simp_all add: linked_def)

interpretation quiet: kube_frame "\<lambda>w. hstore w = hs \<and> daemons w = ds" for hs ds
  by unfold_locales simp_all

section \<open>Services on one daemon\<close>

definition service_names :: "string list" where
  "service_names = [EtcdContainerName, KubeAPIContainerName, KubeControllerContainerName, SchedulerContainerName, KubeletContainerName,
     KubeproxyContainerName, NginxProxyContainerName]"

text \<open>No service has been started since \<open>v\<close> but those of \<open>N\<close>.\<close>

definition calm :: "string set \<Rightarrow> dview \<Rightarrow> dview \<Rightarrow> bool" where
  "calm N v v' \<longleftrightarrow> (\<forall>n \<in> set service_names. n \<notin> N \<longrightarrow> is_up (conts v' n) \<longrightarrow> is_up (conts v n))"

lemma calm_others:
  assumes "\<And>v. keeps (others view n v) m" "\<forall>k \<in> set service_names. k \<notin> N \<longrightarrow> k \<noteq> n \<and> k \<noteq> old_name n"
  shows "keeps (\<lambda>d. calm N v (view d)) m"
proof (rule keepsI)
  fix d
  assume c: "calm N v (view d)"
  have "others view n (view d) (snd (m d))"
    using keepsD[OF assms(1), of "view d" d "fst (m d)" "snd (m d)"] by (simp add: others_def)
  with c assms(2) show "calm N v (view (snd (m d)))" by (simp add: calm_def others_def only_named_def)
qed

text \<open>What an operation that touches one name may start: nothing, if the name is that of a helper, or the service of that name.\<close>

lemma service_apart: "\<forall>k \<in> set service_names. \<forall>n \<in> set service_names. k \<noteq> old_name n"
  unfolding list_all_iff[symmetric] by code_simp

lemma helper_apart:
  "\<forall>k \<in> set service_names. \<forall>n \<in> set (SidekickContainerName # CrtDownloaderContainer # PortCheckContainer # helper_names). k \<noteq> n \<and> k \<noteq> old_name n"
  unfolding list_all_iff[symmetric] by code_simp

lemma helper_proper: "\<forall>n \<in> set (SidekickContainerName # CrtDownloaderContainer # PortCheckContainer # helper_names). proper_name n"
  unfolding list_all_iff[symmetric] by code_simp

lemma calm_remove:
  assumes "docker_laws api view" "proper_name n"
  shows "keeps (\<lambda>d. calm N v (view d)) (DoRemoveContainer api n h)"
proof -
  have "vtriple view v (DoRemoveContainer api n h) (\<lambda>_ v'. calm {} v v') (\<lambda>_ v'. calm {} v v')" for v
    unfolding DoRemoveContainer_def
  proof (rule vtriple_try[OF inspect_triple[OF assms]])
    show "vtriple view v1 (if ekind e = EDockerNotFound then retIO () else failIO e) (\<lambda>_. calm {} v) (\<lambda>_. calm {} v)"
      if "v1 = v \<and> (ekind e = EDockerNotFound \<longrightarrow> conts v n = None)" for e v1
      using that by (auto intro!: vtriple_ret vtriple_fail simp: calm_def)
    show "vtriple view v1 (thenIO (StopContainer api h n) (RemoveContainer api h n)) (\<lambda>_. calm {} v) (\<lambda>_. calm {} v)"
      if "v1 = v \<and> (\<exists>c. conts v n = Some c \<and> ID j = c_id c \<and> json_Image j = c_image c \<and> json_Cmd j = c_cmd c \<and> (Running j \<longrightarrow> c_up c))" for j v1
    proof (rule vtriple_thenE[OF stop_triple[OF assms]])
      fix v2 :: dview
      assume "\<exists>c. conts v1 n = Some c \<and> v2 = set_cont n (Some (c\<lparr>c_up := False\<rparr>)) v1"
      then have "calm {} v v2" using that by (auto simp: calm_def is_up_def split: if_splits)
      then show "vtriple view v2 (RemoveContainer api h n) (\<lambda>_. calm {} v) (\<lambda>_. calm {} v)"
        by (intro vtriple_conseq[OF remove_triple[OF assms]]) (auto simp: calm_def is_up_def split: if_splits)
    qed (use that in \<open>auto simp: calm_def is_up_def split: if_splits\<close>)
  qed
  from vtriple_left[OF this] show ?thesis by (fastforce intro: keepsI simp: calm_def)
qed

section \<open>Services on all daemons\<close>

text \<open>The hosts are still \<open>hs\<close>, and the services that have been started are among \<open>E\<close>.\<close>

definition only_started :: "('d \<Rightarrow> dview) \<Rightarrow> Host list \<Rightarrow> (string \<times> string) set \<Rightarrow> ('d, 'k, 'e) world \<Rightarrow> bool" where
  "only_started view hs E w \<longleftrightarrow> linked hs w \<and> (\<forall>a. \<forall>n \<in> set service_names. started view w a n \<longrightarrow> (a, n) \<in> E)"

text \<open>A host of \<open>hs\<close> that is not yet connected, at whose address the service \<open>n\<close> may be started.\<close>

definition may_start :: "Host list \<Rightarrow> (string \<times> string) set \<Rightarrow> string \<Rightarrow> hostref set" where
  "may_start hs E n = {r. r < length hs \<and> DClient (hs ! r) = None \<and> (Address (hs ! r), n) \<in> E}"

lemma started_is_up: "started view w a n \<longleftrightarrow> is_up (conts (view (daemons w a)) n)"
  by (simp add: started_def is_up_def)

lemma only_started_client:
  assumes "\<And>v. keeps (\<lambda>d. calm N v (view d)) m" "\<And>a n. DClient h = Some a \<Longrightarrow> n \<in> N \<Longrightarrow> (a, n) \<in> E"
  shows "keeps (only_started view hs E) (viaClient h m)"
proof (cases "DClient h")
  case None
  then show ?thesis by (simp add: viaClient_def keeps_panic)
next
  case (Some a)
  show ?thesis
  proof (rule keepsI)
    fix w :: "('a, 'c, 'd) world"
    assume I: "only_started view hs E w"
    obtain res d where d: "m (daemons w a) = (res, d)" by fastforce
    from keepsD[OF assms(1) _ d, of "view (daemons w a)"] have "calm N (view (daemons w a)) (view d)" by (simp add: calm_def)
    with I assms(2)[OF Some] show "only_started view hs E (snd (viaClient h m w))"
      by (auto simp: viaClient_def Some onDaemon_def d only_started_def started_is_up calm_def linked_def)
  qed
qed

lemma only_started_getHost:
  fixes k :: "Host \<Rightarrow> ('d, 'k, 'e, 'x) wio"
  assumes "r < length hs" "\<And>h. host_kept (hs ! r) h \<Longrightarrow> keeps (only_started view hs E) (k h)"
  shows "keeps (only_started view hs E) (bindIO (getHost r) k)"
proof (rule keepsI)
  fix w :: "('d, 'k, 'e) world"
  assume I: "only_started view hs E w"
  then have "r < length (hstore w)" "host_kept (hs ! r) (hstore w ! r)" using assms(1) by (auto simp: only_started_def linked_def)
  with I assms(2) show "only_started view hs E (snd (bindIO (getHost r) k w))" by (simp add: bindIO_def getHost_def keeps_def)
qed

lemma host_client: "host_kept h0 h \<Longrightarrow> DClient h0 = None \<Longrightarrow> DClient h = Some a \<Longrightarrow> a = Address h0"
  using host_kept_sel(8)[of h0 h] by auto

text \<open>Docker daemons that keep their contract.\<close>

locale docker_server =
  fixes env :: "('d, 'k, 'e) env" and view :: "'d \<Rightarrow> dview"
  assumes laws: "docker_laws (dockerAPI env) view"
begin

lemma calm_asks:
  "keeps (\<lambda>d. calm N v (view d)) (Info (dockerAPI env))" "keeps (\<lambda>d. calm N v (view d)) (UseLocalOrPull (dockerAPI env) h img prs)"
  "keeps (\<lambda>d. calm N v (view d)) (WaitForContainer (dockerAPI env) m)"
  "keeps (\<lambda>d. calm N v (view d)) (IsContainerRunning (dockerAPI env) h m all)"
proof -
  have apart: "\<forall>k \<in> set service_names. k \<notin> N \<longrightarrow> k \<noteq> PortCheckContainer \<and> k \<noteq> old_name PortCheckContainer" using helper_apart by simp
  show "keeps (\<lambda>d. calm N v (view d)) (Info (dockerAPI env))" "keeps (\<lambda>d. calm N v (view d)) (UseLocalOrPull (dockerAPI env) h img prs)"
    "keeps (\<lambda>d. calm N v (view d)) (WaitForContainer (dockerAPI env) m)"
    "keeps (\<lambda>d. calm N v (view d)) (IsContainerRunning (dockerAPI env) h m all)"
    by (rule calm_others[OF others_asks(3)[OF laws] apart] calm_others[OF others_asks(4)[OF laws] apart]
        calm_others[OF others_asks(1)[OF laws] apart] calm_others[OF others_asks(5)[OF laws] apart])+
qed

lemma calm_helpers:
  assumes "n \<in> set (SidekickContainerName # helper_names)"
  shows "keeps (\<lambda>d. calm N v (view d)) (DoRunContainer (dockerAPI env) cfg hcfg n h prs)"
    "keeps (\<lambda>d. calm N v (view d)) (RemoveContainer (dockerAPI env) h n)"
    "keeps (\<lambda>d. calm N v (view d)) (CreateContiner (dockerAPI env) h n cfg hcfg)"
proof -
  have p: "proper_name n" using assms helper_proper by auto
  have apart: "\<forall>k \<in> set service_names. k \<notin> N \<longrightarrow> k \<noteq> n \<and> k \<noteq> old_name n" using assms helper_apart by auto
  show "keeps (\<lambda>d. calm N v (view d)) (DoRunContainer (dockerAPI env) cfg hcfg n h prs)"
    "keeps (\<lambda>d. calm N v (view d)) (RemoveContainer (dockerAPI env) h n)"
    "keeps (\<lambda>d. calm N v (view d)) (CreateContiner (dockerAPI env) h n cfg hcfg)"
    by (rule calm_others[OF others_calls(2)[OF laws p] apart] calm_others[OF others_calls(3)[OF laws p] apart]
        calm_others[OF others_calls(4)[OF laws p] apart])+
qed

lemma calm_checks:
  "keeps (\<lambda>d. calm N v (view d)) (checkPorts (dockerAPI env) a ports adrs img prs)"
  "keeps (\<lambda>d. calm N v (view d)) (runDeployer (dockerAPI env) a vars img prs)"
  "keeps (\<lambda>d. calm N v (view d)) (fetchFile (dockerAPI env) a path img prs)"
proof -
  have apart: "\<forall>k \<in> set service_names. k \<notin> N \<longrightarrow> k \<noteq> n \<and> k \<noteq> old_name n"
    if "n \<in> {PortCheckContainer, CrtDownloaderContainer, CertFetcherContainer}" for n
    using that helper_apart by (auto simp: helper_names_def)
  show "keeps (\<lambda>d. calm N v (view d)) (checkPorts (dockerAPI env) a ports adrs img prs)"
    by (rule calm_others[OF others_checkPorts[OF laws] apart]) simp
  show "keeps (\<lambda>d. calm N v (view d)) (runDeployer (dockerAPI env) a vars img prs)"
    by (rule calm_others[OF others_deployer[OF laws] apart]) simp
  show "keeps (\<lambda>d. calm N v (view d)) (fetchFile (dockerAPI env) a path img prs)"
    by (rule calm_others[OF others_fetchFile[OF laws] apart]) simp
qed

lemma calm_service:
  assumes "n \<in> set service_names"
  shows "keeps (\<lambda>d. calm {n} v (view d)) (DoRunContainer (dockerAPI env) cfg hcfg n h prs)"
proof (rule calm_others[where n = n])
  show "keeps (others view n v) (DoRunContainer (dockerAPI env) cfg hcfg n h prs)" for v
    by (rule others_calls[OF laws]) (use assms in \<open>auto simp: service_names_def\<close>)
qed (use assms service_apart in auto)

lemma starts_service:
  assumes "r \<in> may_start hs E n" "n \<in> set service_names" "host_kept (hs ! r) h"
  shows "keeps (only_started view hs E) (viaClient h (DoRunContainer (dockerAPI env) cfg hcfg n a prs))"
  by (rule only_started_client[OF calm_service[OF assms(2)]]) (use assms(1,3) host_client in \<open>fastforce simp: may_start_def\<close>)

lemma frame: "client_frame (only_started view hs E) env (may_start hs E EtcdContainerName)"
proof -
  let ?I = "only_started view hs E :: ('d, 'k, 'e) world \<Rightarrow> bool"
  have none: "keeps ?I (viaClient h m)" if "\<And>v. keeps (\<lambda>d. calm {} v (view d)) m" for h and m :: "('d, 'x) io"
    by (rule only_started_client[OF that]) simp
  have helper: "n \<in> set (SidekickContainerName # helper_names)" if "n \<in> set helper_names" for n using that by simp
  show ?thesis
  proof
    show "?I (w\<lparr>hstore := (hstore w)[r := h]\<rparr>)" if "?I w" "r < length (hstore w)" "host_kept (hstore w ! r) h" for w r h
      using that linked.host_set[of hs w r h] by (simp add: only_started_def started_def)
    show "?I (w\<lparr>hstore := hstore w @ [h]\<rparr>)" if "?I w" for w h
      using that linked.host_append[of hs w h] by (simp add: only_started_def started_def)
    show "keeps ?I (runEtcd env svc ic prs r)" if "r \<in> may_start hs E EtcdContainerName" for svc ic prs r
      unfolding runEtcd_def buildEtcdConfig_def Let_def prod.case
      by (rule only_started_getHost) (use that in \<open>auto simp: may_start_def service_names_def intro!: starts_service\<close>)
  qed ((rule none, (rule calm_asks calm_checks calm_remove[OF laws] | rule calm_helpers, erule helper); assumption?)
     | simp add: only_started_def linked_def started_def)+
qed

lemma quiet_frame: "kube_frame (only_started view hs E :: ('d, 'k, 'e) world \<Rightarrow> bool)"
  by unfold_locales (simp_all add: only_started_def linked_def started_def)

end

sublocale docker_server \<subseteq> calm: kube_frame "only_started view hs E :: ('d, 'k, 'e) world \<Rightarrow> bool" for hs E
  by (rule quiet_frame)

sublocale docker_server \<subseteq> calm: up_frame "only_started view hs E" env "may_start hs E EtcdContainerName" for hs E
  by (intro up_frame.intro frame) unfold_locales

section \<open>The planes\<close>

text \<open>The services that the roles of the hosts of a cluster ask for may be started.\<close>

definition may_serve :: "Host list \<Rightarrow> (string \<times> string) set \<Rightarrow> Cluster \<Rightarrow> bool" where
  "may_serve hs E c \<longleftrightarrow> set (EtcdHosts c) \<subseteq> may_start hs E EtcdContainerName \<and>
     (\<forall>n \<in> {KubeAPIContainerName, KubeControllerContainerName, SchedulerContainerName}. set (ControlPlaneHosts c) \<subseteq> may_start hs E n) \<and>
     (\<forall>r \<in> set (EtcdHosts c @ ControlPlaneHosts c @ WorkerHosts c).
        r \<in> may_start hs E KubeletContainerName \<and> r \<in> may_start hs E KubeproxyContainerName \<and>
        (\<not> IsControl (hs ! r) \<longrightarrow> r \<in> may_start hs E NginxProxyContainerName))"

lemma may_start_known: "r \<in> may_start hs E n \<Longrightarrow> r < length hs"
  by (simp add: may_start_def)

context docker_server
begin

lemma keeps_service:
  fixes k :: "Host \<Rightarrow> ('d, 'k, 'e, 'x) wio"
  assumes "r \<in> may_start hs E n" "n \<in> set service_names" "\<And>h. keeps (only_started view hs E) (k h)"
  shows "keeps (only_started view hs E) (bindIO (getHost r) (\<lambda>h. thenIO (viaClient h (DoRunContainer (dockerAPI env) (f h) (g h) n (a h) prs)) (k h)))"
  by (rule only_started_getHost[OF may_start_known[OF assms(1)]]) (intro keeps_then starts_service[OF assms(1,2)] assms(3))

lemma keeps_sidekick: "keeps (only_started view hs E) (runSidekick env r img prs)"
proof -
  have none: "keeps (only_started view hs E) (viaClient h m)" if "\<And>v. keeps (\<lambda>d. calm {} v (view d)) m" for h and m :: "('d, 'x) io"
    by (rule only_started_client[OF that]) simp
  show ?thesis
    unfolding runSidekick_def buildSidekickConfig_def prod.case
    by (intro keeps_intros none calm_asks calm_helpers) simp
qed

lemma keeps_plane_tasks:
  fixes hs E
  defines "I \<equiv> only_started view hs E :: ('d, 'k, 'e) world \<Rightarrow> bool"
  shows "r \<in> may_start hs E KubeAPIContainerName \<Longrightarrow> keeps I (runKubeAPI env r ehs ka am df prs)"
    "r \<in> may_start hs E KubeControllerContainerName \<Longrightarrow> keeps I (runKubeController env r cs am df prs)"
    "r \<in> may_start hs E SchedulerContainerName \<Longrightarrow> keeps I (runScheduler env r ss df prs)"
    "r \<in> may_start hs E KubeletContainerName \<Longrightarrow> keeps I (runKubelet env r ks df prs)"
    "r \<in> may_start hs E KubeproxyContainerName \<Longrightarrow> keeps I (runKubeproxy env r ps df prs)"
    "r \<in> may_start hs E NginxProxyContainerName \<Longrightarrow> keeps I (runNginxProxy env r chs img prs)"
proof -
  have names: "{KubeAPIContainerName, KubeControllerContainerName, SchedulerContainerName, KubeletContainerName, KubeproxyContainerName,
      NginxProxyContainerName} \<subseteq> set service_names" by (simp add: service_names_def)
  note service = keeps_service[of r hs E, folded I_def]
  show "r \<in> may_start hs E KubeAPIContainerName \<Longrightarrow> keeps I (runKubeAPI env r ehs ka am df prs)"
    unfolding runKubeAPI_def buildKubeAPIConfig_def Let_def prod.case
    by (rule keeps_bind[OF keeps_hosts]) (rule service, use names in \<open>auto simp: I_def intro!: calm.keeps_health\<close>)
  show "r \<in> may_start hs E KubeControllerContainerName \<Longrightarrow> keeps I (runKubeController env r cs am df prs)"
    unfolding runKubeController_def buildKubeControllerConfig_def Let_def prod.case
    by (rule service) (use names in \<open>auto simp: I_def intro!: calm.keeps_health\<close>)
  show "r \<in> may_start hs E SchedulerContainerName \<Longrightarrow> keeps I (runScheduler env r ss df prs)"
    unfolding runScheduler_def buildSchedulerConfig_def Let_def prod.case
    by (rule service) (use names in \<open>auto simp: I_def intro!: calm.keeps_health\<close>)
  show "r \<in> may_start hs E KubeletContainerName \<Longrightarrow> keeps I (runKubelet env r ks df prs)"
    unfolding runKubelet_def buildKubeletConfig_def Let_def prod.case
    by (rule service) (use names in \<open>auto simp: I_def intro!: calm.keeps_health\<close>)
  show "r \<in> may_start hs E KubeproxyContainerName \<Longrightarrow> keeps I (runKubeproxy env r ps df prs)"
    unfolding runKubeproxy_def buildKubeproxyConfig_def Let_def prod.case
    by (rule service) (use names in \<open>auto simp: I_def intro!: calm.keeps_health\<close>)
  show "r \<in> may_start hs E NginxProxyContainerName \<Longrightarrow> keeps I (runNginxProxy env r chs img prs)"
    unfolding runNginxProxy_def buildNginxProxyConfig_def Let_def prod.case I_def
    by (rule keeps_bind[OF keeps_hosts], rule only_started_getHost) (use names in \<open>auto intro: may_start_known starts_service\<close>)
qed

lemma keeps_worker_host:
  assumes "r \<in> may_start hs E KubeletContainerName" "r \<in> may_start hs E KubeproxyContainerName"
    "\<not> IsControl (hs ! r) \<Longrightarrow> r \<in> may_start hs E NginxProxyContainerName"
  shows "keeps (only_started view hs E) (doDeployWorkerPlane env r ws ng sk df chs prs)"
  unfolding doDeployWorkerPlane_def
  by (rule only_started_getHost[OF may_start_known[OF assms(1)]])
     (intro keeps_then keeps_if keeps_ret keeps_sidekick keeps_plane_tasks assms; simp add: host_kept_sel)

lemma keeps_control_host:
  assumes "\<forall>n \<in> {KubeAPIContainerName, KubeControllerContainerName, SchedulerContainerName}. r \<in> may_start hs E n"
  shows "keeps (only_started view hs E) (doDeployControlHost env r ehs cs sk am df prs)"
  unfolding doDeployControlHost_def removals
  by (intro keeps_intros keeps_sidekick keeps_plane_tasks calm.keeps_removal) (use assms in auto)

lemma keeps_started_planes:
  assumes "may_serve hs E c"
  shows "keeps (only_started view hs E) (DeployControlPlane env c)" "keeps (only_started view hs E) (DeployWorkerPlane env c)"
proof -
  have etcd: "keeps (only_started view hs E) (RunEtcdPlane env (EtcdHosts c) svc prs)" for svc prs
    unfolding RunEtcdPlane_def by (intro keeps_intros calm.runs_etcd) (use assms in \<open>auto simp: may_serve_def\<close>)
  show "keeps (only_started view hs E) (DeployControlPlane env c)"
    unfolding DeployControlPlane_def RunControlPlane_def
    by (intro keeps_intros etcd keeps_control_host) (use assms in \<open>auto simp: may_serve_def\<close>)
  have worker: "keeps (only_started view hs E) (doDeployWorkerPlane env r ws ng sk df chs prs)"
    if "r \<in> set (EtcdHosts c @ ControlPlaneHosts c @ WorkerHosts c)" for r ws ng sk df chs prs
    by (rule keeps_worker_host) (use assms that in \<open>auto simp: may_serve_def\<close>)
  have taint: "keeps (only_started view hs E :: ('d, 'k, 'e) world \<Rightarrow> bool) (addEtcdTaint r)" for r
    unfolding addEtcdTaint_def by (intro keeps_intros)
  show "keeps (only_started view hs E) (DeployWorkerPlane env c)"
    unfolding DeployWorkerPlane_def RunWorkerPlane_def Let_def by (intro keeps_intros taint worker) auto
qed

end

text \<open>The contract holds of the simulated daemons.\<close>

interpretation sim_daemons: docker_server sim_env sim_view
  by unfold_locales (simp add: sim_docker_laws)

end
