(* ===== verification/RKE_Commands.thy ===== *)
theory RKE_Commands
  imports Cluster_Reconcile
begin

text \<open>
  The commands (\<^verbatim>\<open>cmd/up.go\<close>, \<^verbatim>\<open>cmd/remove.go\<close>, \<^verbatim>\<open>cmd/config.go\<close>, \<^verbatim>\<open>cmd/version.go\<close>, \<^verbatim>\<open>cmd/common.go\<close>).  The flags of a
  command are arguments; what is only printed is not modelled.
\<close>

section \<open>Bringing a cluster up\<close>

text \<open>The address of the API server, the certificate of the authority, and the administrator's certificate and key.\<close>

type_synonym access = "string \<times> string \<times> string \<times> string"

definition accessOf :: "('d, 'k, 'e) env \<Rightarrow> Cluster \<Rightarrow> ('d, 'k, 'e, access) wio" where
  "accessOf env c =
     bindIO (firstHost (ControlPlaneHosts c)) (\<lambda>h.
     bindIO (EncodeCertPEM env (Certificate (certOf c CACertName))) (\<lambda>caCrt.
     bindIO (EncodeCertPEM env (Certificate (certOf c KubeAdminCertName))) (\<lambda>clientCert.
     bindIO (EncodePrivateKeyPEM env (cert_Key (certOf c KubeAdminCertName))) (\<lambda>clientKey.
       retIO (''https://'' @ Address h @ '':6443'', caCrt, clientCert, clientKey)))))"

definition ClusterUp ::
  "('d, 'k, 'e) env \<Rightarrow> string \<Rightarrow> RancherKubernetesEngineConfig \<Rightarrow> DialerFactory option \<Rightarrow> DialerFactory option \<Rightarrow> bool \<Rightarrow> string \<Rightarrow>
     ('d, 'k, 'e, access) wio" where
  "ClusterUp env clusterFilePath rkeConfig dockerDialerFactory localConnDialerFactory local configDir =
     bindIO (ParseCluster env rkeConfig clusterFilePath configDir dockerDialerFactory localConnDialerFactory) (\<lambda>(parsedCluster, rkeConfig').
     thenIO (TunnelHosts env parsedCluster local)
    (bindIO (GetClusterState env parsedCluster) (\<lambda>(currentCluster, kubeCluster0).
     thenIO (CheckClusterPorts env kubeCluster0 currentCluster)
    (bindIO (SetUpAuthentication env kubeCluster0 currentCluster) (\<lambda>kubeCluster1.
     bindIO (ReconcileCluster env kubeCluster1 currentCluster) (\<lambda>kubeCluster.
     thenIO (SetUpHosts env kubeCluster)
    (thenIO (PrePullK8sImages env kubeCluster)
    (thenIO (DeployControlPlane env kubeCluster)
    (thenIO (SaveClusterState env kubeCluster rkeConfig')
    (thenIO (DeployWorkerPlane env kubeCluster)
    (thenIO (DeployNetworkPlugin env kubeCluster)
    (thenIO (SyncLabelsAndTaints env kubeCluster)
    (thenIO (DeployAddons env kubeCluster)
       (accessOf env kubeCluster))))))))))))))"

section \<open>Finding the configuration\<close>

definition filepath_Abs :: "('d, 'k, 'e) env \<Rightarrow> string \<Rightarrow> gerror + string" where
  "filepath_Abs env p =
     (if p \<noteq> [] \<and> hd p = CHR ''/'' then Inr (Clean p)
      else case Getwd env of Inl e \<Rightarrow> Inl e | Inr wd \<Rightarrow> Inr (path_Join wd p))"

text \<open>The text of the configuration and the path it was asked for under.\<close>

definition resolveClusterFile :: "('d, 'k, 'e) env \<Rightarrow> string \<Rightarrow> ('d, 'k, 'e, string \<times> string) wio" where
  "resolveClusterFile env clusterFile =
     bindIO (wrapIO ''failed to lookup current directory name: '' (ofSum (filepath_Abs env clusterFile))) (\<lambda>fp.
     bindIO (getIO (\<lambda>w. files w fp)) (\<lambda>f.
       case f of
         None \<Rightarrow> failIO (errorf (''Can not find cluster configuration file: open '' @ fp @ '': no such file or directory''))
       | Some buf \<Rightarrow> retIO (buf, clusterFile)))"

text \<open>The configuration of the commands that work locally: the file's with the local node, or the default.\<close>

definition localConfig :: "('d, 'k, 'e) env \<Rightarrow> string \<Rightarrow> ('d, 'k, 'e, RancherKubernetesEngineConfig \<times> string) wio" where
  "localConfig env config =
     tryIO (resolveClusterFile env config)
       (\<lambda>_. retIO (GetLocalRKEConfig, []))
       (\<lambda>(clusterFile, filePath).
          bindIO (wrapIO ''Failed to parse cluster file: '' (ParseConfig env clusterFile)) (\<lambda>rkeConfig.
            retIO (rkeConfig\<lparr>Nodes := [GetLocalRKENodeConfig]\<rparr>, filePath)))"

definition clusterUpLocal :: "('d, 'k, 'e) env \<Rightarrow> string \<Rightarrow> ('d, 'k, 'e, access) wio" where
  "clusterUpLocal env config =
     bindIO (localConfig env config) (\<lambda>(rkeConfig, filePath).
       ClusterUp env filePath rkeConfig None (Some LocalHealthcheckFactory) True [])"

definition clusterUpFromCli :: "('d, 'k, 'e) env \<Rightarrow> string \<Rightarrow> bool \<Rightarrow> ('d, 'k, 'e, access) wio" where
  "clusterUpFromCli env config local =
     (if local then clusterUpLocal env config
      else bindIO (wrapIO ''Failed to resolve cluster file: '' (resolveClusterFile env config)) (\<lambda>(clusterFile, filePath).
           bindIO (wrapIO ''Failed to parse cluster file: '' (ParseConfig env clusterFile)) (\<lambda>rkeConfig.
             ClusterUp env filePath rkeConfig None None False [])))"

section \<open>Removing a cluster\<close>

definition cmd_ClusterRemove ::
  "('d, 'k, 'e) env \<Rightarrow> string \<Rightarrow> RancherKubernetesEngineConfig \<Rightarrow> DialerFactory option \<Rightarrow> bool \<Rightarrow> string \<Rightarrow> ('d, 'k, 'e, unit) wio" where
  "cmd_ClusterRemove env clusterFilePath rkeConfig dialerFactory local configDir =
     bindIO (ParseCluster env rkeConfig clusterFilePath configDir dialerFactory None) (\<lambda>(kubeCluster, _).
     thenIO (TunnelHosts env kubeCluster local) (ClusterRemove env kubeCluster))"

definition clusterRemoveLocal :: "('d, 'k, 'e) env \<Rightarrow> string \<Rightarrow> ('d, 'k, 'e, unit) wio" where
  "clusterRemoveLocal env config =
     bindIO (localConfig env config) (\<lambda>(rkeConfig, filePath). cmd_ClusterRemove env filePath rkeConfig None True [])"

definition clusterRemoveFromCli :: "('d, 'k, 'e) env \<Rightarrow> string \<Rightarrow> bool \<Rightarrow> bool \<Rightarrow> ('d, 'k, 'e, unit) wio" where
  "clusterRemoveFromCli env config force local =
     (let remove = (if local then clusterRemoveLocal env config
        else bindIO (wrapIO ''Failed to resolve cluster file: '' (resolveClusterFile env config)) (\<lambda>(clusterFile, filePath).
             bindIO (wrapIO ''Failed to parse cluster file: '' (ParseConfig env clusterFile)) (\<lambda>rkeConfig.
               cmd_ClusterRemove env filePath rkeConfig None False [])))
      in if force then remove
         else bindIO (onExt (ReadLine (extAPI env))) (\<lambda>line.
           let input = trim_space line in if input \<noteq> ''y'' \<and> input \<noteq> ''Y'' then retIO () else remove))"

section \<open>The version\<close>

definition getClusterVersion :: "('d, 'k, 'e) env \<Rightarrow> string \<Rightarrow> ('d, 'k, 'e, string) wio" where
  "getClusterVersion env config = GetK8sVersion env (GetLocalKubeConfig config [])"

section \<open>The dialogue that writes a configuration\<close>

definition comments :: string where
  "comments = ''# If you intened to deploy Kubernetes in an air-gapped environment,
# please consult the documentation on how to configure custom RKE images.''"

text \<open>A question with its default; the loop around it never runs a second time.\<close>

definition getConfig :: "('d, 'k, 'e) env \<Rightarrow> string \<Rightarrow> ('d, 'k, 'e, string) wio" where
  "getConfig env def =
     bindIO (onExt (ReadLine (extAPI env))) (\<lambda>line. let input = trim_space line in retIO (if input \<noteq> [] then input else def))"

definition yes :: "string \<Rightarrow> bool" where
  "yes s \<longleftrightarrow> s = ''y'' \<or> s = ''Y''"

definition getHostConfig :: "('d, 'k, 'e) env \<Rightarrow> string \<Rightarrow> ('d, 'k, 'e, RKEConfigNode) wio" where
  "getHostConfig env clusterSSHKeyPath =
     bindIO (getConfig env []) (\<lambda>address.
     bindIO (getConfig env []) (\<lambda>sshKeyPath.
     bindIO (if sshKeyPath = []
             then bindIO (getConfig env []) (\<lambda>sshKey. retIO (if sshKey = [] then ([], clusterSSHKeyPath) else (sshKey, [])))
             else retIO ([], sshKeyPath)) (\<lambda>(key, keyPath).
     bindIO (getConfig env ''ubuntu'') (\<lambda>sshUser.
     bindIO (getConfig env ''y'') (\<lambda>isControlHost.
     bindIO (getConfig env ''n'') (\<lambda>isWorkerHost.
     bindIO (getConfig env ''n'') (\<lambda>isEtcdHost.
     bindIO (getConfig env []) (\<lambda>hostnameOverride.
     bindIO (getConfig env []) (\<lambda>internalAddress.
     bindIO (getConfig env DefaultDockerSockPath) (\<lambda>dockerSocketPath.
       retIO (RKEConfigNode_zero\<lparr>Address := address, SSHKey := key, node_SSHKeyPath := keyPath, node_User := sshUser,
         Role := (if yes isControlHost then [ControlRole] else []) @ (if yes isWorkerHost then [WorkerRole] else []) @
                 (if yes isEtcdHost then [ETCDRole] else []),
         HostnameOverride := hostnameOverride, InternalAddress := internalAddress, DockerSocket := dockerSocketPath\<rparr>)))))))))))"

definition getServiceConfig :: "('d, 'k, 'e) env \<Rightarrow> ('d, 'k, 'e, RKEConfigServices) wio" where
  "getServiceConfig env =
     bindIO (getConfig env DefaultEtcdImage) (\<lambda>etcdImage.
     bindIO (getConfig env DefaultK8sImage) (\<lambda>kubeImage.
     bindIO (getConfig env DefaultClusterDomain) (\<lambda>clusterDomain.
     bindIO (getConfig env DefaultServiceClusterIPRange) (\<lambda>range.
     bindIO (getConfig env ''n'') (\<lambda>podSecurityPolicy.
     bindIO (getConfig env DefaultClusterCIDR) (\<lambda>clusterNetworkCidr.
     bindIO (getConfig env DefaultClusterDNSService) (\<lambda>clusterDNSServiceIP.
     bindIO (getConfig env DefaultInfraContainerImage) (\<lambda>infraPodImage.
       let z = RKEConfigServices_zero; base = BaseService_zero\<lparr>svc_Image := kubeImage\<rparr> in
       retIO \<lparr>Etcd = BaseService_zero\<lparr>svc_Image := etcdImage\<rparr>,
         KubeAPI = (KubeAPI z)\<lparr>svc_Image := kubeImage, api_ServiceClusterIPRange := range, api_PodSecurityPolicy := yes podSecurityPolicy\<rparr>,
         KubeController = (KubeController z)\<lparr>svc_Image := kubeImage, ctl_ServiceClusterIPRange := range, ctl_ClusterCIDR := clusterNetworkCidr\<rparr>,
         Scheduler = base,
         Kubelet = (Kubelet z)\<lparr>svc_Image := kubeImage, let_ClusterDomain := clusterDomain, let_ClusterDNSServer := clusterDNSServiceIP,
           let_InfraContainerImage := infraPodImage\<rparr>,
         Kubeproxy = base\<rparr>))))))))"

definition getAuthnConfig :: "('d, 'k, 'e) env \<Rightarrow> ('d, 'k, 'e, AuthnConfig) wio" where
  "getAuthnConfig env = bindIO (getConfig env DefaultAuthStrategy) (\<lambda>authnType. retIO \<lparr>authn_Strategy = authnType, authn_Options = []\<rparr>)"

definition getAuthzConfig :: "('d, 'k, 'e) env \<Rightarrow> ('d, 'k, 'e, AuthzConfig) wio" where
  "getAuthzConfig env = bindIO (getConfig env DefaultAuthorizationMode) (\<lambda>authzMode. retIO \<lparr>authz_Mode = authzMode, authz_Options = []\<rparr>)"

definition getNetworkConfig :: "('d, 'k, 'e) env \<Rightarrow> ('d, 'k, 'e, NetworkConfig) wio" where
  "getNetworkConfig env = bindIO (getConfig env DefaultNetworkPlugin) (\<lambda>networkPlugin. retIO \<lparr>net_Plugin = networkPlugin, net_Options = None\<rparr>)"

definition writeConfig :: "('d, 'k, 'e) env \<Rightarrow> RancherKubernetesEngineConfig \<Rightarrow> string \<Rightarrow> bool \<Rightarrow> ('d, 'k, 'e, unit) wio" where
  "writeConfig env cluster configFile print =
     bindIO (ofSum (YamlMarshal env cluster)) (\<lambda>yamlConfig.
       if print then retIO () else writeFile env configFile (comments @ [CHR 0x0A] @ yamlConfig))"

text \<open>\<^verbatim>\<open>strconv.Atoi\<close>: an optional sign and digits, within 64 bits.\<close>

definition Atoi :: "string \<Rightarrow> gerror + int" where
  "Atoi s =
     (let (neg, ds) = (case s of c # cs \<Rightarrow> if c = CHR ''-'' then (True, cs) else if c = CHR ''+'' then (False, cs) else (False, s) | [] \<Rightarrow> (False, []));
          n = foldl (\<lambda>n d. 10 * n + (of_char d - 48)) 0 ds :: int;
          v = (if neg then - n else n)
      in if ds = [] \<or> \<not> list_all (\<lambda>d. digit_val d \<noteq> None) ds then Inl (errorf (''strconv.Atoi: parsing \"'' @ s @ ''\": invalid syntax''))
         else if v < - (2 ^ 63) \<or> v > 2 ^ 63 - 1 then Inl (errorf (''strconv.Atoi: parsing \"'' @ s @ ''\": value out of range''))
         else Inr v)"

text \<open>\<open>for i := 0; i < n; i++\<close> with an accumulator\<close>

fun repeatIO :: "nat \<Rightarrow> ('w, 'a) io \<Rightarrow> 'a list \<Rightarrow> ('w, 'a list) io" where
  "repeatIO 0 m acc = retIO acc"
| "repeatIO (Suc n) m acc = bindIO m (\<lambda>x. repeatIO n m (acc @ [x]))"

definition askConfig :: "('d, 'k, 'e) env \<Rightarrow> ('d, 'k, 'e, RancherKubernetesEngineConfig) wio" where
  "askConfig env =
     bindIO (getConfig env ''~/.ssh/id_rsa'') (\<lambda>sshKeyPath.
     bindIO (getConfig env ''1'') (\<lambda>numberOfHostsString.
     bindIO (ofSum (Atoi numberOfHostsString)) (\<lambda>numberOfHostsInt.
     bindIO (repeatIO (nat numberOfHostsInt) (getHostConfig env sshKeyPath) []) (\<lambda>nodes.
     bindIO (getNetworkConfig env) (\<lambda>networkConfig.
     bindIO (getAuthnConfig env) (\<lambda>authnConfig.
     bindIO (getAuthzConfig env) (\<lambda>authzConfig.
     bindIO (getServiceConfig env) (\<lambda>serviceConfig.
       retIO (RancherKubernetesEngineConfig_zero\<lparr>SSHKeyPath := sshKeyPath, Nodes := nodes, Network := networkConfig,
         Authentication := authnConfig, Authorization := authzConfig, Services := serviceConfig\<rparr>)))))))))"

definition clusterConfig :: "('d, 'k, 'e) env \<Rightarrow> string \<Rightarrow> bool \<Rightarrow> bool \<Rightarrow> ('d, 'k, 'e, unit) wio" where
  "clusterConfig env configFile emptyFile print =
     (if emptyFile then writeConfig env (RancherKubernetesEngineConfig_zero\<lparr>Nodes := [RKEConfigNode_zero]\<rparr>) configFile print
      else bindIO (askConfig env) (\<lambda>cluster. writeConfig env cluster configFile print))"

end
