(* ===== verification/RKE_Up.thy ===== *)
theory RKE_Up
  imports Service_Frames RKE_Commands
begin

text \<open>
  What \<^verbatim>\<open>rke up\<close> does as a whole: the hosts it parsed stay the hosts it works on, through connecting, reconciling and all the
  deployments before the planes; it starts services only where the configuration asks for them; and when it returns it has started all of
  these.
\<close>

section \<open>Connecting\<close>

definition connected :: "Host list \<Rightarrow> hostref list \<Rightarrow> bool" where
  "connected hs rs \<longleftrightarrow> (\<forall>r \<in> set rs. r < length hs \<and> DClient (hs ! r) = Some (Address (hs ! r)))"

definition connectable :: "Host list \<Rightarrow> hostref list \<Rightarrow> bool" where
  "connectable hs rs \<longleftrightarrow> (\<forall>r \<in> set rs. r < length hs \<and> DClient (hs ! r) \<in> {None, Some (Address (hs ! r))})"

lemma clients_append [simp]:
  "connected hs (rs @ qs) \<longleftrightarrow> connected hs rs \<and> connected hs qs" "connectable hs (rs @ qs) \<longleftrightarrow> connectable hs rs \<and> connectable hs qs"
  by (auto simp: connected_def connectable_def)

lemma linked_client:
  assumes "linked hs w" "r < length hs"
  shows "r < length (hstore w)" "Address (hstore w ! r) = Address (hs ! r)"
    "DClient (hstore w ! r) = DClient (hs ! r) \<or> DClient (hs ! r) = None \<and> DClient (hstore w ! r) = Some (Address (hs ! r))"
  using assms host_kept_sel(1,8)[of "hs ! r" "hstore w ! r"] by (auto simp: linked_def)

lemma linked_clients:
  assumes "linked hs w"
  shows "connected hs rs \<Longrightarrow> connected (hstore w) rs" "connectable hs rs \<Longrightarrow> connectable (hstore w) rs"
  using linked_client[OF assms] by (fastforce simp: connected_def connectable_def)+

lemma TunnelUp_client:
  assumes "TunnelUp env r df w = (Ret u, w')" "connectable (hstore w) [r]"
  shows "connected (hstore w') [r]"
proof (cases "DClient (hstore w ! r)")
  case (Some a)
  with assms show ?thesis by (auto simp: TunnelUp_def bindIO_Ret_iff connectable_def connected_def)
next
  case None
  from assms(1) None obtain w1 w2 where set: "setHost r (\<lambda>h. h\<lparr>DClient := Some (Address h)\<rparr>) w1 = (Ret (), w2)"
    and check: "checkDockerVersion env r w2 = (Ret u, w')"
    by (auto simp: TunnelUp_def bindIO_Ret_iff thenIO_Ret_iff)
  have "keeps (linked (hstore w2)) (checkDockerVersion env r)" unfolding checkDockerVersion_def by (intro keeps_intros)
  from keepsD[OF this linked_refl check] have "linked (hstore w2) w'" .
  moreover from set have "connected (hstore w2) [r]" by (auto simp: connected_def)
  ultimately show ?thesis by (rule linked_clients)
qed

lemma tunnelAll_connects:
  "tunnelAll env df kind rs w = (Ret u, w') \<Longrightarrow> connectable (hstore w) rs \<Longrightarrow> connected (hstore w') rs"
proof (induction rs arbitrary: w)
  case Nil
  then show ?case by (simp add: connected_def)
next
  case (Cons r rs)
  from Cons.prems(1) obtain w1 where up: "TunnelUp env r df w = (Ret (), w1)" and rest: "tunnelAll env df kind rs w1 = (Ret u, w')"
    by (auto simp: tunnelAll_def thenIO_Ret_iff catchIO_Ret_iff bindIO_Ret_iff)
  have l1: "linked (hstore w) w1" by (rule keepsD[OF linked.keeps_TunnelUp linked_refl up])
  have l2: "linked (hstore w1) w'" by (rule keepsD[OF linked.keeps_tunnelAll linked_refl rest])
  have "connected (hstore w1) [r]" by (rule TunnelUp_client[OF up]) (use Cons.prems(2) in \<open>simp add: connectable_def\<close>)
  from linked_clients(1)[OF l2 this] have "connected (hstore w') [r]" .
  moreover have "connected (hstore w') rs"
    by (rule Cons.IH[OF rest]) (use linked_clients(2)[OF l1 Cons.prems(2)] in \<open>simp add: connectable_def\<close>)
  ultimately show ?case by (simp add: connected_def)
qed

definition refs :: "Cluster \<Rightarrow> hostref list" where
  "refs c = EtcdHosts c @ ControlPlaneHosts c @ WorkerHosts c"

lemma TunnelHosts_connects:
  assumes "TunnelHosts env c False w = (Ret u, w')" "connectable (hstore w) (refs c)"
  shows "linked (hstore w) w'" "connected (hstore w') (refs c)"
proof -
  let ?df = "DockerDialerFactory c"
  from assms(1) obtain w1 w2 where e: "tunnelAll env ?df ''Etcd'' (EtcdHosts c) w = (Ret (), w1)"
    and c: "tunnelAll env ?df ''Control'' (ControlPlaneHosts c) w1 = (Ret (), w2)"
    and k: "tunnelAll env ?df ''Worker'' (WorkerHosts c) w2 = (Ret u, w')"
    by (auto simp: TunnelHosts_def thenIO_Ret_iff)
  note l = keepsD[OF linked.keeps_tunnelAll linked_refl e] keepsD[OF linked.keeps_tunnelAll linked_refl c]
    keepsD[OF linked.keeps_tunnelAll linked_refl k]
  show "linked (hstore w) w'" by (rule linked_trans[OF linked_trans[OF l(1,2)] l(3)])
  have "connectable (hstore w) (EtcdHosts c)" "connectable (hstore w1) (ControlPlaneHosts c)" "connectable (hstore w2) (WorkerHosts c)"
    using assms(2) linked_clients(2)[OF l(1)] linked_clients(2)[OF linked_trans[OF l(1,2)]] by (auto simp: refs_def)
  then have "connected (hstore w1) (EtcdHosts c)" "connected (hstore w2) (ControlPlaneHosts c)" "connected (hstore w') (WorkerHosts c)"
    using tunnelAll_connects e c k by blast+
  then show "connected (hstore w') (refs c)"
    using linked_clients(1)[OF l(3)] linked_clients(1)[OF linked_trans[OF l(2,3)]] by (auto simp: refs_def)
qed

section \<open>The cluster stays what was parsed\<close>

text \<open>Every step before the planes returns the cluster it was given, with other certificates.\<close>

definition same_but_certs :: "Cluster \<Rightarrow> Cluster \<Rightarrow> bool" where
  "same_but_certs c c' \<longleftrightarrow> (\<exists>m. c' = c\<lparr>Certificates := m\<rparr>)"

lemma same_but_certs_refl: "same_but_certs c c" "same_but_certs c (c\<lparr>Certificates := m\<rparr>)"
  unfolding same_but_certs_def by (rule exI[of _ "Certificates c"], simp) blast

lemma same_but_certs_trans: "same_but_certs c c' \<Longrightarrow> same_but_certs c' c'' \<Longrightarrow> same_but_certs c c''"
  by (auto simp: same_but_certs_def)

lemma rebuild_same: "rebuildLocalAdminConfig env c w = (Ret c', w') \<Longrightarrow> same_but_certs c c'"
  by (auto simp: rebuildLocalAdminConfig_def Let_def bindIO_Ret_iff same_but_certs_def split: option.splits)

lemma GetClusterState_same: "GetClusterState env c w = (Ret (cur, c'), w') \<Longrightarrow> same_but_certs c c'"
  by (auto simp: GetClusterState_def bindIO_Ret_iff tryIO_Ret_iff same_but_certs_refl split: if_splits option.splits dest!: rebuild_same)

lemma SetUpAuthentication_same: "SetUpAuthentication env c cur w = (Ret c', w') \<Longrightarrow> same_but_certs c c'"
  by (auto simp: SetUpAuthentication_def bindIO_Ret_iff thenIO_Ret_iff same_but_certs_refl split: if_splits option.splits list.splits)

lemma ReconcileCluster_same: "ReconcileCluster env c cur w = (Ret c', w') \<Longrightarrow> same_but_certs c c'"
  by (auto simp: ReconcileCluster_def reconcileControl_def Let_def bindIO_Ret_iff thenIO_Ret_iff same_but_certs_refl
      split: option.splits dest!: rebuild_same intro: same_but_certs_trans[OF same_but_certs_refl(2)])

section \<open>The hosts that were parsed\<close>

definition key_usable :: "RancherKubernetesEngineConfig \<Rightarrow> bool" where
  "key_usable cfg \<longleftrightarrow> length (SSHKeyPath cfg) \<noteq> 1 \<and> list_all (\<lambda>n. length (node_SSHKeyPath n) \<noteq> 1) (Nodes cfg)"

text \<open>The host of a node before it is connected.\<close>

definition host_for :: "RKEConfigNode \<Rightarrow> Host \<Rightarrow> bool" where
  "host_for n h \<longleftrightarrow> Address h = Address n \<and> DClient h = None \<and> IsEtcd h = (ETCDRole \<in> set (Role n)) \<and>
     IsControl h = (ControlRole \<in> set (Role n)) \<and> IsWorker h = (WorkerRole \<in> set (Role n))"

lemma classified_host:
  assumes "node_ok n" "length k \<noteq> 1" "k \<noteq> []" "length (node_SSHKeyPath n) \<noteq> 1"
  shows "host_for n (classified b (nodeDefaults k n))" "key_ok (classified b (nodeDefaults k n))"
proof -
  let ?h = "classified b (nodeDefaults k n)"
  have f: "fits (nodeDefaults k n) ?h" by (rule classified_fits) (use assms(1) in \<open>simp add: node_ok_def\<close>)
  then have t: "RKEConfigNode.truncate ?h = nodeDefaults k n" by (simp add: fits_def)
  from f truncate_sel(1)[OF t] show "host_for n ?h" by (simp add: fits_def host_for_def)
  have "2 \<le> length xs" if "length xs \<noteq> 1" "xs \<noteq> []" for xs :: string
    using that by (cases xs) (auto simp: Suc_le_eq)
  with truncate_sel(5)[OF t] assms(2-4) show "key_ok ?h" by (simp add: key_ok_def nodeDefaults_def)
qed

lemma ParseCluster_hosts:
  assumes "ParseCluster env cfg p d f g w = (Ret (c, cfg'), w')" "key_usable cfg"
  shows "\<exists>new. hstore w' = hstore w @ new \<and> list_all2 host_for (Nodes cfg) new \<and> list_all key_ok new \<and>
     planeIs (hstore w') (length (hstore w)) IsEtcd (EtcdHosts c) \<and>
     planeIs (hstore w') (length (hstore w)) IsControl (ControlPlaneHosts c) \<and>
     planeIs (hstore w') (length (hstore w)) IsWorker (WorkerHosts c)" "list_all node_ok (Nodes cfg)"
proof -
  from assms(1) ParseCluster_cases[of env cfg p d f g w] obtain s ip where ok: "config_ok cfg"
    and c: "c = finishCluster d (Some ip) (parsed s cfg p f g (length (hstore w)))"
    and w': "w' = w\<lparr>hstore := hstore w @ parsedHosts s cfg p f g\<rparr>"
    by (auto split: option.splits if_splits)
  show nodes: "list_all node_ok (Nodes cfg)" using ok by (simp add: config_ok_def)
  let ?k = "sshKey (clusterOf cfg p f g)"
  let ?b = "cfg_IgnoreDockerVersion (withDefaults s (clusterOf cfg p f g))" and ?ns = "map (nodeDefaults ?k) (Nodes cfg)"
  have new: "parsedHosts s cfg p f g = map (classified ?b) ?ns" by (simp add: parsedHosts_def withDefaults_sel Let_def)
  have k: "length ?k \<noteq> 1" "?k \<noteq> []" using assms(2) by (auto simp: key_usable_def sshKey_def DefaultClusterSSHKeyPath_def)
  have "host_for n (classified ?b (nodeDefaults ?k n)) \<and> key_ok (classified ?b (nodeDefaults ?k n))" if "n \<in> set (Nodes cfg)" for n
    using classified_host[OF _ k] that nodes assms(2) by (auto simp: list_all_iff key_usable_def)
  moreover have "\<forall>n \<in> set ?ns. set (Role n) \<subseteq> knownRoles" using nodes by (auto simp: list_all_iff node_ok_def)
  note planes_classified[OF this, of "hstore w" ?b]
  moreover have "EtcdHosts c = refsOf ETCDRole (length (hstore w)) ?ns" "ControlPlaneHosts c = refsOf ControlRole (length (hstore w)) ?ns"
    "WorkerHosts c = refsOf WorkerRole (length (hstore w)) ?ns"
    by (simp_all add: c finishCluster_def parsed_def addRefs_def Let_def withDefaults_sel)
  ultimately show "\<exists>new. hstore w' = hstore w @ new \<and> list_all2 host_for (Nodes cfg) new \<and> list_all key_ok new \<and>
     planeIs (hstore w') (length (hstore w)) IsEtcd (EtcdHosts c) \<and>
     planeIs (hstore w') (length (hstore w)) IsControl (ControlPlaneHosts c) \<and>
     planeIs (hstore w') (length (hstore w)) IsWorker (WorkerHosts c)"
    by (intro exI[of _ "parsedHosts s cfg p f g"]) (auto simp: w' new list_all_iff list_all2_conv_all_nth)
qed

section \<open>The planes one after the other\<close>

lemma names_apart:
  "(a, EtcdContainerName) \<notin> slots b control_names" "(a, EtcdContainerName) \<notin> slots b worker_names"
  "n \<in> {KubeAPIContainerName, KubeControllerContainerName, SchedulerContainerName} \<Longrightarrow> (a, n) \<notin> slots b worker_names"
  by (auto simp: slots_simps control_names_def worker_names_def container_names old_name_def)

lemma quiet_view: "hstore w' = hstore w \<Longrightarrow> daemons w' = daemons w \<Longrightarrow> world_view view w' = world_view view w"
  by (simp add: world_view_def)

lemma planes_started:
  fixes env :: "('d, 'k, 'e) env"
  assumes laws: "docker_laws (dockerAPI env) view" "ext_answers (extAPI env)"
    and rd: "\<forall>r \<in> set (refs c). ready (world_view view w) r (cl r)" and inj: "inj_on cl (set (refs c))"
    and run: "DeployControlPlane env c w = (Ret u, w1)" "SaveClusterState env c cfg w1 = (Ret v, w2)" "DeployWorkerPlane env c w2 = (Ret u', w3)"
  shows "\<forall>r \<in> set (EtcdHosts c). started view w3 (cl r) EtcdContainerName"
    "\<forall>r \<in> set (ControlPlaneHosts c). \<forall>n \<in> {KubeAPIContainerName, KubeControllerContainerName, SchedulerContainerName}. started view w3 (cl r) n"
    "\<forall>r \<in> set (refs c). worker_up (world_view view w3) r (cl r)"
    "list_all2 conn_eq (hstore w) (hstore w3)"
proof -
  let ?v = "world_view view :: ('d, 'k, 'e) world \<Rightarrow> wview"
  from run(1) obtain we wc where e: "RunEtcdPlane env (EtcdHosts c) (Etcd (Services c)) (PrivateRegistriesMap c) w = (Ret (), we)"
    and k: "RunControlPlane env (ControlPlaneHosts c) (EtcdHosts c) (Services c) (img_KubernetesServicesSidecar (SystemImages c))
        (authz_Mode (Authorization c)) (LocalConnDialerFactory c) (PrivateRegistriesMap c) we = (Ret (), wc)"
    and a: "ApplyAuthzResources env c wc = (Ret u, w1)"
    by (auto simp: DeployControlPlane_def thenIO_Ret_iff)
  have subs: "set (EtcdHosts c) \<subseteq> set (refs c)" "set (ControlPlaneHosts c) \<subseteq> set (refs c)" by (auto simp: refs_def)
  note injs = inj_on_subset[OF inj subs(1)] inj_on_subset[OF inj subs(2)]
  note ce = confined_world(1)[OF confined_RunEtcdPlane[OF laws _ injs(1)] e] confined_world(3)[OF confined_RunEtcdPlane[OF laws _ injs(1)] e refl]
  have ce: "touched (\<Union>r \<in> set (EtcdHosts c). slots (cl r) [EtcdContainerName]) (?v w) (?v we)"
    "\<forall>r \<in> set (EtcdHosts c). etcd_up (?v we) r (cl r)"
    using ce rd subs(1) by blast+
  have rd_e: "\<forall>r \<in> set (refs c). ready (?v we) r (cl r)" using rd touched_ready[OF ce(1)] by blast
  then have known: "known (EtcdHosts c) (?v we)" using subs(1) by (auto simp: known_def ready_def)
  note ck = confined_world(1)[OF confined_RunControlPlane[OF laws _ injs(2) known] k]
    confined_world(3)[OF confined_RunControlPlane[OF laws _ injs(2) known] k refl]
  have ck: "touched (\<Union>r \<in> set (ControlPlaneHosts c). slots (cl r) control_names) (?v we) (?v wc)"
    "\<forall>r \<in> set (ControlPlaneHosts c). control_up (?v wc) r (cl r)"
    using ck rd_e subs(2) by blast+
  have rd_k: "\<forall>r \<in> set (refs c). ready (?v wc) r (cl r)" using rd_e touched_ready[OF ck(1)] by blast
  have v2: "?v w2 = ?v wc"
    using keepsD[OF quiet.keeps_ApplyAuthzResources _ a, of "hstore wc" "daemons wc"]
      keepsD[OF quiet.keeps_SaveClusterState _ run(2), of "hstore wc" "daemons wc"] by (auto intro: quiet_view)
  from run(3) have "RunWorkerPlane env (ControlPlaneHosts c) (WorkerHosts c) (EtcdHosts c) (Services c) (img_NginxProxy (SystemImages c))
      (img_KubernetesServicesSidecar (SystemImages c)) (LocalConnDialerFactory c) (PrivateRegistriesMap c) w2 = (Ret u', w3)"
    by (simp add: DeployWorkerPlane_def)
  from confined_world(1)[OF confined_RunWorkerPlane[OF laws rd_k[folded v2, unfolded refs_def] inj[unfolded refs_def]] this]
    confined_world(3)[OF confined_RunWorkerPlane[OF laws rd_k[folded v2, unfolded refs_def] inj[unfolded refs_def]] this refl]
  have cw: "touched (\<Union>r \<in> set (refs c). slots (cl r) worker_names) (?v wc) (?v w3)"
    "\<forall>r \<in> set (refs c). worker_up (?v w3) r (cl r)"
    unfolding v2 refs_def by blast+
  show "\<forall>r \<in> set (refs c). worker_up (?v w3) r (cl r)" by (rule cw(2))
  have e_stays: "up (?v w3) b EtcdContainerName \<longleftrightarrow> up (?v we) b EtcdContainerName" for b
    using touched_up[OF ck(1), of b EtcdContainerName] touched_up[OF cw(1), of b EtcdContainerName] names_apart(1,2) by auto
  with ce(2) show "\<forall>r \<in> set (EtcdHosts c). started view w3 (cl r) EtcdContainerName" by (simp add: etcd_up_def up_world)
  have k_stays: "up (?v w3) b n \<longleftrightarrow> up (?v wc) b n"
    if "n \<in> {KubeAPIContainerName, KubeControllerContainerName, SchedulerContainerName}" for b n
    using touched_up[OF cw(1), of b n] names_apart(3)[OF that] by auto
  with ck(2) show "\<forall>r \<in> set (ControlPlaneHosts c). \<forall>n \<in> {KubeAPIContainerName, KubeControllerContainerName, SchedulerContainerName}.
      started view w3 (cl r) n" by (auto simp: control_up_def simp flip: up_world)
  show "list_all2 conn_eq (hstore w) (hstore w3)"
    using touched_trans[OF touched_mono[OF ce(1) subset_UNIV] touched_trans[OF touched_mono[OF ck(1) subset_UNIV] touched_mono[OF cw(1) subset_UNIV]]]
    by (simp add: touched_def)
qed

section \<open>The whole command\<close>

lemma ClusterUp_run:
  assumes "ClusterUp env p cfg f g False d w = (Ret acc, w')"
  obtains c cfg' w1 w2 c' w8 w9 w10 w11 where
    "ParseCluster env cfg p d f g w = (Ret (c, cfg'), w1)" "TunnelHosts env c False w1 = (Ret (), w2)"
    "same_but_certs c c'" "linked (hstore w2) w8"
    "DeployControlPlane env c' w8 = (Ret (), w9)" "SaveClusterState env c' cfg' w9 = (Ret (), w10)"
    "DeployWorkerPlane env c' w10 = (Ret (), w11)" "daemons w' = daemons w11" "hstore w' = hstore w11" "accessOf env c' w' = (Ret acc, w')"
proof -
  from assms obtain c cfg' w1 w2 cur c0 w3 w4 c1 w5 c' w6 w7 w8 w9 w10 w11 w12 w13 w14 where
    parse: "ParseCluster env cfg p d f g w = (Ret (c, cfg'), w1)" and tunnel: "TunnelHosts env c False w1 = (Ret (), w2)" and
    state: "GetClusterState env c w2 = (Ret (cur, c0), w3)" and ports: "CheckClusterPorts env c0 cur w3 = (Ret (), w4)" and
    auth: "SetUpAuthentication env c0 cur w4 = (Ret c1, w5)" and reconcile: "ReconcileCluster env c1 cur w5 = (Ret c', w6)" and
    hosts: "SetUpHosts env c' w6 = (Ret (), w7)" and pull: "PrePullK8sImages env c' w7 = (Ret (), w8)" and
    planes: "DeployControlPlane env c' w8 = (Ret (), w9)" "SaveClusterState env c' cfg' w9 = (Ret (), w10)"
      "DeployWorkerPlane env c' w10 = (Ret (), w11)" and
    rest: "DeployNetworkPlugin env c' w11 = (Ret (), w12)" "SyncLabelsAndTaints env c' w12 = (Ret (), w13)"
      "DeployAddons env c' w13 = (Ret (), w14)" "accessOf env c' w14 = (Ret acc, w')"
    by (auto simp: ClusterUp_def bindIO_Ret_iff thenIO_Ret_iff)
  have same: "same_but_certs c c'"
    using same_but_certs_trans[OF same_but_certs_trans[OF GetClusterState_same[OF state] SetUpAuthentication_same[OF auth]]
      ReconcileCluster_same[OF reconcile]] .
  have linked: "linked (hstore w2) w8"
    using keepsD[OF linked.keeps_PrePullK8sImages keepsD[OF linked.keeps_SetUpHosts keepsD[OF linked.keeps_reconciliation
      keepsD[OF linked.keeps_SetUpAuthentication keepsD[OF linked.keeps_CheckClusterPorts keepsD[OF linked.keeps_GetClusterState linked_refl
        state] ports] auth] reconcile] hosts] pull] .
  have q: "hstore w14 = hstore w11 \<and> daemons w14 = daemons w11"
    using keepsD[OF quiet.keeps_deployments(2) keepsD[OF quiet.keeps_SyncLabelsAndTaints keepsD[OF quiet.keeps_deployments(1) _
      rest(1)] rest(2)] rest(3), of "hstore w11" "daemons w11"] by simp
  have access: "w' = w14"
    using rest(4) by (auto simp: accessOf_def firstHost_def EncodeCertPEM_def EncodePrivateKeyPEM_def bindIO_Ret_iff split: list.splits option.splits)
  from q rest(4) have "daemons w' = daemons w11" "hstore w' = hstore w11" "accessOf env c' w' = (Ret acc, w')" by (simp_all add: access)
  with that[OF parse tunnel same linked planes] show thesis by blast
qed

text \<open>A host that belongs to a node of the configuration, connected to the daemon at the node's address.\<close>

definition serves :: "RKEConfigNode \<Rightarrow> Host \<Rightarrow> bool" where
  "serves n h \<longleftrightarrow> Address h = Address n \<and> key_ok h \<and> IsEtcd h = (ETCDRole \<in> set (Role n)) \<and> IsControl h = (ControlRole \<in> set (Role n))"

lemma host_kept_serves: "host_kept h h' \<Longrightarrow> host_for n h \<Longrightarrow> key_ok h \<Longrightarrow> serves n h'"
  by (auto simp: host_kept_def same_machine_def host_for_def serves_def key_ok_def)

lemma planeIs_set:
  assumes "planeIs hs k flag rs" "length hs = k + n"
  shows "set rs = {k + i |i. i < n \<and> flag (hs ! (k + i))}"
proof -
  have m: "k \<le> r \<and> r < length hs \<longleftrightarrow> (\<exists>i. i < n \<and> r = k + i)" for r
    using assms(2) by (auto simp: le_iff_add)
  have "r \<in> set rs \<longleftrightarrow> (k \<le> r \<and> r < length hs) \<and> flag (hs ! r)" for r
    using assms(1) by (simp add: planeIs_def)
  then show ?thesis unfolding m by (intro set_eqI) auto
qed

lemma node_ok_role:
  assumes "node_ok n"
  shows "\<exists>role. role \<in> set (Role n) \<and> role \<in> {ETCDRole, ControlRole, WorkerRole}"
proof -
  have "Role n \<noteq> []" "set (Role n) \<subseteq> {ETCDRole, ControlRole, WorkerRole}"
    using assms by (simp_all add: node_ok_def knownRoles_def)
  then show ?thesis by (metis hd_in_set subsetD)
qed

lemma parsed_planes:
  assumes "ParseCluster env cfg p d f g w = (Ret (c, cfg'), w1)" "TunnelHosts env c False w1 = (Ret u, w2)" "linked (hstore w2) w8"
    "key_usable cfg" "k = length (hstore w)"
  shows "\<forall>i < length (Nodes cfg). k + i < length (hstore w8) \<and> serves (Nodes cfg ! i) (hstore w8 ! (k + i))"
    and "connected (hstore w8) (refs c)"
    and "set (EtcdHosts c) = {k + i |i. i < length (Nodes cfg) \<and> ETCDRole \<in> set (Role (Nodes cfg ! i))}"
    and "set (ControlPlaneHosts c) = {k + i |i. i < length (Nodes cfg) \<and> ControlRole \<in> set (Role (Nodes cfg ! i))}"
    and "set (refs c) = {k + i |i. i < length (Nodes cfg)}"
    and "set (WorkerHosts c) = {k + i |i. i < length (Nodes cfg) \<and> WorkerRole \<in> set (Role (Nodes cfg ! i))}"
    and "\<forall>i < length (Nodes cfg). k + i < length (hstore w1) \<and> IsWorker (hstore w1 ! (k + i)) = (WorkerRole \<in> set (Role (Nodes cfg ! i)))"
proof -
  from ParseCluster_hosts[OF assms(1,4)] obtain new where h1: "hstore w1 = hstore w @ new" and new: "list_all2 host_for (Nodes cfg) new"
    and key: "list_all key_ok new" and nodes: "list_all node_ok (Nodes cfg)"
    and planes: "planeIs (hstore w1) k IsEtcd (EtcdHosts c)" "planeIs (hstore w1) k IsControl (ControlPlaneHosts c)"
      "planeIs (hstore w1) k IsWorker (WorkerHosts c)" unfolding assms(5) by blast
  have len: "length new = length (Nodes cfg)" using new by (simp add: list_all2_lengthD)
  have host: "host_for (Nodes cfg ! i) (hstore w1 ! (k + i))" if "i < length (Nodes cfg)" for i
    using that new by (simp add: h1 assms(5) list_all2_nthD)
  have "length (hstore w1) = k + length (Nodes cfg)" by (simp add: h1 len assms(5))
  note plane = planeIs_set[OF _ this]
  show etcd: "set (EtcdHosts c) = {k + i |i. i < length (Nodes cfg) \<and> ETCDRole \<in> set (Role (Nodes cfg ! i))}"
    using plane[OF planes(1)] host by (auto simp: host_for_def)
  show control: "set (ControlPlaneHosts c) = {k + i |i. i < length (Nodes cfg) \<and> ControlRole \<in> set (Role (Nodes cfg ! i))}"
    using plane[OF planes(2)] host by (auto simp: host_for_def)
  show "\<forall>i < length (Nodes cfg). k + i < length (hstore w1) \<and> IsWorker (hstore w1 ! (k + i)) = (WorkerRole \<in> set (Role (Nodes cfg ! i)))"
    using host by (auto simp: host_for_def h1 len assms(5))
  show worker: "set (WorkerHosts c) = {k + i |i. i < length (Nodes cfg) \<and> WorkerRole \<in> set (Role (Nodes cfg ! i))}"
    using plane[OF planes(3)] host by (auto simp: host_for_def)
  have "\<exists>role. role \<in> set (Role (Nodes cfg ! i)) \<and> role \<in> {ETCDRole, ControlRole, WorkerRole}" if "i < length (Nodes cfg)" for i
    using nodes that by (intro node_ok_role) (simp add: list_all_length)
  then show refs: "set (refs c) = {k + i |i. i < length (Nodes cfg)}"
    unfolding refs_def set_append etcd control worker by fastforce
  have "connectable (hstore w1) (refs c)"
    using host unfolding connectable_def refs by (auto simp: h1 len assms(5) host_for_def)
  note t = TunnelHosts_connects[OF assms(2) this]
  show "connected (hstore w8) (refs c)" by (rule linked_clients(1)[OF assms(3) t(2)])
  have l: "linked (hstore w1) w8" by (rule linked_trans[OF t(1) assms(3)])
  show "\<forall>i < length (Nodes cfg). k + i < length (hstore w8) \<and> serves (Nodes cfg ! i) (hstore w8 ! (k + i))"
  proof (intro allI impI)
    fix i assume i: "i < length (Nodes cfg)"
    then have r: "k + i < length (hstore w1)" by (simp add: h1 len assms(5))
    with l have "host_kept (hstore w1 ! (k + i)) (hstore w8 ! (k + i))" "k + i < length (hstore w8)" by (auto simp: linked_def)
    moreover have "key_ok (hstore w1 ! (k + i))" using key i by (simp add: h1 assms(5) list_all_length len)
    ultimately show "k + i < length (hstore w8) \<and> serves (Nodes cfg ! i) (hstore w8 ! (k + i))"
      using host_kept_serves host[OF i] by blast
  qed
qed

section \<open>Services where the configuration asks for them\<close>

text \<open>The services that the roles of a node ask for.\<close>

definition asks_for :: "RKEConfigNode \<Rightarrow> string \<Rightarrow> bool" where
  "asks_for n s \<longleftrightarrow>
     (if s = EtcdContainerName then ETCDRole \<in> set (Role n)
      else if s \<in> {KubeAPIContainerName, KubeControllerContainerName, SchedulerContainerName} then ControlRole \<in> set (Role n)
      else if s = NginxProxyContainerName then ControlRole \<notin> set (Role n)
      else s \<in> {KubeletContainerName, KubeproxyContainerName})"

definition configured :: "RancherKubernetesEngineConfig \<Rightarrow> (string \<times> string) set" where
  "configured cfg = {(Address n, s) |n s. n \<in> set (Nodes cfg) \<and> asks_for n s}"

lemma service_cases:
  assumes "s \<in> set service_names"
  obtains "s = EtcdContainerName" | "s \<in> {KubeAPIContainerName, KubeControllerContainerName, SchedulerContainerName}" |
    "s \<in> {KubeletContainerName, KubeproxyContainerName}" | "s = NginxProxyContainerName"
  using assms by (auto simp: service_names_def)

lemma asks_for_simps:
  "asks_for n EtcdContainerName \<longleftrightarrow> ETCDRole \<in> set (Role n)"
  "s \<in> {KubeAPIContainerName, KubeControllerContainerName, SchedulerContainerName} \<Longrightarrow> asks_for n s \<longleftrightarrow> ControlRole \<in> set (Role n)"
  "s \<in> {KubeletContainerName, KubeproxyContainerName} \<Longrightarrow> asks_for n s"
  "asks_for n NginxProxyContainerName \<longleftrightarrow> ControlRole \<notin> set (Role n)"
  by (auto simp: asks_for_def container_names)

lemma parsed_serve:
  assumes "ParseCluster env cfg p d f g w = (Ret (c, cfg'), w1)" "key_usable cfg" "configured cfg \<subseteq> E"
  shows "may_serve (hstore w1) E c"
proof -
  let ?k = "length (hstore w)" and ?hs = "hstore w1"
  from ParseCluster_hosts[OF assms(1,2)] obtain new where h1: "?hs = hstore w @ new" and new: "list_all2 host_for (Nodes cfg) new"
    and planes: "planeIs ?hs ?k IsEtcd (EtcdHosts c)" "planeIs ?hs ?k IsControl (ControlPlaneHosts c)" "planeIs ?hs ?k IsWorker (WorkerHosts c)"
    by blast
  have start: "r \<in> may_start ?hs E s"
    if "?k \<le> r" "r < length ?hs" "\<And>n. host_for n (?hs ! r) \<Longrightarrow> asks_for n s" for r s
  proof -
    have "r - ?k < length new" using that(1,2) by (simp add: h1)
    then have node: "Nodes cfg ! (r - ?k) \<in> set (Nodes cfg)" "host_for (Nodes cfg ! (r - ?k)) (?hs ! r)"
      using new that(1) by (simp_all add: list_all2_lengthD list_all2_nthD2 h1 nth_append)
    with that assms(3) show ?thesis by (force simp: may_start_def configured_def host_for_def)
  qed
  have bounds: "?k \<le> r \<and> r < length ?hs" if "r \<in> set (EtcdHosts c @ ControlPlaneHosts c @ WorkerHosts c)" for r
    using that planes by (auto simp: planeIs_def)
  show ?thesis
    unfolding may_serve_def
  proof (intro conjI ballI subsetI impI)
    show "r \<in> may_start ?hs E EtcdContainerName" if "r \<in> set (EtcdHosts c)" for r
      by (rule start) (use that planes(1) in \<open>auto simp: planeIs_def host_for_def asks_for_simps\<close>)
    show "r \<in> may_start ?hs E s"
      if "s \<in> {KubeAPIContainerName, KubeControllerContainerName, SchedulerContainerName}" "r \<in> set (ControlPlaneHosts c)" for r s
      by (rule start) (use that planes(2) asks_for_simps(2)[OF that(1)] in \<open>auto simp: planeIs_def host_for_def\<close>)
  qed (rule start; use bounds in \<open>auto simp: asks_for_simps host_for_def\<close>)+
qed

context docker_server
begin

text \<open>Whatever \<^verbatim>\<open>ClusterUp\<close> returns, after reading the configuration it starts no services but those of \<open>E\<close>.\<close>

lemma keeps_rest:
  assumes "may_serve hs E c"
  shows "keeps (only_started view hs E)
    (thenIO (TunnelHosts env c False)
    (bindIO (GetClusterState env c) (\<lambda>(currentCluster, kubeCluster0).
     thenIO (CheckClusterPorts env kubeCluster0 currentCluster)
    (bindIO (SetUpAuthentication env kubeCluster0 currentCluster) (\<lambda>kubeCluster1.
     bindIO (ReconcileCluster env kubeCluster1 currentCluster) (\<lambda>kubeCluster.
     thenIO (SetUpHosts env kubeCluster)
    (thenIO (PrePullK8sImages env kubeCluster)
    (thenIO (DeployControlPlane env kubeCluster)
    (thenIO (SaveClusterState env kubeCluster cfg')
    (thenIO (DeployWorkerPlane env kubeCluster)
    (thenIO (DeployNetworkPlugin env kubeCluster)
    (thenIO (SyncLabelsAndTaints env kubeCluster)
    (thenIO (DeployAddons env kubeCluster)
       (accessOf env kubeCluster))))))))))))))" (is "keeps ?I (thenIO ?tunnel (bindIO ?state ?after))")
proof -
  have serve: "may_serve hs E c'" if "same_but_certs c c'" for c'
    using assms that by (auto simp: same_but_certs_def may_serve_def)
  have access: "keeps ?I (accessOf env c')" for c'
    unfolding accessOf_def firstHost_def by (intro keeps_intros)
  have tunnel: "keeps ?I ?tunnel" by (simp add: TunnelHosts_def) (intro keeps_intros)
  have after: "keeps ?I (?after x)" if "same_but_certs c (snd x)" for x
  proof (cases x)
    case (Pair cur c0)
    show ?thesis
      unfolding Pair prod.case
    proof (rule keeps_then[OF calm.keeps_CheckClusterPorts], rule keeps_bind_res[OF calm.keeps_SetUpAuthentication SetUpAuthentication_same])
      fix c1
      assume "same_but_certs c0 c1"
      with that Pair have c1: "same_but_certs c c1" by (auto intro: same_but_certs_trans)
      show "keeps ?I (bindIO (ReconcileCluster env c1 cur) (\<lambda>kubeCluster.
         thenIO (SetUpHosts env kubeCluster)
        (thenIO (PrePullK8sImages env kubeCluster)
        (thenIO (DeployControlPlane env kubeCluster)
        (thenIO (SaveClusterState env kubeCluster cfg')
        (thenIO (DeployWorkerPlane env kubeCluster)
        (thenIO (DeployNetworkPlugin env kubeCluster)
        (thenIO (SyncLabelsAndTaints env kubeCluster)
        (thenIO (DeployAddons env kubeCluster)
           (accessOf env kubeCluster))))))))))"
      proof (rule keeps_bind_res[OF calm.keeps_ReconcileCluster ReconcileCluster_same])
        show "set (EtcdHosts c1) \<subseteq> may_start hs E EtcdContainerName" using serve[OF c1] by (simp add: may_serve_def)
        fix c2
        assume "same_but_certs c1 c2"
        with c1 have "may_serve hs E c2" by (intro serve) (rule same_but_certs_trans)
        note planes = keeps_started_planes[OF this]
        show "keeps ?I (thenIO (SetUpHosts env c2) (thenIO (PrePullK8sImages env c2) (thenIO (DeployControlPlane env c2)
            (thenIO (SaveClusterState env c2 cfg') (thenIO (DeployWorkerPlane env c2) (thenIO (DeployNetworkPlugin env c2)
            (thenIO (SyncLabelsAndTaints env c2) (thenIO (DeployAddons env c2) (accessOf env c2)))))))))"
          by (intro keeps_then planes access keeps_intros)
      qed
    qed
  qed
  show ?thesis
  proof (rule keeps_then[OF tunnel], rule keeps_bind_res[OF calm.keeps_GetClusterState])
    show "same_but_certs c (snd x)" if "GetClusterState env c w = (Ret x, w')" for w x w'
      using that GetClusterState_same[of env c w "fst x" "snd x"] by simp
  qed (rule after)
qed

lemma ClusterUp_confined:
  assumes "ClusterUp env p cfg f g False d w = (res, w')" "key_usable cfg" "s \<in> set service_names" "started view w' a s"
  shows "started view w a s \<or> (a, s) \<in> configured cfg"
proof -
  let ?E = "{(a, s). started view w a s} \<union> configured cfg"
  obtain r1 w1 where parse: "ParseCluster env cfg p d f g w = (r1, w1)" by fastforce
  have w1: "only_started view (hstore w) ?E w1"
    by (rule keepsD[OF calm.keeps_ParseCluster _ parse]) (simp add: only_started_def linked_refl)
  have "only_started view hs ?E w'" if "hs = (case r1 of Ret _ \<Rightarrow> hstore w1 | _ \<Rightarrow> hstore w)" for hs
  proof (cases r1)
    case (Ret x)
    obtain c cfg' where x: "x = (c, cfg')" by (cases x)
    have serve: "may_serve (hstore w1) ?E c" by (rule parsed_serve[OF parse[unfolded Ret x] assms(2)]) simp
    have I: "only_started view (hstore w1) ?E w1" using w1 by (simp add: only_started_def linked_refl)
    from assms(1) show ?thesis
      unfolding ClusterUp_def bindIO_def[of "ParseCluster env cfg p d f g"] parse that Ret x
      by simp (rule keepsD[OF keeps_rest[OF serve] I])
  qed (use assms(1) parse w1 that in \<open>auto simp: ClusterUp_def bindIO_def\<close>)
  with assms(3,4) show ?thesis unfolding only_started_def by blast
qed

end

lemma ClusterUp_serves:
  assumes "docker_laws (dockerAPI env) view" and "ext_answers (extAPI env)" and "distinct (map Address (Nodes cfg))" and "key_usable cfg"
    and "ClusterUp env p cfg f g False d w = (Ret (url, crts), w')"
  shows "\<forall>n \<in> set (Nodes cfg). \<forall>s \<in> set service_names. asks_for n s \<longrightarrow> started view w' (Address n) s"
    and "\<exists>n \<in> set (Nodes cfg). ControlRole \<in> set (Role n) \<and> url = ''https://'' @ Address n @ '':6443''"
proof -
  let ?k = "length (hstore w)" and ?ns = "Nodes cfg"
  from assms(5) obtain c cfg' w1 w2 c' w8 w9 w10 w11 where parse: "ParseCluster env cfg p d f g w = (Ret (c, cfg'), w1)"
    and tunnel: "TunnelHosts env c False w1 = (Ret (), w2)" and same: "same_but_certs c c'" and l: "linked (hstore w2) w8"
    and planes: "DeployControlPlane env c' w8 = (Ret (), w9)" "SaveClusterState env c' cfg' w9 = (Ret (), w10)"
      "DeployWorkerPlane env c' w10 = (Ret (), w11)"
    and w': "daemons w' = daemons w11" "hstore w' = hstore w11" and access: "accessOf env c' w' = (Ret (url, crts), w')"
    by (rule ClusterUp_run)
  note pp = parsed_planes[OF parse tunnel l assms(4) refl]
  from same have cs: "EtcdHosts c' = EtcdHosts c" "ControlPlaneHosts c' = ControlPlaneHosts c" "refs c' = refs c"
    by (auto simp: same_but_certs_def refs_def)
  let ?cl = "\<lambda>r. Address (hstore w8 ! r)"
  have cl: "?cl (?k + i) = Address (?ns ! i)" if "i < length ?ns" for i using pp(1) that by (simp add: serves_def)
  have inj: "inj_on ?cl (set (refs c'))"
    using assms(3) unfolding cs pp(5) by (auto simp: inj_on_def cl distinct_conv_nth) blast
  have rd: "\<forall>r \<in> set (refs c'). ready (world_view view w8) r (?cl r)"
    using pp(1,2) unfolding cs connected_def pp(5) by (auto simp: ready_def serves_def)
  note st = planes_started[OF assms(1,2) rd inj planes]
  have same_flags: "IsControl (hstore w11 ! (?k + i)) = (ControlRole \<in> set (Role (?ns ! i)))" "?cl (?k + i) = Address (hstore w11 ! (?k + i))"
    if "i < length ?ns" for i
    using list_all2_nthD[OF st(4), of "?k + i"] pp(1) that conn_eq_sel(2,5) by (auto simp: serves_def)
  have started': "started view w' a m = started view w11 a m" for a m by (simp add: started_def w')
  have nodes: "started view w' (Address (?ns ! i)) s" if i: "i < length ?ns" and s: "s \<in> set service_names" "asks_for (?ns ! i) s" for i s
    using s(1)
  proof (cases rule: service_cases)
    case 1
    with st(1) i s(2) show ?thesis unfolding cs pp(3) started' cl[OF i, symmetric] by (auto simp: asks_for_simps)
  next
    case 2
    with st(2) i s(2) show ?thesis unfolding cs pp(4) started' cl[OF i, symmetric] asks_for_simps(2)[OF 2] by blast
  next
    case 3
    with st(3) i show ?thesis unfolding cs pp(5) started' cl[OF i, symmetric] by (force simp: worker_up_def up_world)
  next
    case 4
    with st(3) i s(2) same_flags(1)[OF i] show ?thesis
      unfolding cs pp(5) started' cl[OF i, symmetric] by (force simp: worker_up_def up_world asks_for_simps)
  qed
  show "\<forall>n \<in> set ?ns. \<forall>s \<in> set service_names. asks_for n s \<longrightarrow> started view w' (Address n) s"
  proof (intro ballI impI)
    fix n s
    assume "n \<in> set ?ns" "s \<in> set service_names" "asks_for n s"
    with nodes show "started view w' (Address n) s" unfolding in_set_conv_nth[of n] by blast
  qed
  from access obtain r where r: "r \<in> set (ControlPlaneHosts c)" "url = ''https://'' @ Address (hstore w11 ! r) @ '':6443''"
    by (auto simp: accessOf_def firstHost_def bindIO_Ret_iff cs w'(2) split: list.splits)
  then obtain i where i: "i < length ?ns" "ControlRole \<in> set (Role (?ns ! i))" "r = ?k + i" unfolding pp(4) by blast
  with r(2) same_flags(2) cl have "url = ''https://'' @ Address (?ns ! i) @ '':6443''" by simp
  with i show "\<exists>n \<in> set ?ns. ControlRole \<in> set (Role n) \<and> url = ''https://'' @ Address n @ '':6443''" by (auto intro!: bexI[of _ "?ns ! i"])
qed

text \<open>
  C1: \<^verbatim>\<open>ClusterUp\<close> (without \<^verbatim>\<open>--local\<close>) for a configuration with usable key paths, against daemons that keep their contract,
  starts services only where the configuration asks for them: whatever it returns, a service that has been started on some daemon afterwards
  had been started there before, or the daemon is that of a node whose roles ask for it (etcd: the etcd role; the API server, the controller
  manager and the scheduler: the control role; the kubelet and the proxy: any role; the proxy to the API servers: no control role).  And when it
  returns without an error and the nodes have different addresses, every service has been started on every node whose roles ask for it:
  whatever cluster was there before, whatever certificates were found, and however the roles are spread; the address it reports is that of
  a control node.
\<close>

theorem ClusterUp_starts:
  assumes "docker_laws (dockerAPI env) view" and "ext_answers (extAPI env)"
    and "distinct (map Address (Nodes cfg))" and "key_usable cfg"
  shows "case ClusterUp env p cfg f g False d w of (res, w') \<Rightarrow>
     (\<forall>a. \<forall>s \<in> set service_names. started view w' a s \<longrightarrow> started view w a s \<or> (\<exists>n \<in> set (Nodes cfg). Address n = a \<and> asks_for n s)) \<and>
     (\<forall>url crts. res = Ret (url, crts) \<longrightarrow>
        (\<forall>n \<in> set (Nodes cfg). \<forall>s \<in> set service_names. asks_for n s \<longrightarrow> started view w' (Address n) s) \<and>
        (\<exists>n \<in> set (Nodes cfg). ControlRole \<in> set (Role n) \<and> url = ''https://'' @ Address n @ '':6443''))"
proof -
  obtain res w' where run: "ClusterUp env p cfg f g False d w = (res, w')" by fastforce
  have "docker_server env view" by (rule docker_server.intro[OF assms(1)])
  note only = docker_server.ClusterUp_confined[OF this run assms(4)]
  show ?thesis
    unfolding run prod.case
  proof (intro conjI allI ballI impI)
    show "started view w a s \<or> (\<exists>n \<in> set (Nodes cfg). Address n = a \<and> asks_for n s)" if "s \<in> set service_names" "started view w' a s" for a s
      using only[OF that] by (auto simp: configured_def)
  qed (use ClusterUp_serves[OF assms] run in blast)+
qed

text \<open>Services on which the command returns for the configuration below.\<close>

definition job_env :: "(sim, sim_kube, sim_ext) env" where
  "job_env = sim_env\<lparr>dockerAPI := job_docker\<rparr>"

definition demo_node :: "string \<Rightarrow> string list \<Rightarrow> RKEConfigNode" where
  "demo_node a roles = RKEConfigNode_zero\<lparr>Address := a, node_User := ''ubuntu'', Role := roles\<rparr>"

definition demo_config :: RancherKubernetesEngineConfig where
  "demo_config = RancherKubernetesEngineConfig_zero\<lparr>Nodes :=
     [demo_node ''10.0.0.1'' [ControlRole, ETCDRole], demo_node ''10.0.0.2'' [WorkerRole]]\<rparr>"

lemma demo_node_sel: "Address (demo_node a rs) = a" "Role (demo_node a rs) = rs" "node_SSHKeyPath (demo_node a rs) = []"
  by (simp_all add: demo_node_def RKEConfigNode_zero_def)

lemma demo_config_nodes: "Nodes demo_config = [demo_node ''10.0.0.1'' [ControlRole, ETCDRole], demo_node ''10.0.0.2'' [WorkerRole]]"
  by (simp add: demo_config_def)

lemma demo_config_ok: "key_usable demo_config" "distinct (map Address (Nodes demo_config))"
  by (simp_all add: key_usable_def demo_config_nodes demo_node_sel) (simp add: demo_config_def RancherKubernetesEngineConfig_zero_def)

theorem ClusterUp_starts_witness:
  "case ClusterUp job_env ''cluster.yml'' demo_config None None False [] (sim_world []) of (res, w') \<Rightarrow>
     \<not> started sim_view w' ''10.0.0.2'' EtcdContainerName \<and> \<not> started sim_view w' ''10.0.0.2'' KubeAPIContainerName \<and>
     \<not> started sim_view w' ''10.0.0.1'' NginxProxyContainerName \<and>
     (\<forall>url crts. res = Ret (url, crts) \<longrightarrow> started sim_view w' ''10.0.0.1'' EtcdContainerName \<and> started sim_view w' ''10.0.0.1'' SchedulerContainerName \<and>
        started sim_view w' ''10.0.0.2'' NginxProxyContainerName \<and> url = ''https://10.0.0.1:6443'')"
proof -
  let ?m = "demo_node ''10.0.0.1'' [ControlRole, ETCDRole]" and ?n = "demo_node ''10.0.0.2'' [WorkerRole]"
  obtain res w' where run: "ClusterUp job_env ''cluster.yml'' demo_config None None False [] (sim_world []) = (res, w')" by fastforce
  have none: "\<not> started sim_view (sim_world []) a s" for a s
    by (simp add: started_def sim_world_def sim_view_def norm_def)
  have services: "EtcdContainerName \<in> set service_names" "KubeAPIContainerName \<in> set service_names" "NginxProxyContainerName \<in> set service_names"
    "SchedulerContainerName \<in> set service_names" by (simp_all add: service_names_def)
  have asked: "asks_for ?m EtcdContainerName" "asks_for ?m SchedulerContainerName" "asks_for ?n NginxProxyContainerName"
    "\<not> asks_for ?n EtcdContainerName" "\<not> asks_for ?n KubeAPIContainerName" "\<not> asks_for ?m NginxProxyContainerName"
    by (simp_all add: asks_for_simps demo_node_sel)
  have "docker_laws (dockerAPI job_env) sim_view" "ext_answers (extAPI job_env)" by (simp_all add: job_env_def job_docker_laws sim_ext_answers)
  note up = ClusterUp_starts[OF this demo_config_ok(2,1), where p = "''cluster.yml''" and f = None and g = None and d = "[]" and w = "sim_world []",
      unfolded run prod.case demo_config_nodes]
  have only: "\<not> started sim_view w' a s" if "s \<in> set service_names" "\<forall>n \<in> set [?m, ?n]. Address n = a \<longrightarrow> \<not> asks_for n s" for a s
    using conjunct1[OF up] none that by blast
  have all: "(\<forall>n \<in> set [?m, ?n]. \<forall>s \<in> set service_names. asks_for n s \<longrightarrow> started sim_view w' (Address n) s) \<and> url = ''https://10.0.0.1:6443''"
    if "res = Ret (url, crts)" for url crts
    using conjunct2[OF up] that by (cases crts) (simp add: demo_node_sel)
  show ?thesis
    unfolding run prod.case
    using only[OF services(1), of "''10.0.0.2''"] only[OF services(2), of "''10.0.0.2''"] only[OF services(3), of "''10.0.0.1''"] all services asked
    by (simp add: demo_node_sel)
qed

end
