(* ===== verification/RKE_Remove.thy ===== *)
theory RKE_Remove
  imports RKE_Up
begin

text \<open>
  What \<^verbatim>\<open>rke remove\<close> does as a whole: on the machines of the configuration the services are gone and nothing else is.
\<close>

section \<open>Connecting changes no container\<close>

definition seen :: "('d \<Rightarrow> dview) \<Rightarrow> bool list \<Rightarrow> (string \<Rightarrow> dview) \<Rightarrow> ('d, 'k, 'e) world \<Rightarrow> bool" where
  "seen view fs vs w \<longleftrightarrow> map IsWorker (hstore w) = fs \<and> (\<forall>a. view (daemons w a) = vs a)"

interpretation seen: kube_frame "seen view fs vs" for view fs vs
  by unfold_locales (simp_all add: seen_def)

lemma seen_setHost: "(\<And>h. IsWorker (f h) = IsWorker h) \<Longrightarrow> keeps (seen view fs vs) (setHost r f)"
  by (rule keepsI) (auto simp: seen_def setHost_def map_update list_update_same_conv)

lemma seen_Info:
  assumes "docker_laws (dockerAPI env) view"
  shows "keeps (seen view fs vs) (viaClient h (Info (dockerAPI env)))"
proof (cases "DClient h")
  case (Some a)
  have info: "vtriple view v (Info (dockerAPI env)) (\<lambda>_ v'. v' = v) (\<lambda>_ v'. v' = v)" for v
    using assms unfolding docker_laws_def by (elim conjE allE)
  have "view (snd (Info (dockerAPI env) d)) = view d" for d
    using info[of "view d"] by (cases "Info (dockerAPI env) d"; cases "fst (Info (dockerAPI env) d)") (auto simp: vtriple_def dest!: spec[of _ d])
  then have "view d' = view d" if "Info (dockerAPI env) d = (x, d')" for x d d' using that by (metis snd_conv)
  then show ?thesis
    by (intro keepsI) (auto simp: viaClient_def Some onDaemon_def seen_def split: prod.splits)
qed (simp add: viaClient_def keeps_panic)

lemma seen_TunnelUp: "docker_laws (dockerAPI env) view \<Longrightarrow> keeps (seen view fs vs) (TunnelUp env r df)"
proof -
  assume laws: "docker_laws (dockerAPI env) view"
  have fields: "keeps (seen view fs vs) (setHost r (\<lambda>h. h\<lparr>SavedKeyPhrase := p\<rparr>))"
    "keeps (seen view fs vs) (setHost r (\<lambda>h. h\<lparr>DClient := Some (Address h)\<rparr>))" for p
    by (rule seen_setHost, simp)+
  have factory: "keeps (seen view fs vs) (runFactory env f r)" for f
    by (cases f) (simp_all add: runSSHFactory_def runLocalConnFactory_def runLocalHealthcheckFactory_def checkEncryptedKey_def,
      (intro keeps_intros fields)+)
  show ?thesis
    unfolding TunnelUp_def newHTTPClient_def checkDockerVersion_def by (intro keeps_intros fields factory seen_Info laws)
qed

lemma TunnelHosts_seen:
  assumes "docker_laws (dockerAPI env) view" "TunnelHosts env c False w = (res, w')"
  shows "map IsWorker (hstore w') = map IsWorker (hstore w)" "view (daemons w' a) = view (daemons w a)"
proof -
  let ?I = "seen view (map IsWorker (hstore w)) (\<lambda>a. view (daemons w a))"
  have "keeps ?I (TunnelHosts env c False)"
    unfolding TunnelHosts_def tunnelAll_def if_False by (intro keeps_intros seen_TunnelUp assms(1))
  from keepsD[OF this _ assms(2)] show "map IsWorker (hstore w') = map IsWorker (hstore w)" "view (daemons w' a) = view (daemons w a)"
    by (simp_all add: seen_def)
qed

section \<open>Removing from the hosts\<close>

lemma one_named_touched: "one_named a n x x' \<Longrightarrow> touched (slots a [n]) x x'"
  by (auto simp: one_named_def touched_def slots_simps only_named_def list_all2_refl)

interpretation cleaner: host_task "\<lambda>env r. CleanUpAll env r img prs" "[CleanerContainerName]" "\<lambda>_. True"
    "\<lambda>x r a. absent x a CleanerContainerName" for img prs
proof
  fix env :: "('a, 'b, 'c) env" and view :: "'a \<Rightarrow> dview" and x r a
  assume "docker_laws (dockerAPI env) view" "ready x r a"
  then show "confined view (slots a [CleanerContainerName]) x (CleanUpAll env r img prs) (\<lambda>_ x'. absent x' a CleanerContainerName)"
    unfolding confined_def CleanUpAll_def absent_def
    by (intro vtriple_conseq[OF cleanUp_triple]) (auto simp: ready_def intro: one_named_touched)
qed (auto simp: absent_def touched_def)

text \<open>The containers that a removal takes off the machines.\<close>

definition leaving :: "Cluster \<Rightarrow> Host list \<Rightarrow> (hostref \<Rightarrow> string) \<Rightarrow> (string \<times> string) set" where
  "leaving c hs cl = (cl ` set (WorkerHosts c) \<times> worker_leaves) \<union> ((\<Union>r \<in> set (ControlPlaneHosts c). {cl r} \<times> control_leaves (hs ! r)) \<union>
     (\<Union>r \<in> set (EtcdHosts c). {cl r} \<times> etcd_leaves True (hs ! r)))"

lemma ClusterRemove_clears:
  fixes env :: "('d, 'k, 'e) env"
  assumes laws: "docker_laws (dockerAPI env) view" "docker_reliable (dockerAPI env) view" "ext_answers (extAPI env)"
    and rd: "\<forall>r \<in> set (refs c). ready (world_view view w) r (cl r)" and inj: "inj_on cl (set (refs c))"
    and run: "ClusterRemove env c w = (Ret (), w')"
  shows "\<forall>r \<in> set (refs c). conts (view (daemons w' (cl r))) CleanerContainerName = None"
    and "n \<notin> {CleanerContainerName, old_name CleanerContainerName} \<Longrightarrow>
      conts (view (daemons w' a)) n = (if (a, n) \<in> leaving c (hstore w) cl then None else conts (view (daemons w a)) n)"
proof -
  let ?v = "world_view view :: ('d, 'k, 'e) world \<Rightarrow> wview" and ?planes = "thenIO (RemoveWorkerPlane env (WorkerHosts c) True)
    (thenIO (RemoveControlPlane env (ControlPlaneHosts c) True) (RemoveEtcdPlane env (EtcdHosts c) True))"
  from run obtain w1 w2 where r: "?planes w = (Ret (), w1)"
    and k: "cleanUpHosts env (ControlPlaneHosts c) (WorkerHosts c) (EtcdHosts c) (img_Alpine (SystemImages c)) (PrivateRegistriesMap c) w1 = (Ret (), w2)"
    and f: "RemoveAdminConfig env (LocalKubeConfigPath c) w2 = (Ret (), w')"
    by (fastforce simp: ClusterRemove_def thenIO_Ret_iff)
  have same: "daemons w' = daemons w2"
    using f by (auto simp: RemoveAdminConfig_def removeFile_def tryIO_Ret_iff split: if_splits)
  have rdx: "\<forall>r \<in> set (refs c). ready x r (cl r)" if "wv_hosts x = hstore w" for x using rd that by (simp add: ready_def)
  have "clears view (leaving c (hstore w) cl) (?v w) ?planes"
    unfolding leaving_def
  proof (intro clears_then)
    show "clears view (cl ` set (WorkerHosts c) \<times> worker_leaves) (?v w) (RemoveWorkerPlane env (WorkerHosts c) True)"
      by (rule clears_RemoveWorkerPlane[OF laws(1,2)]) (use rd in \<open>auto simp: refs_def\<close>)
    show "clears view (\<Union>r \<in> set (ControlPlaneHosts c). {cl r} \<times> control_leaves (hstore w ! r)) x
        (RemoveControlPlane env (ControlPlaneHosts c) True)" if "wv_hosts x = wv_hosts (?v w)" for x
      using clears_RemoveControlPlane[OF laws(1,2), of "ControlPlaneHosts c" x cl True] rdx[of x] that by (simp add: refs_def)
    show "clears view (\<Union>r \<in> set (EtcdHosts c). {cl r} \<times> etcd_leaves True (hstore w ! r)) x' (RemoveEtcdPlane env (EtcdHosts c) True)"
      if "wv_hosts x = wv_hosts (?v w)" "wv_hosts x' = wv_hosts x" for x x'
      using clears_RemoveEtcdPlane[OF laws(1,2), of "EtcdHosts c" x' cl True] rdx[of x'] that by (simp add: refs_def)
  qed
  from vtriple_Ret[OF this[unfolded clears_def] r]
  have gone: "removed (leaving c (hstore w) cl) (?v w) (?v w1)" .
  have set: "set (ControlPlaneHosts c @ WorkerHosts c @ EtcdHosts c) = set (refs c)" by (auto simp: refs_def)
  have rd': "\<forall>r \<in> set (refs c). ready (?v w1) r (cl r)" using rdx gone by (simp add: removed_def)
  note cl = cleaner.serve_each[OF laws(1,3) TrueI, where rs = "ControlPlaneHosts c @ WorkerHosts c @ EtcdHosts c", unfolded set, OF rd' inj]
  note cl' = confined_world(1)[OF cl k[unfolded cleanUpHosts_def]] confined_world(3)[OF cl k[unfolded cleanUpHosts_def] refl]
  then show "\<forall>r \<in> set (refs c). conts (view (daemons w' (cl r))) CleanerContainerName = None" by (simp add: absent_world same)
  assume "n \<notin> {CleanerContainerName, old_name CleanerContainerName}"
  then have "(a, n) \<notin> (\<Union>r \<in> set (refs c). slots (cl r) [CleanerContainerName])" by (auto simp: slots_simps)
  with cl'(1) have "conts (view (daemons w2 a)) n = conts (view (daemons w1 a)) n" by (simp add: touched_world)
  with gone show "conts (view (daemons w' a)) n = (if (a, n) \<in> leaving c (hstore w) cl then None else conts (view (daemons w a)) n)"
    by (simp add: same removed_def world_view_def)
qed

section \<open>The whole command\<close>

text \<open>The services that a node of the configuration may run.\<close>

definition services_of :: "RKEConfigNode \<Rightarrow> string set" where
  "services_of n = (if ETCDRole \<in> set (Role n) then {EtcdContainerName} else {}) \<union>
     (if ControlRole \<in> set (Role n) then {KubeAPIContainerName, KubeControllerContainerName, SchedulerContainerName} else {}) \<union>
     {KubeletContainerName, KubeproxyContainerName, SidekickContainerName} \<union>
     (if ETCDRole \<in> set (Role n) \<or> WorkerRole \<in> set (Role n) then {NginxProxyContainerName} else {})"

lemma leaving_services:
  assumes hosts: "\<forall>i < length ns. cl (k + i) = Address (ns ! i) \<and> IsWorker (hs ! (k + i)) = (WorkerRole \<in> set (Role (ns ! i)))"
    and planes: "set (EtcdHosts c) = {k + i |i. i < length ns \<and> ETCDRole \<in> set (Role (ns ! i))}"
      "set (ControlPlaneHosts c) = {k + i |i. i < length ns \<and> ControlRole \<in> set (Role (ns ! i))}"
      "set (WorkerHosts c) = {k + i |i. i < length ns \<and> WorkerRole \<in> set (Role (ns ! i))}"
    and all: "set (refs c) = {k + i |i. i < length ns}"
  shows "(a, m) \<in> leaving c hs cl \<longleftrightarrow> (\<exists>n \<in> set ns. a = Address n \<and> m \<in> services_of n)"
proof -
  have u: "(a, m) \<in> (\<Union>r \<in> {k + i |i. i < length ns \<and> P i}. {cl r} \<times> L r) \<longleftrightarrow> (\<exists>i < length ns. a = cl (k + i) \<and> P i \<and> m \<in> L (k + i))"
    and t: "(a, m) \<in> cl ` {k + i |i. i < length ns \<and> P i} \<times> W \<longleftrightarrow> (\<exists>i < length ns. a = cl (k + i) \<and> P i \<and> m \<in> W)" for P L W
    by auto
  have "(a, m) \<in> leaving c hs cl \<longleftrightarrow> (\<exists>i < length ns. a = cl (k + i) \<and>
      (WorkerRole \<in> set (Role (ns ! i)) \<and> m \<in> worker_leaves \<or> ControlRole \<in> set (Role (ns ! i)) \<and> m \<in> control_leaves (hs ! (k + i)) \<or>
       ETCDRole \<in> set (Role (ns ! i)) \<and> m \<in> etcd_leaves True (hs ! (k + i))))" (is "_ \<longleftrightarrow> (\<exists>i < _. _ \<and> ?L i)")
    unfolding leaving_def planes Un_iff u t by blast
  moreover have "a = cl (k + i) \<longleftrightarrow> a = Address (ns ! i)" if "i < length ns" for i using hosts that by simp
  moreover have "?L i \<longleftrightarrow> m \<in> services_of (ns ! i)" if "i < length ns" for i
  proof -
    have "k + i \<in> set (refs c)" using that all by blast
    then have "ETCDRole \<in> set (Role (ns ! i)) \<or> ControlRole \<in> set (Role (ns ! i)) \<or> WorkerRole \<in> set (Role (ns ! i))"
      by (auto simp: refs_def planes)
    with hosts that show ?thesis by (auto simp: worker_leaves_def control_leaves_def etcd_leaves_def services_of_def)
  qed
  ultimately have "(a, m) \<in> leaving c hs cl \<longleftrightarrow> (\<exists>i < length ns. a = Address (ns ! i) \<and> m \<in> services_of (ns ! i))" by auto
  then show ?thesis unfolding Bex_def in_set_conv_nth by blast
qed

lemma ClusterRemove_run:
  assumes "docker_laws (dockerAPI env) view" and "docker_reliable (dockerAPI env) view" and "ext_answers (extAPI env)"
    and "distinct (map Address (Nodes cfg))" and "key_usable cfg"
    and "cmd_ClusterRemove env p cfg f False d w = (Ret (), w')"
  shows "(\<forall>n \<in> set (Nodes cfg). conts (view (daemons w' (Address n))) CleanerContainerName = None) \<and>
   (\<forall>a m. m \<notin> {CleanerContainerName, old_name CleanerContainerName} \<longrightarrow>
      conts (view (daemons w' a)) m =
        (if \<exists>n \<in> set (Nodes cfg). a = Address n \<and> m \<in> services_of n then None else conts (view (daemons w a)) m))"
proof (intro conjI)
  let ?k = "length (hstore w)" and ?ns = "Nodes cfg"
  from assms(6) obtain c cfg' w1 w2 where parse: "ParseCluster env cfg p d f None w = (Ret (c, cfg'), w1)"
    and tunnel: "TunnelHosts env c False w1 = (Ret (), w2)" and remove: "ClusterRemove env c w2 = (Ret (), w')"
    by (auto simp: cmd_ClusterRemove_def bindIO_Ret_iff thenIO_Ret_iff)
  note pp = parsed_planes[OF parse tunnel linked_refl assms(5) refl]
  note ts = TunnelHosts_seen[OF assms(1) tunnel]
  let ?cl = "\<lambda>r. Address (hstore w2 ! r)"
  have worker: "IsWorker (hstore w2 ! r) = IsWorker (hstore w1 ! r)" if "r < length (hstore w1)" for r
    using ts(1) that by (metis length_map nth_map)
  have hosts: "\<forall>i < length ?ns. ?cl (?k + i) = Address (?ns ! i) \<and> IsWorker (hstore w2 ! (?k + i)) = (WorkerRole \<in> set (Role (?ns ! i)))"
    using pp(1,7) worker by (simp add: serves_def)
  have inj: "inj_on ?cl (set (refs c))"
    using assms(4) hosts unfolding pp(5) by (auto simp: inj_on_def distinct_conv_nth) blast
  have rd: "\<forall>r \<in> set (refs c). ready (world_view view w2) r (?cl r)"
    using pp(1,2) unfolding connected_def pp(5) by (auto simp: ready_def serves_def)
  note gone = ClusterRemove_clears[OF assms(1-3) rd inj remove]
  show "\<forall>n \<in> set ?ns. conts (view (daemons w' (Address n))) CleanerContainerName = None"
    using gone(1) hosts unfolding pp(5) by (fastforce simp: in_set_conv_nth)
  have w1: "daemons w1 = daemons w" using parse ParseCluster_cases[of env cfg p d f None w] by (auto split: option.splits if_splits)
  show "\<forall>a m. m \<notin> {CleanerContainerName, old_name CleanerContainerName} \<longrightarrow> conts (view (daemons w' a)) m =
        (if \<exists>n \<in> set ?ns. a = Address n \<and> m \<in> services_of n then None else conts (view (daemons w a)) m)"
    using gone(2) unfolding leaving_services[OF hosts pp(3,4,6,5)] ts(2) w1 by blast
qed

text \<open>
  C2: against daemons in service, when \<^verbatim>\<open>rke remove\<close> returns for a configuration whose nodes have different addresses, then every
  service that the roles of a node may have put on it is gone, the containers that cleaned the machines are gone too, and every
  other container on these and on all other machines is as it was.
\<close>

theorem cmd_ClusterRemove_removes:
  assumes "docker_laws (dockerAPI env) view" and "docker_reliable (dockerAPI env) view" and "ext_answers (extAPI env)"
    and "distinct (map Address (Nodes cfg))" and "key_usable cfg"
  shows "case cmd_ClusterRemove env p cfg f False d w of
     (Ret _, w') \<Rightarrow>
       (\<forall>n \<in> set (Nodes cfg). conts (view (daemons w' (Address n))) CleanerContainerName = None) \<and>
       (\<forall>a m. m \<notin> {CleanerContainerName, old_name CleanerContainerName} \<longrightarrow>
          conts (view (daemons w' a)) m =
            (if \<exists>n \<in> set (Nodes cfg). a = Address n \<and> m \<in> services_of n then None else conts (view (daemons w a)) m))
   | _ \<Rightarrow> True"
  using ClusterRemove_run[OF assms] by (auto split: prod.splits outcome.splits)

lemma job_docker_reliable: "docker_reliable job_docker sim_view"
proof -
  have eqs: "ContainerInspect job_docker = ContainerInspect sim_docker" "ContainerCreate job_docker = ContainerCreate sim_docker"
    "ContainerStart job_docker = ContainerStart sim_docker" "ContainerStop job_docker = ContainerStop sim_docker"
    "ContainerRename job_docker = ContainerRename sim_docker" "ContainerWait job_docker = ContainerWait sim_docker"
    "ImageInspect job_docker = ImageInspect sim_docker" "ImagePull job_docker = ImagePull sim_docker"
    by (simp_all add: job_docker_def exit_docker_def)
  have "vtriple sim_view v (ContainerList sim_docker all) (\<lambda>_ _. True) (\<lambda>_ _. False)" for all v
    using sim_docker_reliable unfolding docker_reliable_def by (elim conjE allE)
  then have l: "vtriple sim_view v (ContainerList job_docker all) (\<lambda>_ _. True) (\<lambda>_ _. False)" for all v
    by (cases all) (auto simp: vtriple_def job_docker_def exit_docker_def)
  have r: "vtriple sim_view v (ContainerRemove job_docker r) (\<lambda>_ _. True) (\<lambda>_ _. False)" if "resolves v r m c" for v r m c
    by (rule vtriple_conseq[OF job_remove]) (use that in \<open>auto simp: unresolved_def\<close>)
  from sim_docker_reliable show ?thesis
    unfolding docker_reliable_def eqs
    by - (elim conjE, ((intro conjI)?; (assumption | (intro allI impI, erule r) | (intro allI, rule l))))
qed

theorem cmd_ClusterRemove_removes_witness:
  "case cmd_ClusterRemove job_env ''cluster.yml'' demo_config None False [] (sim_world []) of
     (Ret _, w') \<Rightarrow> conts (sim_view (daemons w' ''10.0.0.1'')) CleanerContainerName = None \<and>
       conts (sim_view (daemons w' ''10.0.0.1'')) EtcdContainerName = None \<and> conts (sim_view (daemons w' ''10.0.0.2'')) KubeletContainerName = None
   | _ \<Rightarrow> True"
proof -
  have laws: "docker_laws (dockerAPI job_env) sim_view" "docker_reliable (dockerAPI job_env) sim_view" "ext_answers (extAPI job_env)"
    by (simp_all add: job_env_def job_docker_laws job_docker_reliable sim_ext_answers)
  from cmd_ClusterRemove_removes[OF laws demo_config_ok(2,1), where w = "sim_world []" and p = "''cluster.yml''" and f = None and d = "[]"]
  show ?thesis
    by (auto simp: demo_config_nodes demo_node_sel services_of_def container_names old_name_def CleanerContainerName_def
        split: prod.splits outcome.splits)
qed

end
