(* ===== verification/RKE_Invariants.thy ===== *)
theory RKE_Invariants
  imports RKE_Up
begin

text \<open>
  What holds in every state the program passes through: the steps of the commands as a relation on states, with what each
  of them keeps of the hosts; that reconciling a cluster whose hosts have not changed calls no daemon; and the order in which control
  hosts leave.
\<close>

section \<open>Steps of the commands\<close>

text \<open>
  One step of a command on a cluster, whatever it returns: an error or a panic ends the command, and the next run of it starts from the
  state that is left.
\<close>

inductive cluster_step :: "('d, 'k, 'e) env \<Rightarrow> ('d, 'k, 'e) world \<Rightarrow> ('d, 'k, 'e) world \<Rightarrow> bool" for env where
  parse: "ParseCluster env cfg p d f g w = (res, w') \<Longrightarrow> cluster_step env w w'"
| tunnel: "TunnelHosts env c local w = (res, w') \<Longrightarrow> cluster_step env w w'"
| state: "GetClusterState env c w = (res, w') \<Longrightarrow> cluster_step env w w'"
| ports: "CheckClusterPorts env c cur w = (res, w') \<Longrightarrow> cluster_step env w w'"
| authentication: "SetUpAuthentication env c cur w = (res, w') \<Longrightarrow> cluster_step env w w'"
| reconcile: "ReconcileCluster env c cur w = (res, w') \<Longrightarrow> cluster_step env w w'"
| set_up: "SetUpHosts env c w = (res, w') \<Longrightarrow> cluster_step env w w'"
| pull: "PrePullK8sImages env c w = (res, w') \<Longrightarrow> cluster_step env w w'"
| control: "DeployControlPlane env c w = (res, w') \<Longrightarrow> cluster_step env w w'"
| save: "SaveClusterState env c cfg w = (res, w') \<Longrightarrow> cluster_step env w w'"
| worker: "DeployWorkerPlane env c w = (res, w') \<Longrightarrow> cluster_step env w w'"
| network: "DeployNetworkPlugin env c w = (res, w') \<Longrightarrow> cluster_step env w w'"
| labels: "SyncLabelsAndTaints env c w = (res, w') \<Longrightarrow> cluster_step env w w'"
| addons: "DeployAddons env c w = (res, w') \<Longrightarrow> cluster_step env w w'"
| remove: "ClusterRemove env c w = (res, w') \<Longrightarrow> cluster_step env w w'"

text \<open>The hosts \<open>hs\<close> are still the machines they were.\<close>

definition same_machines :: "Host list \<Rightarrow> ('d, 'k, 'e) world \<Rightarrow> bool" where
  "same_machines hs w \<longleftrightarrow> length hs \<le> length (hstore w) \<and> (\<forall>r < length hs. same_machine (hs ! r) (hstore w ! r))"

lemma same_machines_refl: "same_machines (hstore w) w"
  by (simp add: same_machines_def same_machine_def)

lemma same_machines_set:
  "same_machines hs w \<Longrightarrow> r < length (hstore w) \<Longrightarrow> same_machine (hstore w ! r) h \<Longrightarrow>
     same_machines hs (w\<lparr>hstore := (hstore w)[r := h]\<rparr>)"
  by (auto simp: same_machines_def nth_list_update intro: same_machine_trans)

interpretation machines: host_frame "same_machines hs" for hs
proof
  show "same_machines hs (w\<lparr>hstore := hstore w @ [h]\<rparr>)" if "same_machines hs w" for w :: "('a, 'b, 'c) world" and h
    using that by (auto simp: same_machines_def nth_append)
  show "same_machines hs (w\<lparr>hstore := (hstore w)[r := h]\<rparr>)"
    if "same_machines hs w" "r < length (hstore w)" "host_kept (hstore w ! r) h" for w :: "('a, 'b, 'c) world" and r h
    using that by (intro same_machines_set) (simp_all add: host_kept_def)
qed (simp_all add: same_machines_def)

lemma machines_remove: "keeps (same_machines hs) (ClusterRemove env c)"
proof -
  have "keeps (same_machines hs) (RemoveAdminConfig env path)" for path :: string
    unfolding RemoveAdminConfig_def by (intro keeps_intros keepsI) (auto simp: removeFile_def same_machines_def)
  then show ?thesis unfolding ClusterRemove_def by (intro keeps_intros)
qed

lemma machines_tunnel_local: "keeps (same_machines hs) (TunnelUpLocal env r)"
proof -
  have ext: "keeps (unconnected r (same_machines hs)) (onExt m)" for m :: "('e, 'x) io"
    by (rule keepsI) (auto simp: unconnected_def onExt_def same_machines_def split: prod.splits)
  have set: "moves (unconnected r (same_machines hs)) (same_machines hs) (setHost r (\<lambda>h. h\<lparr>DClient := Some local_daemon\<rparr>))"
    by (auto simp: moves_def unconnected_def setHost_def intro!: same_machines_set) (simp add: same_machine_def)
  show ?thesis
    unfolding TunnelUpLocal_def
    by (rule keeps_connecting)
       (intro moves_then moves_set set keeps_wrap ext machines.keeps_checkDockerVersion; erule unconnectedD)
qed

lemma machines_tunnel: "keeps (same_machines hs) (TunnelHosts env c local)"
  unfolding TunnelHosts_def by (intro keeps_intros machines_tunnel_local)

lemma machines_step: "cluster_step env w w' \<Longrightarrow> same_machines hs w \<Longrightarrow> same_machines hs w'"
  by (induction rule: cluster_step.induct)
     (erule keepsD[rotated 2]; (assumption | intro machines_remove machines_tunnel keeps_intros))+

text \<open>
  C5: along every sequence of steps, of one command or of several, with the local daemon or through dialers, and whatever each step
  returns, a host stays the machine it is: the fields of its node (its name, addresses, roles, user, keys and labels; not the socket of its
  daemon) and the control and etcd roles it was classified by do not change, a host that is no worker does not become one, and a host that
  has a client keeps it: it is never connected a second time.
\<close>

theorem hosts_stay_linked:
  assumes "(cluster_step env)\<^sup>*\<^sup>* w w'" and "r < length (hstore w)"
  shows "r < length (hstore w') \<and> same_machine (hstore w ! r) (hstore w' ! r)"
proof -
  from assms(1) have "same_machines (hstore w) w'"
    by (induction rule: rtranclp_induct) (auto intro: same_machines_refl machines_step)
  with assms(2) show ?thesis by (simp add: same_machines_def)
qed

definition demo_cluster :: Cluster where
  "demo_cluster = (clusterOf demo_config ''cluster.yml'' None None)\<lparr>EtcdHosts := [0], ControlPlaneHosts := [0], WorkerHosts := []\<rparr>"

theorem hosts_stay_linked_witness:
  "let w = sim_world [sim_fresh_host]; w1 = snd (TunnelHosts sim_env demo_cluster True w); w2 = snd (TunnelHosts sim_env demo_cluster False w1)
   in DClient (hstore w1 ! 0) = Some local_daemon \<and> same_machine sim_fresh_host (hstore w2 ! 0) \<and> same_machine (hstore w1 ! 0) (hstore w2 ! 0)"
proof -
  let ?w = "sim_world [sim_fresh_host]"
  let ?w1 = "snd (TunnelHosts sim_env demo_cluster True ?w)"
  let ?w2 = "snd (TunnelHosts sim_env demo_cluster False ?w1)"
  have "cluster_step sim_env ?w ?w1" "cluster_step sim_env ?w1 ?w2" by (rule tunnel; rule surjective_pairing)+
  then have steps: "(cluster_step sim_env)\<^sup>*\<^sup>* ?w ?w2" "(cluster_step sim_env)\<^sup>*\<^sup>* ?w1 ?w2" by auto
  have client: "DClient (hstore ?w1 ! 0) = Some local_daemon" and len: "length (hstore ?w1) = 1" by code_simp+
  from hosts_stay_linked[OF steps(1), of 0] have "same_machine sim_fresh_host (hstore ?w2 ! 0)" by (simp add: sim_world_def)
  moreover from hosts_stay_linked[OF steps(2), of 0] len have "same_machine (hstore ?w1 ! 0) (hstore ?w2 ! 0)" by simp
  ultimately show ?thesis using client by (simp add: Let_def)
qed

section \<open>Nothing to reconcile\<close>

interpretation kept: store_frame "\<lambda>w. linked hs w \<and> daemons w = ds" for hs ds
proof
  show "linked hs (w\<lparr>hstore := (hstore w)[r := h]\<rparr>) \<and> daemons (w\<lparr>hstore := (hstore w)[r := h]\<rparr>) = ds"
    if "linked hs w \<and> daemons w = ds" "r < length (hstore w)" "host_kept (hstore w ! r) h" for w :: "('a, 'b, 'c) world" and r h
    using that linked.host_set by auto
qed (simp_all add: linked_def)

interpretation kept: kube_frame "\<lambda>w. linked hs w \<and> daemons w = ds" for hs ds
  by unfold_locales (simp_all add: linked_def)

lemma linked_addr: "linked hs w \<Longrightarrow> r < length hs \<Longrightarrow> addr (hstore w) r = addr hs r"
  by (simp add: linked_def host_kept_def same_machine_def addr_def)

lemma unchanged_lists:
  assumes "linked hs w" "set cur \<union> set cfg \<subseteq> {..< length hs}" "\<not> IsHostListChanged hs cur cfg"
  shows "GetToDeleteHosts (hstore w) cur cfg = []" "GetToAddHosts (hstore w) cur cfg = []"
proof -
  have eq: "addr (hstore w) r = addr hs r" if "r \<in> set cur \<union> set cfg" for r using linked_addr[OF assms(1)] assms(2) that by blast
  have "\<forall>r \<in> set cur. \<exists>q \<in> set cfg. addr hs r = addr hs q" "\<forall>q \<in> set cfg. \<exists>r \<in> set cur. addr hs r = addr hs q"
    using assms(3) by (auto simp: IsHostListChanged_def list_ex_iff split: if_splits) metis
  then show "GetToDeleteHosts (hstore w) cur cfg = []" "GetToAddHosts (hstore w) cur cfg = []"
    using eq by (fastforce simp: GetToDeleteHosts_def GetToAddHosts_def filter_empty_conv list_ex_iff)+
qed

definition same_planes :: "Host list \<Rightarrow> Cluster \<Rightarrow> Cluster \<Rightarrow> bool" where
  "same_planes hs cur c \<longleftrightarrow> \<not> IsHostListChanged hs (EtcdHosts cur) (EtcdHosts c) \<and>
     \<not> IsHostListChanged hs (ControlPlaneHosts cur) (ControlPlaneHosts c) \<and> \<not> IsHostListChanged hs (WorkerHosts cur) (WorkerHosts c)"

lemma keeps_reconcile:
  assumes "set (refs cur) \<union> set (refs c) \<subseteq> {..< length hs}" "same_planes hs cur c"
  shows "keeps (\<lambda>w. linked hs w \<and> daemons w = ds) (ReconcileCluster env c (Some cur))" (is "keeps ?I _")
proof -
  have planes: "GetToDeleteHosts (hstore w) (plane cur) (plane c) = []" "GetToAddHosts (hstore w) (plane cur) (plane c) = []"
    if "?I w" "plane \<in> {EtcdHosts, ControlPlaneHosts, WorkerHosts}" for w plane
    using unchanged_lists[of hs w "plane cur" "plane c"] that assms by (auto simp: refs_def same_planes_def)
  have etcd: "keeps ?I (reconcileEtcd env cur c cl)" for cl
    unfolding reconcileEtcd_def by (intro keeps_bind_get keeps_intros) (simp_all add: planes keeps_ret)
  have worker: "keeps ?I (reconcileWorker env (cur\<lparr>Certificates := m\<rparr>) (c\<lparr>Certificates := m\<rparr>) cl)" for m cl
    unfolding reconcileWorker_def by (intro keeps_bind_get keeps_intros) (simp_all add: planes keeps_ret)
  have rebuild: "keeps ?I (rebuildLocalAdminConfig env k)" for k
    by (intro keeps_rebuild keeps_intros)
  have control: "keeps ?I (reconcileControl env (cur\<lparr>Certificates := m\<rparr>) (c\<lparr>Certificates := m\<rparr>))" for m
    unfolding reconcileControl_def Let_def
    by (intro keeps_bind_get keeps_bind keeps_then keeps_intros rebuild) (simp_all add: planes keeps_ret)
  show ?thesis
    unfolding ReconcileCluster_def option.case Let_def by (intro keeps_intros etcd worker control)
qed

text \<open>
  C10: when the three planes of the configured cluster have the same addresses as those of the cluster that is there,
  \<^verbatim>\<open>ReconcileCluster\<close> makes no call to any Docker daemon, whatever else fails, and leaves every host linked as it was.
\<close>

theorem ReconcileCluster_unchanged:
  assumes "set (refs cur) \<union> set (refs c) \<subseteq> {..< length (hstore w)}" and "same_planes (hstore w) cur c"
  shows "case ReconcileCluster env c (Some cur) w of (res, w') \<Rightarrow>
     daemons w' = daemons w \<and> (\<forall>r < length (hstore w). host_kept (hstore w ! r) (hstore w' ! r))"
proof -
  obtain res w' where run: "ReconcileCluster env c (Some cur) w = (res, w')" by fastforce
  from keepsD[OF keeps_reconcile[OF assms] _ run, of "daemons w"] have "linked (hstore w) w' \<and> daemons w' = daemons w"
    by (simp add: linked_refl)
  with run show ?thesis by (simp add: linked_def)
qed

theorem ReconcileCluster_unchanged_witness:
  "case ReconcileCluster sim_env demo_cluster (Some demo_cluster) demo_hosts of (res, w') \<Rightarrow>
     daemons w' = daemons demo_hosts \<and> (\<forall>r < length (hstore demo_hosts). host_kept (hstore demo_hosts ! r) (hstore w' ! r))"
proof (rule ReconcileCluster_unchanged)
  have c: "EtcdHosts demo_cluster = [0]" "ControlPlaneHosts demo_cluster = [0]" "WorkerHosts demo_cluster = []"
    by (simp_all add: demo_cluster_def clusterOf_def)
  show "set (refs demo_cluster) \<union> set (refs demo_cluster) \<subseteq> {..< length (hstore demo_hosts)}"
    by (auto simp: refs_def c demo_hosts_def sim_world_def)
  show "same_planes (hstore demo_hosts) demo_cluster demo_cluster" by (simp add: same_planes_def c IsHostListChanged_def)
qed

section \<open>The order in which control hosts leave\<close>

lemma moveLoop_none: "i + n = length xs \<Longrightarrow> \<forall>j. i \<le> j \<and> j < length xs \<longrightarrow> \<not> self (xs ! j) \<Longrightarrow> moveLoop self i n xs = xs"
  by (induction n arbitrary: i) auto

lemma moveLoop_last:
  "i + n = length xs \<Longrightarrow> xs \<noteq> [] \<Longrightarrow> \<forall>j. i \<le> j \<and> j < length xs - 1 \<longrightarrow> \<not> self (xs ! j) \<Longrightarrow> moveLoop self i n xs = xs"
proof (induction n arbitrary: i)
  case (Suc n)
  show ?case
  proof (cases "i = length xs - 1")
    case True
    then have "take i xs @ drop (Suc i) xs @ [xs ! i] = xs"
      using Suc.prems(1,2) by (simp add: take_Suc_conv_app_nth[symmetric])
    moreover have "n = 0" using True Suc.prems(1,2) by (cases xs) auto
    ultimately show ?thesis by simp
  next
    case False
    then have "\<not> self (xs ! i)" using Suc.prems by auto
    with Suc.IH[of "Suc i"] Suc.prems show ?thesis by simp
  qed
qed simp

lemma moveLoop_split:
  assumes "\<forall>y \<in> set ys. \<not> self y" "self s" "\<forall>z \<in> set zs. \<not> self z"
  shows "i \<le> length ys \<Longrightarrow> i + n = length (ys @ s # zs) \<Longrightarrow> moveLoop self i n (ys @ s # zs) = ys @ zs @ [s]"
proof (induction n arbitrary: i)
  case (Suc n)
  show ?case
  proof (cases "i = length ys")
    case True
    have "moveLoop self (Suc i) n (ys @ zs @ [s]) = ys @ zs @ [s]"
      by (rule moveLoop_last) (use Suc.prems True assms in \<open>auto simp: nth_append\<close>)
    with True assms(2) show ?thesis by (simp add: nth_append)
  next
    case False
    then have "i < length ys" using Suc.prems by simp
    then have "\<not> self ((ys @ s # zs) ! i)" using assms(1) by (simp add: nth_append)
    with Suc.IH[of "Suc i"] Suc.prems False show ?thesis by simp
  qed
qed simp

text \<open>
  C11: the loop of \<^verbatim>\<open>reconcileControl\<close> that writes to the slice it runs over still does what it is for: when at most one of the hosts to
  delete is the one the local configuration points to, the result is the other hosts in their order, followed by that one.
\<close>

theorem moveLoop_moves_last:
  assumes "length (filter self xs) \<le> 1"
  shows "moveLoop self 0 (length xs) xs = filter (\<lambda>r. \<not> self r) xs @ filter self xs"
proof (cases "\<exists>s \<in> set xs. self s")
  case True
  then obtain ys s zs where xs: "xs = ys @ s # zs" and s: "self s" and ys: "\<forall>y \<in> set ys. \<not> self y" by (metis split_list_first_prop)
  with assms have zs: "\<forall>z \<in> set zs. \<not> self z" by (simp add: filter_empty_conv)
  have "moveLoop self 0 (length xs) xs = ys @ zs @ [s]" unfolding xs by (rule moveLoop_split[OF ys s zs]) simp_all
  with s ys zs show ?thesis by (simp add: xs filter_empty_conv[THEN iffD2] filter_id_conv[THEN iffD2])
next
  case False
  then show ?thesis by (simp add: moveLoop_none filter_empty_conv[THEN iffD2] filter_id_conv[THEN iffD2])
qed

theorem moveLoop_moves_last_witness:
  "moveLoop (\<lambda>r. r = 1) 0 (length [0, 1, 2, 3 :: nat]) [0, 1, 2, 3] = filter (\<lambda>r. r \<noteq> 1) [0, 1, 2, 3] @ filter (\<lambda>r. r = 1) [0, 1, 2, 3] \<and>
   filter (\<lambda>r. r \<noteq> 1) [0, 1, 2, 3] @ filter (\<lambda>r. r = 1) [0, 1, 2, 3] = [0, 2, 3, 1 :: nat]"
proof (intro conjI)
  show "moveLoop (\<lambda>r. r = 1) 0 (length [0, 1, 2, 3 :: nat]) [0, 1, 2, 3] = filter (\<lambda>r. r \<noteq> 1) [0, 1, 2, 3] @ filter (\<lambda>r. r = 1) [0, 1, 2, 3]"
    by (rule moveLoop_moves_last) simp
qed simp

end
