(* ===== verification/RKE_Nodes.thy ===== *)
theory RKE_Nodes
  imports RKE_Invariants
begin

text \<open>
  The nodes of Kubernetes while a cluster is reconciled: a machine that leaves the cluster leaves no node behind, and the nodes of
  machines that leave no plane are not touched.
\<close>

section \<open>Who leaves\<close>

definition leavers :: "Host list \<Rightarrow> Cluster \<Rightarrow> Cluster \<Rightarrow> hostref set" where
  "leavers hs cur c = set (GetToDeleteHosts hs (EtcdHosts cur) (EtcdHosts c)) \<union>
     set (GetToDeleteHosts hs (ControlPlaneHosts cur) (ControlPlaneHosts c)) \<union> set (GetToDeleteHosts hs (WorkerHosts cur) (WorkerHosts c))"

definition cluster_ok :: "Host list \<Rightarrow> Cluster \<Rightarrow> Cluster \<Rightarrow> bool" where
  "cluster_ok hs cur c \<longleftrightarrow> set (refs cur) \<union> set (refs c) \<subseteq> {..< length hs} \<and>
     (\<forall>r \<in> set (refs cur). (IsControl (hs ! r) \<longrightarrow> r \<in> set (ControlPlaneHosts cur)) \<and> (IsWorker (hs ! r) \<longrightarrow> r \<in> set (WorkerHosts cur)))"

lemma cluster_ok_refs:
  assumes "cluster_ok hs cur c"
  shows "r \<in> set (refs cur) \<Longrightarrow> r < length hs" "r \<in> set (refs c) \<Longrightarrow> r < length hs"
  using assms unfolding cluster_ok_def by blast+

lemma leavers_refs: "leavers hs cur c \<subseteq> set (refs cur)"
  by (auto simp: leavers_def GetToDeleteHosts_def refs_def)

lemma linked_lists:
  assumes "linked hs w" "set cur \<union> set cfg \<subseteq> {..< length hs}"
  shows "GetToDeleteHosts (hstore w) cur cfg = GetToDeleteHosts hs cur cfg"
proof -
  have "addr (hstore w) r = addr hs r" if "r \<in> set cur \<union> set cfg" for r using linked_addr[OF assms(1)] assms(2) that by blast
  then show ?thesis by (auto simp: GetToDeleteHosts_def list_ex_iff intro!: filter_cong)
qed

lemma linked_leaving:
  assumes "linked hs w" "cluster_ok hs cur c" "plane \<in> {EtcdHosts, ControlPlaneHosts, WorkerHosts}"
  shows "set (GetToDeleteHosts (hstore w) (plane cur) (plane c)) \<subseteq> leavers hs cur c"
  using linked_lists[OF assms(1), of "plane cur" "plane c"] assms(2,3) by (auto simp: cluster_ok_def leavers_def refs_def)

section \<open>Invariants of the nodes\<close>

text \<open>The hosts are linked to \<open>hs\<close>, and the nodes satisfy \<open>P\<close>.\<close>

definition nodes_sat :: "('k \<Rightarrow> kview) \<Rightarrow> Host list \<Rightarrow> ((string \<rightharpoonup> Node) \<Rightarrow> bool) \<Rightarrow> ('d, 'k, 'e) world \<Rightarrow> bool" where
  "nodes_sat kv hs P w \<longleftrightarrow> linked hs w \<and> P (kv_nodes (kv (kube w)))"

text \<open>What deleting the node \<open>n\<close> may do, whether or not it succeeds.\<close>

definition deletable :: "string \<Rightarrow> ((string \<rightharpoonup> Node) \<Rightarrow> bool) \<Rightarrow> bool" where
  "deletable n P \<longleftrightarrow> (\<forall>N N'. P N \<longrightarrow> (\<forall>m. m \<noteq> n \<longrightarrow> N' m = N m) \<longrightarrow> (N n = None \<longrightarrow> N' n = None) \<longrightarrow> P N')"

interpretation nodes_sat: daemon_frame "nodes_sat kv hs P" for kv :: "'k \<Rightarrow> kview" and hs P
proof
  show "nodes_sat kv hs P (w\<lparr>hstore := (hstore w)[r := h]\<rparr>)"
    if "nodes_sat kv hs P w" "r < length (hstore w)" "host_kept (hstore w ! r) h" for w :: "('d, 'k, 'e) world" and r h
    using that linked.host_set by (auto simp: nodes_sat_def)
  show "nodes_sat kv hs P (w\<lparr>hstore := hstore w @ [h]\<rparr>)" if "nodes_sat kv hs P w" for w :: "('d, 'k, 'e) world" and h
    using that linked.host_new by (auto simp: nodes_sat_def)
qed (simp_all add: nodes_sat_def linked_def)

lemma onKube_reads:
  fixes kv :: "'k \<Rightarrow> kview"
  assumes "\<And>v. vtriple kv v m (\<lambda>_ v'. v' = v) (\<lambda>_ v'. v' = v)"
  shows "keeps (nodes_sat kv hs P) (onKube m)"
proof (rule keepsI)
  fix w :: "('d, 'k, 'e) world"
  assume I: "nodes_sat kv hs P w"
  obtain res k where m: "m (kube w) = (res, k)" by fastforce
  from assms[of "kv (kube w)", unfolded vtriple_def, rule_format, OF refl] m have "kv k = kv (kube w)"
    by (simp split: outcome.splits)
  moreover have "linked hs (w\<lparr>kube := k\<rparr>)" using I by (intro linked.kube_free) (simp add: nodes_sat_def)
  ultimately show "nodes_sat kv hs P (snd (onKube m w))" using I m by (simp add: onKube_def nodes_sat_def)
qed

lemma version_keeps_nodes:
  assumes "kube_laws (kubeAPI env) kv"
  shows "keeps (nodes_sat kv hs P) (GetK8sVersion env path)"
proof -
  have "vtriple kv v (ServerVersion (kubeAPI env) cl) (\<lambda>_ v'. v' = v) (\<lambda>_ v'. v' = v)" for v cl
    using assms unfolding kube_laws_def by (elim conjE allE)
  then show ?thesis unfolding GetK8sVersion_def by (intro keeps_intros onKube_reads)
qed

lemma linked_name: "linked hs w \<Longrightarrow> r < length hs \<Longrightarrow> r < length (hstore w) \<and> HostnameOverride (hstore w ! r) = HostnameOverride (hs ! r)"
  by (simp add: linked_def host_kept_def same_machine_def)

lemma delete_keeps_nodes:
  fixes env :: "('d, 'k, 'e) env"
  assumes "kube_laws (kubeAPI env) kv" "r < length hs" "deletable (HostnameOverride (hs ! r)) P"
  shows "keeps (nodes_sat kv hs P) (DeleteNode env r cl b)"
proof (rule keepsI)
  fix w :: "('d, 'k, 'e) world"
  assume I: "nodes_sat kv hs P w"
  obtain res w' where run: "DeleteNode env r cl b w = (res, w')" by fastforce
  have l: "linked hs w'" by (rule keepsD[OF linked.keeps_sync(3) _ run]) (use I in \<open>simp add: nodes_sat_def\<close>)
  have "P (kv_nodes (kv (kube w'))) \<or> w' = w"
    using DeleteNode_nodes[OF assms(1) run] linked_name[of hs w r] I assms(2,3) unfolding deletable_def only_node_def nodes_sat_def
    by (metis (no_types))
  with I l run show "nodes_sat kv hs P (snd (DeleteNode env r cl b w))" by (auto simp: nodes_sat_def)
qed

lemma reconcile_frame:
  fixes env :: "('d, 'k, 'e) env"
  assumes "kube_laws (kubeAPI env) kv" "cluster_ok hs cur c" "\<And>r. r \<in> leavers hs cur c \<Longrightarrow> deletable (HostnameOverride (hs ! r)) P"
  shows "node_frame (nodes_sat kv hs P) env UNIV (leavers hs cur c) cur c"
proof
  show "keeps (nodes_sat kv hs P) (GetK8sVersion env path)" for path by (rule version_keeps_nodes[OF assms(1)])
  show "keeps (nodes_sat kv hs P) (DeleteNode env r cl b)" if "r \<in> leavers hs cur c" for r cl b
    by (rule delete_keeps_nodes[OF assms(1) cluster_ok_refs(1)[OF assms(2) subsetD[OF leavers_refs that]] assms(3)[OF that]])
  show "set (GetToDeleteHosts (hstore w) (plane cur) (plane c)) \<subseteq> leavers hs cur c"
    if "nodes_sat kv hs P w" "plane \<in> {EtcdHosts, ControlPlaneHosts, WorkerHosts}" for w :: "('d, 'k, 'e) world" and plane
    using that by (intro linked_leaving[OF _ assms(2)]) (simp_all add: nodes_sat_def)
qed simp

text \<open>The node \<open>n\<close> is gone.\<close>

abbreviation gone :: "('k \<Rightarrow> kview) \<Rightarrow> Host list \<Rightarrow> string \<Rightarrow> ('d, 'k, 'e) world \<Rightarrow> bool" where
  "gone kv hs n \<equiv> nodes_sat kv hs (\<lambda>N. N n = None)"

lemma gone_deletable: "deletable m (\<lambda>N. N n = None)"
  unfolding deletable_def by (cases "m = n") auto

lemma kept_deletable:
  assumes "n \<in> M"
  shows "deletable n (\<lambda>N. \<forall>m. m \<notin> M \<longrightarrow> N m = v m)"
  unfolding deletable_def
proof (intro allI impI)
  fix N N' :: "string \<rightharpoonup> Node" and m
  assume "\<forall>m. m \<notin> M \<longrightarrow> N m = v m" "\<forall>m. m \<noteq> n \<longrightarrow> N' m = N m" "m \<notin> M"
  moreover from this(3) assms have "m \<noteq> n" by blast
  ultimately show "N' m = v m" by simp
qed

lemma gone_frame:
  assumes "kube_laws (kubeAPI env) kv" "cluster_ok hs cur c"
  shows "node_frame (gone kv hs n) env UNIV (leavers hs cur c) cur c"
  by (rule reconcile_frame[OF assms gone_deletable])

section \<open>Hosts that leave\<close>

text \<open>After a loop that returns, what one pass establishes and every pass keeps holds.\<close>

lemma forIO_establishes:
  assumes "forIO f xs w = (Ret (), w')" "x \<in> set xs" "I w" "\<And>y. y \<in> set xs \<Longrightarrow> keeps I (f y)" "\<And>y. y \<in> set xs \<Longrightarrow> keeps J (f y)"
    and "\<And>va vb. I va \<Longrightarrow> f x va = (Ret (), vb) \<Longrightarrow> J vb"
  shows "J w'"
  using assms(1-5)
proof (induction xs arbitrary: w)
  case (Cons y ys)
  from Cons.prems(1) obtain v where y: "f y w = (Ret (), v)" and ys: "forIO f ys v = (Ret (), w')" by (auto simp: thenIO_Ret_iff)
  show ?case
  proof (cases "y = x")
    case True
    with y Cons.prems(3) have "J v" by (auto intro: assms(6))
    moreover have "keeps J (forIO f ys)" by (rule keeps_for) (simp add: Cons.prems(5))
    ultimately show ?thesis using ys by (blast dest: keepsD)
  next
    case False
    then show ?thesis using Cons.IH[OF ys] Cons.prems(2-5) keepsD[OF Cons.prems(4) Cons.prems(3) y] by auto
  qed
qed simp

lemma departing:
  assumes "linked hs w" "set cur \<union> set cfg \<subseteq> {..< length hs}" "r \<in> set cur" "\<forall>q \<in> set cfg. addr hs q \<noteq> addr hs r"
  shows "r \<in> set (GetToDeleteHosts (hstore w) cur cfg)"
  unfolding linked_lists[OF assms(1,2)] using assms(3,4) by (auto simp: GetToDeleteHosts_def list_ex_iff)

text \<open>A node that \<^verbatim>\<open>DeleteNode\<close> has deleted stays deleted while the host itself is cleaned.\<close>

lemma deleted_then_cleaned:
  assumes "kube_laws (kubeAPI env) kv" "linked hs w" "r < length hs" "n = HostnameOverride (hs ! r)"
    and "DeleteNode env r cl False w = (Ret (), w1)" "warnOnly (reconcileHostOf env cur b1 b2 r) w1 = (Ret (), w2)"
  shows "gone kv hs n w2"
proof -
  have "linked hs w1" by (rule keepsD[OF linked.keeps_sync(3) assms(2,5)])
  moreover have "kv_nodes (kv (kube w1)) n = None"
    using DeleteNode_nodes[OF assms(1,5)] linked_name[OF assms(2,3)] assms(4) by simp
  ultimately have "gone kv hs n w1" by (simp add: nodes_sat_def)
  moreover have "keeps (gone kv hs n) (warnOnly (reconcileHostOf env cur b1 b2 r))"
    unfolding warnOnly_def reconcileHostOf_def by (intro keeps_intros)
  ultimately show ?thesis using assms(6) by (blast dest: keepsD)
qed

definition no_worker :: "Host list \<Rightarrow> hostref \<Rightarrow> Host list" where
  "no_worker hs r = hs[r := (hs ! r)\<lparr>IsWorker := False\<rparr>]"

lemma no_worker_nth [simp]: "no_worker hs r ! q = (if q = r \<and> r < length hs then (hs ! r)\<lparr>IsWorker := False\<rparr> else hs ! q)"
  by (cases "q = r") (auto simp: no_worker_def list_update_beyond)

lemma no_worker_length [simp]: "length (no_worker hs r) = length hs"
  by (simp add: no_worker_def)

lemma setHost_no_worker:
  assumes "linked hs w" "r < length hs" "setHost r (\<lambda>h. h\<lparr>IsWorker := False\<rparr>) w = (Ret u, w')"
  shows "linked (no_worker hs r) w'" "linked hs w'" "IsControl (hstore w' ! r) = IsControl (hs ! r)"
proof -
  have w': "w' = w\<lparr>hstore := (hstore w)[r := (hstore w ! r)\<lparr>IsWorker := False\<rparr>]\<rparr>" using assms(3) by (auto simp: setHost_def split: if_splits)
  then show "linked (no_worker hs r) w'" "IsControl (hstore w' ! r) = IsControl (hs ! r)"
    using assms(1,2) by (auto simp: linked_def nth_list_update host_kept_def same_machine_def)
  show "linked hs w'" by (rule keepsD[OF linked.keeps_fields(3) assms(1,3)])
qed

lemma deleteWorker_Ret:
  assumes "kube_laws (kubeAPI env) kv" "linked hs w" "r < length hs" "deleteWorker env cur cl r w = (Ret (), w')"
  shows "if IsControl (hs ! r) then linked (no_worker hs r) w' else gone kv hs (HostnameOverride (hs ! r)) w'"
proof -
  from assms(4) obtain w1 w2 where set: "setHost r (\<lambda>h. h\<lparr>IsWorker := False\<rparr>) w = (Ret (), w1)"
    and del: "DeleteNode env r cl (IsControl (hstore w1 ! r)) w1 = (Ret (), w2)"
    and clean: "warnOnly (reconcileHostOf env cur True False r) w2 = (Ret (), w')"
    by (auto simp: deleteWorker_def thenIO_Ret_iff bindIO_Ret_iff catchIO_Ret_iff getHost_def split: if_splits)
  note w1 = setHost_no_worker[OF assms(2,3) set]
  have "keeps (linked (no_worker hs r)) (warnOnly (reconcileHostOf env cur True False r))"
    unfolding warnOnly_def reconcileHostOf_def by (intro keeps_intros)
  from keepsD[OF this keepsD[OF linked.keeps_sync(3) w1(1) del] clean] have "linked (no_worker hs r) w'" .
  moreover have "gone kv hs (HostnameOverride (hs ! r)) w'" if "\<not> IsControl (hs ! r)"
    using deleted_then_cleaned[OF assms(1) w1(2) assms(3) refl _ clean] del that w1(3) by simp
  ultimately show ?thesis by simp
qed

lemma deleteControl_Ret:
  assumes "kube_laws (kubeAPI env) kv" "linked hs w" "r < length hs" "\<not> IsWorker (hs ! r)" "deleteControl env cur c r w = (Ret (), w')"
  shows "gone kv hs (HostnameOverride (hs ! r)) w'"
proof -
  from assms(5) obtain cl w1 w2 where new: "wrapIO ''Failed to initialize new kubernetes client: '' (NewClient env (LocalKubeConfigPath c)) w = (Ret cl, w1)"
    and del: "DeleteNode env r cl (IsWorker (hstore w1 ! r)) w1 = (Ret (), w2)"
    and clean: "warnOnly (reconcileHostOf env cur False False r) w2 = (Ret (), w')"
    by (auto simp: deleteControl_def thenIO_Ret_iff bindIO_Ret_iff catchIO_Ret_iff getHost_def split: if_splits)
  have "keeps (linked hs) (wrapIO s (NewClient env p))" for s p by (intro keeps_intros)
  from keepsD[OF this assms(2) new] have l: "linked hs w1" .
  then have "\<not> IsWorker (hstore w1 ! r)" using assms(3,4) by (auto simp: linked_def host_kept_def same_machine_def)
  with deleted_then_cleaned[OF assms(1) l assms(3) refl _ clean] del show ?thesis by simp
qed

lemma reconcileWorker_Ret:
  fixes env :: "('d, 'k, 'e) env"
  assumes laws: "kube_laws (kubeAPI env) kv" and ok: "cluster_ok hs cur c" and l: "linked hs w"
    and run: "reconcileWorker env (cur\<lparr>Certificates := m\<rparr>) (c\<lparr>Certificates := m\<rparr>) cl w = (Ret (), w')"
    and r: "r \<in> set (WorkerHosts cur)" "\<forall>q \<in> set (WorkerHosts c). addr hs q \<noteq> addr hs r"
  shows "if IsControl (hs ! r) then linked (no_worker hs r) w' else gone kv hs (HostnameOverride (hs ! r)) w'" (is "?J w'")
proof -
  let ?cur = "cur\<lparr>Certificates := m\<rparr>" and ?n = "HostnameOverride (hs ! r)"
  let ?rs = "GetToDeleteHosts (hstore w) (WorkerHosts cur) (WorkerHosts c)"
  have J: "keeps ?J f" if "keeps (linked (no_worker hs r)) f" "keeps (gone kv hs ?n) f" for f :: "('d, 'k, 'e, unit) wio"
    using that by (cases "IsControl (hs ! r)") simp_all
  note frame = gone_frame[OF laws ok, of ?n]
  have lv: "y \<in> leavers hs cur c" if "y \<in> set ?rs" for y using linked_leaving[OF l ok, of WorkerHosts] that by auto
  have rlen: "r < length hs" by (rule cluster_ok_refs(1)[OF ok]) (simp add: refs_def r(1))
  have "r \<in> set ?rs" by (rule departing[OF l _ r]) (use ok in \<open>auto simp: cluster_ok_def refs_def\<close>)
  from run obtain w1 where loop: "forIO (deleteWorker env ?cur cl) ?rs w = (Ret (), w1)"
    and rest: "forIO dropTaint (GetToAddHosts (hstore w1) (WorkerHosts cur) (WorkerHosts c)) w1 = (Ret (), w')"
    by (auto simp: reconcileWorker_def bindIO_Ret_iff thenIO_Ret_iff getIO_def)
  have "?J w1"
  proof (rule forIO_establishes[where I = "linked hs", OF loop \<open>r \<in> set ?rs\<close> l])
    show "keeps (linked hs) (deleteWorker env ?cur cl y)" for y by (rule linked.nodes.keeps_leaving(2)) simp
    show "keeps ?J (deleteWorker env ?cur cl y)" if "y \<in> set ?rs" for y
      by (rule J[OF linked.nodes.keeps_leaving(2) node_frame.keeps_leaving(2)[OF frame lv[OF that]]]) simp
    show "?J vb" if "linked hs va" "deleteWorker env ?cur cl r va = (Ret (), vb)" for va vb
      by (rule deleteWorker_Ret[OF laws that(1) rlen that(2)])
  qed
  moreover have "keeps ?J (forIO dropTaint rs)" for rs by (rule J) (intro keeps_intros)+
  ultimately show ?thesis using rest by (blast dest: keepsD)
qed

lemma reconcileControl_Ret:
  assumes laws: "kube_laws (kubeAPI env) kv" and ok: "cluster_ok hs cur c" and l: "linked hs w"
    and run: "reconcileControl env (cur\<lparr>Certificates := m\<rparr>) (c\<lparr>Certificates := m\<rparr>) w = (Ret c', w')"
    and r: "r \<in> set (ControlPlaneHosts cur)" "\<forall>q \<in> set (ControlPlaneHosts c). addr hs q \<noteq> addr hs r" "\<not> IsWorker (hs ! r)"
  shows "gone kv hs (HostnameOverride (hs ! r)) w'"
proof -
  let ?cur = "cur\<lparr>Certificates := m\<rparr>" and ?c = "c\<lparr>Certificates := m\<rparr>" and ?n = "HostnameOverride (hs ! r)"
  let ?rs = "\<lambda>w. GetToDeleteHosts (hstore w) (ControlPlaneHosts cur) (ControlPlaneHosts c)"
  let ?move = "\<lambda>a w. moveLoop (\<lambda>r. addr (hstore w) r = a) 0 (length (?rs w)) (?rs w)"
  note frame = gone_frame[OF laws ok, of ?n]
  have rlen: "r < length hs" by (rule cluster_ok_refs(1)[OF ok]) (simp add: refs_def r(1))
  from run obtain a w1 w2 c2 w3 where get: "getLocalConfigAddress env (LocalKubeConfigPath ?c) w = (Ret a, w1)"
    and loop: "forIO (deleteControl env ?cur ?c) (?move a w1) w1 = (Ret (), w2)"
    and rebuild: "rebuildLocalAdminConfig env ?c w2 = (Ret c2, w3)"
    and rest: "forIO dropTaint (GetToAddHosts (hstore w3) (ControlPlaneHosts cur) (ControlPlaneHosts c2)) w3 = (Ret (), w')"
    by (auto simp: reconcileControl_def Let_def bindIO_Ret_iff thenIO_Ret_iff getIO_def retIO_def)
  have l1: "linked hs w1" by (rule keepsD[OF keeps_configAddress[where I = "linked hs"] l get])
  have move: "set (?move a w1) = set (?rs w1)" by (rule set_moveLoop) simp
  have lv: "y \<in> leavers hs cur c" if "y \<in> set (?move a w1)" for y
    using linked_leaving[OF l1 ok, of ControlPlaneHosts] that move by auto
  have "r \<in> set (?rs w1)" by (rule departing[OF l1 _ r(1,2)]) (use ok in \<open>auto simp: cluster_ok_def refs_def\<close>)
  then have "r \<in> set (?move a w1)" unfolding move .
  have "gone kv hs ?n w2"
  proof (rule forIO_establishes[where I = "linked hs", OF loop \<open>r \<in> set (?move a w1)\<close> l1])
    show "keeps (linked hs) (deleteControl env ?cur ?c y)" for y by (rule linked.nodes.keeps_leaving(3)) simp
    show "keeps (gone kv hs ?n) (deleteControl env ?cur ?c y)" if "y \<in> set (?move a w1)" for y
      by (rule node_frame.keeps_leaving(3)[OF frame lv[OF that]])
    show "gone kv hs ?n vb" if "linked hs va" "deleteControl env ?cur ?c r va = (Ret (), vb)" for va vb
      by (rule deleteControl_Ret[OF laws that(1) rlen r(3) that(2)])
  qed
  from keepsD[OF node_frame.keeps_rebuildConfig[OF frame] this rebuild] have "gone kv hs ?n w3" .
  moreover have "keeps (gone kv hs ?n) (forIO dropTaint rs)" for rs by (intro keeps_intros)
  ultimately show ?thesis using rest by (blast dest: keepsD)
qed

section \<open>The nodes after reconciliation\<close>

text \<open>The host \<open>r\<close> of the cluster that is there is neither worker nor control host of the configured one.\<close>

definition departed :: "Host list \<Rightarrow> Cluster \<Rightarrow> Cluster \<Rightarrow> hostref \<Rightarrow> bool" where
  "departed hs cur c r \<longleftrightarrow> r \<in> set (ControlPlaneHosts cur) \<union> set (WorkerHosts cur) \<and>
     (\<forall>q \<in> set (ControlPlaneHosts c) \<union> set (WorkerHosts c). addr hs q \<noteq> addr hs r)"

lemma reconcile_gone:
  assumes laws: "kube_laws (kubeAPI env) kv" and ok: "cluster_ok hs cur c" and l: "linked hs w" and r: "departed hs cur c r"
    and worker: "reconcileWorker env (cur\<lparr>Certificates := m\<rparr>) (c\<lparr>Certificates := m\<rparr>) cl w = (Ret (), w1)"
    and control: "reconcileControl env (cur\<lparr>Certificates := m\<rparr>) (c\<lparr>Certificates := m\<rparr>) w1 = (Ret c', w')"
  shows "kv_nodes (kv (kube w')) (HostnameOverride (hs ! r)) = None"
proof -
  have away: "\<forall>q \<in> set (WorkerHosts c). addr hs q \<noteq> addr hs r" "\<forall>q \<in> set (ControlPlaneHosts c). addr hs q \<noteq> addr hs r"
    and mem: "r \<in> set (refs cur)" using r by (auto simp: departed_def refs_def)
  have rlen: "r < length hs" by (rule cluster_ok_refs(1)[OF ok mem])
  have roles: "IsControl (hs ! r) \<Longrightarrow> r \<in> set (ControlPlaneHosts cur)" "IsWorker (hs ! r) \<Longrightarrow> r \<in> set (WorkerHosts cur)"
    using ok mem by (auto simp: cluster_ok_def)
  show ?thesis
  proof (cases "r \<in> set (WorkerHosts cur)")
    case False
    then have "r \<in> set (ControlPlaneHosts cur)" "\<not> IsWorker (hs ! r)" using r roles by (auto simp: departed_def)
    from reconcileControl_Ret[OF laws ok keepsD[OF linked.nodes.keeps_reconcileWorker l worker] control this(1) away(2) this(2)]
    show ?thesis by (simp add: nodes_sat_def)
  next
    case True
    note w1 = reconcileWorker_Ret[OF laws ok l worker True away(1)]
    show ?thesis
    proof (cases "IsControl (hs ! r)")
      case True
      with w1 have l1: "linked (no_worker hs r) w1" by simp
      have ok': "cluster_ok (no_worker hs r) cur c" using ok by (auto simp: cluster_ok_def)
      have "\<forall>q \<in> set (ControlPlaneHosts c). addr (no_worker hs r) q \<noteq> addr (no_worker hs r) r"
        using away(2) by (auto simp: addr_def)
      from reconcileControl_Ret[OF laws ok' l1 control roles(1)[OF True] this] rlen show ?thesis by (simp add: nodes_sat_def)
    next
      case False
      with w1 have "gone kv hs (HostnameOverride (hs ! r)) w1" by simp
      from keepsD[OF node_frame.keeps_reconcileControl[OF gone_frame[OF laws ok]] this control] show ?thesis by (simp add: nodes_sat_def)
    qed
  qed
qed

text \<open>
  C6: a \<^verbatim>\<open>ReconcileCluster\<close> that returns leaves no node in Kubernetes of a machine that was worker or control host and is neither any
  more, also of one that was both, whose node is kept while its worker role is taken away and deleted with its control role.
  And whatever it returns, a node that does not belong to a machine that leaves one of the planes is as it was.
\<close>

theorem ReconcileCluster_nodes:
  assumes "kube_laws (kubeAPI env) kv" and "cluster_ok (hstore w) cur c"
  shows "case ReconcileCluster env c (Some cur) w of (res, w') \<Rightarrow>
     (\<forall>n. n \<notin> (\<lambda>r. HostnameOverride (hstore w ! r)) ` leavers (hstore w) cur c \<longrightarrow>
        kv_nodes (kv (kube w')) n = kv_nodes (kv (kube w)) n) \<and>
     (\<forall>c' r. res = Ret c' \<longrightarrow> departed (hstore w) cur c r \<longrightarrow> kv_nodes (kv (kube w')) (HostnameOverride (hstore w ! r)) = None)"
proof -
  let ?hs = "hstore w" and ?M = "(\<lambda>r. HostnameOverride (hstore w ! r)) ` leavers (hstore w) cur c"
  let ?P = "\<lambda>N. \<forall>n. n \<notin> ?M \<longrightarrow> N n = kv_nodes (kv (kube w)) n"
  obtain res w' where run: "ReconcileCluster env c (Some cur) w = (res, w')" by fastforce
  have "node_frame (nodes_sat kv ?hs ?P) env UNIV (leavers ?hs cur c) cur c"
    by (rule reconcile_frame[OF assms kept_deletable]) (rule imageI)
  from keepsD[OF node_frame.keeps_reconciliation[OF this] _ run] have "?P (kv_nodes (kv (kube w')))"
    by (simp add: nodes_sat_def linked_refl)
  moreover have "kv_nodes (kv (kube w')) (HostnameOverride (?hs ! r)) = None" if "res = Ret c'" "departed ?hs cur c r" for c' r
  proof -
    from run that(1) obtain cl m w1 w2 w3 w4 where
      new: "wrapIO ''Failed to initialize new kubernetes client: '' (NewClient env (LocalKubeConfigPath c)) w = (Ret cl, w1)"
      and labels: "syncLabels cur c w1 = (Ret (), w2)"
      and etcd: "wrapIO ''Failed to reconcile etcd plane: '' (reconcileEtcd env cur c cl) w2 = (Ret m, w3)"
      and worker: "reconcileWorker env (cur\<lparr>Certificates := Some m\<rparr>) (c\<lparr>Certificates := Some m\<rparr>) cl w3 = (Ret (), w4)"
      and control: "reconcileControl env (cur\<lparr>Certificates := Some m\<rparr>) (c\<lparr>Certificates := Some m\<rparr>) w4 = (Ret c', w')"
      by (auto simp: ReconcileCluster_def Let_def bindIO_Ret_iff thenIO_Ret_iff)
    have k: "keeps (linked ?hs) (wrapIO s (NewClient env p))" "keeps (linked ?hs) (wrapIO s (reconcileEtcd env cur c cl))" for s p
      by (intro keeps_intros linked.nodes.keeps_reconcileEtcd)+
    from keepsD[OF k(2) keepsD[OF linked.keeps_reconcile_steps(1) keepsD[OF k(1) linked_refl new] labels] etcd]
    show ?thesis by (rule reconcile_gone[OF assms _ that(2) worker control])
  qed
  ultimately show ?thesis using run by auto
qed

text \<open>A control host that stays, and a machine that was both worker and control host and leaves.\<close>

definition demo_before :: Cluster where
  "demo_before = (clusterOf demo_config ''cluster.yml'' None None)\<lparr>EtcdHosts := [0], ControlPlaneHosts := [0, 1], WorkerHosts := [1],
     Certificates := Some (map (\<lambda>n. (n, CertificatePKI_zero\<lparr>Certificate := Some (demo_crt n), cert_Key := Some (RSAKey 1)\<rparr>))
       [KubeNodeCertName, KubeAdminCertName, CACertName])\<rparr>"

definition demo_after :: Cluster where
  "demo_after = demo_before\<lparr>EtcdHosts := [2], ControlPlaneHosts := [2], WorkerHosts := []\<rparr>"

definition demo_nodes :: "(sim, sim_kube, sim_ext) world" where
  "demo_nodes = (sim_world [(sim_host ''10.0.0.1'')\<lparr>IsControl := True, IsEtcd := True\<rparr>,
       (sim_host ''n1'')\<lparr>IsControl := True, IsWorker := True\<rparr>, (sim_host ''10.0.0.1'')\<lparr>IsControl := True, IsEtcd := True\<rparr>])
     \<lparr>kube := \<lparr>sk_nodes = [sim_node, sim_node\<lparr>node_Name := ''10.0.0.1''\<rparr>], sk_objs = []\<rparr>, files := [[] \<mapsto> ''config'']\<rparr>"

lemma demo_planes:
  "EtcdHosts demo_before = [0]" "ControlPlaneHosts demo_before = [0, 1]" "WorkerHosts demo_before = [1]"
  "EtcdHosts demo_after = [2]" "ControlPlaneHosts demo_after = [2]" "WorkerHosts demo_after = []"
  by (simp_all add: demo_before_def demo_after_def)

lemma demo_store: "hstore demo_nodes = [(sim_host ''10.0.0.1'')\<lparr>IsControl := True, IsEtcd := True\<rparr>,
       (sim_host ''n1'')\<lparr>IsControl := True, IsWorker := True\<rparr>, (sim_host ''10.0.0.1'')\<lparr>IsControl := True, IsEtcd := True\<rparr>]"
  by (simp add: demo_nodes_def sim_world_def)

theorem ReconcileCluster_nodes_witness:
  "kv_nodes (sim_kview (kube demo_nodes)) ''n1'' \<noteq> None \<and>
   (\<exists>c' w'. ReconcileCluster sim_env demo_after (Some demo_before) demo_nodes = (Ret c', w') \<and>
      kv_nodes (sim_kview (kube w')) ''n1'' = None \<and>
      kv_nodes (sim_kview (kube w')) ''10.0.0.1'' = kv_nodes (sim_kview (kube demo_nodes)) ''10.0.0.1'')"
proof (intro conjI)
  let ?run = "ReconcileCluster sim_env demo_after (Some demo_before) demo_nodes"
  show "kv_nodes (sim_kview (kube demo_nodes)) ''n1'' \<noteq> None" by code_simp
  have "case fst ?run of Ret c' \<Rightarrow> True | _ \<Rightarrow> False" by code_simp
  then obtain c' w' where run: "?run = (Ret c', w')" by (cases ?run) (auto split: outcome.splits)
  have ok: "cluster_ok (hstore demo_nodes) demo_before demo_after"
    by (auto simp: cluster_ok_def refs_def demo_planes demo_store sim_host_def Host_zero_def)
  have l: "leavers (hstore demo_nodes) demo_before demo_after = {1}"
    by (auto simp: leavers_def demo_planes demo_store GetToDeleteHosts_def addr_def sim_host_def)
  have d: "departed (hstore demo_nodes) demo_before demo_after 1"
    by (simp add: departed_def demo_planes demo_store addr_def sim_host_def)
  have "kube_laws (kubeAPI sim_env) sim_kview" by (simp add: sim_kube_laws)
  from ReconcileCluster_nodes[OF this ok] run l d
  have "kv_nodes (sim_kview (kube w')) ''n1'' = None"
    "kv_nodes (sim_kview (kube w')) ''10.0.0.1'' = kv_nodes (sim_kview (kube demo_nodes)) ''10.0.0.1''"
    by (auto simp: demo_store sim_host_def)
  with run show "\<exists>c' w'. ?run = (Ret c', w') \<and> kv_nodes (sim_kview (kube w')) ''n1'' = None \<and>
      kv_nodes (sim_kview (kube w')) ''10.0.0.1'' = kv_nodes (sim_kview (kube demo_nodes)) ''10.0.0.1''" by blast
qed

end
