(* ===== verification/RKE_Authority.thy ===== *)
theory RKE_Authority
  imports RKE_Invariants
begin

text \<open>
  The certificate authority of a cluster over its life: \<^verbatim>\<open>ClusterUp\<close> on a cluster that is there keeps the authority it finds, the
  certificates that it saves are those of the cluster it has brought up and are what a later run reads back, and so every later run
  that finds the cluster reports the same authority.
\<close>

section \<open>The authority of an existing cluster\<close>

text \<open>The certificates have the authority \<open>ca\<close>, and the administrator has one.\<close>

definition under :: "x509_cert option \<Rightarrow> CertificatePKI gomap \<Rightarrow> bool" where
  "under ca m \<longleftrightarrow> Certificate (cert_get m CACertName) = ca \<and> Certificate (cert_get m KubeAdminCertName) \<noteq> None"

lemma under_put:
  "n \<noteq> CACertName \<Longrightarrow> n \<noteq> KubeAdminCertName \<Longrightarrow> under ca (mput n c m) = under ca m"
  by (simp add: under_def cert_get_def)

lemma foldIO_inv:
  assumes "\<And>x m w m' w'. f x m w = (Ret m', w') \<Longrightarrow> P m \<Longrightarrow> P m'"
  shows "foldIO f xs m w = (Ret m', w') \<Longrightarrow> P m \<Longrightarrow> P m'"
  by (induction xs arbitrary: m w) (auto simp: bindIO_Ret_iff dest: assms)

lemma newEtcdCert_under: "newEtcdCert env c r m w = (Ret m', w') \<Longrightarrow> under ca m \<Longrightarrow> under ca m'"
  by (auto simp: newEtcdCert_def RegenerateEtcdCertificate_def Let_def bindIO_Ret_iff thenIO_Ret_iff under_put split: prod.splits)

lemma reconcileEtcd_under:
  assumes "reconcileEtcd env cur c cl w = (Ret m, w')" "under ca (certsOf cur)"
  shows "under ca m"
  using assms foldIO_inv[where P = "under ca", OF newEtcdCert_under]
  by (auto simp: reconcileEtcd_def bindIO_Ret_iff thenIO_Ret_iff)

lemma rebuildLoop_certs:
  "rebuildLoop env path admin ca rs certs cfg w = (Ret (certs', cfg'), w') \<Longrightarrow> admin \<noteq> CertificatePKI_zero \<Longrightarrow> certs' = certs"
  by (induction rs arbitrary: cfg w) (auto simp: Let_def bindIO_Ret_iff tryIO_Ret_iff)

lemma rebuild_under:
  assumes "rebuildLocalAdminConfig env c w = (Ret c', w')" "Certificates c = Some m" "under ca m"
  shows "under ca (certsOf c')"
proof -
  have "certOf c KubeAdminCertName \<noteq> CertificatePKI_zero"
    using assms(2,3) by (auto simp: certOf_def under_def CertificatePKI_zero_def)
  with assms(1) obtain cfg where "c' = c\<lparr>Certificates := Some (mput KubeAdminCertName ((certOf c KubeAdminCertName)\<lparr>cert_Config := cfg\<rparr>) m)\<rparr>"
    by (auto simp: rebuildLocalAdminConfig_def Let_def bindIO_Ret_iff assms(2) split: option.splits dest!: rebuildLoop_certs)
  with assms(2,3) show ?thesis
    by (simp add: certsOf_def under_def cert_get_def certOf_def cert_name_defs)
qed

lemma ReconcileCluster_under:
  assumes "ReconcileCluster env c (Some cur) w = (Ret c', w')" "under ca (certsOf cur)"
  shows "under ca (certsOf c')"
  using assms rebuild_under[OF _ _ reconcileEtcd_under]
  by (fastforce simp: ReconcileCluster_def reconcileControl_def Let_def bindIO_Ret_iff thenIO_Ret_iff wrapIO_Ret_iff)

lemma certOfSecret_some: "certOfSecret env s w = (Ret c, w') \<Longrightarrow> Certificate c \<noteq> None"
  by (auto simp: certOfSecret_def Let_def retIO_def panicIO_def split: sum.splits list.splits any_key.splits)

lemma fetch_some:
  "foldIO (\<lambda>n m. bindIO (GetSecret env cl n) (\<lambda>s. bindIO (certOfSecret env s) (\<lambda>c. retIO (mput n c m)))) names m w = (Ret m', w') \<Longrightarrow>
     n \<in> set names \<or> Certificate (cert_get m n) \<noteq> None \<Longrightarrow> Certificate (cert_get m' n) \<noteq> None"
proof (induction names arbitrary: m w)
  case (Cons a names)
  from Cons.prems(1) obtain s c w1 w2 where c: "certOfSecret env s w1 = (Ret c, w2)"
    and rest: "foldIO (\<lambda>n m. bindIO (GetSecret env cl n) (\<lambda>s. bindIO (certOfSecret env s) (\<lambda>c. retIO (mput n c m)))) names (mput a c m) w2 = (Ret m', w')"
    by (auto simp: bindIO_Ret_iff)
  have "n \<in> set names \<or> Certificate (cert_get (mput a c m) n) \<noteq> None"
    using Cons.prems(2) certOfSecret_some[OF c] by (auto simp: cert_get_def)
  from Cons.IH[OF rest this] show ?case .
qed simp

lemma GetClusterState_under:
  assumes "GetClusterState env c w = (Ret (Some cur, c'), w')"
  shows "under (Certificate (certOf cur CACertName)) (certsOf cur)"
proof -
  from assms obtain client saved w1 where "fetchedCluster env c' client saved w1 = (Ret cur, w')"
    by (auto simp: GetClusterState_def bindIO_Ret_iff tryIO_Ret_iff split: if_splits option.splits)
  then obtain cur0 certs certs' v1 v2 v3 v4 where get: "getClusterCerts env client (EtcdHosts (cur0 :: Cluster)) v1 = (Ret certs, v2)"
    and api: "regenerateAPICertificate env c' certs v3 = (Ret certs', v4)" and cur: "Certificates cur = Some certs'"
    by (fastforce simp: fetchedCluster_def bindIO_Ret_iff)
  have "Certificate (cert_get certs KubeAdminCertName) \<noteq> None"
  proof -
    from get obtain ehs v where "foldIO (\<lambda>n m. bindIO (GetSecret env client n) (\<lambda>s. bindIO (certOfSecret env s) (\<lambda>c. retIO (mput n c m))))
        (clusterCertNames ehs) [] v = (Ret certs, v2)" unfolding getClusterCerts_def bindIO_Ret_iff by blast
    then show ?thesis by (rule fetch_some) (simp add: clusterCertNames_def)
  qed
  then have "under (Certificate (cert_get certs CACertName)) certs" by (simp add: under_def)
  then have "under (Certificate (cert_get certs CACertName)) certs'"
    using api by (auto simp: regenerateAPICertificate_def Let_def bindIO_Ret_iff under_put cert_name_defs split: prod.splits)
  then show ?thesis using cur by (simp add: certOf_def certsOf_def under_def)
qed

text \<open>The beginning of \<^verbatim>\<open>ClusterUp\<close>, up to the cluster that it finds.\<close>

definition found ::
  "('d, 'k, 'e) env \<Rightarrow> string \<Rightarrow> RancherKubernetesEngineConfig \<Rightarrow> DialerFactory option \<Rightarrow> DialerFactory option \<Rightarrow> bool \<Rightarrow> string \<Rightarrow>
     ('d, 'k, 'e, Cluster option) wio" where
  "found env p cfg f g local d =
     bindIO (ParseCluster env cfg p d f g) (\<lambda>(c, _). thenIO (TunnelHosts env c local) (bindIO (GetClusterState env c) (\<lambda>(cur, _). retIO cur)))"

lemma authority_kept:
  assumes up: "ClusterUp env p cfg f g local d w = (Ret (url, ca, rest), w')" and found: "found env p cfg f g local d w = (Ret (Some cur), v)"
  shows "\<exists>crt. Certificate (certOf cur CACertName) = Some crt \<and> ca = EncodeCert env crt"
proof -
  from assms obtain c cfg' w1 w2 c0 w3 w4 c1 w5 c' w6 w7 where
    parse: "ParseCluster env cfg p d f g w = (Ret (c, cfg'), w1)" and state: "GetClusterState env c w2 = (Ret (Some cur, c0), w3)"
    and auth: "SetUpAuthentication env c0 (Some cur) w4 = (Ret c1, w5)" and reconcile: "ReconcileCluster env c1 (Some cur) w5 = (Ret c', w6)"
    and access: "accessOf env c' w7 = (Ret (url, ca, rest), w')"
    by (auto simp: ClusterUp_def found_def bindIO_Ret_iff thenIO_Ret_iff)
  have "under (Certificate (certOf cur CACertName)) (certsOf c')"
    by (rule ReconcileCluster_under[OF reconcile GetClusterState_under[OF state]])
  then have "Certificate (certOf c' CACertName) = Certificate (certOf cur CACertName)"
    by (auto simp: under_def certOf_def certsOf_def cert_get_def split: option.splits)
  with access show ?thesis
    by (auto simp: accessOf_def bindIO_Ret_iff EncodeCertPEM_def retIO_def panicIO_def split: option.splits)
qed

text \<open>
  C4: \<^verbatim>\<open>ClusterUp\<close> on a cluster that is already there keeps its certificate authority: when it returns, the certificate of the
  authority that it reports is the one that was found, whatever hosts have been added or removed.
\<close>

theorem ClusterUp_keeps_authority:
  "case (ClusterUp env p cfg f g local d w, found env p cfg f g local d w) of
     ((Ret (_, ca, _, _), _), (Ret (Some cur), _)) \<Rightarrow> \<exists>crt. Certificate (certOf cur CACertName) = Some crt \<and> ca = EncodeCert env crt
   | _ \<Rightarrow> True"
  using authority_kept[of env p cfg f g local d w] by (simp split: prod.splits outcome.splits option.splits) blast

section \<open>Certificates are a map\<close>

text \<open>No name occurs twice among the certificates of a cluster, wherever they come from.\<close>

abbreviation certs_wf :: "Cluster \<Rightarrow> bool" where
  "certs_wf c \<equiv> gomap_wf (certsOf c)"

lemma generateCerts_wf: "generateCerts env cps ets dn path ip w = (Ret m, w') \<Longrightarrow> gomap_wf m"
proof -
  have add: "gomap_wf m'" if "addSigned env ca ck b n alt orgs comp cn ou m w = (Ret m', w')" "gomap_wf m" for ca ck b n alt orgs comp cn ou m m' w w'
    using that by (auto simp: addSigned_def bindIO_Ret_iff)
  have admin: "gomap_wf m'" if "addAdmin env ca ck cps path m w = (Ret m', w')" "gomap_wf m" for ca ck m m' w w'
    using that by (cases cps) (auto simp: addAdmin_def bindIO_Ret_iff panicIO_def)
  have etcd: "gomap_wf m'" if "foldIO (addEtcd env ca ck alt) ets m w = (Ret m', w')" "gomap_wf m" for ca ck alt m m' w w'
    using that by (rule foldIO_inv[rotated]) (auto simp: addEtcd_def intro: add)
  assume "generateCerts env cps ets dn path ip w = (Ret m, w')"
  then show ?thesis
    by (rule generateCerts_steps) (rule etcd, assumption, rule admin, assumption, (rule add, assumption)+, intro gomap_wf_mput gomap_wf_Nil)
qed

lemma fetched_wf:
  assumes "FetchCertificatesFromHost env ehs r img path prs w = (Ret (Some m), w')"
  shows "gomap_wf m"
proof -
  have "gomap_wf (fold (\<lambda>h. mput (GetEtcdCrtName (InternalAddress h)) (f h)) hs m)" if "gomap_wf m" for f hs m
    using that by (induction hs arbitrary: m) simp_all
  note fold = this
  have "gomap_wf (populateCertMap tmp path hs)" for tmp hs
    unfolding populateCertMap_def Let_def by (intro fold gomap_wf_mput gomap_wf_Nil)
  with assms show ?thesis by (auto simp: FetchCertificatesFromHost_def bindIO_Ret_iff thenIO_Ret_iff split: option.splits)
qed

lemma getClusterCerts_wf: "getClusterCerts env cl rs w = (Ret m, w') \<Longrightarrow> gomap_wf m"
  by (auto simp: getClusterCerts_def bindIO_Ret_iff elim!: foldIO_inv[rotated])

lemma regenerate_wf: "regenerateAPICertificate env c m w = (Ret m', w') \<Longrightarrow> gomap_wf m \<Longrightarrow> gomap_wf m'"
  by (auto simp: regenerateAPICertificate_def Let_def bindIO_Ret_iff)

lemma rebuildLoop_result: "rebuildLoop env path admin ca rs certs cfg w = (Ret (certs', cfg'), w') \<Longrightarrow> certs' = certs \<or> certs' = Some []"
  by (induction rs arbitrary: certs cfg w) (auto simp: Let_def bindIO_Ret_iff tryIO_Ret_iff split: if_splits)

lemma gomap_wf_single: "gomap_wf [p]"
  by (simp add: gomap_wf_def)

lemma rebuild_wf: "rebuildLocalAdminConfig env c w = (Ret c', w') \<Longrightarrow> certs_wf c \<Longrightarrow> certs_wf c'"
  by (auto simp: rebuildLocalAdminConfig_def Let_def bindIO_Ret_iff certsOf_def panicIO_def split: option.splits dest!: rebuildLoop_result intro: gomap_wf_single)

lemma newEtcdCert_wf: "newEtcdCert env c r m w = (Ret m', w') \<Longrightarrow> gomap_wf m \<Longrightarrow> gomap_wf m'"
  by (auto simp: newEtcdCert_def RegenerateEtcdCertificate_def Let_def bindIO_Ret_iff thenIO_Ret_iff)

lemma reconcileEtcd_wf: "reconcileEtcd env cur c cl w = (Ret m, w') \<Longrightarrow> certs_wf cur \<Longrightarrow> gomap_wf m"
  by (auto simp: reconcileEtcd_def bindIO_Ret_iff thenIO_Ret_iff intro: foldIO_inv[where P = gomap_wf, OF newEtcdCert_wf])

lemma reconcileControl_wf: "reconcileControl env cur c w = (Ret c', w') \<Longrightarrow> certs_wf c \<Longrightarrow> certs_wf c'"
  by (auto simp: reconcileControl_def Let_def bindIO_Ret_iff thenIO_Ret_iff dest: rebuild_wf)

lemma ReconcileCluster_wf:
  assumes "ReconcileCluster env c cur w = (Ret c', w')" "certs_wf c" "\<forall>k. cur = Some k \<longrightarrow> certs_wf k"
  shows "certs_wf c'"
proof (cases cur)
  case (Some k)
  with assms(1) obtain cl m w1 w2 w3 where "reconcileEtcd env k c cl w1 = (Ret m, w2)"
    and control: "reconcileControl env (k\<lparr>Certificates := Some m\<rparr>) (c\<lparr>Certificates := Some m\<rparr>) w3 = (Ret c', w')"
    by (auto simp: ReconcileCluster_def Let_def bindIO_Ret_iff thenIO_Ret_iff wrapIO_Ret_iff)
  from reconcileEtcd_wf[OF this(1)] Some assms(3) have "gomap_wf m" by simp
  with reconcileControl_wf[OF control] show ?thesis by (simp add: certsOf_def)
qed (use assms in \<open>simp add: ReconcileCluster_def\<close>)

lemma GetClusterState_wf:
  assumes "GetClusterState env c w = (Ret (cur, c'), w')" "certs_wf c"
  shows "certs_wf c'" "\<forall>k. cur = Some k \<longrightarrow> certs_wf k"
proof -
  show "certs_wf c'" using assms
    by (auto simp: GetClusterState_def bindIO_Ret_iff tryIO_Ret_iff split: if_splits option.splits dest: rebuild_wf)
  have "certs_wf k" if "fetchedCluster env c2 cl sv v = (Ret k, v')" for c2 cl sv v v' k
    using that by (auto simp: fetchedCluster_def bindIO_Ret_iff wrapIO_Ret_iff certsOf_def dest!: getClusterCerts_wf regenerate_wf)
  with assms(1) show "\<forall>k. cur = Some k \<longrightarrow> certs_wf k"
    by (auto simp: GetClusterState_def bindIO_Ret_iff tryIO_Ret_iff split: if_splits option.splits)
qed

lemma SetUpAuthentication_wf:
  assumes "SetUpAuthentication env c cur w = (Ret c', w')" "certs_wf c" "\<forall>k. cur = Some k \<longrightarrow> certs_wf k"
  shows "certs_wf c'"
  using assms
  by (auto simp: SetUpAuthentication_def StartCertificatesGeneration_def bindIO_Ret_iff thenIO_Ret_iff wrapIO_Ret_iff certsOf_def panicIO_def
      split: if_splits option.splits list.splits dest: fetched_wf generateCerts_wf)

lemma ParseCluster_wf:
  assumes "ParseCluster env cfg p d f g w = (Ret (c, cfg'), w')"
  shows "certs_wf c"
proof -
  have "Certificates (addRefs k ns c) = Certificates c" for k ns c
    by (simp add: addRefs_def)
  moreover have "Certificates (withDefaults s c) = Certificates c" for s c
    by (simp add: withDefaults_def setClusterNetworkDefaults_def setClusterServicesDefaults_def setClusterImageDefaults_def setOwnDefaults_def Let_def)
  ultimately have "Certificates (finishCluster d ip (parsed s cfg p f g k)) = None" for ip s k
    by (simp add: finishCluster_def parsed_def Let_def clusterOf_def RancherKubernetesEngineConfig.defs)
  with assms ParseCluster_cases[of env cfg p d f g w] show ?thesis by (auto simp: certsOf_def split: option.splits if_splits)
qed

section \<open>Secrets stay\<close>

text \<open>The secrets of the cluster are \<open>S\<close>.\<close>

definition secrets_are :: "('k \<Rightarrow> kview) \<Rightarrow> (string \<rightharpoonup> K8sObject) \<Rightarrow> ('d, 'k, 'e) world \<Rightarrow> bool" where
  "secrets_are kv S w \<longleftrightarrow> (\<forall>n. kv_objs (kv (kube w)) (secretKey n) = S n)"

definition same_secrets :: "kview \<Rightarrow> kview \<Rightarrow> bool" where
  "same_secrets v v' \<longleftrightarrow> (\<forall>n. kv_objs v' (secretKey n) = kv_objs v (secretKey n))"

lemma same_secrets_set:
  "same_secrets v v" "same_secrets v (set_node n x v)" "t \<noteq> KSecret \<Longrightarrow> same_secrets v (set_obj (t, ns, n) y v)"
  by (simp_all add: same_secrets_def)

lemma secrets_call:
  fixes kv :: "'k \<Rightarrow> kview"
  assumes "\<And>v. vtriple kv v m (\<lambda>_. same_secrets v) (\<lambda>_. same_secrets v)"
  shows "keeps (secrets_are kv S) (onKube m)"
proof (rule keepsI)
  fix w :: "('d, 'k, 'e) world"
  assume I: "secrets_are kv S w"
  obtain res k where m: "m (kube w) = (res, k)" by fastforce
  from assms[of "kv (kube w)", unfolded vtriple_def, rule_format, OF refl] m have "same_secrets (kv (kube w)) (kv k)"
    by (simp split: outcome.splits)
  with I m show "secrets_are kv S (snd (onKube m w))" by (simp add: onKube_def secrets_are_def same_secrets_def)
qed

text \<open>The authority that a list of certificates gives is the one that the secret holds.\<close>

definition authority_from :: "('d, 'k, 'e) env \<Rightarrow> (string \<rightharpoonup> K8sObject) \<Rightarrow> CertificatePKI gomap \<Rightarrow> bool" where
  "authority_from env S m \<longleftrightarrow> (\<exists>x crt crts. S CACertName = Some x \<and> ParseCertsPEM env (mgets (obj_Data x) ''Certificate'') = Inr (crt # crts) \<and>
     Certificate (cert_get m CACertName) = Some crt)"

text \<open>An API server that keeps its contract.\<close>

locale kube_server =
  fixes env :: "('d, 'k, 'e) env" and kv :: "'k \<Rightarrow> kview"
  assumes laws: "kube_laws (kubeAPI env) kv"
begin

lemma call_laws:
  "vtriple kv v (NodesGet (kubeAPI env) c n) (\<lambda>_. same_secrets v) (\<lambda>_. same_secrets v)"
  "vtriple kv v (NodesList (kubeAPI env) c) (\<lambda>_. same_secrets v) (\<lambda>_. same_secrets v)"
  "vtriple kv v (NodesUpdate (kubeAPI env) c x) (\<lambda>_. same_secrets v) (\<lambda>_. same_secrets v)"
  "vtriple kv v (NodesDelete (kubeAPI env) c n) (\<lambda>_. same_secrets v) (\<lambda>_. same_secrets v)"
  "vtriple kv v (ObjGet (kubeAPI env) c t ns n) (\<lambda>_. same_secrets v) (\<lambda>_. same_secrets v)"
  "vtriple kv v (JobGet (kubeAPI env) c ns n) (\<lambda>_. same_secrets v) (\<lambda>_. same_secrets v)"
  "vtriple kv v (ServerVersion (kubeAPI env) c) (\<lambda>_. same_secrets v) (\<lambda>_. same_secrets v)"
  "t \<noteq> KSecret \<Longrightarrow> vtriple kv v (ObjCreate (kubeAPI env) c t ns y) (\<lambda>_. same_secrets v) (\<lambda>_. same_secrets v)"
  "t \<noteq> KSecret \<Longrightarrow> vtriple kv v (ObjUpdate (kubeAPI env) c t ns y) (\<lambda>_. same_secrets v) (\<lambda>_. same_secrets v)"
  using laws unfolding kube_laws_def
  by - ((elim conjE)?, (erule allE)+, erule vtriple_conseq; auto simp: same_secrets_set)+

end

sublocale kube_server \<subseteq> secrets: saved_frame "secrets_are kv S" env for S
proof unfold_locales
  show "keeps (secrets_are kv S) (onKube (ObjCreate (kubeAPI env) cl t ns y))" if "t \<noteq> KSecret" for cl t ns y
    by (rule secrets_call[OF call_laws(8)[OF that]])
  show "keeps (secrets_are kv S) (onKube (ObjUpdate (kubeAPI env) cl t ns y))" if "t \<noteq> KSecret" for cl t ns y
    by (rule secrets_call[OF call_laws(9)[OF that]])
qed ((rule secrets_call, rule call_laws) | simp add: secrets_are_def)+

context kube_server
begin

text \<open>After the state has been saved, the secret of each certificate of the cluster is the certificate's, whatever follows.\<close>

lemma SaveClusterState_secret:
  assumes "SaveClusterState env c cfg w = (Ret (), w1)" "gomap_wf (certsOf c)" "mget (certsOf c) n = Some crt"
  shows "kv_objs (kv (kube w1)) (secretKey n) = Some (secretOf env n crt)"
proof -
  from assms(1) obtain client w2 w3 where save: "saveClusterCerts env client (certsOf c) w2 = (Ret (), w3)"
    and state: "saveStateToKubernetes env client cfg w3 = (Ret (), w1)"
    by (auto simp: SaveClusterState_def bindIO_Ret_iff thenIO_Ret_iff wrapIO_Ret_iff)
  from saveClusterCerts_stores[OF laws save] storeAll_get[of "certsOf c" env] assms(2,3)
  have "kv_objs (kv (kube w3)) (secretKey n) = Some (secretOf env n crt)" by (simp add: kw_def gomap_wf_def)
  moreover have "keeps (secrets_are kv S) (saveStateToKubernetes env client cfg)" for S
    unfolding saveStateToKubernetes_def by (intro keeps_intros)
  from keepsD[OF this _ state, of "\<lambda>n. kv_objs (kv (kube w3)) (secretKey n)"]
  have "kv_objs (kv (kube w1)) (secretKey n) = kv_objs (kv (kube w3)) (secretKey n)" by (simp add: secrets_are_def)
  ultimately show ?thesis by simp
qed

lemma GetSecret_Ret: "GetSecret env cl n w = (Ret x, w') \<Longrightarrow> kv_objs (kv (kube w)) (secretKey n) = Some x"
proof -
  have "vtriple kv v (ObjGet (kubeAPI env) cl KSecret NamespaceSystem n) (\<lambda>x v'. v' = v \<and> kv_objs v (secretKey n) = Some x)
      (\<lambda>e v'. v' = v \<and> (ekind e = EK8sNotFound \<longrightarrow> kv_objs v (secretKey n) = None))" for v
    using laws unfolding kube_laws_def by (elim conjE allE)
  note t = onKube_view[OF this]
  assume "GetSecret env cl n w = (Ret x, w')"
  then have "onKube (ObjGet (kubeAPI env) cl KSecret NamespaceSystem n) w = (Ret x, w')" by (simp add: GetSecret_def)
  from vtriple_Ret[OF t this] show ?thesis by (simp add: kw_def)
qed

lemma fetch_authority:
  "foldIO (\<lambda>n m. bindIO (GetSecret env cl n) (\<lambda>s. bindIO (certOfSecret env s) (\<lambda>c. retIO (mput n c m)))) names m w = (Ret m', w') \<Longrightarrow>
     secrets_are kv S w \<Longrightarrow> CACertName \<in> set names \<or> authority_from env S m \<Longrightarrow> authority_from env S m'"
proof (induction names arbitrary: m w)
  case (Cons a names)
  from Cons.prems(1) obtain x c w1 w2 where x: "GetSecret env cl a w = (Ret x, w1)" and c: "certOfSecret env x w1 = (Ret c, w2)"
    and rest: "foldIO (\<lambda>n m. bindIO (GetSecret env cl n) (\<lambda>s. bindIO (certOfSecret env s) (\<lambda>c. retIO (mput n c m)))) names (mput a c m) w2 = (Ret m', w')"
    by (auto simp: bindIO_Ret_iff)
  have "keeps (secrets_are kv S) (certOfSecret env x)" unfolding certOfSecret_def Let_def by (intro keeps_intros)
  then have w2: "secrets_are kv S w2" using keepsD[OF secrets.keeps_objects(3) Cons.prems(2) x] c by (blast dest: keepsD)
  have "CACertName \<in> set names \<or> authority_from env S (mput a c m)"
  proof (cases "a = CACertName")
    case True
    have "S CACertName = Some x" using GetSecret_Ret[OF x] Cons.prems(2) True by (simp add: secrets_are_def)
    with c True show ?thesis
      by (auto simp: authority_from_def certOfSecret_def Let_def cert_get_def retIO_def panicIO_def split: sum.splits list.splits any_key.splits)
  next
    case False
    with Cons.prems(3) show ?thesis by (auto simp: authority_from_def cert_get_def)
  qed
  with Cons.IH[OF rest w2] show ?case .
qed simp

lemma GetClusterState_authority:
  assumes "GetClusterState env c w = (Ret (Some cur, c'), w')" "secrets_are kv S w"
  shows "authority_from env S (certsOf cur)"
proof -
  have rebuild: "keeps (secrets_are kv S) (if b then retIO c else rebuildLocalAdminConfig env c)" for b
    by (intro keeps_intros)
  from assms(1) obtain b client sv w1 w2 w3 w4 where working: "isLocalConfigWorking env (LocalKubeConfigPath c) w = (Ret b, w2)"
    and c': "(if b then retIO c else rebuildLocalAdminConfig env c) w2 = (Ret c', w3)"
    and client: "NewClient env (LocalKubeConfigPath c') w3 = (Ret client, w4)"
    and state: "getStateFromKubernetes env client w4 = (Ret (Some sv), w1)" and fetched: "fetchedCluster env c' client sv w1 = (Ret cur, w')"
    by (cases "files w (LocalKubeConfigPath c)") (auto simp: GetClusterState_def bindIO_Ret_iff tryIO_Ret_iff getIO_def split: option.splits)
  have w1: "secrets_are kv S w1"
    by (rule keepsD[OF secrets.keeps_certs(4) keepsD[OF keeps_NewClient[where I = "secrets_are kv S"]
          keepsD[OF rebuild keepsD[OF secrets.keeps_certs(2) assms(2) working] c'] client] state])
  from fetched obtain cur0 certs certs' v1 v2 v3 v4 where inv: "wrapIO ''Failed to classify hosts from fetched cluster: '' (InvertIndexHosts sv) w1 = (Ret cur0, v1)"
    and get: "getClusterCerts env client (EtcdHosts (cur0 :: Cluster)) v1 = (Ret certs, v2)"
    and api: "regenerateAPICertificate env c' certs v3 = (Ret certs', v4)" and cur: "Certificates cur = Some certs'"
    by (fastforce simp: fetchedCluster_def bindIO_Ret_iff wrapIO_Ret_iff)
  from keepsD[OF keeps_wrap[OF secrets.keeps_InvertIndexHosts] w1 inv] have v1: "secrets_are kv S v1" .
  from get obtain ehs v where "getHosts (EtcdHosts cur0) v1 = (Ret ehs, v)"
    and fold: "foldIO (\<lambda>n m. bindIO (GetSecret env client n) (\<lambda>s. bindIO (certOfSecret env s) (\<lambda>c. retIO (mput n c m))))
      (clusterCertNames ehs) [] v = (Ret certs, v2)" unfolding getClusterCerts_def bindIO_Ret_iff by blast
  from keepsD[OF keeps_hosts[where I = "secrets_are kv S"] v1 this(1)] have "authority_from env S certs"
    by (rule fetch_authority[OF fold]) (simp add: clusterCertNames_def)
  then have "authority_from env S certs'"
    using api by (auto simp: regenerateAPICertificate_def Let_def bindIO_Ret_iff authority_from_def cert_get_def cert_name_defs)
  with cur show ?thesis by (simp add: certsOf_def)
qed

lemma found_authority:
  assumes "found env p cfg f g local d w = (Ret (Some cur), v)" "secrets_are kv S w"
  shows "authority_from env S (certsOf cur)"
proof -
  from assms(1) obtain c cfg' w1 u w2 c0 where parse: "ParseCluster env cfg p d f g w = (Ret (c, cfg'), w1)"
    and tunnel: "TunnelHosts env c local w1 = (Ret u, w2)" and state: "GetClusterState env c w2 = (Ret (Some cur, c0), v)"
    by (auto simp: found_def bindIO_Ret_iff thenIO_Ret_iff)
  have any: "keeps (secrets_are kv S) (setHost r h)" for r h by (rule keepsI) (simp add: setHost_def secrets_are_def)
  have "keeps (secrets_are kv S) (TunnelHosts env c local)"
    unfolding TunnelHosts_def TunnelUpLocal_def checkDockerVersion_def by (intro any keeps_intros)
  from GetClusterState_authority[OF state keepsD[OF this keepsD[OF secrets.keeps_ParseCluster assms(2) parse] tunnel]] show ?thesis .
qed

text \<open>The authority that \<^verbatim>\<open>ClusterUp\<close> reports is the one of the cluster it has brought up, and it is in the cluster's secrets.\<close>

lemma ClusterUp_saves_authority:
  assumes "ClusterUp env p cfg f g local d w = (Ret (url, ca, rest), w')"
  shows "\<exists>x crt. kv_objs (kv (kube w')) (secretKey CACertName) = Some x \<and> mgets (obj_Data x) ''Certificate'' = EncodeCert env crt \<and>
     ca = EncodeCert env crt"
proof -
  from assms obtain c cfg' w1 w2 cur c0 w3 w4 c1 w5 c' w6 w7 w8 w9 w10 w11 w12 where
    parse: "ParseCluster env cfg p d f g w = (Ret (c, cfg'), w1)" and state: "GetClusterState env c w2 = (Ret (cur, c0), w3)"
    and auth: "SetUpAuthentication env c0 cur w4 = (Ret c1, w5)" and reconcile: "ReconcileCluster env c1 cur w5 = (Ret c', w6)"
    and save: "SaveClusterState env c' cfg' w7 = (Ret (), w8)" and worker: "DeployWorkerPlane env c' w8 = (Ret (), w9)"
    and network: "DeployNetworkPlugin env c' w9 = (Ret (), w10)" and labels: "SyncLabelsAndTaints env c' w10 = (Ret (), w11)"
    and addons: "DeployAddons env c' w11 = (Ret (), w12)" and access: "accessOf env c' w12 = (Ret (url, ca, rest), w')"
    by (auto simp: ClusterUp_def bindIO_Ret_iff thenIO_Ret_iff)
  note wf0 = GetClusterState_wf[OF state ParseCluster_wf[OF parse]]
  have wf: "certs_wf c'" by (rule ReconcileCluster_wf[OF reconcile SetUpAuthentication_wf[OF auth wf0] wf0(2)])
  from access obtain crt where crt: "Certificate (certOf c' CACertName) = Some crt" "ca = EncodeCert env crt" and "w' = w12"
    by (auto simp: accessOf_def bindIO_Ret_iff EncodeCertPEM_def EncodePrivateKeyPEM_def firstHost_def getHost_def retIO_def panicIO_def
        split: option.splits list.splits if_splits)
  then have "mget (certsOf c') CACertName = Some (certOf c' CACertName)"
    by (auto simp: certOf_def certsOf_def cert_get_def CertificatePKI_zero_def split: option.splits)
  from SaveClusterState_secret[OF save wf this]
  have "kv_objs (kv (kube w8)) (secretKey CACertName) = Some (secretOf env CACertName (certOf c' CACertName))" .
  moreover have "secrets_are kv (\<lambda>n. kv_objs (kv (kube w8)) (secretKey n)) w12"
    by (rule keepsD[OF secrets.keeps_deployments(2) keepsD[OF secrets.keeps_SyncLabelsAndTaints keepsD[OF secrets.keeps_deployments(1)
          keepsD[OF secrets.keeps_planes(2) _ worker] network] labels] addons]) (simp add: secrets_are_def)
  ultimately show ?thesis
    using crt \<open>w' = w12\<close> by (auto simp: secrets_are_def secretOf_def mgets_def Let_def)
qed

end

interpretation sim_server: kube_server sim_env sim_kview
  by unfold_locales (simp add: sim_kube_laws)

text \<open>
  C19: the certificates a cluster saves are the certificates a later run finds: when \<^verbatim>\<open>SaveClusterState\<close> has returned for a cluster
  whose certificates can each be encoded and parsed again, then, in every state in which the secrets are still those it has left,
  \<^verbatim>\<open>getClusterCerts\<close> for etcd hosts whose certificates are among them returns, against an API server that answers when it is asked
  for an object it has; and it returns, for exactly the seven certificates of the components and those of the etcd hosts, what was
  saved under each name, with the certificate, the key, the configuration and the names of the environment variables as they were.
\<close>

theorem saved_certificates_come_back:
  fixes w :: "('d, 'k, 'e) world"
  assumes "kube_laws (kubeAPI env) kv" and "gets_answered (kubeAPI env) kv" and "gomap_wf (certsOf c)"
    and "\<forall>(n, crt) \<in> set (certsOf c). readable env crt" and "SaveClusterState env c cfg w = (Ret (), w1)"
    and "\<forall>n. kv_objs (kv (kube w2)) (secretKey n) = kv_objs (kv (kube w1)) (secretKey n)"
    and "\<forall>r \<in> set etcdHosts. r < length (hstore w2)"
    and "set (clusterCertNames (map ((!) (hstore w2)) etcdHosts)) \<subseteq> fst ` set (certsOf c)"
  shows "\<exists>m w3. getClusterCerts env client etcdHosts w2 = (Ret m, w3) \<and>
     (\<forall>n. mget m n = (if n \<in> set (clusterCertNames (map ((!) (hstore w2)) etcdHosts)) then Some (kept (cert_get (certsOf c) n)) else None))"
proof (rule stored_certs_come_back[OF assms(1,2,7)], rule ballI)
  fix n
  assume "n \<in> set (clusterCertNames (map ((!) (hstore w2)) etcdHosts))"
  with assms(8) obtain crt where c: "(n, crt) \<in> set (certsOf c)" by auto
  with assms(3) have m: "mget (certsOf c) n = Some crt" by (simp add: gomap_wf_def)
  from kube_server.SaveClusterState_secret[OF kube_server.intro[OF assms(1)] assms(5,3) m] assms(6)
  have "kv_objs (kv (kube w2)) (secretKey n) = Some (secretOf env n crt)" by simp
  with c m assms(4) show "kv_objs (kw kv w2) (secretKey n) = Some (secretOf env n (cert_get (certsOf c) n)) \<and>
      readable env (cert_get (certsOf c) n)"
    by (auto simp: kw_def cert_get_def)
qed

theorem saved_certificates_come_back_witness:
  "\<exists>w1 m w2. SaveClusterState pem_env (demo_saver (clusterOf demo_config [] None None)) demo_config demo_saver_world = (Ret (), w1) \<and>
     getClusterCerts pem_env sim_client [0] w1 = (Ret m, w2) \<and> mget m KubeAPICertName = Some (kept (cert_get demo_saved KubeAPICertName))"
proof -
  let ?c = "clusterOf demo_config [] None None"
  obtain w1 where w1: "SaveClusterState pem_env (demo_saver ?c) demo_config demo_saver_world = (Ret (), w1)" "hstore w1 = hstore demo_hosts"
    using demo_state_saves by blast
  have laws: "kube_laws (kubeAPI pem_env) sim_kview" "gets_answered (kubeAPI pem_env) sim_kview"
    by (simp_all add: pem_env_def sim_kube_laws sim_gets_answered)
  have host: "map ((!) (hstore w1)) [0] = [sim_host ''10.0.0.1'']" "\<forall>r \<in> set [0]. r < length (hstore w1)"
    by (simp_all add: w1 demo_hosts_def sim_world_def)
  have certs: "certsOf (demo_saver ?c) = demo_saved" by (simp add: certsOf_def demo_saver_def)
  have names: "distinct (clusterCertNames [sim_host ''10.0.0.1''])" by code_simp
  have wf: "gomap_wf demo_saved" using names by (simp add: gomap_wf_def demo_saved_def comp_def)
  have sub: "set (clusterCertNames (map ((!) (hstore w1)) [0])) \<subseteq> fst ` set demo_saved" unfolding host by (force simp: demo_saved_def)
  from saved_certificates_come_back[OF laws _ _ w1(1) _ host(2), unfolded certs, OF wf demo_readable _ sub, of sim_client] w1(1)
  show ?thesis unfolding host by (fastforce simp: clusterCertNames_def)
qed

text \<open>
  The states a cluster with the authority \<open>ca\<close> goes through: the one in which the run that has reported \<open>ca\<close> has returned, those in
  which the cluster's secrets have not changed since such a state, and those in which a run has returned that has found the cluster in
  one.  The configuration, the paths and the dialers may be others at each run.
\<close>

inductive cluster_life :: "('d, 'k, 'e) env \<Rightarrow> ('k \<Rightarrow> kview) \<Rightarrow> string \<Rightarrow> ('d, 'k, 'e) world \<Rightarrow> bool"
  for env :: "('d, 'k, 'e) env" and kv :: "'k \<Rightarrow> kview" and ca :: string where
  first: "ClusterUp env p cfg f g local d w = (Ret (url, ca, rest), w') \<Longrightarrow> cluster_life env kv ca w'"
| idle: "cluster_life env kv ca w \<Longrightarrow> \<forall>n. kv_objs (kv (kube w')) (secretKey n) = kv_objs (kv (kube w)) (secretKey n) \<Longrightarrow>
     cluster_life env kv ca w'"
| again: "cluster_life env kv ca w \<Longrightarrow> found env p cfg f g local d w = (Ret (Some cur), v) \<Longrightarrow>
     ClusterUp env p cfg f g local d w = (Ret (url, ca', rest), w') \<Longrightarrow> cluster_life env kv ca w'"

definition reencodes :: "('d, 'k, 'e) env \<Rightarrow> bool" where
  "reencodes env \<longleftrightarrow>
     (\<forall>crt crt' crts. ParseCertsPEM env (EncodeCert env crt) = Inr (crt' # crts) \<longrightarrow> EncodeCert env crt' = EncodeCert env crt)"

text \<open>The authority \<open>ca\<close> is the secret of the CA certificate.\<close>

definition authority_saved :: "('d, 'k, 'e) env \<Rightarrow> ('k \<Rightarrow> kview) \<Rightarrow> string \<Rightarrow> ('d, 'k, 'e) world \<Rightarrow> bool" where
  "authority_saved env kv ca w \<longleftrightarrow> (\<exists>x crt. kv_objs (kv (kube w)) (secretKey CACertName) = Some x \<and>
     mgets (obj_Data x) ''Certificate'' = ca \<and> ca = EncodeCert env crt)"

context kube_server
begin

lemma found_same:
  assumes "reencodes env" "authority_saved env kv ca w" "found env p cfg f g local d w = (Ret (Some cur), v)"
    and "ClusterUp env p cfg f g local d w = (Ret (url, ca', rest), w')"
  shows "ca' = ca"
proof -
  from assms(2) obtain x crt where x: "kv_objs (kv (kube w)) (secretKey CACertName) = Some x"
    "mgets (obj_Data x) ''Certificate'' = EncodeCert env crt" "ca = EncodeCert env crt" by (auto simp: authority_saved_def)
  have "secrets_are kv (\<lambda>n. kv_objs (kv (kube w)) (secretKey n)) w" by (simp add: secrets_are_def)
  from found_authority[OF assms(3) this] x(1,2) assms(1)
  obtain crt' where "Certificate (cert_get (certsOf cur) CACertName) = Some crt'" "EncodeCert env crt' = ca"
    by (auto simp: authority_from_def reencodes_def x(3))
  moreover from this(1) have "Certificate (certOf cur CACertName) = Some crt'"
    by (auto simp: certOf_def certsOf_def cert_get_def split: option.splits)
  ultimately show ?thesis using authority_kept[OF assms(4,3)] by simp
qed

lemma life_saved:
  assumes "cluster_life env kv ca w" "reencodes env"
  shows "authority_saved env kv ca w"
  using assms
proof induction
  case (first p cfg f g local d w url rest w')
  from ClusterUp_saves_authority[OF first(1)] show ?case by (auto simp: authority_saved_def)
next
  case (idle w w')
  then show ?case by (simp add: authority_saved_def)
next
  case (again w p cfg f g local d cur v url ca' rest w')
  have "ca' = ca" by (rule found_same[OF again.prems again.IH[OF again.prems] again.hyps(2,3)])
  with ClusterUp_saves_authority[OF again.hyps(3)] show ?case by (auto simp: authority_saved_def)
qed

end

text \<open>
  C3: a cluster keeps its authority over any number of runs of \<^verbatim>\<open>ClusterUp\<close>, whatever configuration each is given.  Take a run that has
  returned and reported the certificate \<open>ca\<close> of its authority, and any sequence of later runs that return and have each found the
  cluster, where between two runs the cluster's secrets stay as they are.  Then \<open>ca\<close> is in the secret of the CA certificate after
  each run, and every run that finds the cluster and returns reports \<open>ca\<close>.  Of the encoding of certificates it is used that one that
  has been read is written as it was.
\<close>

theorem ClusterUp_again_same_authority:
  assumes "kube_laws (kubeAPI env) kv" and "reencodes env" and "cluster_life env kv ca w"
  shows "authority_saved env kv ca w \<and>
     (case (ClusterUp env p cfg f g local d w, found env p cfg f g local d w) of
        ((Ret (_, ca', _), _), (Ret (Some cur), _)) \<Rightarrow> ca' = ca
      | _ \<Rightarrow> True)"
proof -
  note saved = kube_server.life_saved[OF kube_server.intro[OF assms(1)] assms(3,2)]
  note same = kube_server.found_same[OF kube_server.intro[OF assms(1)] assms(2) saved, of p cfg f g local d]
  from saved show ?thesis using same by (auto split: prod.splits outcome.splits option.splits)
qed

text \<open>
  Services on which a cluster comes up from nothing, and on which it is found again: what is read back is the configuration with the
  addresses that \<^verbatim>\<open>ParseCluster\<close> has filled in.
\<close>

definition again_config :: RancherKubernetesEngineConfig where
  "again_config = demo_config\<lparr>Nodes := map (\<lambda>n. n\<lparr>InternalAddress := Address n, HostnameOverride := Address n\<rparr>) (Nodes demo_config)\<rparr>"

definition again_env :: "(sim, sim_kube, sim_ext) env" where
  "again_env = job_env\<lparr>ParseCertsPEM := (\<lambda>s. Inr [demo_crt s]), YamlUnmarshal := (\<lambda>s. Inr again_config)\<rparr>"

definition first_run :: "(string \<times> string \<times> string \<times> string) outcome \<times> (sim, sim_kube, sim_ext) world" where
  "first_run = ClusterUp again_env ''cluster.yml'' demo_config None None False [] (sim_world [])"

theorem ClusterUp_again_same_authority_witness:
  "case first_run of
     (Ret (url, ca, rest), w) \<Rightarrow> authority_saved again_env sim_kview ca w \<and>
       (case (ClusterUp again_env ''cluster.yml'' demo_config None None False [] w,
              found again_env ''cluster.yml'' demo_config None None False [] w) of
          ((Ret (_, ca', _), _), (Ret (Some cur), _)) \<Rightarrow> ca' = ca
        | _ \<Rightarrow> True)
   | _ \<Rightarrow> True"
proof -
  have laws: "kube_laws (kubeAPI again_env) sim_kview" by (simp add: again_env_def job_env_def sim_kube_laws)
  have enc: "reencodes again_env" by (auto simp: reencodes_def again_env_def job_env_def sim_env_def demo_crt_def)
  have life: "cluster_life again_env sim_kview ca w" if "first_run = (Ret (url, ca, rest), w)" for url ca rest w
    using that unfolding first_run_def by (rule cluster_life.first)
  show ?thesis
    by (auto split: prod.splits outcome.splits simp del: split_paired_All
        dest!: life ClusterUp_again_same_authority[OF laws enc, of _ _ "''cluster.yml''" demo_config None None False "[]"])
qed

end
