(* ===== verification/Cluster_Groups.thy ===== *)
theory Cluster_Groups
  imports Cluster_Ops "HOL-Library.Multiset"
begin

text \<open>
  Error groups: goroutines that each work on one daemon only.  The locale \<open>daemon_task\<close> is the contract of such a task; its groups
  have the effect of one simultaneous update of all their daemons, so that the order in which the goroutines run does not matter.
\<close>

section \<open>Groups of tasks on separate daemons\<close>

definition separate :: "Host list \<Rightarrow> hostref list \<Rightarrow> bool" where
  "separate hs rs \<longleftrightarrow> distinct rs \<and> (\<forall>r \<in> set rs. r < length hs \<and> DClient (hs ! r) \<noteq> None) \<and> inj_on (\<lambda>r. DClient (hs ! r)) (set rs)"

text \<open>The reference: every daemon that a host of the group is connected to makes its step, all from the same state.\<close>

definition all_at_once :: "(Host list \<Rightarrow> hostref \<Rightarrow> ('d, unit) io) \<Rightarrow> hostref list \<Rightarrow> ('d, 'k, 'e) world \<Rightarrow> ('d, 'k, 'e) world" where
  "all_at_once act rs w = w\<lparr>daemons := (\<lambda>a. case List.find (\<lambda>r. DClient (hstore w ! r) = Some a) rs of
     None \<Rightarrow> daemons w a | Some r \<Rightarrow> snd (act (hstore w) r (daemons w a)))\<rparr>"

definition succeeds :: "(Host list \<Rightarrow> hostref \<Rightarrow> ('d, unit) io) \<Rightarrow> ('d, 'k, 'e) world \<Rightarrow> hostref \<Rightarrow> bool" where
  "succeeds act w r \<longleftrightarrow> fst (act (hstore w) r (daemons w (daemon_of w r))) = Ret ()"

definition calm :: "(Host list \<Rightarrow> hostref \<Rightarrow> ('d, unit) io) \<Rightarrow> Host list \<Rightarrow> hostref list \<Rightarrow> bool" where
  "calm act hs rs \<longleftrightarrow> (\<forall>r \<in> set rs. \<forall>d s. fst (act hs r d) \<noteq> Panic s)"

lemma separate_perm: "mset qs = mset rs \<Longrightarrow> separate hs qs = separate hs rs"
  unfolding separate_def using mset_eq_setD mset_eq_imp_distinct_iff by metis

lemma find_holds: "List.find P xs = Some x \<Longrightarrow> x \<in> set xs \<and> P x"
  by (induction xs) (auto split: if_splits)

lemma find_separate:
  assumes "separate hs rs"
  shows "List.find (\<lambda>r. DClient (hs ! r) = Some a) rs = Some r \<longleftrightarrow> r \<in> set rs \<and> DClient (hs ! r) = Some a"
proof
  assume "List.find (\<lambda>r. DClient (hs ! r) = Some a) rs = Some r"
  then show "r \<in> set rs \<and> DClient (hs ! r) = Some a" by (rule find_holds)
next
  assume r: "r \<in> set rs \<and> DClient (hs ! r) = Some a"
  then have "List.find (\<lambda>r. DClient (hs ! r) = Some a) rs \<noteq> None" by (auto simp: find_None_iff)
  then obtain q where q: "List.find (\<lambda>r. DClient (hs ! r) = Some a) rs = Some q" by blast
  note find_holds[OF this]
  moreover have "inj_on (\<lambda>r. DClient (hs ! r)) (set rs)" using assms by (simp add: separate_def)
  ultimately have "q = r" using r by (simp add: inj_onD)
  with q show "List.find (\<lambda>r. DClient (hs ! r) = Some a) rs = Some r" by simp
qed

lemma all_at_once_perm:
  assumes "separate (hstore w) rs" "mset qs = mset rs"
  shows "all_at_once act qs w = all_at_once act rs w"
proof -
  note qs = assms(1)[folded separate_perm[OF assms(2)]]
  have "List.find (\<lambda>r. DClient (hstore w ! r) = Some a) qs = List.find (\<lambda>r. DClient (hstore w ! r) = Some a) rs" for a
    using find_separate[OF assms(1)] find_separate[OF qs] mset_eq_setD[OF assms(2)] by (metis option.exhaust)
  then show ?thesis by (simp add: all_at_once_def)
qed

locale daemon_task =
  fixes task :: "hostref \<Rightarrow> ('d, 'k, 'e, unit) wio"
    and act :: "Host list \<Rightarrow> hostref \<Rightarrow> ('d, unit) io"
  assumes task_act: "r < length (hstore w) \<Longrightarrow> DClient (hstore w ! r) = Some a \<Longrightarrow> task r w = onDaemon a (act (hstore w) r) w"
begin

lemma group_at_once:
  "separate (hstore w) rs \<Longrightarrow> calm act (hstore w) rs \<Longrightarrow>
     snd (errgroupIO (map task rs) w) = all_at_once act rs w \<and>
     (case fst (errgroupIO (map task rs) w) of Ret _ \<Rightarrow> list_all (succeeds act w) rs | Fail _ \<Rightarrow> \<not> list_all (succeeds act w) rs | Panic _ \<Rightarrow> False)"
proof (induction rs arbitrary: w)
  case Nil
  then show ?case by (simp add: all_at_once_def retIO_def)
next
  case (Cons r rs)
  from Cons.prems(1) obtain a where r: "r < length (hstore w)" and a: "DClient (hstore w ! r) = Some a" by (auto simp: separate_def)
  have other: "DClient (hstore w ! q) \<noteq> Some a" if "q \<in> set rs" for q
    using Cons.prems(1) that a by (auto simp: separate_def inj_on_def)
  obtain res d where d: "act (hstore w) r (daemons w a) = (res, d)" by fastforce
  let ?w = "w\<lparr>daemons := (daemons w)(a := d)\<rparr>"
  have t: "task r w = (res, ?w)" by (simp add: task_act[OF r a] onDaemon_def d)
  have np: "res \<noteq> Panic s" for s using Cons.prems(2) d by (metis calm_def fst_conv list.set_intros(1))
  have "separate (hstore ?w) rs" "calm act (hstore ?w) rs" using Cons.prems by (auto simp: separate_def calm_def inj_on_def)
  note IH = Cons.IH[OF this]
  have same: "succeeds act ?w q = succeeds act w q" if "q \<in> set rs" for q
    using other[OF that] Cons.prems(1) that by (auto simp: succeeds_def daemon_of_def separate_def)
  have at_once: "all_at_once act rs ?w = all_at_once act (r # rs) w"
  proof -
    have "List.find (\<lambda>q. DClient (hstore w ! q) = Some a) rs = None" using other by (auto simp: find_None_iff)
    with a d have "daemons (all_at_once act rs ?w) b = daemons (all_at_once act (r # rs) w) b" for b
      by (cases "b = a") (auto simp: all_at_once_def split: option.splits)
    then show ?thesis by (intro world.equality) (simp_all add: fun_eq_iff, simp_all add: all_at_once_def)
  qed
  have first: "succeeds act w r = (res = Ret ())" using a d by (simp add: succeeds_def daemon_of_def)
  have all: "list_all (succeeds act ?w) rs = list_all (succeeds act w) rs" using same by (auto simp: list_all_iff)
  show ?case
    using IH np t first all at_once by (cases res) (auto split: prod.splits outcome.splits)
qed

text \<open>Whatever the order, the group leaves the same state, and it fails in one order if it fails in another.\<close>

lemma group_any_order:
  assumes "separate (hstore w) rs" "calm act (hstore w) rs" "mset qs = mset rs"
  shows "snd (errgroupIO (map task qs) w) = all_at_once act rs w"
    and "fst (errgroupIO (map task qs) w) = Ret () \<longleftrightarrow> list_all (succeeds act w) rs"
proof -
  have "separate (hstore w) qs" "calm act (hstore w) qs"
    using assms separate_perm[OF assms(3)] mset_eq_setD[OF assms(3)] by (auto simp: calm_def)
  note g = group_at_once[OF this]
  show "snd (errgroupIO (map task qs) w) = all_at_once act rs w" using g all_at_once_perm[OF assms(1,3)] by simp
  show "fst (errgroupIO (map task qs) w) = Ret () \<longleftrightarrow> list_all (succeeds act w) rs"
    using g mset_eq_setD[OF assms(3)] by (auto simp: list_all_iff split: outcome.splits)
qed

end

section \<open>The groups of the program\<close>

definition pullOn :: "('d, 'k, 'e) env \<Rightarrow> Cluster \<Rightarrow> Host list \<Rightarrow> hostref \<Rightarrow> ('d, unit) io" where
  "pullOn env c hs r = UseLocalOrPull (dockerAPI env) (Address (hs ! r)) (img_Kubernetes (SystemImages c)) (PrivateRegistriesMap c)"

interpretation pull: daemon_task "pullTask env c" "pullOn env c" for env c
  by unfold_locales (simp add: pullTask_def pullOn_def bindIO_def getHost_def viaClient_def)

definition removeOn :: "('d, 'k, 'e) env \<Rightarrow> string \<Rightarrow> Host list \<Rightarrow> hostref \<Rightarrow> ('d, unit) io" where
  "removeOn env n hs r = DoRemoveContainer (dockerAPI env) n (Address (hs ! r))"

interpretation removal: daemon_task "\<lambda>r. removeContainerOf env r n" "removeOn env n" for env n
  by unfold_locales (simp add: removeContainerOf_def removeOn_def bindIO_def getHost_def viaClient_def)

text \<open>The environment of the deployer is made without looking at the state.\<close>

fun envText :: "('d, 'k, 'e) env \<Rightarrow> CertificatePKI gomap \<Rightarrow> string list \<Rightarrow> string list \<Rightarrow> string list outcome" where
  "envText env crtMap [] acc = Ret acc"
| "envText env crtMap (n # ns) acc =
     (if whole crtMap n then envText env crtMap ns (acc @ envOf env (cert_get crtMap n)) else Panic ''nil pointer dereference'')"

lemma ToEnv_whole:
  "ToEnv env (cert_get m n) w = (if whole m n then Ret (envOf env (cert_get m n)) else Panic ''nil pointer dereference'', w)"
  by (auto simp: ToEnv_def CertToEnv_def KeyToEnv_def ConfigToEnv_def EncodeCertPEM_def EncodePrivateKeyPEM_def whole_def envOf_def
      bindIO_def retIO_def panicIO_def split: option.splits)

lemma certsEnv_pure:
  fixes w :: 'w
  shows "certsEnv env crtMap names acc w = (envText env crtMap names acc, w)"
proof (induction names arbitrary: acc)
  case Nil
  then show ?case by (simp add: certsEnv_def retIO_def)
next
  case (Cons n names)
  have "(certsEnv env crtMap (n # names) acc :: ('w, string list) io) = bindIO (ToEnv env (cert_get crtMap n)) (\<lambda>e. certsEnv env crtMap names (acc @ e))"
    by (simp add: certsEnv_def bindIO_assoc)
  with Cons show ?case by (simp add: bindIO_def ToEnv_whole)
qed

lemma getHosts_all: "getHosts rs w = (if list_all (\<lambda>r. r < length (hstore w)) rs then Ret (map ((!) (hstore w)) rs)
    else Panic ''nil pointer dereference'', w)"
  by (induction rs) (auto simp: bindIO_def getHost_def retIO_def)

definition deployOn ::
  "('d, 'k, 'e) env \<Rightarrow> hostref list \<Rightarrow> CertificatePKI gomap \<Rightarrow> string \<Rightarrow> PrivateRegistry gomap \<Rightarrow> Host list \<Rightarrow> hostref \<Rightarrow> ('d, unit) io" where
  "deployOn env etcdHosts crtMap img prsMap hs r =
     (if list_all (\<lambda>q. q < length hs) etcdHosts
      then bindIO (\<lambda>d. (envText env crtMap (planeCertList (hs ! r) (map ((!) hs) etcdHosts)) [], d))
             (\<lambda>e. runDeployer (dockerAPI env) (Address (hs ! r)) e img prsMap)
      else panicIO ''nil pointer dereference'')"

interpretation deploy: daemon_task "\<lambda>r. DeployCertificatesOnPlaneHost env r etcdHosts crtMap img prsMap" "deployOn env etcdHosts crtMap img prsMap"
  for env etcdHosts crtMap img prsMap
  by unfold_locales
    (auto simp: DeployCertificatesOnPlaneHost_def doRunDeployer_def deployOn_def bindIO_def getHost_def getHosts_all certsEnv_pure panicIO_def
      viaClient_def onDaemon_def split: prod.splits outcome.splits)

lemma distinct_unique: "distinct (getUniqueHostList c)"
  by (simp add: getUniqueHostList_def)

lemma calm_pull: "docker_laws (dockerAPI env) view \<Longrightarrow> calm (pullOn env c) hs rs"
  unfolding calm_def pullOn_def using vtriple_no_panic[OF use_or_pull_triple] by (metis prod.collapse)

text \<open>
  C7: on hosts with daemons of their own, the goroutines of \<^verbatim>\<open>PrePullK8sImages\<close> have together the effect of one simultaneous pull on
  all daemons, and whatever the order in which they run, that is what they leave, and they fail in one order exactly if they
  fail in any other.
\<close>

theorem PrePullK8sImages_any_order:
  assumes "docker_laws (dockerAPI env) view" and "separate (hstore w) (getUniqueHostList c)" and "mset qs = mset (getUniqueHostList c)"
  shows "snd (PrePullK8sImages env c w) = all_at_once (pullOn env c) (getUniqueHostList c) w \<and>
     snd (errgroupIO (map (pullTask env c) qs) w) = snd (PrePullK8sImages env c w) \<and>
     (fst (errgroupIO (map (pullTask env c) qs) w) = Ret () \<longleftrightarrow> fst (PrePullK8sImages env c w) = Ret ())"
  using pull.group_any_order[OF assms(2) calm_pull[OF assms(1)] refl] pull.group_any_order[OF assms(2) calm_pull[OF assms(1)] assms(3)]
  by (simp add: PrePullK8sImages_def)

definition group_cluster :: Cluster where
  "group_cluster = (clusterOf RancherKubernetesEngineConfig_zero [] None None)\<lparr>EtcdHosts := [0], ControlPlaneHosts := [0], WorkerHosts := [1],
     Certificates := Some demo_certs, Authentication := \<lparr>authn_Strategy = X509AuthenticationProvider, authn_Options = []\<rparr>\<rparr>"

lemma group_cluster_sel:
  "getUniqueHostList group_cluster = [0, 1]" "EtcdHosts group_cluster = [0]" "certsOf group_cluster = demo_certs"
  "authn_Strategy (Authentication group_cluster) = X509AuthenticationProvider"
  by (simp_all add: getUniqueHostList_def group_cluster_def certsOf_def)

lemma demo_hosts_separate: "separate (hstore demo_hosts) [0, 1]"
  using demo_hosts_ready by (auto simp: separate_def plane_ready_def)

theorem PrePullK8sImages_any_order_witness:
  "snd (errgroupIO (map (pullTask sim_env group_cluster) [1, 0]) demo_hosts) = snd (PrePullK8sImages sim_env group_cluster demo_hosts) \<and>
   mset [1, 0] = mset (getUniqueHostList group_cluster)"
  using PrePullK8sImages_any_order[of sim_env sim_view demo_hosts group_cluster "[1, 0]"]
  by (simp add: group_cluster_sel sim_docker_laws demo_hosts_separate[unfolded One_nat_def] add_mset_commute)

lemma envText_whole: "\<forall>n \<in> set ns. whole m n \<Longrightarrow> \<exists>e. envText env m ns acc = Ret e"
  by (induction ns arbitrary: acc) auto

lemma calm_deploy:
  assumes "docker_laws (dockerAPI env) view" "\<forall>h d. settles (IsContainerRunning (dockerAPI env) h CrtDownloaderContainer False) d"
    and "list_all (\<lambda>q. q < length hs) etcdHosts"
    and "\<forall>r \<in> set rs. \<forall>n \<in> set (planeCertList (hs ! r) (map ((!) hs) etcdHosts)). whole crtMap n"
  shows "calm (deployOn env etcdHosts crtMap img prsMap) hs rs"
  unfolding calm_def
proof (intro ballI allI)
  fix r d s
  assume "r \<in> set rs"
  with assms(4) obtain e where "envText env crtMap (planeCertList (hs ! r) (map ((!) hs) etcdHosts)) [] = Ret e"
    using envText_whole by metis
  then have "deployOn env etcdHosts crtMap img prsMap hs r d = runDeployer (dockerAPI env) (Address (hs ! r)) e img prsMap d"
    using assms(3) by (simp add: deployOn_def bindIO_def)
  with vtriple_no_panic[OF deployer_triple[OF assms(1)], of "Address (hs ! r)" e img prsMap d s] assms(2)
  show "fst (deployOn env etcdHosts crtMap img prsMap hs r d) \<noteq> Panic s" by (metis prod.collapse)
qed

lemma daemons_then: "(\<And>v. daemons (snd (k v)) = daemons v) \<Longrightarrow> daemons (snd (thenIO m k w)) = daemons (snd (m w))"
  by (simp add: thenIO_def bindIO_def split: prod.splits outcome.splits)

lemma daemons_DeployAdminConfig: "daemons (snd (DeployAdminConfig env s p w)) = daemons w"
  by (simp add: DeployAdminConfig_def wrapIO_def catchIO_def writeFile_def failIO_def)

text \<open>
  C8: on hosts with daemons of their own, and with all the certificates they need, the order in which the goroutines of
  \<^verbatim>\<open>SetUpHosts\<close> deploy the certificates does not matter for what they leave on the daemons; and the result is that of deploying
  to all hosts at once.
\<close>

theorem SetUpHosts_any_order:
  assumes "docker_laws (dockerAPI env) view" and "\<forall>h d. settles (IsContainerRunning (dockerAPI env) h CrtDownloaderContainer False) d"
    and "separate (hstore w) (getUniqueHostList c)" and "authn_Strategy (Authentication c) = X509AuthenticationProvider"
    and "\<forall>r \<in> set (getUniqueHostList c). \<forall>n \<in> set (planeCertList (hstore w ! r) (map ((!) (hstore w)) (EtcdHosts c))). whole (certsOf c) n"
    and "mset qs = mset (getUniqueHostList c)"
  shows "let crts = certsOf c; img = img_CertDownloader (SystemImages c); prs = PrivateRegistriesMap c in
     daemons (snd (SetUpHosts env c w)) = daemons (all_at_once (deployOn env (EtcdHosts c) crts img prs) (getUniqueHostList c) w) \<and>
     daemons (snd (SetUpHosts env c w)) =
       daemons (snd (errgroupIO (map (\<lambda>r. DeployCertificatesOnPlaneHost env r (EtcdHosts c) crts img prs) qs) w))"
proof -
  let ?img = "img_CertDownloader (SystemImages c)" and ?prs = "PrivateRegistriesMap c"
  let ?group = "\<lambda>rs. errgroupIO (map (\<lambda>r. DeployCertificatesOnPlaneHost env r (EtcdHosts c) (certsOf c) ?img ?prs) rs)"
  have "list_all (\<lambda>q. q < length (hstore w)) (EtcdHosts c)"
    using assms(3) by (auto simp: separate_def getUniqueHostList_def list_all_iff)
  note calm = calm_deploy[OF assms(1,2) this assms(5), of ?img ?prs]
  have "daemons (snd (SetUpHosts env c w)) = daemons (snd (?group (getUniqueHostList c) w))"
    using assms(4) by (simp add: SetUpHosts_def daemons_then daemons_DeployAdminConfig)
  with deploy.group_any_order(1)[OF assms(3) calm refl] deploy.group_any_order(1)[OF assms(3) calm assms(6)]
  show ?thesis by (simp add: Let_def)
qed

theorem SetUpHosts_any_order_witness:
  "daemons (snd (SetUpHosts (sim_env\<lparr>dockerAPI := exit_docker\<rparr>) group_cluster demo_hosts)) =
   daemons (snd (errgroupIO (map (\<lambda>r. DeployCertificatesOnPlaneHost (sim_env\<lparr>dockerAPI := exit_docker\<rparr>) r (EtcdHosts group_cluster)
     (certsOf group_cluster) (img_CertDownloader (SystemImages group_cluster)) (PrivateRegistriesMap group_cluster)) [1, 0]) demo_hosts))"
proof -
  let ?env = "sim_env\<lparr>dockerAPI := exit_docker\<rparr>"
  have "whole demo_certs n" if "n \<in> set (planeCertList (hstore demo_hosts ! r) (map ((!) (hstore demo_hosts)) [0]))" "r \<in> {0, 1}" for n r
    using that by (auto simp: planeCertList_def demo_hosts_def sim_world_def sim_host_def Host_zero_def whole_def demo_certs_def cert_get_def)
  then have w: "\<forall>r \<in> set (getUniqueHostList group_cluster). \<forall>n \<in> set (planeCertList (hstore demo_hosts ! r) (map ((!) (hstore demo_hosts))
      (EtcdHosts group_cluster))). whole (certsOf group_cluster) n" unfolding group_cluster_sel by auto
  have laws: "docker_laws (dockerAPI ?env) sim_view" "\<forall>h d. settles (IsContainerRunning (dockerAPI ?env) h CrtDownloaderContainer False) d"
    by (simp_all add: exit_docker_laws exit_docker_settles)
  have hosts: "separate (hstore demo_hosts) (getUniqueHostList group_cluster)" "mset [1, 0] = mset (getUniqueHostList group_cluster)"
    unfolding group_cluster_sel using demo_hosts_separate by simp_all
  show ?thesis by (rule SetUpHosts_any_order[OF laws hosts(1) group_cluster_sel(4) w hosts(2), unfolded Let_def, THEN conjunct2])
qed

end
