(* ===== verification/Cluster_Ports.thy ===== *)
theory Cluster_Ports
  imports Docker_Frames World_Frames Cluster_Groups
begin

text \<open>
  The check of the ports between the hosts (\<^verbatim>\<open>CheckClusterPorts\<close>): which containers it may touch, whatever its outcome, and that
  its listeners are gone when it returns.  A log line of the checker that is not of the expected form makes the check panic, so
  that the frame is proved with \<open>keeps\<close>, which says something of every outcome.
\<close>

section \<open>What the check may touch\<close>

definition port_names :: "string list" where
  "port_names = [PortCheckContainer, EtcdPortListenContainer, CPPortListenContainer, WorkerPortListenContainer]"

lemma port_names_proper: "\<forall>n \<in> set port_names. proper_name n"
  unfolding list_all_iff[symmetric] by code_simp

text \<open>The hosts are \<open>hs\<close>, and the containers outside \<open>S\<close> are those of \<open>vs\<close>.\<close>

definition spared :: "('d \<Rightarrow> dview) \<Rightarrow> (string \<times> string) set \<Rightarrow> Host list \<Rightarrow> (string \<Rightarrow> dview) \<Rightarrow> ('d, 'k, 'e) world \<Rightarrow> bool" where
  "spared view S hs vs w \<longleftrightarrow> hstore w = hs \<and> (\<forall>a m. (a, m) \<notin> S \<longrightarrow> conts (view (daemons w a)) m = conts (vs a) m)"

interpretation spared: kube_frame "spared view S hs vs" for view S hs vs
  by unfold_locales (simp_all add: spared_def)

lemma spared_viaClient:
  assumes "DClient h = Some a" "(a, n) \<in> S" "(a, old_name n) \<in> S" "\<And>v. keeps (others view n v) m"
  shows "keeps (spared view S hs vs) (viaClient h m)"
proof (rule keepsI)
  fix w :: "('a, 'c, 'd) world"
  assume I: "spared view S hs vs w"
  obtain res d where d: "m (daemons w a) = (res, d)" by fastforce
  from keepsD[OF assms(4) _ d, of "view (daemons w a)"] have "only_named n (view (daemons w a)) (view d)" by (simp add: others_def)
  then have "conts (view d) l = conts (view (daemons w a)) l" if "(a, l) \<notin> S" for l
    using that assms(2,3) by (auto simp: only_named_def)
  with I show "spared view S hs vs (snd (viaClient h m w))"
    by (auto simp: viaClient_def assms(1) onDaemon_def d spared_def)
qed

lemma spared_getHost:
  "(r < length hs \<Longrightarrow> keeps (spared view S hs vs) (k (hs ! r))) \<Longrightarrow> keeps (spared view S hs vs) (bindIO (getHost r) k)"
  by (auto simp: keeps_def bindIO_def getHost_def spared_def split: prod.splits outcome.splits)

text \<open>The containers that the check may use on the hosts \<open>rs\<close>.\<close>

definition port_slots :: "Host list \<Rightarrow> hostref list \<Rightarrow> (string \<times> string) set" where
  "port_slots hs rs = (\<Union>r \<in> set rs. case DClient (hs ! r) of None \<Rightarrow> {} | Some a \<Rightarrow> slots a port_names)"

lemma spared_host:
  assumes "r \<in> set rs" "n \<in> set port_names" "\<And>v. keeps (others view n v) m"
  shows "keeps (spared view (port_slots hs rs) hs vs) (viaClient (hs ! r) m)"
proof (cases "DClient (hs ! r)")
  case (Some a)
  then have "(a, n) \<in> port_slots hs rs" "(a, old_name n) \<in> port_slots hs rs"
    using assms(1,2) by (force simp: port_slots_def slots_def)+
  with Some show ?thesis by (rule spared_viaClient[where n = n]) (rule assms(3))
qed (simp add: viaClient_def keeps_panic)

lemma spared_port_tasks:
  fixes env :: "('d, 'k, 'e) env"
  assumes laws: "docker_laws (dockerAPI env) view" and r: "r \<in> set rs"
  shows "n \<in> set port_names \<Longrightarrow> keeps (spared view (port_slots hs rs) hs vs) (deployListener env c portList n r)"
    and "n \<in> set port_names \<Longrightarrow> keeps (spared view (port_slots hs rs) hs vs) (removeContainerOf env r n)"
    and "keeps (spared view (port_slots hs rs) hs vs) (checkPlaneTCPPortsFromHost env portList plane img prs r)"
proof -
  have calls: "keeps (others view n v) (DoRunContainer (dockerAPI env) cfg hcfg n h prs)" "keeps (others view n v) (DoRemoveContainer (dockerAPI env) n h)"
    if "n \<in> set port_names" for n v cfg hcfg h prs using others_calls[OF laws] port_names_proper that by blast+
  show "n \<in> set port_names \<Longrightarrow> keeps (spared view (port_slots hs rs) hs vs) (deployListener env c portList n r)"
    unfolding deployListener_def listenerConfig_def prod.case
    by (rule spared_getHost) (intro keeps_intros spared_host[OF r, where n = n] calls)
  show "n \<in> set port_names \<Longrightarrow> keeps (spared view (port_slots hs rs) hs vs) (removeContainerOf env r n)"
    unfolding removeContainerOf_def by (rule spared_getHost) (intro spared_host[OF r, where n = n] calls)
  show "keeps (spared view (port_slots hs rs) hs vs) (checkPlaneTCPPortsFromHost env portList plane img prs r)"
    unfolding checkPlaneTCPPortsFromHost_def
    by (intro keeps_bind keeps_intros spared_getHost) (rule spared_host[OF r _ others_checkPorts[OF laws]], simp add: port_names_def)
qed

lemma newHosts_plane: "set (newHosts plane c cur hs) \<subseteq> set (plane c)"
  by (auto simp: newHosts_def GetToAddHosts_def split: option.splits)

lemma spared_port_steps:
  fixes env :: "('d, 'k, 'e) env"
  assumes "docker_laws (dockerAPI env) view"
  shows "keeps (spared view (port_slots hs (getUniqueHostList c)) hs vs) (deployTCPPortListeners env c cur)" (is "keeps ?I _")
    and "keeps (spared view (port_slots hs (getUniqueHostList c)) hs vs) (runServicePortChecks env c)"
    and "keeps (spared view (port_slots hs (getUniqueHostList c)) hs vs) (checkKubeAPIPort env c)"
    and "keeps (spared view (port_slots hs (getUniqueHostList c)) hs vs) (removeTCPPortListeners env c)"
proof -
  note tasks = spared_port_tasks[OF assms, where rs = "getUniqueHostList c" and hs = hs and vs = vs]
  have planes: "r \<in> set (getUniqueHostList c)" if "r \<in> set (EtcdHosts c) \<union> set (ControlPlaneHosts c) \<union> set (WorkerHosts c)" for r
    using that by (auto simp: getUniqueHostList_def)
  have deploy: "keeps ?I (deployListenerOnPlane env c portList (newHosts plane c cur hs') n)"
    if "plane \<in> {EtcdHosts, ControlPlaneHosts, WorkerHosts}" "n \<in> set port_names" for portList plane hs' n
    unfolding deployListenerOnPlane_def
    by (rule keeps_tasks, rule tasks(1)) (use that newHosts_plane[of plane c cur hs'] planes in auto)
  have check: "keeps ?I (errgroupIO (map (checkPlaneTCPPortsFromHost env portList plane img prs) rs))"
    if "rs \<in> {EtcdHosts c, ControlPlaneHosts c, WorkerHosts c}" for portList plane img prs rs
    by (rule keeps_tasks, rule tasks(3)) (use that planes in auto)
  have remove: "keeps ?I (removeListenerFromPlane env rs n)"
    if "rs \<in> {EtcdHosts c, ControlPlaneHosts c, WorkerHosts c}" "n \<in> set port_names" for rs n
    unfolding removeListenerFromPlane_def by (rule keeps_tasks, rule tasks(2)) (use that planes in auto)
  show "keeps ?I (deployTCPPortListeners env c cur)"
    unfolding deployTCPPortListeners_def by (intro keeps_intros deploy) (simp_all add: port_names_def)
  show "keeps ?I (runServicePortChecks env c)"
    unfolding runServicePortChecks_def Let_def by (intro keeps_intros check) simp_all
  show "keeps ?I (checkKubeAPIPort env c)"
    unfolding checkKubeAPIPort_def by (intro keeps_intros)
  show "keeps ?I (removeTCPPortListeners env c)"
    unfolding removeTCPPortListeners_def by (intro keeps_intros remove) (simp_all add: port_names_def)
qed

lemma spared_CheckClusterPorts:
  assumes "docker_laws (dockerAPI env) view"
  shows "keeps (spared view (port_slots hs (getUniqueHostList c)) hs vs) (CheckClusterPorts env c cur)"
  unfolding CheckClusterPorts_def by (intro keeps_intros spared_port_steps[OF assms])

section \<open>The listeners are gone\<close>

lemma removal_confined:
  assumes "docker_laws (dockerAPI env) view" "proper_name n" "ready x r a"
  shows "confined view (slots a [n]) x (removeContainerOf env r n) (\<lambda>_ x'. absent x' a n)"
proof -
  have r: "r < length (wv_hosts x)" and c: "DClient (wv_hosts x ! r) = Some a" using assms(3) by (simp_all add: ready_def)
  show ?thesis
    unfolding removeContainerOf_def
  proof (rule confined_bind[OF confined_getHost[OF r, where Q = "\<lambda>h x'. x' = x \<and> h = wv_hosts x ! r"]])
    fix h x'
    assume "x' = x \<and> h = wv_hosts x ! r"
    then have x': "x' = x" and h: "DClient h = Some a" using c by auto
    show "confined view (slots a [n]) x' (viaClient h (DoRemoveContainer (dockerAPI env) n (Address h))) (\<lambda>_ x'. absent x' a n)"
      unfolding x' confined_def
      by (rule vtriple_conseq[OF viaClient_triple[OF h do_remove_triple[OF assms(1,2)]]])
         (auto simp: touched_def slots_simps absent_def list_all2_refl)
  qed simp
qed

lemma removal_host_task: "proper_name n \<Longrightarrow> host_task (\<lambda>env r. removeContainerOf env r n) [n] (\<lambda>_. True) (\<lambda>x r a. absent x a n)"
proof
  show "absent x' a n" if "absent x a n" "touched S x x'" "\<forall>m. (a, m) \<notin> S" for x x' :: wview and a S
    using that by (simp add: absent_def touched_def)
qed (auto intro: removal_confined)

lemmas listener_proper = port_names_proper[unfolded port_names_def, simplified, THEN conjunct2]

interpretation etcd_listener: host_task "\<lambda>env r. removeContainerOf env r EtcdPortListenContainer" "[EtcdPortListenContainer]" "\<lambda>_. True"
    "\<lambda>x r a. absent x a EtcdPortListenContainer"
  using listener_proper by (simp add: removal_host_task)

interpretation control_listener: host_task "\<lambda>env r. removeContainerOf env r CPPortListenContainer" "[CPPortListenContainer]" "\<lambda>_. True"
    "\<lambda>x r a. absent x a CPPortListenContainer"
  using listener_proper by (simp add: removal_host_task)

interpretation worker_listener: host_task "\<lambda>env r. removeContainerOf env r WorkerPortListenContainer" "[WorkerPortListenContainer]" "\<lambda>_. True"
    "\<lambda>x r a. absent x a WorkerPortListenContainer"
  using listener_proper by (simp add: removal_host_task)

lemma listener_names: "(a, n) \<notin> slots b [m]" if "n \<in> set port_names" "m \<in> set port_names" "n \<noteq> m"
  using that by (auto simp: slots_simps port_names_def old_name_def PortCheckContainer_def EtcdPortListenContainer_def CPPortListenContainer_def
      WorkerPortListenContainer_def)

lemma removeTCPPortListeners_removes:
  fixes env :: "('d, 'k, 'e) env"
  assumes laws: "docker_laws (dockerAPI env) view" "ext_answers (extAPI env)" and rd: "\<forall>r \<in> set (getUniqueHostList c). ready (world_view view w) r (cl r)"
    and inj: "inj_on cl (set (getUniqueHostList c))" and run: "removeTCPPortListeners env c w = (Ret u, w')"
  shows "\<forall>r \<in> set (EtcdHosts c). absent (world_view view w') (cl r) EtcdPortListenContainer"
    "\<forall>r \<in> set (ControlPlaneHosts c). absent (world_view view w') (cl r) CPPortListenContainer"
    "\<forall>r \<in> set (WorkerHosts c). absent (world_view view w') (cl r) WorkerPortListenContainer"
proof -
  let ?v = "world_view view :: ('d, 'k, 'e) world \<Rightarrow> wview"
  have sub: "set (EtcdHosts c) \<subseteq> set (getUniqueHostList c)" "set (ControlPlaneHosts c) \<subseteq> set (getUniqueHostList c)"
    "set (WorkerHosts c) \<subseteq> set (getUniqueHostList c)" by (auto simp: getUniqueHostList_def)
  from run obtain w1 w2 where e: "removeListenerFromPlane env (EtcdHosts c) EtcdPortListenContainer w = (Ret (), w1)"
    and k: "removeListenerFromPlane env (ControlPlaneHosts c) CPPortListenContainer w1 = (Ret (), w2)"
    and o: "removeListenerFromPlane env (WorkerHosts c) WorkerPortListenContainer w2 = (Ret u, w')"
    by (auto simp: removeTCPPortListeners_def thenIO_Ret_iff)
  have gone: "touched (\<Union>r \<in> set rs. slots (cl r) [n]) (?v v) (?v v') \<and> (\<forall>r \<in> set rs. absent (?v v') (cl r) n)"
    if serve: "confined view (\<Union>r \<in> set rs. slots (cl r) [n]) (?v v) (errgroupIO (map (\<lambda>r. removeContainerOf env r n) rs))
        (\<lambda>_ x'. \<forall>r \<in> set rs. absent x' (cl r) n)" and "removeListenerFromPlane env rs n v = (Ret y, v')" for rs n v v' y
    using confined_world(1,3)[OF serve that(2)[unfolded removeListenerFromPlane_def]] by blast
  have rdv: "\<forall>r \<in> set rs. ready x' r (cl r)" if "\<forall>r \<in> set (getUniqueHostList c). ready x' r (cl r)" "set rs \<subseteq> set (getUniqueHostList c)" for x' rs
    using that by blast
  note ge = gone[OF etcd_listener.serve_all[OF laws TrueI rdv[OF rd sub(1)] inj_on_subset[OF inj sub(1)]] e]
  have rd1: "\<forall>r \<in> set (getUniqueHostList c). ready (?v w1) r (cl r)" using rd touched_ready[OF conjunct1[OF ge]] by blast
  note gk = gone[OF control_listener.serve_all[OF laws TrueI rdv[OF rd1 sub(2)] inj_on_subset[OF inj sub(2)]] k]
  have rd2: "\<forall>r \<in> set (getUniqueHostList c). ready (?v w2) r (cl r)" using rd1 touched_ready[OF conjunct1[OF gk]] by blast
  note go = gone[OF worker_listener.serve_all[OF laws TrueI rdv[OF rd2 sub(3)] inj_on_subset[OF inj sub(3)]] o]
  have stays: "absent (?v v') a n" if "touched (\<Union>r \<in> set rs. slots (cl r) [m]) (?v v) (?v v')" "absent (?v v) a n"
    "n \<in> set port_names" "m \<in> set port_names" "n \<noteq> m" for rs m n v v' a
    using that(1,2) listener_names[OF that(3-5)] by (auto simp: touched_def absent_def)
  have names: "EtcdPortListenContainer \<noteq> CPPortListenContainer" "EtcdPortListenContainer \<noteq> WorkerPortListenContainer"
    "CPPortListenContainer \<noteq> WorkerPortListenContainer"
    by (simp_all add: EtcdPortListenContainer_def CPPortListenContainer_def WorkerPortListenContainer_def)
  show "\<forall>r \<in> set (WorkerHosts c). absent (?v w') (cl r) WorkerPortListenContainer" using go by blast
  show "\<forall>r \<in> set (ControlPlaneHosts c). absent (?v w') (cl r) CPPortListenContainer"
    using stays[OF conjunct1[OF go]] gk names by (auto simp: port_names_def)
  show "\<forall>r \<in> set (EtcdHosts c). absent (?v w') (cl r) EtcdPortListenContainer"
    using stays[OF conjunct1[OF go] stays[OF conjunct1[OF gk]]] ge names by (auto simp: port_names_def)
qed

text \<open>
  C9: \<^verbatim>\<open>CheckClusterPorts\<close> on connected hosts with daemons of their own, whatever its outcome (it panics on a malformed log of the
  checker), changes no host and no container but its own checker and listeners on the hosts of the cluster; and when it
  returns and there was no cluster before, every listener is gone again.
\<close>

theorem CheckClusterPorts_cleans_up:
  assumes "docker_laws (dockerAPI env) view" and "ext_answers (extAPI env)" and "plane_ready w (getUniqueHostList c)"
  shows "case CheckClusterPorts env c cur w of (res, w') \<Rightarrow>
     hstore w' = hstore w \<and>
     (\<forall>a m. (\<forall>r \<in> set (getUniqueHostList c). a = daemon_of w r \<longrightarrow> m \<notin> set port_names \<union> old_name ` set port_names) \<longrightarrow>
        conts (view (daemons w' a)) m = conts (view (daemons w a)) m) \<and>
     (res = Ret () \<longrightarrow> cur = None \<longrightarrow>
        (\<forall>r \<in> set (EtcdHosts c). conts (view (daemons w' (daemon_of w r))) EtcdPortListenContainer = None) \<and>
        (\<forall>r \<in> set (ControlPlaneHosts c). conts (view (daemons w' (daemon_of w r))) CPPortListenContainer = None) \<and>
        (\<forall>r \<in> set (WorkerHosts c). conts (view (daemons w' (daemon_of w r))) WorkerPortListenContainer = None))"
proof -
  let ?us = "getUniqueHostList c"
  let ?I = "spared view (port_slots (hstore w) ?us) (hstore w) (\<lambda>a. view (daemons w a))"
  obtain res w' where run: "CheckClusterPorts env c cur w = (res, w')" by fastforce
  have sp: "?I w'" by (rule keepsD[OF spared_CheckClusterPorts[OF assms(1)] _ run]) (simp add: spared_def)
  have slots: "(a, m) \<notin> port_slots (hstore w) ?us"
    if "\<forall>r \<in> set ?us. a = daemon_of w r \<longrightarrow> m \<notin> set port_names \<union> old_name ` set port_names" for a m
    using that by (force simp: port_slots_def slots_def daemon_of_def split: option.splits)
  note pr = plane_ready_lemmas[OF assms(3)]
  have gone: "(\<forall>r \<in> set (EtcdHosts c). absent (world_view view w') (daemon_of w r) EtcdPortListenContainer) \<and>
     (\<forall>r \<in> set (ControlPlaneHosts c). absent (world_view view w') (daemon_of w r) CPPortListenContainer) \<and>
     (\<forall>r \<in> set (WorkerHosts c). absent (world_view view w') (daemon_of w r) WorkerPortListenContainer)" if ret: "res = Ret ()" "cur = None"
  proof -
    let ?pre = "thenIO (deployTCPPortListeners env c cur) (thenIO (runServicePortChecks env c) (checkKubeAPIPort env c))"
    from run ret obtain w1 where first: "?pre w = (Ret (), w1)" and last: "removeTCPPortListeners env c w1 = (Ret (), w')"
      by (auto simp: CheckClusterPorts_def bindIO_Ret_iff thenIO_Ret_iff)
    have "keeps ?I ?pre" by (intro keeps_intros spared_port_steps[OF assms(1)])
    from keepsD[OF this _ first] have "?I w1" by (simp add: spared_def)
    then have "\<forall>r \<in> set ?us. ready (world_view view w1) r (daemon_of w r)" using pr(1) by (simp add: spared_def ready_def)
    from removeTCPPortListeners_removes[OF assms(1,2) this pr(2) last] show ?thesis by blast
  qed
  show ?thesis using sp gone slots unfolding run by (simp add: spared_def absent_world)
qed

theorem CheckClusterPorts_cleans_up_witness:
  "case CheckClusterPorts sim_env (group_cluster) None demo_hosts of (res, w') \<Rightarrow>
     hstore w' = hstore demo_hosts \<and> conts (sim_view (daemons w' ''10.0.0.1'')) EtcdContainerName = None \<and>
     (res = Ret () \<longrightarrow> conts (sim_view (daemons w' ''10.0.0.1'')) EtcdPortListenContainer = None)"
proof -
  have d: "daemon_of demo_hosts 0 = ''10.0.0.1''" "daemon_of demo_hosts 1 = ''10.0.0.2''"
    by (simp_all add: daemon_of_def demo_hosts_def sim_world_def sim_host_def)
  have e: "conts (sim_view (daemons demo_hosts a)) = Map.empty" for a
    by (simp add: demo_hosts_def sim_world_def sim_view_def norm_def)
  have ready: "plane_ready demo_hosts (getUniqueHostList group_cluster)" unfolding group_cluster_sel by (rule demo_hosts_ready)
  have n: "EtcdContainerName \<notin> set port_names \<union> old_name ` set port_names"
    by (auto simp: port_names_def old_name_def EtcdContainerName_def PortCheckContainer_def EtcdPortListenContainer_def CPPortListenContainer_def
        WorkerPortListenContainer_def)
  from CheckClusterPorts_cleans_up[OF _ _ ready, of sim_env sim_view None] n show ?thesis
    by (auto simp: sim_docker_laws sim_ext_answers d e group_cluster_sel split: prod.splits)
qed

end
