(* ===== verification/RKE_Cli.thy ===== *)
theory RKE_Cli
  imports RKE_Commands
begin

text \<open>
  The declarations of the commands and their flags (\<^verbatim>\<open>main.go\<close> and the first functions of \<^verbatim>\<open>cmd/*.go\<close>).  The command line package
  parses the arguments against these declarations; a context answers for the value of a flag by its name, and for a name that was
  not declared it answers with the zero value, without an error.
\<close>

section \<open>Declarations\<close>

datatype Flag =
    is_StringFlag: StringFlag (flag_Name: string) (flag_Usage: string) (flag_Value: string) (flag_EnvVar: string)
  | is_BoolFlag: BoolFlag (flag_Name: string) (flag_Usage: string)

text \<open>The functions that a command may have as its action.\<close>

datatype Action = A_clusterUpFromCli | A_clusterRemoveFromCli | A_getClusterVersion | A_clusterConfig

record Command =
  cmd_Name :: string
  cmd_Usage :: string
  cmd_Action :: Action
  cmd_Flags :: "Flag list"

record App =
  app_Name :: string
  app_Version :: string
  app_Usage :: string
  app_Author :: string
  app_Email :: string
  app_Commands :: "Command list"
  app_Flags :: "Flag list"

definition configFlag :: Flag where
  "configFlag = StringFlag ''config'' ''Specify an alternate cluster YAML file'' DefaultClusterConfig ''RKE_CONFIG''"

definition UpCommand :: Command where
  "UpCommand = \<lparr>cmd_Name = ''up'', cmd_Usage = ''Bring the cluster up'', cmd_Action = A_clusterUpFromCli,
     cmd_Flags = [configFlag, BoolFlag ''local'' ''Deploy Kubernetes cluster locally'']\<rparr>"

definition RemoveCommand :: Command where
  "RemoveCommand = \<lparr>cmd_Name = ''remove'', cmd_Usage = ''Teardown the cluster and clean cluster nodes'', cmd_Action = A_clusterRemoveFromCli,
     cmd_Flags = [configFlag, BoolFlag ''force'' ''Force removal of the cluster'', BoolFlag ''local'' ''Deploy Kubernetes cluster locally'']\<rparr>"

definition VersionCommand :: Command where
  "VersionCommand = \<lparr>cmd_Name = ''version'', cmd_Usage = ''Show cluster Kubernetes version'', cmd_Action = A_getClusterVersion,
     cmd_Flags = [configFlag]\<rparr>"

definition ConfigCommand :: Command where
  "ConfigCommand = \<lparr>cmd_Name = ''config'', cmd_Usage = ''Setup cluster configuration'', cmd_Action = A_clusterConfig,
     cmd_Flags = [StringFlag ''name,n'' ''Name of the configuration file'' DefaultClusterConfig [],
       BoolFlag ''empty,e'' ''Generate Empty configuration file'', BoolFlag ''print,p'' ''Print configuration'']\<rparr>"

definition VERSION :: string where "VERSION = ''v0.0.12-dev''"

definition mainErr :: App where
  "mainErr = \<lparr>app_Name = ''rke'', app_Version = VERSION,
     app_Usage = ''Rancher Kubernetes Engine, Running kubernetes cluster in the cloud'',
     app_Author = ''Rancher Labs, Inc.'', app_Email = [],
     app_Commands = [UpCommand, RemoveCommand, VersionCommand, ConfigCommand],
     app_Flags = [BoolFlag ''debug,d'' ''Debug logging'']\<rparr>"

text \<open>
  What the application does before its command: the function is given the boolean global flags and the level of the log, and
  \<open>DebugLevel\<close> is the level of that name in the log package.
\<close>

definition mainBefore :: "'l \<Rightarrow> (string \<Rightarrow> bool) \<Rightarrow> 'l \<Rightarrow> 'l" where
  "mainBefore DebugLevel GlobalBool level = (if GlobalBool ''debug'' then DebugLevel else level)"

text \<open>The exit status; \<open>run\<close> is the \<^verbatim>\<open>Run\<close> of the command line package, and \<^verbatim>\<open>logrus.Fatal\<close> ends the program with status 1.\<close>

definition go_main :: "(App \<Rightarrow> string list \<Rightarrow> ('w, unit) io) \<Rightarrow> string list \<Rightarrow> ('w, int) io" where
  "go_main run args = tryIO (run mainErr args) (\<lambda>_. retIO 1) (\<lambda>_. retIO 0)"

section \<open>Running an action\<close>

record Context =
  ctx_String :: "string \<Rightarrow> string"
  ctx_Bool :: "string \<Rightarrow> bool"

definition runAction :: "('d, 'k, 'e) env \<Rightarrow> Action \<Rightarrow> Context \<Rightarrow> ('d, 'k, 'e, unit) wio" where
  "runAction env a ctx = (case a of
     A_clusterUpFromCli \<Rightarrow> thenIO (clusterUpFromCli env (ctx_String ctx ''config'') (ctx_Bool ctx ''local'')) (retIO ())
   | A_clusterRemoveFromCli \<Rightarrow> clusterRemoveFromCli env (ctx_String ctx ''config'') (ctx_Bool ctx ''force'') (ctx_Bool ctx ''local'')
   | A_getClusterVersion \<Rightarrow> thenIO (getClusterVersion env (ctx_String ctx ''config'')) (retIO ())
   | A_clusterConfig \<Rightarrow> clusterConfig env (ctx_String ctx ''name'') (ctx_Bool ctx ''empty'') (ctx_Bool ctx ''print''))"

text \<open>A flag is known by each of the names that its declaration lists.\<close>

definition flagNames :: "(Flag \<Rightarrow> bool) \<Rightarrow> Flag list \<Rightarrow> string set" where
  "flagNames kind fs = (\<Union>f \<in> set (filter kind fs). set (map trim_space (split_on CHR '','' (flag_Name f))))"

definition agree :: "Command \<Rightarrow> Context \<Rightarrow> Context \<Rightarrow> bool" where
  "agree c x y \<longleftrightarrow> (\<forall>n \<in> flagNames is_StringFlag (cmd_Flags c). ctx_String x n = ctx_String y n) \<and> (\<forall>n \<in> flagNames is_BoolFlag (cmd_Flags c). ctx_Bool x n = ctx_Bool y n)"

lemma declared_names:
  "flagNames is_StringFlag (cmd_Flags UpCommand) = {''config''}" "flagNames is_BoolFlag (cmd_Flags UpCommand) = {''local''}"
  "flagNames is_StringFlag (cmd_Flags RemoveCommand) = {''config''}" "flagNames is_BoolFlag (cmd_Flags RemoveCommand) = {''force'', ''local''}"
  "flagNames is_StringFlag (cmd_Flags VersionCommand) = {''config''}" "flagNames is_BoolFlag (cmd_Flags VersionCommand) = {}"
  "flagNames is_StringFlag (cmd_Flags ConfigCommand) = {''name'', ''n''}" "flagNames is_BoolFlag (cmd_Flags ConfigCommand) = {''empty'', ''e'', ''print'', ''p''}"
  "flagNames is_BoolFlag (app_Flags mainErr) = {''debug'', ''d''}"
  by code_simp+

text \<open>
  C40: each command declares every flag that its action reads, as the kind of flag it is read as, so that no flag is silently read as
  empty, and so does the application for what it reads before any command; and the commands have different names.
\<close>

theorem actions_read_declared_flags:
  "distinct (map cmd_Name (app_Commands mainErr)) \<and>
   list_all (\<lambda>c. \<forall>x y. agree c x y \<longrightarrow> runAction env (cmd_Action c) x = runAction env (cmd_Action c) y) (app_Commands mainErr) \<and>
   (\<forall>f g. (\<forall>n \<in> flagNames is_BoolFlag (app_Flags mainErr). f n = g n) \<longrightarrow> mainBefore lvl f = mainBefore lvl g)"
proof (intro conjI)
  have a: "cmd_Action UpCommand = A_clusterUpFromCli" "cmd_Action RemoveCommand = A_clusterRemoveFromCli"
    "cmd_Action VersionCommand = A_getClusterVersion" "cmd_Action ConfigCommand = A_clusterConfig"
    by (simp_all add: UpCommand_def RemoveCommand_def VersionCommand_def ConfigCommand_def)
  show "distinct (map cmd_Name (app_Commands mainErr))" by code_simp
  show "list_all (\<lambda>c. \<forall>x y. agree c x y \<longrightarrow> runAction env (cmd_Action c) x = runAction env (cmd_Action c) y) (app_Commands mainErr)"
    by (simp add: mainErr_def agree_def declared_names runAction_def a)
  show "\<forall>f g. (\<forall>n \<in> flagNames is_BoolFlag (app_Flags mainErr). f n = g n) \<longrightarrow> mainBefore lvl f = mainBefore lvl g"
    by (simp add: declared_names mainBefore_def fun_eq_iff)
qed

theorem actions_read_declared_flags_witness:
  "runAction sim_env A_getClusterVersion \<lparr>ctx_String = (\<lambda>_. ''cluster.yml''), ctx_Bool = (\<lambda>_. True)\<rparr> =
   runAction sim_env A_getClusterVersion \<lparr>ctx_String = (\<lambda>n. if n = ''config'' then ''cluster.yml'' else []), ctx_Bool = (\<lambda>_. False)\<rparr>"
proof -
  have "agree VersionCommand \<lparr>ctx_String = (\<lambda>_. ''cluster.yml''), ctx_Bool = (\<lambda>_. True)\<rparr>
      \<lparr>ctx_String = (\<lambda>n. if n = ''config'' then ''cluster.yml'' else []), ctx_Bool = (\<lambda>_. False)\<rparr>"
    by (simp add: agree_def declared_names)
  moreover have "cmd_Action VersionCommand = A_getClusterVersion" by (simp add: VersionCommand_def)
  ultimately show ?thesis using actions_read_declared_flags[of sim_env "0 :: nat"] by (auto simp: mainErr_def)
qed

end
