(* ===== verification/Log.thy ===== *)
theory Log
  imports RKE_Prelude
begin

text \<open>
  The loggers that a context carries (\<^verbatim>\<open>log/log.go\<close>).  A logger is whatever has the two methods of the interface; the program's own
  is the standard logger of the log package, a parameter here.  The operations of the other theories leave their log calls out: they
  write to the logger only.
\<close>

record ('a, 'w) logger =
  logger_Infof :: "string \<Rightarrow> 'a list \<Rightarrow> 'w \<Rightarrow> 'w"
  logger_Warnf :: "string \<Rightarrow> 'a list \<Rightarrow> 'w \<Rightarrow> 'w"

text \<open>
  A context is the chain of the values it has been given, the last one first.  Keys are compared with their type, so that
  \<^verbatim>\<open>logKey("rke-logger")\<close> is no other package's \<^verbatim>\<open>"rke-logger"\<close>.  A value is a logger, something that is none, or nil.
\<close>

type_synonym ctx_key = "string \<times> string"

datatype 'l ctx_value = LoggerValue 'l | OtherValue | NilValue

type_synonym 'l go_context = "(ctx_key \<times> 'l ctx_value) list"

definition log_key :: ctx_key where
  "log_key = (''log.logKey'', ''rke-logger'')"

definition WithValue :: "'l go_context \<Rightarrow> ctx_key \<Rightarrow> 'l ctx_value \<Rightarrow> 'l go_context" where
  "WithValue ctx k v = (k, v) # ctx"

definition ctx_Value :: "'l go_context \<Rightarrow> ctx_key \<Rightarrow> 'l ctx_value" where
  "ctx_Value ctx k = (case map_of ctx k of None \<Rightarrow> NilValue | Some v \<Rightarrow> v)"

text \<open>The argument is an interface value and may be nil.\<close>

definition SetLogger :: "'l go_context \<Rightarrow> 'l option \<Rightarrow> 'l go_context" where
  "SetLogger ctx l = WithValue ctx log_key (case l of None \<Rightarrow> NilValue | Some x \<Rightarrow> LoggerValue x)"

text \<open>The type assertion gives nil for a value that is no logger.\<close>

definition getLogger :: "'l \<Rightarrow> 'l go_context \<Rightarrow> 'l" where
  "getLogger StandardLogger ctx = (case ctx_Value ctx log_key of LoggerValue l \<Rightarrow> l | _ \<Rightarrow> StandardLogger)"

definition log_Infof :: "('a, 'w) logger \<Rightarrow> ('a, 'w) logger go_context \<Rightarrow> string \<Rightarrow> 'a list \<Rightarrow> 'w \<Rightarrow> 'w" where
  "log_Infof StandardLogger ctx msg args = logger_Infof (getLogger StandardLogger ctx) msg args"

definition log_Warnf :: "('a, 'w) logger \<Rightarrow> ('a, 'w) logger go_context \<Rightarrow> string \<Rightarrow> 'a list \<Rightarrow> 'w \<Rightarrow> 'w" where
  "log_Warnf StandardLogger ctx msg args = logger_Warnf (getLogger StandardLogger ctx) msg args"

text \<open>
  A logger stays in force in every context that is derived from the one it was set in, until another one is set; setting none goes
  back to the standard logger, not to the one before.
\<close>

lemma getLogger_derived:
  assumes "log_key \<notin> fst ` set values"
  shows "getLogger std (values @ SetLogger ctx l) = (case l of None \<Rightarrow> std | Some x \<Rightarrow> x)"
  using assms by (auto simp: getLogger_def ctx_Value_def SetLogger_def WithValue_def map_add_def map_of_eq_None_iff[THEN iffD2] split: option.splits)

lemma getLogger_unset:
  assumes "log_key \<notin> fst ` set values"
  shows "getLogger std values = std"
  using assms by (simp add: getLogger_def ctx_Value_def map_of_eq_None_iff[THEN iffD2])

end
