(* ===== verification/Spec2Isabelle.thy ===== *)
theory Spec2Isabelle
  imports RKE_Remove RKE_Nodes RKE_Authority Cluster_Ports RKE_Cli Log
begin

text \<open>
  RKE, the Rancher Kubernetes Engine: a command line program that brings up, changes and removes a Kubernetes cluster on machines
  it reaches by SSH, by running each Kubernetes service as a Docker container.

  \<^bold>\<open>The program and its model.\<close>  \<^verbatim>\<open>cmd/\<close> reads a configuration and calls \<^verbatim>\<open>cluster/\<close>, which parses it into a \<open>Cluster\<close>, connects to the
  hosts (\<^verbatim>\<open>hosts/\<close>), looks for a cluster that is already there, makes or fetches certificates (\<^verbatim>\<open>pki/\<close>), reconciles the two clusters, starts
  the containers of the planes (\<^verbatim>\<open>services/\<close> through \<^verbatim>\<open>docker/\<close>), saves the state in Kubernetes (\<^verbatim>\<open>k8s/\<close>) and deploys the network plugin and
  addons from templates (\<^verbatim>\<open>templates/\<close>, \<^verbatim>\<open>authz/\<close>, \<^verbatim>\<open>addons/\<close>).

  A Go function with effects is a state transformer \<open>('w, 'a) io\<close> whose outcome is a value (\<open>Ret\<close>), an error (\<open>Fail\<close>) or a panic
  (\<open>Panic\<close>); every early return, wrapped message, nil dereference and index out of range of the source is a branch.  The state \<open>world\<close>
  holds the \<open>Host\<close> objects (a store indexed by \<open>hostref\<close>, because the lists of a cluster share them), the Docker daemons by address, the
  Kubernetes API server, everything else outside (etcd members, terminal, dialers, clock) and the local files.  The types of these
  services are parameters (\<open>'d\<close>, \<open>'k\<close>, \<open>'e\<close>), and so are their operations: the record \<open>env\<close> holds the Docker client (\<open>docker_api\<close>), the
  Kubernetes client (\<open>kube_api\<close>), the rest (\<open>ext_api\<close>) and pure functions of packages that are not under \<^verbatim>\<open>src/\<close> (X.509, PEM, YAML, JSON).
  What the theorems need of them are the hypotheses \<open>docker_laws\<close>, \<open>docker_reliable\<close>, \<open>docker_steady\<close>, \<open>kube_laws\<close>, \<open>ext_answers\<close>,
  \<open>etcd_laws\<close>: documented behaviour of single calls.  \<open>Docker_Sim\<close> and \<open>RKE_Sim\<close> give executable services that satisfy them; the
  witnesses run on these.

  A daemon is named by the address of the host that it is reached for, and a client is that name (\<open>DClient\<close>).  \<^verbatim>\<open>TunnelUp\<close> gives a host the
  client of its own address: which socket a dialer factory opens for the host is the factory's business, and what answers there is the
  daemon of that address.  So nodes with different addresses have daemons of their own; where a theorem needs that, the addresses are
  assumed to differ.  \<^verbatim>\<open>TunnelUpLocal\<close> gives the client of the machine the program runs on (\<open>local_daemon\<close>).

  \<^bold>\<open>The theories.\<close>

  \<^item> \<open>RKE_Prelude\<close>: outcomes, effects, loops, error groups, Go maps and strings, and the two logics of the development: \<open>keeps I m\<close> (an
    effect preserves an invariant) and \<open>vtriple\<close> (a triple over a view of the state, which excludes panics).
  \<^item> \<open>Go_Encoding\<close>, \<open>Go_Net\<close>, \<open>Go_Path\<close>, \<open>Go_Template\<close>: what the program uses of Go's standard library.
  \<^item> \<open>RKE_Types\<close>: the configuration records.  \<open>RKE_World\<close>: hosts, services outside, the state.  \<open>RKE_Sim\<close>: an executable world.
  \<^item> \<open>Docker\<close>: \<^verbatim>\<open>docker/docker.go\<close>.  \<open>Docker_Laws\<close>: the daemon's contract and triples for every operation.  \<open>Docker_Sim\<close>: properties of
    running, upgrading and removing a container.
  \<^item> \<open>Pki\<close>: \<^verbatim>\<open>pki/\<close> except deployment, with the chain of trust.  \<open>Pki_Deploy\<close>: \<^verbatim>\<open>pki/deploy.go\<close>.
  \<^item> \<open>K8s\<close>: \<^verbatim>\<open>k8s/\<close> with its retry loops.  \<open>Hosts\<close>: \<^verbatim>\<open>hosts/\<close>.
  \<^item> \<open>Services\<close>, \<open>Planes\<close>, \<open>Etcd\<close>: \<^verbatim>\<open>services/\<close>.  The locale \<open>host_task\<close> is the contract of a task that a plane repeats on its hosts, in turn
    or in an error group; it is interpreted for the control, worker and etcd tasks, the cleaner and the removal of port listeners.
  \<^item> \<open>Templates\<close>: \<^verbatim>\<open>templates/*.go\<close>.  \<open>Cluster_Addons\<close>: \<^verbatim>\<open>authz/\<close>, \<^verbatim>\<open>addons/\<close>, \<^verbatim>\<open>cluster/addons.go\<close> and the plugins of \<^verbatim>\<open>cluster/network.go\<close>.
  \<^item> \<open>Cluster_Config\<close>: \<^verbatim>\<open>cluster/defaults.go\<close>, \<^verbatim>\<open>cluster/validation.go\<close>, \<^verbatim>\<open>ParseCluster\<close> and \<^verbatim>\<open>InvertIndexHosts\<close>.
  \<^item> \<open>Cluster_State\<close>: \<^verbatim>\<open>cluster/certificates.go\<close>, \<^verbatim>\<open>cluster/state.go\<close>.  \<open>Cluster_Ops\<close>: \<^verbatim>\<open>cluster/hosts.go\<close>, \<^verbatim>\<open>cluster/cluster.go\<close>, the port checks
    of \<^verbatim>\<open>cluster/network.go\<close>, \<^verbatim>\<open>cluster/remove.go\<close>.  \<open>Cluster_Reconcile\<close>: \<^verbatim>\<open>cluster/reconcile.go\<close>.
  \<^item> \<open>RKE_Commands\<close>: \<^verbatim>\<open>cmd/\<close>.  \<open>RKE_Cli\<close>: the declarations of the commands and flags, \<^verbatim>\<open>main.go\<close> included.  \<open>Log\<close>: \<^verbatim>\<open>log/log.go\<close>.
  \<^item> \<open>World_Frames\<close>: locales of what an invariant must tolerate, with one \<open>keeps\<close> lemma per operation: changes of the services outside
    (\<open>ext_frame\<close>), of Kubernetes (\<open>kube_frame\<close>), of hosts and files (\<open>store_frame\<close>), the calls of the daemons that the steps before the planes
    make (\<open>client_frame\<close>), the deletion of the nodes of hosts that leave (\<open>node_frame\<close>), every call of the API server but those that write
    secrets (\<open>api_frame\<close>), with the former (\<open>up_frame\<close>), whatever the daemons do (\<open>daemon_frame\<close>, a sublocale of \<open>client_frame\<close>; \<open>saved_frame\<close>,
    a sublocale of \<open>up_frame\<close> and \<open>node_frame\<close>), and all of it (\<open>host_frame\<close>, a sublocale of \<open>saved_frame\<close>).
  \<^item> \<open>Docker_Frames\<close>: which containers of one daemon the operations leave alone, whatever they return.  \<open>Service_Frames\<close>: which services they
    may start; its locale \<open>docker_server\<close> is the contract of the daemons, an \<open>up_frame\<close> of the services that have been started.
  \<^item> \<open>RKE_Up\<close> and \<open>RKE_Remove\<close>: the two commands as a whole: the services that run afterwards, and where none has been started; the
    containers that are gone.  \<open>RKE_Invariants\<close>: the steps of the commands, with \<^verbatim>\<open>--local\<close> and without, as a relation on states and what
    every sequence of them keeps; reconciling a cluster whose machines have not changed; and the order in which control hosts leave.
    \<open>RKE_Nodes\<close>: the nodes of Kubernetes while a cluster is reconciled.  \<open>RKE_Authority\<close>: that the certificates a
    cluster saves are read back, and its authority over a life of the cluster, the relation \<open>cluster_life\<close> of the states after its runs; the locale \<open>kube_server\<close> is the contract of the API server, a \<open>saved_frame\<close> of the secrets.
  \<^item> \<open>Cluster_Groups\<close>: the locale \<open>daemon_task\<close> of tasks on one daemon, whose error groups do not depend on the order of the goroutines;
    interpreted for pulling images, deploying certificates and removing containers.  \<open>Cluster_Ports\<close>: what the port checks leave.

  \<^bold>\<open>Bounds.\<close>  Loops with a counter are structural recursion on it (\<open>retryLoop\<close>, \<open>cordonLoop\<close>, \<open>healthLoop\<close>, \<open>healthTries\<close>).  A goroutine that
  tries again until a timer fires (\<open>untilTimeout\<close>) is given the number of attempts that fit, which is a parameter of the environment,
  so that a theorem about it holds for every speed of the machine.  The one loop without a bound, the wait for the certificate deployer,
  is \<open>pollLoop\<close> over \<^const>\<open>while_option\<close>; that it ends is a theorem under the hypothesis that the container does.

  \<^bold>\<open>Concurrency and maps.\<close>  The tasks of an error group run one after the other in the order of the list, and all of them run, as in the
  program, also after a failure; \<open>Cluster_Groups\<close> shows for tasks on separate daemons that the order is of no consequence.  A Go map is an association list, its iteration order the order of the list; theorems about functions
  that iterate over a map hold for every list and so for every order.  The certificate map that two clusters share is passed along.

  \<^bold>\<open>Not modelled.\<close>  The parsing of the command line (a package under \<^verbatim>\<open>vendor/\<close>, a parameter of \<open>go_main\<close>); the lines of the operations that
  only log; and the constants of \<^verbatim>\<open>cluster/network.go\<close> that no code uses.  The code under \<^verbatim>\<open>vendor/\<close> is a parameter, except for the types of the
  configuration and the tags of image references.
\<close>

end
